(* ===== verification/Prelude.thy ===== *)
theory Prelude
  imports Complex_Main
begin

text \<open>
  Shared vocabulary of the development: how a run of the program can stop abnormally, the
  sequencing of operations that may stop, the buffer sizes of \<open>src/source/defs.h\<close>, C string
  comparison, and generic list lemmas. The component theories add their rewrite rules to the
  collections declared here.
\<close>

named_theorems wf_intros \<open>statements that keep the keys and references of the tables\<close>
named_theorems tx_intros \<open>operations that stay within a transaction\<close>
named_theorems end_intros \<open>operations that never run out of the rounds they are given\<close>

section \<open>Abnormal termination\<close>

text \<open>
  \<open>Exit\<close>: the code calls \<open>exit()\<close>. \<open>Undefined\<close>: C++ gives the execution no meaning (a null
  pointer is dereferenced, a buffer overrun, a value read before it is written) or the
  process is killed by a signal. \<open>Hang\<close>: a loop of the code never ends. \<open>Fuel\<close>: the model itself gave
  up; the lemmas exclude it.
\<close>

datatype halt = Exit | Undefined | Hang | Fuel

definition and_then :: "halt + 'a \<Rightarrow> ('a \<Rightarrow> halt + 'b) \<Rightarrow> halt + 'b" where
  "and_then m f = (case m of Inl h \<Rightarrow> Inl h | Inr x \<Rightarrow> f x)"

lemma and_then_simps [simp]:
  "and_then (Inl h) f = Inl h"
  "and_then (Inr x) f = f x"
  by (simp_all add: and_then_def)

lemma and_then_eq_Inr [simp]:
  "and_then m f = Inr y \<longleftrightarrow> (\<exists>x. m = Inr x \<and> f x = Inr y)"
  by (cases m) simp_all

lemma and_then_cong [fundef_cong]:
  "m = m' \<Longrightarrow> (\<And>x. m' = Inr x \<Longrightarrow> f x = f' x) \<Longrightarrow> and_then m f = and_then m' f'"
  by (cases m') simp_all

definition halts_ok :: "halt + 'a \<Rightarrow> bool" where
  "halts_ok m = (case m of Inl _ \<Rightarrow> False | Inr _ \<Rightarrow> True)"

lemma halts_ok_simps [simp]: "halts_ok (Inr x)" "\<not> halts_ok (Inl h)"
  by (simp_all add: halts_ok_def)

section \<open>Operations on a state\<close>

text \<open>
  An operation of the program takes a state, and either stops or returns a value and the new
  state. \<open>part\<close> runs an operation on a component of the state.
\<close>

type_synonym ('s, 'a) run = "'s \<Rightarrow> halt + 'a \<times> 's"

definition ret :: "'a \<Rightarrow> ('s, 'a) run" where
  "ret a s = Inr (a, s)"

definition stop :: "halt \<Rightarrow> ('s, 'a) run" where
  "stop h s = Inl h"

definition lift :: "halt + 'a \<Rightarrow> ('s, 'a) run" where
  "lift m s = and_then m (\<lambda>a. Inr (a, s))"

definition bind :: "('s, 'a) run \<Rightarrow> ('a \<Rightarrow> ('s, 'b) run) \<Rightarrow> ('s, 'b) run" where
  "bind m f s = and_then (m s) (\<lambda>(a, s'). f a s')"

definition asks :: "('s \<Rightarrow> 'a) \<Rightarrow> ('s, 'a) run" where
  "asks f s = Inr (f s, s)"

definition modify :: "('s \<Rightarrow> 's) \<Rightarrow> ('s, unit) run" where
  "modify f s = Inr ((), f s)"

definition part :: "('s \<Rightarrow> 't) \<Rightarrow> ('t \<Rightarrow> 's \<Rightarrow> 's) \<Rightarrow> ('t, 'a) run \<Rightarrow> ('s, 'a) run" where
  "part proj put m s = and_then (m (proj s)) (\<lambda>(a, x). Inr (a, put x s))"

lemma run_simps [simp]:
  "ret a s = Inr (a, s)" "stop h s = Inl h" "asks f s = Inr (f s, s)" "modify g s = Inr ((), g s)"
  "lift (Inr b) s = Inr (b, s)" "lift (Inl h) s = Inl h"
  by (simp_all add: ret_def stop_def asks_def modify_def lift_def)

lemma bind_Inr: "m s = Inr (a, s') \<Longrightarrow> bind m f s = f a s'"
  by (simp add: bind_def)

lemma bind_Inl: "m s = Inl h \<Longrightarrow> bind m f s = Inl h"
  by (simp add: bind_def)

lemma bind_simps [simp]:
  "bind (ret a) f1 = f1 a" "bind (asks g) f2 s2 = f2 (g s2) s2" "bind (modify u) f3 s3 = f3 () (u s3)"
  "bind (stop h) f4 s4 = Inl h"
  by (simp_all add: bind_def fun_eq_iff)

lemma bind_eq_Inr:
  "bind m f s = Inr (b, t) \<longleftrightarrow> (\<exists>a s'. m s = Inr (a, s') \<and> f a s' = Inr (b, t))"
  by (cases "m s") (auto simp: bind_def)

lemma bind_InrE [elim]:
  assumes "bind m f s = Inr (b, t)" obtains a s' where "m s = Inr (a, s')" "f a s' = Inr (b, t)"
  using assms by (auto simp: bind_eq_Inr)

lemma lift_eq_Inr [simp]: "lift m s = Inr (a, t) \<longleftrightarrow> m = Inr a \<and> t = s"
  by (cases m) auto

lemma part_eq_Inr: "part proj put m s = Inr (a, t) \<longleftrightarrow> (\<exists>x. m (proj s) = Inr (a, x) \<and> t = put x s)"
  by (cases "m (proj s)") (auto simp: part_def)

lemma bind_assoc: "bind (bind m f) g = bind m (\<lambda>x. bind (f x) g)"
  by (rule ext) (simp add: bind_def and_then_def split: sum.splits prod.splits)

text \<open>
  A loop: the body returns \<open>Inl x\<close> to go round again with the local variables \<open>x\<close>, \<open>Inr y\<close> to
  leave. The first argument bounds the number of rounds.
\<close>

primrec iterate :: "nat \<Rightarrow> ('x \<Rightarrow> ('s, 'x + 'r) run) \<Rightarrow> 'x \<Rightarrow> ('s, 'r) run" where
  "iterate 0 body x = stop Fuel"
| "iterate (Suc n) body x =
     bind (body x) (\<lambda>r. case r of Inl x' \<Rightarrow> iterate n body x' | Inr y \<Rightarrow> ret y)"

definition ends :: "('s, 'a) run \<Rightarrow> bool" where
  "ends m \<longleftrightarrow> (\<forall>s. m s \<noteq> Inl Fuel)"

lemma bind_ends: "m s \<noteq> Inl Fuel \<Longrightarrow> (\<And>a s'. m s = Inr (a, s') \<Longrightarrow> f a s' \<noteq> Inl Fuel) \<Longrightarrow>
    bind m f s \<noteq> Inl Fuel"
  by (cases "m s") (auto simp: bind_def)

text \<open>A bound on the rounds is enough when every round makes a measure of the state smaller.\<close>

lemma iterate_enough:
  assumes dec: "\<And>x s x' s'. body x s = Inr (Inl x', s') \<Longrightarrow> \<mu> s' < \<mu> s"
    and body: "\<And>x s. body x s \<noteq> Inl Fuel"
  shows "\<mu> s < n \<Longrightarrow> iterate n body x s \<noteq> Inl (Fuel :: halt)"
proof (induction n arbitrary: x s)
  case (Suc n)
  show ?case
  proof (simp, rule bind_ends)
    show "body x s \<noteq> Inl Fuel" by (rule body)
    fix r s' assume r: "body x s = Inr (r, s')"
    then show "(case r of Inl x' \<Rightarrow> iterate n body x' | Inr y \<Rightarrow> ret y) s' \<noteq> Inl Fuel"
      using Suc dec [of x s _ s'] by (cases r) (auto dest!: dec)
  qed
qed simp

lemma ends_basic:
  "ends (ret a)" "h \<noteq> Fuel \<Longrightarrow> ends (stop h)" "m \<noteq> Inl Fuel \<Longrightarrow> ends (lift m)" "ends (asks g)" "ends (modify u)"
  by (cases m; simp add: ends_def lift_def)+

lemma ends_bind: "ends m \<Longrightarrow> (\<And>x. ends (f x)) \<Longrightarrow> ends (bind m f)"
  unfolding ends_def using bind_ends by metis

lemma ends_cases:
  "ends m \<Longrightarrow> ends m' \<Longrightarrow> ends (if c then m else m')"
  "ends m2 \<Longrightarrow> (\<And>x. ends (f2 x)) \<Longrightarrow> ends (case z of None \<Rightarrow> m2 | Some x \<Rightarrow> f2 x)"
  "(\<And>x y. ends (f3 x y)) \<Longrightarrow> ends (case p of (x, y) \<Rightarrow> f3 x y)"
  by (auto split: option.splits prod.splits)

lemmas ends_intros [end_intros] = ends_basic ends_bind ends_cases

lemma ends_part: "ends m \<Longrightarrow> ends (part proj put m)"
  by (auto simp: ends_def part_def and_then_def split: sum.splits)

lemma ends_iterate:
  assumes "\<And>x. ends (body x)" "\<And>x s x' s'. body x s = Inr (Inl x', s') \<Longrightarrow> \<mu> s' < \<mu> s"
  shows "ends (bind (asks \<mu>) (\<lambda>n. iterate (Suc n) body x))"
  using assms iterate_enough [of body \<mu>] by (simp add: ends_def del: iterate.simps)

text \<open>More rounds than needed change nothing.\<close>

lemma iterate_more: "iterate n body x s \<noteq> Inl Fuel \<Longrightarrow> iterate (n + k) body x s = iterate n body x s"
proof (induction n arbitrary: x s)
  case (Suc n)
  show ?case
  proof (cases "body x s")
    case (Inl h)
    then show ?thesis by (simp add: bind_def)
  next
    case (Inr p)
    then obtain r s' where p: "body x s = Inr (r, s')" by (cases p) auto
    with Suc show ?thesis by (cases r) (auto simp: bind_def)
  qed
qed simp

text \<open>
  A relation between the state before and after: \<open>stays R m\<close> when every run of \<open>m\<close> that returns
  steps from a state to a related one. For a reflexive and transitive relation this is closed
  under the ways operations are put together, which is what the locale states.
\<close>

definition stays :: "('s \<Rightarrow> 's \<Rightarrow> bool) \<Rightarrow> ('s, 'a) run \<Rightarrow> bool" where
  "stays R m \<longleftrightarrow> (\<forall>s a s'. m s = Inr (a, s') \<longrightarrow> R s s')"

lemma staysD: "stays R m \<Longrightarrow> m s = Inr (a, s') \<Longrightarrow> R s s'"
  by (auto simp: stays_def)

lemma staysI: "(\<And>s a s'. m s = Inr (a, s') \<Longrightarrow> R s s') \<Longrightarrow> stays R m"
  by (auto simp: stays_def)

locale effect =
  fixes R :: "'s \<Rightarrow> 's \<Rightarrow> bool"
  assumes refl: "R s s" and trans: "R s s' \<Longrightarrow> R s' s'' \<Longrightarrow> R s s''"
begin

lemma stays_ret: "stays R (ret a)"
  by (simp add: stays_def refl)

lemma stays_stop: "stays R (stop h)"
  by (simp add: stays_def)

lemma stays_lift: "stays R (lift m)"
  by (auto simp: stays_def refl)

lemma stays_asks: "stays R (asks f)"
  by (simp add: stays_def refl)

lemma stays_bind: "stays R m \<Longrightarrow> (\<And>a. stays R (f a)) \<Longrightarrow> stays R (bind m f)"
  unfolding stays_def by (blast elim: bind_InrE intro: trans)

lemma stays_bind_result: "stays R m \<Longrightarrow> (\<And>s a s'. m s = Inr (a, s') \<Longrightarrow> stays R (f a)) \<Longrightarrow> stays R (bind m f)"
  unfolding stays_def by (blast elim: bind_InrE intro: trans)

lemma stays_if: "stays R m \<Longrightarrow> stays R m' \<Longrightarrow> stays R (if c then m else m')"
  by simp

lemma stays_option: "stays R m \<Longrightarrow> (\<And>x. stays R (f x)) \<Longrightarrow> stays R (case z of None \<Rightarrow> m | Some x \<Rightarrow> f x)"
  by (cases z) auto

lemma stays_prod: "(\<And>x y. stays R (f x y)) \<Longrightarrow> stays R (case p of (x, y) \<Rightarrow> f x y)"
  by (cases p) auto

lemma stays_sum: "(\<And>x. stays R (f x)) \<Longrightarrow> (\<And>y. stays R (g y)) \<Longrightarrow> stays R (case z of Inl x \<Rightarrow> f x | Inr y \<Rightarrow> g y)"
  by (cases z) auto

lemma stays_iterate: "(\<And>x. stays R (body x)) \<Longrightarrow> stays R (iterate n body x)"
  by (induction n arbitrary: x) (auto intro!: stays_stop stays_bind stays_sum stays_ret)

lemmas stays_intros = stays_sum stays_iterate stays_ret stays_stop stays_lift stays_asks stays_bind stays_if
  stays_option stays_prod

end

section \<open>Numbers\<close>

text \<open>
  A finite \<open>double\<close> is a rational number, and the arithmetic of the program on doubles is
  modelled by exact rational arithmetic. The values the server computes with (B1 bounds,
  curve counts and the work sums built from them) are integers far below \<open>2 ^ 53\<close>, where
  the machine's sums, products and truncated quotients are exact.
\<close>

type_synonym double = rat

text \<open>Conversion of a double to an integer type truncates towards zero.\<close>

definition trunc :: "double \<Rightarrow> int" where
  "trunc x = (if x < 0 then - \<lfloor>- x\<rfloor> else \<lfloor>x\<rfloor>)"

lemma trunc_of_int [simp]: "trunc (of_int i) = i"
  by (simp add: trunc_def flip: of_int_minus)

lemma trunc_nonneg: "0 \<le> x \<Longrightarrow> 0 \<le> trunc x \<and> of_int (trunc x) \<le> x \<and> x < of_int (trunc x) + 1"
  by (simp add: trunc_def) linarith

text \<open>
  Wrap-around at the width of the machine's integers; the conversion of a double out of the range
  of \<open>int32_t\<close> has no meaning.
\<close>

definition wrap64 :: "int \<Rightarrow> int" where
  "wrap64 x = (x + 2 ^ 63) mod 2 ^ 64 - 2 ^ 63"

definition wrap32 :: "int \<Rightarrow> int" where
  "wrap32 x = (x + 2 ^ 31) mod 2 ^ 32 - 2 ^ 31"

definition to_int32 :: "double \<Rightarrow> halt + int" where
  "to_int32 x = (if - (2 ^ 31) \<le> trunc x \<and> trunc x < 2 ^ 31 then Inr (trunc x) else Inl Undefined)"

section \<open>Sizes of the fixed buffers (defs.h)\<close>

definition VALUE_LENGTH :: nat where "VALUE_LENGTH = 50000"
definition BUFFER_SIZE :: nat where "BUFFER_SIZE = 50000 + 5000"
definition METHOD_LENGTH :: nat where "METHOD_LENGTH = 20"
definition NAME_LENGTH :: nat where "NAME_LENGTH = 100"
definition ID_LENGTH :: nat where "ID_LENGTH = 200"

definition FM_PM1 :: string where "FM_PM1 = ''P-1''"
definition FM_PP1 :: string where "FM_PP1 = ''P+1''"
definition FM_ECM :: string where "FM_ECM = ''ECM''"

definition ECMNET_VERSION :: string where "ECMNET_VERSION = ''3.0.5''"

lemmas buffer_sizes = VALUE_LENGTH_def BUFFER_SIZE_def METHOD_LENGTH_def NAME_LENGTH_def ID_LENGTH_def

lemma methods_distinct [simp]:
  "FM_PM1 \<noteq> FM_PP1" "FM_PP1 \<noteq> FM_PM1" "FM_PM1 \<noteq> FM_ECM" "FM_ECM \<noteq> FM_PM1"
  "FM_PP1 \<noteq> FM_ECM" "FM_ECM \<noteq> FM_PP1"
  by (simp_all add: FM_PM1_def FM_PP1_def FM_ECM_def)

section \<open>C strings\<close>

text \<open>
  \<open>starts n p s\<close> is \<open>!memcmp(s, p, n)\<close> for a NUL-terminated \<open>s\<close> and \<open>n\<close> at most the length
  of the literal \<open>p\<close>; \<open>prefixed p s\<close> compares the whole literal.
\<close>

definition starts :: "nat \<Rightarrow> string \<Rightarrow> string \<Rightarrow> bool" where
  "starts n p s \<longleftrightarrow> take n s = take n p"

definition prefixed :: "string \<Rightarrow> string \<Rightarrow> bool" where
  "prefixed p s \<longleftrightarrow> take (length p) s = p"

lemma prefixed_append [simp]: "prefixed p (p @ s)"
  by (simp add: prefixed_def)

lemma prefixed_iff: "prefixed p s \<longleftrightarrow> (\<exists>r. s = p @ r)"
  by (metis append_take_drop_id append_eq_conv_conj prefixed_def)

text \<open>\<open>split_at c s\<close> is \<open>strchr(s, c)\<close>: the text before and after the first \<open>c\<close>.\<close>

fun split_at :: "char \<Rightarrow> string \<Rightarrow> (string \<times> string) option" where
  "split_at c [] = None"
| "split_at c (x # xs) = (if x = c then Some ([], xs) else map_option (apfst ((#) x)) (split_at c xs))"

lemma split_at_None [simp]: "split_at c s = None \<longleftrightarrow> c \<notin> set s"
  by (induction s) auto

lemma split_at_append: "c \<notin> set a \<Longrightarrow> split_at c (a @ c # b) = Some (a, b)"
  by (induction a) auto

lemma split_at_Some: "split_at c s = Some (a, b) \<Longrightarrow> s = a @ c # b \<and> c \<notin> set a"
  by (induction s arbitrary: a) (auto split: if_splits)

definition LF :: char where "LF = CHR 0x0A"

text \<open>Overwriting every occurrence of one character in place (\<open>*ptr = ' '\<close> in a scan).\<close>

definition replace_char :: "char \<Rightarrow> char \<Rightarrow> string \<Rightarrow> string" where
  "replace_char a b s = map (\<lambda>c. if c = a then b else c) s"

lemma length_replace_char [simp]: "length (replace_char a b s) = length s"
  by (simp add: replace_char_def)

text \<open>\<open>StripCRLF\<close> of \<open>defs.h\<close>: drop trailing line feeds and carriage returns.\<close>

definition StripCRLF :: "string \<Rightarrow> string" where
  "StripCRLF s = rev (dropWhile (\<lambda>c. c = CHR 0x0A \<or> c = CHR 0x0D) (rev s))"

lemma StripCRLF_id: "s = [] \<or> (last s \<noteq> CHR 0x0A \<and> last s \<noteq> CHR 0x0D) \<Longrightarrow> StripCRLF s = s"
  by (cases s rule: rev_cases) (auto simp: StripCRLF_def)

lemma StripCRLF_idem [simp]: "StripCRLF (StripCRLF s) = StripCRLF s"
  by (simp add: StripCRLF_def)

section \<open>Lists\<close>

lemma takeWhile_all_append: "(\<forall>x \<in> set xs. P x) \<Longrightarrow> ys = [] \<or> \<not> P (hd ys) \<Longrightarrow>
    takeWhile P (xs @ ys) = xs \<and> dropWhile P (xs @ ys) = ys"
  by (induction xs) (auto, (cases ys; simp)+)

lemma find_None_set: "find P xs = None \<longleftrightarrow> (\<forall>x \<in> set xs. \<not> P x)"
  by (auto simp: find_None_iff)

lemma find_Some_in: "find P xs = Some x \<Longrightarrow> x \<in> set xs \<and> P x"
  by (auto simp: find_Some_iff)

lemma find_unique_key:
  "distinct (map f xs) \<Longrightarrow> x \<in> set xs \<Longrightarrow> find (\<lambda>y. f y = f x) xs = Some x"
  by (induction xs) (auto simp: image_iff)

lemma distinct_map_filterI: "distinct (map f xs) \<Longrightarrow> distinct (map f (filter P xs))"
  by (induction xs) auto

end
