(* ===== verification/Cstdio.thy ===== *)
theory Cstdio
  imports Prelude
begin

text \<open>
  The part of the C library the protocol and the configuration files go through: decimal
  printing (\<open>%s\<close>, \<open>%d\<close>, \<open>%.0lf\<close>, \<open>%lf\<close>), \<open>sscanf\<close> with the same conversions, \<open>atol\<close> and \<open>atof\<close>.
  A format string is parsed into a list of directives by \<open>fmt\<close>, so that the models of the
  program carry the format strings of the source. The main result is \<open>scan_print\<close>: what one
  side prints with a well separated format, the other side scans back unchanged.
\<close>

section \<open>Characters and decimal numbers\<close>

definition code :: "char \<Rightarrow> nat" where
  "code c = of_char c"

definition is_space :: "char \<Rightarrow> bool" where
  "is_space c \<longleftrightarrow> code c = 32 \<or> (9 \<le> code c \<and> code c \<le> 13)"

definition is_digit :: "char \<Rightarrow> bool" where
  "is_digit c \<longleftrightarrow> 48 \<le> code c \<and> code c \<le> 57"

definition digit :: "nat \<Rightarrow> char" where
  "digit d = char_of (48 + d)"

definition digit_val :: "char \<Rightarrow> nat" where
  "digit_val c = code c - 48"

fun dec :: "nat \<Rightarrow> string" where
  "dec n = (if n < 10 then [digit n] else dec (n div 10) @ [digit (n mod 10)])"

declare dec.simps [simp del]

definition num_of :: "string \<Rightarrow> nat" where
  "num_of s = foldl (\<lambda>a c. 10 * a + digit_val c) 0 s"

definition show_int :: "int \<Rightarrow> string" where
  "show_int i = (if i < 0 then CHR ''-'' # dec (nat (- i)) else dec (nat i))"

text \<open>Rounding of \<open>printf\<close> to the nearest, ties to even.\<close>

definition round_even :: "double \<Rightarrow> int" where
  "round_even x =
     (let f = \<lfloor>x\<rfloor>; d = x - of_int f
      in if d < 1/2 then f else if d > 1/2 then f + 1 else if even f then f else f + 1)"

text \<open>\<open>%.0lf\<close> and \<open>%lf\<close> (six decimals).\<close>

definition show_f0 :: "double \<Rightarrow> string" where
  "show_f0 x = (if x < 0 then CHR ''-'' # dec (nat (- round_even x)) else dec (nat (round_even x)))"

definition pad6 :: "string \<Rightarrow> string" where
  "pad6 s = replicate (6 - length s) (CHR ''0'') @ s"

definition show_f6 :: "double \<Rightarrow> string" where
  "show_f6 x =
     (let q = nat \<bar>round_even (x * 1000000)\<bar>
      in (if x < 0 then [CHR ''-''] else []) @ dec (q div 1000000) @ CHR ''.'' # pad6 (dec (q mod 1000000)))"

section \<open>Scanning one conversion\<close>

text \<open>Each scanner skips white space, then returns the value and the unread text.\<close>

definition scan_word :: "string \<Rightarrow> (string \<times> string) option" where
  "scan_word s =
     (let s1 = dropWhile is_space s; w = takeWhile (\<lambda>c. \<not> is_space c) s1
      in if w = [] then None else Some (w, dropWhile (\<lambda>c. \<not> is_space c) s1))"

definition scan_sign :: "string \<Rightarrow> bool \<times> string" where
  "scan_sign s = (case s of [] \<Rightarrow> (False, [])
     | c # r \<Rightarrow> if c = CHR ''-'' then (True, r) else if c = CHR ''+'' then (False, r) else (False, s))"

definition scan_int :: "string \<Rightarrow> (int \<times> string) option" where
  "scan_int s =
     (case scan_sign (dropWhile is_space s) of (neg, s1) \<Rightarrow>
        let ds = takeWhile is_digit s1
        in if ds = [] then None
           else Some (if neg then - int (num_of ds) else int (num_of ds), dropWhile is_digit s1))"

text \<open>The optional exponent of a floating point literal.\<close>

definition scan_exp :: "string \<Rightarrow> int \<times> string" where
  "scan_exp s = (case s of [] \<Rightarrow> (0, [])
     | c # r \<Rightarrow>
        if c = CHR ''e'' \<or> c = CHR ''E'' then
          (case scan_sign r of (neg, r1) \<Rightarrow>
             let es = takeWhile is_digit r1
             in if es = [] then (0, s)
                else (if neg then - int (num_of es) else int (num_of es), dropWhile is_digit r1))
        else (0, s))"

definition scale10 :: "double \<Rightarrow> int \<Rightarrow> double" where
  "scale10 x e = (if 0 \<le> e then x * 10 ^ nat e else x / 10 ^ nat (- e))"

definition scan_frac :: "string \<Rightarrow> string \<times> string" where
  "scan_frac s = (case s of [] \<Rightarrow> ([], [])
     | c # r \<Rightarrow> if c = CHR ''.'' then (takeWhile is_digit r, dropWhile is_digit r) else ([], s))"

definition scan_dbl :: "string \<Rightarrow> (double \<times> string) option" where
  "scan_dbl s =
     (case scan_sign (dropWhile is_space s) of (neg, s1) \<Rightarrow>
        let ds = takeWhile is_digit s1
        in case scan_frac (dropWhile is_digit s1) of (fs, s2) \<Rightarrow>
           if ds = [] \<and> fs = [] then None
           else case scan_exp s2 of (e, s3) \<Rightarrow>
             let m = scale10 (of_nat (num_of ds) + of_nat (num_of fs) / 10 ^ length fs) e
             in Some (if neg then - m else m, s3))"

text \<open>\<open>atol\<close> and \<open>atof\<close>: the leading number, or zero.\<close>

definition atol :: "string \<Rightarrow> int" where
  "atol s = (case scan_int s of None \<Rightarrow> 0 | Some (i, _) \<Rightarrow> i)"

definition atof :: "string \<Rightarrow> double" where
  "atof s = (case scan_dbl s of None \<Rightarrow> 0 | Some (x, _) \<Rightarrow> x)"

section \<open>Formats\<close>

datatype dir = Ws | Lit char | PS | PD | PF | PF0

datatype sval = VS string | VI int | VD double

text \<open>
  The directives the source uses. A blank in a format scans any white space and prints one
  blank; \<open>%u\<close>, \<open>%ld\<close> and \<open>PRId64\<close> (\<open>ld\<close>) are integers of other widths.
\<close>

function fmt :: "string \<Rightarrow> dir list" where
  "fmt [] = []"
| "fmt (c # cs) =
     (if c = CHR '' '' then Ws # fmt cs
      else if c = CHR ''%'' then
        (if prefixed ''s'' cs then PS # fmt (drop 1 cs)
         else if prefixed ''d'' cs \<or> prefixed ''u'' cs then PD # fmt (drop 1 cs)
         else if prefixed ''ld'' cs then PD # fmt (drop 2 cs)
         else if prefixed ''lf'' cs then PF # fmt (drop 2 cs)
         else if prefixed ''.0lf'' cs then PF0 # fmt (drop 4 cs)
         else Lit c # fmt cs)
      else Lit c # fmt cs)"
  by pat_completeness auto
termination by (relation "measure length") auto

fun scan :: "dir list \<Rightarrow> string \<Rightarrow> sval list" where
  "scan [] s = []"
| "scan (Ws # f) s = scan f (dropWhile is_space s)"
| "scan (Lit c # f) s = (case s of [] \<Rightarrow> [] | x # xs \<Rightarrow> if x = c then scan f xs else [])"
| "scan (PS # f) s = (case scan_word s of None \<Rightarrow> [] | Some (w, r) \<Rightarrow> VS w # scan f r)"
| "scan (PD # f) s = (case scan_int s of None \<Rightarrow> [] | Some (i, r) \<Rightarrow> VI i # scan f r)"
| "scan (PF # f) s = (case scan_dbl s of None \<Rightarrow> [] | Some (x, r) \<Rightarrow> VD x # scan f r)"
| "scan (PF0 # f) s = (case scan_dbl s of None \<Rightarrow> [] | Some (x, r) \<Rightarrow> VD x # scan f r)"

text \<open>
  \<open>sscanf\<close> writes each \<open>%s\<close> into a buffer of the caller without a bound: a word that does not
  fit with its terminator is a buffer overrun. The sizes of the buffers are given in the
  order of the \<open>%s\<close> conversions. The count the source compares is the length of the list.
\<close>

fun words_of :: "sval list \<Rightarrow> string list" where
  "words_of [] = []"
| "words_of (VS w # vs) = w # words_of vs"
| "words_of (VI i # vs) = words_of vs"
| "words_of (VD x # vs) = words_of vs"

definition fits :: "string list \<Rightarrow> nat list \<Rightarrow> bool" where
  "fits ws sizes \<longleftrightarrow> (\<forall>(w, n) \<in> set (zip ws sizes). length w < n)"

definition sscanf :: "string \<Rightarrow> string \<Rightarrow> nat list \<Rightarrow> halt + sval list" where
  "sscanf s f sizes =
     (let vs = scan (fmt f) s in if fits (words_of vs) sizes then Inr vs else Inl Undefined)"

fun print :: "dir list \<Rightarrow> sval list \<Rightarrow> string" where
  "print [] vs = []"
| "print (Ws # f) vs = CHR '' '' # print f vs"
| "print (Lit c # f) vs = c # print f vs"
| "print (PS # f) (VS w # vs) = w @ print f vs"
| "print (PD # f) (VI i # vs) = show_int i @ print f vs"
| "print (PF # f) (VD x # vs) = show_f6 x @ print f vs"
| "print (PF0 # f) (VD x # vs) = show_f0 x @ print f vs"
| "print (_ # f) vs = print f vs"

definition sprintf :: "string \<Rightarrow> sval list \<Rightarrow> string" where
  "sprintf f vs = print (fmt f) vs"

section \<open>Decimal numbers read back\<close>

lemma code_digit [simp]: "d < 10 \<Longrightarrow> code (digit d) = 48 + d"
  by (simp add: code_def digit_def of_char_of)

lemma is_digit_digit [simp]: "d < 10 \<Longrightarrow> is_digit (digit d)"
  by (simp add: is_digit_def)

lemma digit_val_digit [simp]: "d < 10 \<Longrightarrow> digit_val (digit d) = d"
  by (simp add: digit_val_def)

lemma digit_not_space: "is_digit c \<Longrightarrow> \<not> is_space c"
  by (simp add: is_digit_def is_space_def)

text \<open>Rules that evaluate printing and scanning on literals.\<close>

lemma digit_chars:
  "digit 0 = CHR ''0''" "digit 1 = CHR ''1''" "digit 2 = CHR ''2''" "digit 3 = CHR ''3''" "digit 4 = CHR ''4''"
  "digit 5 = CHR ''5''" "digit 6 = CHR ''6''" "digit 7 = CHR ''7''" "digit 8 = CHR ''8''" "digit 9 = CHR ''9''"
  "digit (Suc 0) = CHR ''1''"
  by (simp_all add: digit_def char_of_def bit_simps)

lemma dec_less: "n < 10 \<Longrightarrow> dec n = [digit n]"
  by (subst dec.simps) simp

lemma dec_more: "10 \<le> n \<Longrightarrow> dec n = dec (n div 10) @ [digit (n mod 10)]"
  by (subst dec.simps) simp

lemma num_of_Nil [simp]: "num_of [] = 0"
  by (simp add: num_of_def)

lemma num_of_snoc [simp]: "num_of (s @ [c]) = 10 * num_of s + digit_val c"
  by (simp add: num_of_def)

lemma dec_nonempty [simp]: "dec n \<noteq> []"
  by (subst dec.simps) simp

lemma dec_digits: "\<forall>c \<in> set (dec n). is_digit c"
proof (induction n rule: dec.induct)
  case (1 n)
  then show ?case by (subst dec.simps) auto
qed

lemma num_of_dec [simp]: "num_of (dec n) = n"
proof (induction n rule: dec.induct)
  case (1 n)
  show ?case
  proof (cases "n < 10")
    case True
    then show ?thesis by (subst dec.simps) (simp add: num_of_def)
  next
    case False
    with 1 show ?thesis by (subst dec.simps) simp
  qed
qed

lemma dec_inject [simp]: "dec m = dec n \<longleftrightarrow> m = n"
  by (metis num_of_dec)

lemma dec_length: "n < 10 ^ k \<Longrightarrow> 0 < k \<Longrightarrow> length (dec n) \<le> k"
proof (induction n arbitrary: k rule: dec.induct)
  case (1 n)
  show ?case
  proof (cases "n < 10")
    case True
    with 1 show ?thesis by (subst dec.simps) simp
  next
    case False
    with 1 obtain k' where k: "k = Suc k'" "0 < k'" by (cases k; cases "k - 1") auto
    with 1 have "n div 10 < 10 ^ k'" by (simp add: less_mult_imp_div_less mult.commute)
    with False k 1 show ?thesis by (subst dec.simps) simp
  qed
qed

lemma num_of_zeros: "num_of (replicate k (CHR ''0'') @ s) = num_of s"
proof (induction s rule: rev_induct)
  case Nil
  have "num_of (replicate k (CHR ''0'')) = 0"
    by (induction k) (simp_all add: num_of_def digit_val_def code_def)
  then show ?case by simp
next
  case (snoc c s)
  then show ?case by (metis append_assoc num_of_snoc)
qed

lemma pad6_dec: "q < 1000000 \<Longrightarrow>
    num_of (pad6 (dec q)) = q \<and> length (pad6 (dec q)) = 6 \<and> (\<forall>c \<in> set (pad6 (dec q)). is_digit c)"
  using dec_length [of q 6] dec_digits [of q]
  by (auto simp: pad6_def num_of_zeros is_digit_def code_def)

lemma round_even_of_int [simp]: "round_even (of_int i) = i"
  by (simp add: round_even_def)

section \<open>Printing and scanning are inverse\<close>

text \<open>
  The interface both directions of a conversion meet: \<open>put\<close> prints, \<open>get\<close> scans (skipping
  white space first), \<open>ok\<close> are the values that survive. Text scanned back must be followed by
  white space or the end of the string (\<open>stops\<close>).
\<close>

definition stops :: "string \<Rightarrow> bool" where
  "stops r \<longleftrightarrow> r = [] \<or> is_space (hd r)"

lemma blank_is_space [simp]: "is_space (CHR '' '')"
  by (simp add: is_space_def code_def)

lemma stops_simps [simp]: "stops []" "stops (CHR '' '' # r)"
  by (simp_all add: stops_def)

locale field_codec =
  fixes put :: "'v \<Rightarrow> string"
    and get :: "string \<Rightarrow> ('v \<times> string) option"
    and ok :: "'v \<Rightarrow> bool"
  assumes get_put: "ok v \<Longrightarrow> stops r \<Longrightarrow> get (put v @ r) = Some (v, r)"
    and get_skip: "is_space c \<Longrightarrow> get (c # s) = get s"
    and put_start: "ok v \<Longrightarrow> put v \<noteq> [] \<and> \<not> is_space (hd (put v))"
begin

lemma get_put_end: "ok v \<Longrightarrow> get (put v) = Some (v, [])"
  using get_put [of v "[]"] by simp

lemma get_spaces: "(\<forall>c \<in> set sp. is_space c) \<Longrightarrow> get (sp @ s) = get s"
  by (induction sp) (simp_all add: get_skip)

lemma get_dropWhile: "get (dropWhile is_space s) = get s"
  by (induction s) (simp_all add: get_skip)

lemma get_put_spaced:
  "ok v \<Longrightarrow> stops r \<Longrightarrow> \<forall>c \<in> set sp. is_space c \<Longrightarrow> get (sp @ put v @ r) = Some (v, r)"
  using get_put [of v r] get_spaces [of sp "put v @ r"] by simp

lemma put_inj: "ok v \<Longrightarrow> ok w \<Longrightarrow> put v = put w \<Longrightarrow> v = w"
  by (metis get_put_end option.inject prod.inject)

end

definition ok_word :: "string \<Rightarrow> bool" where
  "ok_word w \<longleftrightarrow> w \<noteq> [] \<and> (\<forall>c \<in> set w. \<not> is_space c)"

definition ok_f0 :: "double \<Rightarrow> bool" where
  "ok_f0 x \<longleftrightarrow> x = of_int \<lfloor>x\<rfloor>"

definition ok_f6 :: "double \<Rightarrow> bool" where
  "ok_f6 x \<longleftrightarrow> ok_f0 (x * 1000000)"

lemma scan_word_put:
  assumes "ok_word w" "stops r" shows "scan_word (w @ r) = Some (w, r)"
proof -
  have "dropWhile is_space (w @ r) = w @ r"
    using assms by (cases w) (auto simp: ok_word_def)
  moreover have "takeWhile (\<lambda>c. \<not> is_space c) (w @ r) = w \<and> dropWhile (\<lambda>c. \<not> is_space c) (w @ r) = r"
    using assms by (intro takeWhile_all_append) (auto simp: ok_word_def stops_def)
  ultimately show ?thesis using assms by (simp add: scan_word_def ok_word_def)
qed

lemma dec_head: "\<exists>d s. dec n = d # s \<and> is_digit d"
  using dec_digits [of n] by (cases "dec n") auto

lemma stops_not_digit: "stops r \<Longrightarrow> r = [] \<or> \<not> is_digit (hd r)"
  using digit_not_space by (auto simp: stops_def)

lemma dec_take: "r = [] \<or> \<not> is_digit (hd r) \<Longrightarrow>
    takeWhile is_digit (dec n @ r) = dec n \<and> dropWhile is_digit (dec n @ r) = r"
  by (rule takeWhile_all_append) (auto simp: dec_digits)

lemma scan_sign_dec [simp]:
  "scan_sign (dec n @ r) = (False, dec n @ r)" "scan_sign (CHR ''-'' # r) = (True, r)"
  using dec_head [of n] by (auto simp: scan_sign_def is_digit_def code_def)

lemma dropWhile_space_dec [simp]:
  "dropWhile is_space (dec n @ r) = dec n @ r" "dropWhile is_space (CHR ''-'' # r) = CHR ''-'' # r"
  using dec_head [of n] by (auto simp: is_space_def is_digit_def code_def)

lemma minus_not_space [simp]: "\<not> is_space (CHR ''-'')"
  by (simp add: is_space_def code_def)

lemma scan_int_put:
  assumes "stops r" shows "scan_int (show_int i @ r) = Some (i, r)"
  using assms stops_not_digit [OF assms] dec_take [of r]
  by (simp add: scan_int_def show_int_def)

lemma stops_exp: "stops r \<Longrightarrow> scan_exp r = (0, r)"
  by (cases r) (auto simp: scan_exp_def stops_def is_space_def code_def)

lemma scale10_0 [simp]: "scale10 x 0 = x"
  by (simp add: scale10_def)

lemma of_nat_nat_floor: "of_int \<lfloor>x\<rfloor> = (x :: rat) \<Longrightarrow> 0 \<le> x \<Longrightarrow> of_nat (nat \<lfloor>x\<rfloor>) = x"
  by (metis of_int_0_le_iff of_nat_nat)

lemma round_even_f0: "ok_f0 x \<Longrightarrow> of_int (round_even x) = x"
  by (metis ok_f0_def round_even_of_int)

lemma frac_stops: "stops r \<Longrightarrow> scan_frac r = ([], r)"
  by (cases r) (auto simp: scan_frac_def stops_def is_space_def code_def)

lemma scan_dbl_f0:
  assumes "ok_f0 x" "stops r" shows "scan_dbl (show_f0 x @ r) = Some (x, r)"
proof -
  have r: "of_int (round_even x) = x" using assms by (simp add: round_even_f0)
  have "x < 0 \<Longrightarrow> of_nat (nat (- round_even x)) = - x"
    using r by (metis neg_0_le_iff_le of_int_0_le_iff of_int_minus of_nat_nat order_less_imp_le)
  moreover have "\<not> x < 0 \<Longrightarrow> of_nat (nat (round_even x)) = x"
    using r by (metis linorder_not_less of_int_0_le_iff of_nat_nat)
  ultimately show ?thesis
    using assms stops_not_digit [OF assms(2)] dec_take [of r]
    by (simp add: scan_dbl_def show_f0_def stops_exp frac_stops)
qed

lemma not_digit_dot [simp]: "\<not> is_digit (CHR ''.'')"
  by (simp add: is_digit_def code_def)

lemma scan_frac_dot:
  "(\<forall>c \<in> set fs. is_digit c) \<Longrightarrow> r = [] \<or> \<not> is_digit (hd r) \<Longrightarrow> scan_frac (CHR ''.'' # fs @ r) = (fs, r)"
  using takeWhile_all_append [of fs is_digit r] by (simp add: scan_frac_def)

lemma f6_parts:
  assumes "ok_f6 x"
  defines "q \<equiv> nat \<bar>round_even (x * 1000000)\<bar>"
  shows "of_nat (q div 1000000) + of_nat (q mod 1000000) / 1000000 = \<bar>x\<bar>"
proof -
  have "of_int (round_even (x * 1000000)) = x * 1000000"
    using assms(1) by (simp add: ok_f6_def round_even_f0)
  then have "of_nat q = \<bar>x * 1000000\<bar>"
    unfolding q_def by (metis abs_ge_zero of_int_abs of_nat_nat)
  then have "of_nat q = \<bar>x\<bar> * 1000000"
    by (simp add: abs_mult)
  moreover have "(of_nat q :: rat) = of_nat (q div 1000000) * 1000000 + of_nat (q mod 1000000)"
    by (metis div_mult_mod_eq of_nat_add of_nat_mult of_nat_numeral)
  ultimately show ?thesis by simp
qed

lemma scan_dbl_f6:
  assumes "ok_f6 x" "stops r" shows "scan_dbl (show_f6 x @ r) = Some (x, r)"
proof -
  define q where "q = nat \<bar>round_even (x * 1000000)\<bar>"
  define fs where "fs = pad6 (dec (q mod 1000000))"
  have fs: "num_of fs = q mod 1000000" "length fs = 6" "\<forall>c \<in> set fs. is_digit c"
    using pad6_dec [of "q mod 1000000"] by (simp_all add: fs_def)
  have frac: "scan_frac (CHR ''.'' # fs @ r) = (fs, r)"
    using fs stops_not_digit [OF assms(2)] by (intro scan_frac_dot) auto
  have take: "takeWhile is_digit (dec n @ CHR ''.'' # fs @ r) = dec n"
    "dropWhile is_digit (dec n @ CHR ''.'' # fs @ r) = CHR ''.'' # fs @ r" for n
    using dec_take [of "CHR ''.'' # fs @ r" n] by auto
  have val: "of_nat (q div 1000000) + of_nat (q mod 1000000) / 1000000 = \<bar>x\<bar>"
    unfolding q_def by (rule f6_parts [OF assms(1)])
  have shw: "show_f6 x = (if x < 0 then [CHR ''-''] else []) @ dec (q div 1000000) @ CHR ''.'' # fs"
    by (simp add: show_f6_def q_def fs_def Let_def)
  show ?thesis
    using val fs by (auto simp: shw scan_dbl_def take frac stops_exp [OF assms(2)])
qed

lemma dec_start: "dec n \<noteq> [] \<and> \<not> is_space (hd (dec n))"
  using dec_head [of n] digit_not_space by auto

lemma put_starts:
  "show_int i \<noteq> [] \<and> \<not> is_space (hd (show_int i))"
  "show_f0 x \<noteq> [] \<and> \<not> is_space (hd (show_f0 x))"
  "show_f6 x \<noteq> [] \<and> \<not> is_space (hd (show_f6 x))"
  using dec_start by (auto simp: show_int_def show_f0_def show_f6_def Let_def)

lemma get_skips:
  "is_space c \<Longrightarrow> scan_word (c # s) = scan_word s"
  "is_space c \<Longrightarrow> scan_int (c # s) = scan_int s"
  "is_space c \<Longrightarrow> scan_dbl (c # s) = scan_dbl s"
  by (simp_all add: scan_word_def scan_int_def scan_dbl_def)

interpretation word_codec: field_codec "\<lambda>w. w" scan_word ok_word
proof
  fix v r assume "ok_word v" "stops r"
  then show "scan_word (v @ r) = Some (v, r)" by (rule scan_word_put)
qed (auto simp: get_skips ok_word_def)

interpretation int_codec: field_codec show_int scan_int "\<lambda>_. True"
  by unfold_locales (simp_all add: scan_int_put get_skips put_starts)

interpretation f0_codec: field_codec show_f0 scan_dbl ok_f0
  by unfold_locales (simp_all add: scan_dbl_f0 get_skips put_starts)

interpretation f6_codec: field_codec show_f6 scan_dbl ok_f6
  by unfold_locales (simp_all add: scan_dbl_f6 get_skips put_starts)

text \<open>
  Lifted to whole formats: every conversion is followed by a blank or the end of the format
  (\<open>separated\<close>), and every argument suits its conversion (\<open>ok_args\<close>).
\<close>

fun separated :: "dir list \<Rightarrow> bool" where
  "separated [] = True"
| "separated (Ws # f) = separated f"
| "separated (Lit c # f) = (\<not> is_space c \<and> separated f)"
| "separated (_ # f) = ((f = [] \<or> hd f = Ws) \<and> separated f)"

fun ok_args :: "dir list \<Rightarrow> sval list \<Rightarrow> bool" where
  "ok_args [] vs = (vs = [])"
| "ok_args (Ws # f) vs = ok_args f vs"
| "ok_args (Lit c # f) vs = ok_args f vs"
| "ok_args (PS # f) (VS w # vs) = (ok_word w \<and> ok_args f vs)"
| "ok_args (PD # f) (VI i # vs) = ok_args f vs"
| "ok_args (PF # f) (VD x # vs) = (ok_f6 x \<and> ok_args f vs)"
| "ok_args (PF0 # f) (VD x # vs) = (ok_f0 x \<and> ok_args f vs)"
| "ok_args _ _ = False"

fun scan_dir :: "dir \<Rightarrow> dir" where
  "scan_dir PF0 = PF" | "scan_dir d = d"

lemma stops_print: "f = [] \<or> hd f = Ws \<Longrightarrow> stops (print f vs)"
  by (cases f) auto

fun no_lead :: "dir list \<Rightarrow> bool" where
  "no_lead (Ws # _) = False" | "no_lead _ = True"

lemma dropWhile_twice [simp]: "dropWhile P (dropWhile P xs) = dropWhile P xs"
  by (induction xs) auto

lemma scan_spaces: "scan (map scan_dir f) (print f vs) = vs \<Longrightarrow> ok_args f vs \<Longrightarrow> separated f \<Longrightarrow>
    scan (map scan_dir f) (dropWhile is_space (print f vs)) = vs"
proof (induction f vs rule: print.induct)
  case (2 f vs)
  then show ?case by simp
next
  case (4 f w vs)
  then show ?case using word_codec.put_start [of w] by (cases w) (auto split: option.splits)
next
  case (5 f i vs)
  then show ?case using int_codec.put_start [of i] by (cases "show_int i") (auto split: option.splits)
next
  case (6 f x vs)
  then show ?case using f6_codec.put_start [of x] by (cases "show_f6 x") (auto split: option.splits)
next
  case (7 f x vs)
  then show ?case using f0_codec.put_start [of x] by (cases "show_f0 x") (auto split: option.splits)
qed auto

lemma scan_print:
  "separated f \<Longrightarrow> ok_args f vs \<Longrightarrow> scan (map scan_dir f) (print f vs) = vs"
proof (induction f vs rule: print.induct)
  case (2 f vs)
  then show ?case using scan_spaces by simp
next
  case (4 f w vs)
  then show ?case by (simp add: word_codec.get_put stops_print)
next
  case (5 f i vs)
  then show ?case by (simp add: int_codec.get_put stops_print)
next
  case (6 f x vs)
  then show ?case by (simp add: f6_codec.get_put stops_print)
next
  case (7 f x vs)
  then show ?case by (simp add: f0_codec.get_put stops_print)
qed auto

text \<open>
  The form the protocol lemmas use: the reader's format is the writer's with the precision of
  the floating conversions dropped.
\<close>

lemma sscanf_sprintf:
  assumes "fmt g = map scan_dir (fmt f)" "separated (fmt f)" "ok_args (fmt f) vs"
    "fits (words_of vs) sizes"
  shows "sscanf (sprintf f vs) g sizes = Inr vs"
  using assms by (simp add: sscanf_def sprintf_def scan_print)

end
