(* ===== verification/SocketIO.thy ===== *)
theory SocketIO
  imports Cstdio
begin

text \<open>
  A connection as the message handlers use it: \<open>Send\<close> and \<open>Receive\<close> of \<open>src/source/Socket.cpp\<close> at
  the level of lines, and \<open>HelperSocket.cpp\<close>, the server's end, with the identity the client
  announces in its first message.

  \<open>incoming\<close> is what the next calls of \<open>Receive\<close> find: a complete line, a text without its line
  end (which is discarded, \<open>Receive\<close> returns NULL), nothing within the time allowed, or the end of
  the connection, which leaves an empty buffer.
  \<open>read_buf\<close> is \<open>is_TempReadBuffer\<close>, to which the returned pointer refers. \<open>outgoing\<close> collects the
  lines sent. \<open>is_TempSendBuffer\<close> has 4010 bytes, and \<open>Send\<close> formats into it without a check.
\<close>

datatype input = Line string | Part string | Quiet | Closed

record socket =
  so_open :: bool
  so_newline :: bool
  incoming :: "input list"
  read_buf :: string
  outgoing :: "string list"

definition SEND_SIZE :: nat where "SEND_SIZE = 4000 + 10"

definition Send :: "string \<Rightarrow> ('a socket_scheme, bool) run" where
  "Send text s =
     (if SEND_SIZE \<le> length text + (if so_newline s then 1 else 0) then Inl Undefined
      else if so_open s then Inr (True, s\<lparr>outgoing := outgoing s @ [text]\<rparr>)
      else Inr (False, s))"

definition Sendf :: "string \<Rightarrow> sval list \<Rightarrow> ('a socket_scheme, bool) run" where
  "Sendf f vs = Send (sprintf f vs)"

definition Receive :: "('a socket_scheme, string option) run" where
  "Receive s =
     (if \<not> so_open s then Inr (None, s)
      else case incoming s of
          [] \<Rightarrow> Inr (None, s)
        | Line m # rest \<Rightarrow> Inr (Some m, s\<lparr>incoming := rest, read_buf := m\<rparr>)
        | Part m # rest \<Rightarrow> Inr (None, s\<lparr>incoming := rest, read_buf := m\<rparr>)
        | Quiet # rest \<Rightarrow> Inr (None, s\<lparr>incoming := rest\<rparr>)
        | Closed # rest \<Rightarrow> Inr (None, s\<lparr>incoming := rest, read_buf := []\<rparr>))"

text \<open>
  Loops of the form \<open>while (readBuf) { ...; readBuf = ip_Socket->Receive(..); }\<close> consume the
  input: this many calls of \<open>Receive\<close> can still return a line.
\<close>

definition pending_lines :: "'a socket_scheme \<Rightarrow> nat" where
  "pending_lines s = length (incoming s)"

lemma Receive_Some: "Receive s = Inr (Some m, s') \<Longrightarrow> pending_lines s' < pending_lines s"
  by (auto simp: Receive_def pending_lines_def split: if_splits list.splits input.splits)

lemma Receive_more: "Receive s = Inr (r, s') \<Longrightarrow> pending_lines s' \<le> pending_lines s \<and> outgoing s' = outgoing s"
  by (auto simp: Receive_def pending_lines_def split: if_splits list.splits input.splits)

lemma Receive_total: "\<exists>r s'. Receive s = Inr (r, s')"
  by (auto simp: Receive_def split: list.splits input.splits)

lemma Send_Inr: "Send m s = Inr (b, s') \<Longrightarrow> incoming s' = incoming s
    \<and> outgoing s' = (if so_open s then outgoing s @ [m] else outgoing s)"
  by (auto simp: Send_def split: if_splits)

section \<open>The server's end of a connection\<close>

record helper = socket +
  hs_email :: string
  hs_machine :: string
  hs_instance :: string
  hs_user :: string
  hs_version :: string

text \<open>The fields \<open>sscanf\<close> is given are assigned as far as the scan gets.\<close>

fun assign_words :: "(string \<Rightarrow> 'a \<Rightarrow> 'a) list \<Rightarrow> sval list \<Rightarrow> 'a \<Rightarrow> 'a" where
  "assign_words (f # fs) (VS w # vs) s = assign_words fs vs (f w s)"
| "assign_words _ _ s = s"

definition set_email :: "string \<Rightarrow> helper \<Rightarrow> helper" where "set_email v s = s\<lparr>hs_email := v\<rparr>"
definition set_machine :: "string \<Rightarrow> helper \<Rightarrow> helper" where "set_machine v s = s\<lparr>hs_machine := v\<rparr>"
definition set_instance :: "string \<Rightarrow> helper \<Rightarrow> helper" where "set_instance v s = s\<lparr>hs_instance := v\<rparr>"
definition set_user :: "string \<Rightarrow> helper \<Rightarrow> helper" where "set_user v s = s\<lparr>hs_user := v\<rparr>"
definition set_version :: "string \<Rightarrow> helper \<Rightarrow> helper" where "set_version v s = s\<lparr>hs_version := v\<rparr>"

lemmas set_field_defs = set_email_def set_machine_def set_instance_def set_user_def set_version_def

definition scan_into :: "string \<Rightarrow> string \<Rightarrow> nat list \<Rightarrow> (string \<Rightarrow> helper \<Rightarrow> helper) list \<Rightarrow> (helper, nat) run" where
  "scan_into text f sizes fs =
     bind (lift (sscanf text f sizes)) (\<lambda>vs. bind (modify (assign_words fs vs)) (\<lambda>_. ret (length vs)))"

text \<open>
  The names of version 2 clients: \<open>email:instance\<close>, with the user named by the email address up
  to the at sign.
\<close>

definition old_client_ids :: "helper \<Rightarrow> helper" where
  "old_client_ids s =
     (let s1 = s\<lparr>hs_version := ''2.x''\<rparr>;
          s2 = (case split_at (CHR '':'') (hs_email s1) of
                  Some (email, inst) \<Rightarrow> s1\<lparr>hs_instance := inst, hs_email := email\<rparr>
                | None \<Rightarrow> s1\<lparr>hs_instance := ''n/a''\<rparr>)
      in s2\<lparr>hs_user := (case split_at (CHR ''@'') (hs_email s2) of Some (u, _) \<Rightarrow> u | None \<Rightarrow> hs_email s2)\<rparr>)"

definition IDS :: nat where "IDS = ID_LENGTH + 1"

definition parse_from :: "string \<Rightarrow> (helper, nat) run" where
  "parse_from m =
     (if prefixed ''FROM 3.'' m then
        bind (scan_into m ''FROM %s %s %s %s %s'' [20, IDS, IDS, IDS, IDS]
               [set_version, set_email, set_machine, set_instance, set_user])
          (\<lambda>n. if n \<noteq> 5
             then scan_into m ''FROM %s %s %s %s'' [20, IDS, IDS, IDS]
                    [set_version, set_email, set_instance, set_user]
             else ret n)
      else scan_into m ''FROM %s %s %s %s'' [IDS, IDS, IDS, 20]
             [set_email, set_instance, set_user, set_version])"

definition ParseFirstMessage :: "string \<Rightarrow> (helper, bool) run" where
  "ParseFirstMessage m =
     (if \<not> prefixed ''FROM '' m \<and> \<not> prefixed ''SLAVE '' m then
        bind (Sendf ''Expected a FROM message, but received <%s>.  The connected was dropped'' [VS m]) (\<lambda>_. ret False)
      else if length m > 200 then
        bind (Send ''The message is too long to be parsed.  The connected was dropped'') (\<lambda>_. ret False)
      else
        bind (modify (set_machine [])) (\<lambda>_.
        bind (if prefixed ''FROM '' m then
                bind (parse_from m) (\<lambda>n.
                  if n \<noteq> 4 \<and> n \<noteq> 5 then
                    bind (scan_into m ''FROM %s'' [IDS] [set_email]) (\<lambda>n1.
                      if n1 = 1 then bind (modify old_client_ids) (\<lambda>_. ret True)
                      else bind (Sendf ''Could not parse the FROM message: <%s>.  The connected was dropped'' [VS m])
                             (\<lambda>_. ret False))
                  else ret True)
              else
                bind (scan_into m ''SLAVE %s'' [20] [set_version]) (\<lambda>n.
                  if n \<noteq> 1 then
                    bind (Sendf ''Could not parse the SLAVE message: <%s>.  The connected was dropped'' [VS m])
                      (\<lambda>_. ret False)
                  else ret True))
          (\<lambda>parsed. if \<not> parsed then ret False
             else bind (modify (\<lambda>s. if hs_machine s = [] then s\<lparr>hs_machine := hs_instance s\<rparr> else s)) (\<lambda>_. ret True))))"

definition is_old :: "helper \<Rightarrow> bool" where
  "is_old s = prefixed ''2.x'' (hs_version s)"

end
