(* ===== verification/SqlStatement.thy ===== *)
theory SqlStatement
  imports Cstdio
begin

text \<open>
  Parameter handling of \<open>src/source/SQLStatement.cpp\<close>: the values bound to the question marks
  of a statement, their length checks, and \<open>ExpandStatement\<close>, which every execution of a
  statement runs to trace it, at any debug level. \<open>expand_check\<close> reduces what the tracing can
  do to a test on the bound values, used by every statement of the model.
\<close>

section \<open>Bound parameters\<close>

text \<open>
  A parameter with the value it carries; for a string also the size of the buffer allocated
  for it (\<open>ntsLength - 1\<close>). \<open>sq_index\<close> is \<open>ii_SQLParamIndex\<close>.
\<close>

datatype sql_param = PStr string nat | PInt int | PBig int | PDbl double

record statement =
  sq_sql :: string
  sq_params :: "sql_param list"
  sq_index :: nat

definition SQLStatement :: "string \<Rightarrow> statement" where
  "SQLStatement sql = \<lparr>sq_sql = sql, sq_params = [], sq_index = 0\<rparr>"

text \<open>The value given must fit the buffer of the parameter it replaces.\<close>

fun set_value :: "sql_param \<Rightarrow> sql_param \<Rightarrow> halt + sql_param" where
  "set_value (PStr old n) (PStr s m) = (if length s > n then Inl Exit else Inr (PStr s n))"
| "set_value p v = Inr v"

definition SetInputParameterValue :: "sql_param \<Rightarrow> bool \<Rightarrow> statement \<Rightarrow> halt + statement" where
  "SetInputParameterValue v firstParameter st =
     (let i = (if firstParameter then 0 else sq_index st)
      in if i < length (sq_params st) then
           and_then (set_value (sq_params st ! i) v)
             (\<lambda>p. Inr (st\<lparr>sq_params := (sq_params st)[i := p], sq_index := i + 1\<rparr>))
         else Inl Undefined)"

text \<open>A length of zero asks for a buffer of the value's own length.\<close>

fun own_length :: "sql_param \<Rightarrow> sql_param" where
  "own_length (PStr s n) = PStr s (if n = 0 then length s else n)"
| "own_length p = p"

definition BindInputParameter :: "sql_param \<Rightarrow> statement \<Rightarrow> halt + statement" where
  "BindInputParameter v st =
     (if length (sq_params st) < 400 then
        SetInputParameterValue (own_length v) False (st\<lparr>sq_params := sq_params st @ [own_length v]\<rparr>)
      else Inl Undefined)"

fun bind_parameters :: "sql_param list \<Rightarrow> statement \<Rightarrow> halt + statement" where
  "bind_parameters [] st = Inr st"
| "bind_parameters (p # ps) st = and_then (BindInputParameter p st) (bind_parameters ps)"

section \<open>ExpandStatement\<close>

text \<open>Numbers go through the buffer \<open>temp[50]\<close>.\<close>

fun param_text :: "sql_param \<Rightarrow> halt + string" where
  "param_text (PStr s n) = Inr s"
| "param_text (PInt i) = Inr (show_int i)"
| "param_text (PBig i) = Inr (show_int i)"
| "param_text (PDbl x) = (if length (show_f6 x) < 50 then Inr (show_f6 x) else Inl Undefined)"

fun expand :: "sql_param list \<Rightarrow> string \<Rightarrow> halt + string" where
  "expand ps s =
     (case split_at (CHR ''?'') s of
        None \<Rightarrow> Inr s
      | Some (a, b) \<Rightarrow>
          (case ps of
             [] \<Rightarrow> Inl Exit
           | p # ps' \<Rightarrow> and_then (param_text p) (\<lambda>t. expand ps' (a @ t @ b))))"

declare expand.simps [simp del]

definition ExpandStatement :: "statement \<Rightarrow> halt + string" where
  "ExpandStatement st = expand (take (sq_index st) (sq_params st)) (sq_sql st)"

text \<open>What the tracing is meant to print: every question mark of the text replaced at once.\<close>

fun substitute :: "string \<Rightarrow> string list \<Rightarrow> string" where
  "substitute [] ts = []"
| "substitute (c # cs) ts =
     (if c = CHR ''?'' then (case ts of [] \<Rightarrow> c # substitute cs [] | t # ts' \<Rightarrow> t @ substitute cs ts')
      else c # substitute cs ts)"

definition marks :: "string \<Rightarrow> nat" where
  "marks s = length (filter (\<lambda>c. c = CHR ''?'') s)"

text \<open>The tests on one bound value, and the outcome of binding and tracing together.\<close>

fun too_long :: "sql_param \<Rightarrow> bool" where
  "too_long (PStr s n) = (n \<noteq> 0 \<and> length s > n)"
| "too_long _ = False"

fun overflows :: "sql_param \<Rightarrow> bool" where
  "overflows (PDbl x) = (50 \<le> length (show_f6 x))"
| "overflows _ = False"

fun has_mark :: "sql_param \<Rightarrow> bool" where
  "has_mark (PStr s n) = (CHR ''?'' \<in> set s)"
| "has_mark _ = False"

definition check_params :: "sql_param list \<Rightarrow> halt + unit" where
  "check_params ps =
     (if \<exists>p \<in> set ps. too_long p then Inl Exit
      else if \<exists>p \<in> set ps. overflows p then Inl Undefined
      else if \<exists>p \<in> set ps. has_mark p then Inl Exit
      else Inr ())"

fun text_of :: "sql_param \<Rightarrow> string" where
  "text_of (PStr s n) = s"
| "text_of (PInt i) = show_int i"
| "text_of (PBig i) = show_int i"
| "text_of (PDbl x) = show_f6 x"

section \<open>What tracing a statement does\<close>

lemma marks_simps [simp]:
  "marks [] = 0" "marks (s @ t) = marks s + marks t"
  "marks (c # s) = (if c = CHR ''?'' then Suc (marks s) else marks s)"
  by (simp_all add: marks_def)

lemma marks_0 [simp]: "marks s = 0 \<longleftrightarrow> CHR ''?'' \<notin> set s"
  by (induction s) auto

lemma question_not_digit: "is_digit c \<Longrightarrow> c \<noteq> CHR ''?''"
  by (auto simp: is_digit_def code_def)

lemma dec_no_mark [simp]: "CHR ''?'' \<notin> set (dec n)"
  using dec_digits question_not_digit by blast

lemma show_no_mark [simp]: "CHR ''?'' \<notin> set (show_int i)" "CHR ''?'' \<notin> set (show_f6 x)"
  by (auto simp: show_int_def show_f6_def pad6_def Let_def)

lemma param_text_cases: "param_text p = (if overflows p then Inl Undefined else Inr (text_of p))"
  by (cases p) auto

lemma text_of_mark: "CHR ''?'' \<in> set (text_of p) \<longleftrightarrow> has_mark p"
  by (cases p) auto

lemma expand_too_many:
  "length ps < marks s \<Longrightarrow> expand ps s = (if \<exists>p \<in> set ps. overflows p then Inl Undefined else Inl Exit)"
proof (induction ps arbitrary: s)
  case Nil
  then have "CHR ''?'' \<in> set s" by (metis length_0_conv list.size(3) marks_0 not_less_zero)
  then show ?case by (subst expand.simps) (auto split: option.splits)
next
  case (Cons p ps)
  then have "CHR ''?'' \<in> set s" by (metis gr_implies_not0 marks_0)
  then obtain a b where s: "split_at (CHR ''?'') s = Some (a, b)" by (cases "split_at (CHR ''?'') s") auto
  then have "s = a @ CHR ''?'' # b" by (auto dest: split_at_Some)
  with Cons.prems have "length ps < marks (a @ text_of p @ b)" by simp
  with Cons.IH s show ?case by (subst expand.simps) (auto simp: param_text_cases)
qed

lemma substitute_prefix: "CHR ''?'' \<notin> set a \<Longrightarrow> substitute (a @ s) ts = a @ substitute s ts"
  by (induction a) auto

lemma expand_exact:
  "marks s = length ps \<Longrightarrow> expand ps s =
     (if \<exists>p \<in> set ps. overflows p then Inl Undefined
      else if \<exists>p \<in> set ps. has_mark p then Inl Exit
      else Inr (substitute s (map text_of ps)))"
proof (induction ps arbitrary: s)
  case Nil
  then have "substitute s [] = s" using substitute_prefix [of s "[]" "[]"] by simp
  with Nil show ?case by (subst expand.simps) (auto split: option.splits dest: split_at_Some)
next
  case (Cons p ps)
  then have "CHR ''?'' \<in> set s" by (metis length_Suc_conv marks_0 nat.distinct(1))
  then obtain a b where s: "split_at (CHR ''?'') s = Some (a, b)" by (cases "split_at (CHR ''?'') s") auto
  then have sab: "s = a @ CHR ''?'' # b" and a: "CHR ''?'' \<notin> set a" by (auto dest: split_at_Some)
  with Cons.prems have b: "marks (a @ b) = length ps" by simp
  have step: "expand (p # ps) s = (if overflows p then Inl Undefined else expand ps (a @ text_of p @ b))"
    using s by (subst expand.simps) (simp add: param_text_cases)
  show ?case
  proof (cases "has_mark p")
    case True
    then have "0 < marks (text_of p)" by (metis gr0I marks_0 text_of_mark)
    with b have "length ps < marks (a @ text_of p @ b)" by simp
    with True show ?thesis by (simp add: step expand_too_many)
  next
    case False
    then have t: "CHR ''?'' \<notin> set (text_of p)" by (simp add: text_of_mark)
    with b have "marks (a @ text_of p @ b) = length ps" by (metis add_0 marks_0 marks_simps(2))
    from Cons.IH [OF this] False a t show ?thesis
      unfolding step by (simp add: sab substitute_prefix)
  qed
qed

lemma BindInputParameter_eq:
  "length (sq_params st) < 400 \<Longrightarrow> sq_index st = length (sq_params st) \<Longrightarrow>
   BindInputParameter p st = (if too_long p then Inl Exit
     else Inr (st\<lparr>sq_params := sq_params st @ [own_length p], sq_index := sq_index st + 1\<rparr>))"
  by (cases p) (auto simp: BindInputParameter_def SetInputParameterValue_def nth_append)

lemma bind_parameters_eq:
  "length (sq_params st) + length ps \<le> 400 \<Longrightarrow> sq_index st = length (sq_params st) \<Longrightarrow>
   bind_parameters ps st = (if \<exists>p \<in> set ps. too_long p then Inl Exit
     else Inr (st\<lparr>sq_params := sq_params st @ map own_length ps, sq_index := length (sq_params st) + length ps\<rparr>))"
  by (induction ps arbitrary: st) (auto simp: BindInputParameter_eq)

lemma own_length_props [simp]:
  "overflows (own_length p) = overflows p" "has_mark (own_length p) = has_mark p"
  "text_of (own_length p) = text_of p"
  by (cases p; simp)+

text \<open>
  For a statement with as many question marks as values, binding the values and tracing the
  statement stops exactly when \<open>check_params\<close> says so, whatever its text.
\<close>

lemma expand_check:
  assumes "marks sql = length ps" "length ps \<le> 400"
  shows "and_then (bind_parameters ps (SQLStatement sql)) ExpandStatement =
         and_then (check_params ps) (\<lambda>_. Inr (substitute sql (map text_of ps)))"
proof -
  have "map (text_of \<circ> own_length) ps = map text_of ps" by (simp add: fun_eq_iff)
  then show ?thesis
    using assms
    by (simp del: map_eq_conv add: bind_parameters_eq SQLStatement_def ExpandStatement_def check_params_def
        expand_exact image_iff)
qed

lemma check_params_Inr: "check_params ps = Inr u \<longleftrightarrow> (\<forall>p \<in> set ps. \<not> too_long p \<and> \<not> overflows p \<and> \<not> has_mark p)"
  by (auto simp: check_params_def)

section \<open>Return codes\<close>

datatype sqlret = SQL_SUCCESS | SQL_SUCCESS_WITH_INFO | SQL_ERROR | SQL_NEED_DATA
  | SQL_INVALID_HANDLE | SQL_NO_DATA

fun GetSQLErrorAndLog :: "sqlret \<Rightarrow> bool" where
  "GetSQLErrorAndLog SQL_SUCCESS_WITH_INFO = True"
| "GetSQLErrorAndLog SQL_ERROR = False"
| "GetSQLErrorAndLog SQL_NEED_DATA = False"
| "GetSQLErrorAndLog SQL_INVALID_HANDLE = False"
| "GetSQLErrorAndLog _ = False"

definition carried_out :: "sqlret \<Rightarrow> bool" where
  "carried_out rc \<longleftrightarrow> rc = SQL_SUCCESS \<or> GetSQLErrorAndLog rc"

lemma carried_out_simps [simp]: "carried_out SQL_SUCCESS" "carried_out SQL_SUCCESS_WITH_INFO"
  "\<not> carried_out SQL_ERROR" "\<not> carried_out SQL_NO_DATA"
  by (simp_all add: carried_out_def)

end
