(* ===== verification/Database.thy ===== *)
theory Database
  imports SqlStatement
begin

text \<open>
  The tables of \<open>src/source/create_tables_postgre.sql\<close> (the script whose columns the SQL in
  the C++ sources names), the primary keys and foreign keys the script declares, and the
  transaction of one connection (\<open>DBInterface.cpp\<close>). A statement acts on the tables as its
  SQL text says; the ODBC driver and the database server decide whether it is carried out:
  their answers are a list the session consumes, one per executed statement.
\<close>

section \<open>Rows\<close>

record pending_row =
  pw_user :: string
  pw_machine :: string
  pw_instance :: string
  pw_email :: string
  pw_comp :: string
  pw_method :: string
  pw_b1 :: double
  pw_curves :: int
  pw_date :: int

record user_row =
  us_id :: string
  us_work :: double
  us_factors :: int
  us_time :: double
  us_total_work :: double
  us_total_factors :: int
  us_total_time :: double

record sync_row =
  ss_master :: string
  ss_slave :: string
  ss_send :: int

record master_row =
  mc_name :: string
  mc_value :: string
  mc_active :: int
  mc_fully :: int
  mc_factors :: int
  mc_recurse :: int
  mc_len :: int
  mc_work :: double
  mc_updated :: int
  mc_to_master :: int

record work_row =
  wd_master :: string
  wd_method :: string
  wd_b1 :: double
  wd_unreported :: int
  wd_local :: int

record comp_row =
  cp_name :: string
  cp_value :: string
  cp_master :: string
  cp_events :: int
  cp_len :: int
  cp_difficulty :: double
  cp_sent :: int

record event_row =
  ev_comp :: string
  ev_no :: int
  ev_date :: int
  ev_email :: string
  ev_user :: string
  ev_machine :: string
  ev_instance :: string
  ev_server :: string
  ev_to_master :: int
  ev_emailed :: int
  ev_duplicate :: int
  ev_method :: string
  ev_step :: int
  ev_b1 :: double
  ev_b1time :: double
  ev_b2 :: double
  ev_b2time :: double
  ev_sigma :: int
  ev_x0 :: int

record detail_row =
  dt_comp :: string
  dt_event :: int
  dt_seq :: int
  dt_value :: string
  dt_len :: int
  dt_prp :: int
  dt_recursed :: int

record tables =
  pendings :: "pending_row list"
  users :: "user_row list"
  syncs :: "sync_row list"
  masters :: "master_row list"
  works :: "work_row list"
  comps :: "comp_row list"
  events :: "event_row list"
  details :: "detail_row list"

text \<open>The unique indexes.\<close>

definition sync_key :: "sync_row \<Rightarrow> string \<times> string" where
  "sync_key r = (ss_master r, ss_slave r)"

definition work_key :: "work_row \<Rightarrow> string \<times> string \<times> double" where
  "work_key r = (wd_master r, wd_method r, wd_b1 r)"

definition event_key :: "event_row \<Rightarrow> string \<times> int" where
  "event_key r = (ev_comp r, ev_no r)"

definition detail_key :: "detail_row \<Rightarrow> string \<times> int \<times> int" where
  "detail_key r = (dt_comp r, dt_event r, dt_seq r)"

section \<open>Tables with a unique key\<close>

definition pk_insert :: "('r \<Rightarrow> 'k) \<Rightarrow> 'r \<Rightarrow> 'r list \<Rightarrow> 'r list option" where
  "pk_insert key r rs = (if key r \<in> key ` set rs then None else Some (rs @ [r]))"

definition lookup_by :: "('r \<Rightarrow> 'k) \<Rightarrow> 'k \<Rightarrow> 'r list \<Rightarrow> 'r option" where
  "lookup_by key k rs = find (\<lambda>r. key r = k) rs"

definition update_by :: "('r \<Rightarrow> 'k) \<Rightarrow> 'k \<Rightarrow> ('r \<Rightarrow> 'r) \<Rightarrow> 'r list \<Rightarrow> 'r list" where
  "update_by key k f rs = map (\<lambda>r. if key r = k then f r else r) rs"

text \<open>
  What the program relies on from a table: a row inserted is the row found, an insert under
  a used key is refused, and an update that leaves the key alone changes that row only.
\<close>

locale keyed_table =
  fixes key :: "'r \<Rightarrow> 'k"
    and ins :: "'r \<Rightarrow> 'r list \<Rightarrow> 'r list option"
    and get :: "'k \<Rightarrow> 'r list \<Rightarrow> 'r option"
    and upd :: "'k \<Rightarrow> ('r \<Rightarrow> 'r) \<Rightarrow> 'r list \<Rightarrow> 'r list"
    and valid :: "'r list \<Rightarrow> bool"
  assumes ins_None: "ins r rs = None \<longleftrightarrow> get (key r) rs \<noteq> None"
    and get_ins: "ins r rs = Some rs' \<Longrightarrow> get k rs' = (if k = key r then Some r else get k rs)"
    and get_upd: "(\<And>r. key (f r) = key r) \<Longrightarrow>
        get k' (upd k f rs) = (if k' = k then map_option f (get k rs) else get k' rs)"
    and valid_ins: "valid rs \<Longrightarrow> ins r rs = Some rs' \<Longrightarrow> valid rs'"
    and valid_upd: "(\<And>r. key (f r) = key r) \<Longrightarrow> valid rs \<Longrightarrow> valid (upd k f rs)"
begin

lemma ins_get_same: "ins r rs = Some rs' \<Longrightarrow> get (key r) rs' = Some r"
  by (simp add: get_ins)

lemma ins_get_other: "ins r rs = Some rs' \<Longrightarrow> k \<noteq> key r \<Longrightarrow> get k rs' = get k rs"
  by (simp add: get_ins)

lemma ins_twice: "ins r rs = Some rs' \<Longrightarrow> key r' = key r \<Longrightarrow> ins r' rs' = None"
  by (simp add: ins_None get_ins)

lemma upd_get_same: "(\<And>r. key (f r) = key r) \<Longrightarrow> get k (upd k f rs) = map_option f (get k rs)"
  by (simp add: get_upd)

lemma upd_get_other: "(\<And>r. key (f r) = key r) \<Longrightarrow> k' \<noteq> k \<Longrightarrow> get k' (upd k f rs) = get k' rs"
  by (simp add: get_upd)

end

lemma find_append: "find P (xs @ ys) = (case find P xs of None \<Rightarrow> find P ys | Some x \<Rightarrow> Some x)"
  by (induction xs) auto

lemma lookup_by_None: "lookup_by key k rs = None \<longleftrightarrow> k \<notin> key ` set rs"
  by (auto simp: lookup_by_def find_None_set)

lemma lookup_by_Some: "lookup_by key k rs = Some r \<Longrightarrow> r \<in> set rs \<and> key r = k"
  unfolding lookup_by_def by (rule find_Some_in)

lemma lookup_by_update:
  "(\<And>r. key (f r) = key r) \<Longrightarrow>
   lookup_by key k' (update_by key k f rs) = (if k' = k then map_option f (lookup_by key k rs) else lookup_by key k' rs)"
  by (induction rs) (auto simp: lookup_by_def update_by_def)

lemma keyed_table_pk:
  "keyed_table key (pk_insert key) (lookup_by key) (update_by key) (\<lambda>rs. distinct (map key rs))"
proof
  fix r rs show "pk_insert key r rs = None \<longleftrightarrow> lookup_by key (key r) rs \<noteq> None"
    by (simp add: pk_insert_def lookup_by_None)
next
  fix r rs rs' k assume ins: "pk_insert key r rs = Some rs'"
  then have "rs' = rs @ [r]" "key r \<notin> key ` set rs"
    by (auto simp: pk_insert_def split: if_splits)
  then show "lookup_by key k rs' = (if k = key r then Some r else lookup_by key k rs)"
    using lookup_by_None [of key k rs] lookup_by_Some [of key k rs]
    by (cases "lookup_by key k rs") (auto simp: lookup_by_def find_append image_iff)
next
  fix f :: "'a \<Rightarrow> 'a" and k' k rs assume "\<And>r. key (f r) = key r"
  then show "lookup_by key k' (update_by key k f rs) =
      (if k' = k then map_option f (lookup_by key k rs) else lookup_by key k' rs)"
    by (rule lookup_by_update)
next
  fix rs r rs' assume "distinct (map key rs)" "pk_insert key r rs = Some rs'"
  then show "distinct (map key rs')"
    by (auto simp: pk_insert_def split: if_splits)
next
  fix f :: "'a \<Rightarrow> 'a" and rs k assume k: "\<And>r. key (f r) = key r" and "distinct (map key rs)"
  moreover have "map key (update_by key k f rs) = map key rs"
    using k by (induction rs) (auto simp: update_by_def)
  ultimately show "distinct (map key (update_by key k f rs))" by simp
qed

interpretation user_table: keyed_table us_id "pk_insert us_id" "lookup_by us_id" "update_by us_id"
  "\<lambda>rs. distinct (map us_id rs)" by (rule keyed_table_pk)

interpretation sync_table: keyed_table sync_key "pk_insert sync_key" "lookup_by sync_key" "update_by sync_key"
  "\<lambda>rs. distinct (map sync_key rs)" by (rule keyed_table_pk)

interpretation master_table: keyed_table mc_name "pk_insert mc_name" "lookup_by mc_name" "update_by mc_name"
  "\<lambda>rs. distinct (map mc_name rs)" by (rule keyed_table_pk)

interpretation work_table: keyed_table work_key "pk_insert work_key" "lookup_by work_key" "update_by work_key"
  "\<lambda>rs. distinct (map work_key rs)" by (rule keyed_table_pk)

interpretation comp_table: keyed_table cp_name "pk_insert cp_name" "lookup_by cp_name" "update_by cp_name"
  "\<lambda>rs. distinct (map cp_name rs)" by (rule keyed_table_pk)

interpretation event_table: keyed_table event_key "pk_insert event_key" "lookup_by event_key" "update_by event_key"
  "\<lambda>rs. distinct (map event_key rs)" by (rule keyed_table_pk)

interpretation detail_table: keyed_table detail_key "pk_insert detail_key" "lookup_by detail_key"
  "update_by detail_key" "\<lambda>rs. distinct (map detail_key rs)" by (rule keyed_table_pk)

section \<open>The schema\<close>

definition refs_master :: "tables \<Rightarrow> bool" where
  "refs_master t \<longleftrightarrow> wd_master ` set (works t) \<subseteq> mc_name ` set (masters t)
     \<and> cp_master ` set (comps t) \<subseteq> mc_name ` set (masters t)"

definition refs_comp :: "tables \<Rightarrow> bool" where
  "refs_comp t \<longleftrightarrow> ev_comp ` set (events t) \<subseteq> cp_name ` set (comps t)
     \<and> (\<lambda>d. (dt_comp d, dt_event d)) ` set (details t) \<subseteq> event_key ` set (events t)"

definition keys_distinct :: "tables \<Rightarrow> bool" where
  "keys_distinct t \<longleftrightarrow> distinct (map us_id (users t)) \<and> distinct (map sync_key (syncs t))
     \<and> distinct (map mc_name (masters t)) \<and> distinct (map work_key (works t))
     \<and> distinct (map cp_name (comps t)) \<and> distinct (map event_key (events t))
     \<and> distinct (map detail_key (details t))"

definition db_wf :: "tables \<Rightarrow> bool" where
  "db_wf t \<longleftrightarrow> keys_distinct t \<and> refs_master t \<and> refs_comp t"

lemmas db_wf_defs = db_wf_def keys_distinct_def refs_master_def refs_comp_def

text \<open>Inserts are refused when a key is in use or a referenced row is missing.\<close>

definition insert_pending :: "pending_row \<Rightarrow> tables \<Rightarrow> tables option" where
  "insert_pending r t = Some (t\<lparr>pendings := pendings t @ [r]\<rparr>)"

definition insert_user :: "user_row \<Rightarrow> tables \<Rightarrow> tables option" where
  "insert_user r t = map_option (\<lambda>rs. t\<lparr>users := rs\<rparr>) (pk_insert us_id r (users t))"

definition insert_sync :: "sync_row \<Rightarrow> tables \<Rightarrow> tables option" where
  "insert_sync r t = map_option (\<lambda>rs. t\<lparr>syncs := rs\<rparr>) (pk_insert sync_key r (syncs t))"

definition insert_master :: "master_row \<Rightarrow> tables \<Rightarrow> tables option" where
  "insert_master r t = map_option (\<lambda>rs. t\<lparr>masters := rs\<rparr>) (pk_insert mc_name r (masters t))"

definition insert_work :: "work_row \<Rightarrow> tables \<Rightarrow> tables option" where
  "insert_work r t =
     (if wd_master r \<in> mc_name ` set (masters t)
      then map_option (\<lambda>rs. t\<lparr>works := rs\<rparr>) (pk_insert work_key r (works t)) else None)"

definition insert_comp :: "comp_row \<Rightarrow> tables \<Rightarrow> tables option" where
  "insert_comp r t =
     (if cp_master r \<in> mc_name ` set (masters t)
      then map_option (\<lambda>rs. t\<lparr>comps := rs\<rparr>) (pk_insert cp_name r (comps t)) else None)"

definition insert_event :: "event_row \<Rightarrow> tables \<Rightarrow> tables option" where
  "insert_event r t =
     (if ev_comp r \<in> cp_name ` set (comps t)
      then map_option (\<lambda>rs. t\<lparr>events := rs\<rparr>) (pk_insert event_key r (events t)) else None)"

definition insert_detail :: "detail_row \<Rightarrow> tables \<Rightarrow> tables option" where
  "insert_detail r t =
     (if (dt_comp r, dt_event r) \<in> event_key ` set (events t)
      then map_option (\<lambda>rs. t\<lparr>details := rs\<rparr>) (pk_insert detail_key r (details t)) else None)"

lemmas insert_defs = insert_pending_def insert_user_def insert_sync_def insert_master_def
  insert_work_def insert_comp_def insert_event_def insert_detail_def

section \<open>Statements and transactions\<close>

text \<open>
  \<open>cur\<close> is the database as the connection's transaction sees it, \<open>saved\<close> the committed one.
  \<open>odbc\<close> are the return codes to come from \<open>SQLExecute\<close> and \<open>SQLFetch\<close>, \<open>endtran\<close> those from
  \<open>SQLEndTran\<close> (an exhausted list answers \<open>SQL_SUCCESS\<close>); \<open>now\<close> is \<open>time(NULL)\<close>, constant while a
  request is handled. A driver that reports \<open>SQL_NO_DATA\<close> for an update of no rows is one of
  these drivers: the update then counts as failed and changes nothing.
\<close>

record session =
  cur :: tables
  saved :: tables
  odbc :: "sqlret list"
  endtran :: "sqlret list"
  now :: int

type_synonym 'a db = "(session, 'a) run"

fun answer :: "sqlret list \<Rightarrow> sqlret \<times> sqlret list" where
  "answer [] = (SQL_SUCCESS, [])"
| "answer (b # bs) = (b, bs)"

text \<open>
  \<open>SQLStatement::Execute\<close> of a statement that changes the tables. The statement itself fails
  when it violates a key or a reference.
\<close>

definition execute :: "(tables \<Rightarrow> tables option) \<Rightarrow> session \<Rightarrow> bool \<times> session" where
  "execute stmt s =
     (case answer (odbc s) of (rc, rest) \<Rightarrow>
        (case (if carried_out rc then stmt (cur s) else None) of
           None \<Rightarrow> (False, s\<lparr>odbc := rest\<rparr>)
         | Some t \<Rightarrow> (True, s\<lparr>cur := t, odbc := rest\<rparr>)))"

definition Execute :: "sql_param list \<Rightarrow> (tables \<Rightarrow> tables option) \<Rightarrow> bool db" where
  "Execute ps stmt s = and_then (check_params ps) (\<lambda>_. Inr (execute stmt s))"

text \<open>
  A query: \<open>Open\<close> is the first call of \<open>FetchRow\<close>, which executes the statement, \<open>fetch\<close> reads one
  row of its result; \<open>FetchRow\<close> with \<open>fetchAndClose\<close> reads the first row and closes.
\<close>

definition Open :: "sql_param list \<Rightarrow> (tables \<Rightarrow> 'r list) \<Rightarrow> 'r list option db" where
  "Open ps q s = and_then (check_params ps) (\<lambda>_.
     (case answer (odbc s) of (rc, rest) \<Rightarrow>
        Inr (if carried_out rc then Some (q (cur s)) else None, s\<lparr>odbc := rest\<rparr>)))"

definition fetch :: "'r list \<Rightarrow> ('r \<times> 'r list) option db" where
  "fetch rows s =
     (case answer (odbc s) of (rc, rest) \<Rightarrow>
        Inr (case rows of [] \<Rightarrow> None | r # rs \<Rightarrow> if carried_out rc then Some (r, rs) else None,
             s\<lparr>odbc := rest\<rparr>))"

definition FetchRow :: "sql_param list \<Rightarrow> (tables \<Rightarrow> 'r list) \<Rightarrow> 'r option db" where
  "FetchRow ps q = bind (Open ps q) (\<lambda>c. case c of
       None \<Rightarrow> ret None
     | Some rows \<Rightarrow> bind (fetch rows) (\<lambda>r. ret (map_option fst r)))"

text \<open>\<open>DBInterface::Commit\<close> and \<open>Rollback\<close> log a failure of \<open>SQLEndTran\<close> but do not report it.\<close>

definition Commit :: "session \<Rightarrow> session" where
  "Commit s = (case answer (endtran s) of (rc, rest) \<Rightarrow>
     s\<lparr>saved := (if rc = SQL_SUCCESS then cur s else saved s), endtran := rest\<rparr>)"

definition Rollback :: "session \<Rightarrow> session" where
  "Rollback s = (case answer (endtran s) of (rc, rest) \<Rightarrow>
     s\<lparr>cur := (if rc = SQL_SUCCESS then saved s else cur s), endtran := rest\<rparr>)"

text \<open>The driver carries out everything asked of it from now on.\<close>

definition driver_ok :: "session \<Rightarrow> bool" where
  "driver_ok s \<longleftrightarrow> odbc s = [] \<and> endtran s = []"

lemma Commit_ok: "endtran s = [] \<Longrightarrow> Commit s = s\<lparr>saved := cur s\<rparr>"
  by (simp add: Commit_def)

lemma Rollback_ok: "endtran s = [] \<Longrightarrow> Rollback s = s\<lparr>cur := saved s\<rparr>"
  by (simp add: Rollback_def)

lemma Execute_ok: "odbc s = [] \<Longrightarrow> Execute ps stmt s =
    and_then (check_params ps)
      (\<lambda>_. Inr (case stmt (cur s) of None \<Rightarrow> (False, s) | Some t \<Rightarrow> (True, s\<lparr>cur := t\<rparr>)))"
  by (cases s) (simp add: Execute_def execute_def split: option.splits cong: option.case_cong)

lemma FetchRow_ok: "odbc s = [] \<Longrightarrow> FetchRow ps q s =
    and_then (check_params ps) (\<lambda>_. Inr (case q (cur s) of [] \<Rightarrow> None | r # rs \<Rightarrow> Some r, s))"
  by (cases s; cases "check_params ps")
    (simp_all add: FetchRow_def Open_def fetch_def bind_def split: list.splits)

lemma execute_saved [simp]:
  "saved (snd (execute stmt s)) = saved s" "endtran (snd (execute stmt s)) = endtran s"
  "now (snd (execute stmt s)) = now s"
  by (auto simp: execute_def split: prod.splits option.splits if_splits)

lemma Execute_True: "Execute ps stmt s = Inr (True, s') \<Longrightarrow>
    stmt (cur s) = Some (cur s') \<and> saved s' = saved s \<and> endtran s' = endtran s \<and> now s' = now s"
  by (auto simp: Execute_def execute_def split: prod.splits option.splits if_splits)

lemma Execute_False: "Execute ps stmt s = Inr (False, s') \<Longrightarrow>
    cur s' = cur s \<and> saved s' = saved s \<and> endtran s' = endtran s \<and> now s' = now s"
  by (auto simp: Execute_def execute_def split: prod.splits option.splits if_splits)

lemma Open_Inr: "Open ps q s = Inr (c, s') \<Longrightarrow>
    cur s' = cur s \<and> saved s' = saved s \<and> endtran s' = endtran s \<and> now s' = now s
    \<and> (\<forall>rows. c = Some rows \<longrightarrow> rows = q (cur s))"
  by (auto simp: Open_def split: prod.splits if_splits)

lemma fetch_Inr: "fetch rows s = Inr (r, s') \<Longrightarrow>
    cur s' = cur s \<and> saved s' = saved s \<and> endtran s' = endtran s \<and> now s' = now s
    \<and> (\<forall>x rs. r = Some (x, rs) \<longrightarrow> rows = x # rs)"
  by (auto simp: fetch_def split: prod.splits list.splits if_splits)

lemma FetchRow_Inr: "FetchRow ps q s = Inr (r, s') \<Longrightarrow>
    cur s' = cur s \<and> saved s' = saved s \<and> endtran s' = endtran s \<and> now s' = now s
    \<and> (\<forall>x. r = Some x \<longrightarrow> (\<exists>rs. q (cur s) = x # rs))"
  unfolding FetchRow_def
  by (auto simp: bind_eq_Inr split: option.splits dest!: Open_Inr fetch_Inr)

section \<open>Work inside a transaction\<close>

text \<open>
  The step relation of the operations that only work inside the transaction: the committed
  tables stay as they are, and the keys and references the schema declares are kept.
\<close>

definition tx_step :: "session \<Rightarrow> session \<Rightarrow> bool" where
  "tx_step s s' \<longleftrightarrow> saved s' = saved s \<and> endtran s' = endtran s \<and> now s' = now s
     \<and> (db_wf (cur s) \<longrightarrow> db_wf (cur s'))"

interpretation tx: effect tx_step
  by unfold_locales (auto simp: tx_step_def)

lemmas [tx_intros] = tx.stays_intros

lemma rollback_restores: "tx_step s s' \<Longrightarrow> endtran s = [] \<Longrightarrow> cur (Rollback s') = saved s"
  by (simp add: tx_step_def Rollback_ok)

lemma commit_wf: "tx_step s s' \<Longrightarrow> db_wf (cur s) \<Longrightarrow> db_wf (saved s) \<Longrightarrow> db_wf (saved (Commit s'))"
  by (simp add: tx_step_def Commit_def split: prod.splits)

definition wf_stmt :: "(tables \<Rightarrow> tables option) \<Rightarrow> bool" where
  "wf_stmt stmt \<longleftrightarrow> (\<forall>t t'. db_wf t \<longrightarrow> stmt t = Some t' \<longrightarrow> db_wf t')"

lemma tx_Execute [tx_intros]: "wf_stmt stmt \<Longrightarrow> stays tx_step (Execute ps stmt)"
proof (rule staysI)
  fix s b s' assume wf: "wf_stmt stmt" and e: "Execute ps stmt s = Inr (b, s')"
  show "tx_step s s'"
  proof (cases b)
    case True
    with e wf show ?thesis by (auto simp: tx_step_def wf_stmt_def dest!: Execute_True)
  next
    case False
    with e show ?thesis by (auto simp: tx_step_def dest!: Execute_False)
  qed
qed

lemma tx_queries [tx_intros]:
  "stays tx_step (Open ps q)" "stays tx_step (fetch rows)" "stays tx_step (FetchRow ps q)"
  by (auto intro!: staysI simp: tx_step_def dest!: Open_Inr fetch_Inr FetchRow_Inr)

lemma wf_insert [wf_intros]:
  "wf_stmt (insert_pending r1)" "wf_stmt (insert_user r2)" "wf_stmt (insert_sync r3)"
  "wf_stmt (insert_master r4)" "wf_stmt (insert_work r5)" "wf_stmt (insert_comp r6)"
  "wf_stmt (insert_event r7)" "wf_stmt (insert_detail r8)"
  by (auto simp: wf_stmt_def insert_defs db_wf_defs pk_insert_def split: if_splits)

text \<open>Statements that rewrite the rows of one table, leaving its keys and references alone.\<close>

lemma map_update_by: "(\<And>r. g (f r) = g r) \<Longrightarrow> map g (update_by key k f rs) = map g rs"
  by (induction rs) (auto simp: update_by_def)

lemma image_update_by: "(\<And>r. g (f r) = g r) \<Longrightarrow> g ` set (update_by key k f rs) = g ` set rs"
  by (metis list.set_map map_update_by)

definition change :: "(tables \<Rightarrow> tables) \<Rightarrow> tables \<Rightarrow> tables option" where
  "change f t = Some (f t)"

text \<open>A column value is read into a buffer of \<open>ntsLength - 1\<close> bytes, the last one the terminator.\<close>

definition BindSelectedColumn :: "string \<Rightarrow> nat \<Rightarrow> string" where
  "BindSelectedColumn s ntsLength = take (ntsLength - 2) s"

lemma column_short [simp]: "length s \<le> n - 2 \<Longrightarrow> BindSelectedColumn s n = s"
  by (simp add: BindSelectedColumn_def)

text \<open>\<open>sum(LocalCurves * B1)\<close> of the rows a condition selects: no value (NULL) without rows.\<close>

definition sum_work :: "(work_row \<Rightarrow> bool) \<Rightarrow> tables \<Rightarrow> double" where
  "sum_work P t = sum_list (map (\<lambda>r. of_int (wd_local r) * wd_b1 r) (filter P (works t)))"

definition select_sum_work :: "(work_row \<Rightarrow> bool) \<Rightarrow> tables \<Rightarrow> double option list" where
  "select_sum_work P t = [if filter P (works t) = [] then None else Some (sum_work P t)]"

lemma select_sum_work_value [simp]:
  "(case hd (select_sum_work P t) of None \<Rightarrow> 0 | Some x \<Rightarrow> x) = sum_work P t"
  by (simp add: select_sum_work_def sum_work_def)

end
