(* ===== verification/Handler.thy ===== *)
theory Handler
  imports SocketIO Database
begin

text \<open>
  What the objects that serve one request share: the database session and the connection to the
  client. Each server component extends this state with its own members.
\<close>

record handler =
  sess :: session
  sock :: helper

definition on_db :: "'a db \<Rightarrow> ('s handler_scheme, 'a) run" where
  "on_db m = part sess (\<lambda>x s. s\<lparr>sess := x\<rparr>) m"

definition on_sock :: "(helper, 'a) run \<Rightarrow> ('s handler_scheme, 'a) run" where
  "on_sock m = part sock (\<lambda>x s. s\<lparr>sock := x\<rparr>) m"

definition say :: "string \<Rightarrow> sval list \<Rightarrow> ('s handler_scheme, unit) run" where
  "say f vs = bind (on_sock (Sendf f vs)) (\<lambda>_. ret ())"

definition listen :: "('s handler_scheme, string option) run" where
  "listen = on_sock Receive"

definition commit :: "('s handler_scheme, unit) run" where
  "commit = modify (\<lambda>s. s\<lparr>sess := Commit (sess s)\<rparr>)"

definition rollback :: "('s handler_scheme, unit) run" where
  "rollback = modify (\<lambda>s. s\<lparr>sess := Rollback (sess s)\<rparr>)"

definition lines_left :: "'s handler_scheme \<Rightarrow> nat" where
  "lines_left s = pending_lines (sock s)"

text \<open>A member of the object that must not be NULL; an answer that reports a failure.\<close>

definition deref :: "('s \<Rightarrow> 'a option) \<Rightarrow> ('s, 'a) run" where
  "deref f = bind (asks f) (\<lambda>p. case p of None \<Rightarrow> stop Undefined | Some x \<Rightarrow> ret x)"

definition fails :: "string \<Rightarrow> sval list \<Rightarrow> ('s handler_scheme, bool) run" where
  "fails f vs = bind (say f vs) (\<lambda>_. ret False)"

text \<open>\<open>strcpy\<close> into a buffer of the given size.\<close>

definition strcpy :: "string \<Rightarrow> nat \<Rightarrow> halt + string" where
  "strcpy s n = (if length s < n then Inr s else Inl Undefined)"

lemma strcpy_simps [simp]: "length s < n \<Longrightarrow> strcpy s n = Inr s"
  by (simp add: strcpy_def)

lemma strcpy_Inr: "strcpy s n = Inr t \<longleftrightarrow> t = s \<and> length s < n"
  by (auto simp: strcpy_def)

lemma on_db_Inr: "on_db m s = Inr (a, s') \<longleftrightarrow> (\<exists>x. m (sess s) = Inr (a, x) \<and> s' = s\<lparr>sess := x\<rparr>)"
  by (simp add: on_db_def part_eq_Inr)

lemma on_sock_Inr: "on_sock m s = Inr (a, s') \<longleftrightarrow> (\<exists>x. m (sock s) = Inr (a, x) \<and> s' = s\<lparr>sock := x\<rparr>)"
  by (simp add: on_sock_def part_eq_Inr)

lemma say_Inr: "say f vs s = Inr (u, s') \<Longrightarrow>
    \<exists>x. s' = s\<lparr>sock := x\<rparr> \<and> incoming x = incoming (sock s)
      \<and> outgoing x = (if so_open (sock s) then outgoing (sock s) @ [sprintf f vs] else outgoing (sock s))"
  by (auto simp: say_def bind_eq_Inr on_sock_Inr Sendf_def dest!: Send_Inr)

lemma listen_Inr: "listen s = Inr (r, s') \<Longrightarrow> \<exists>x. s' = s\<lparr>sock := x\<rparr> \<and> outgoing x = outgoing (sock s)
    \<and> lines_left s' \<le> lines_left s \<and> (r \<noteq> None \<longrightarrow> lines_left s' < lines_left s)"
  by (auto simp: listen_def on_sock_Inr lines_left_def intro!: exI [where x = "sock s'"]
      dest: Receive_more Receive_Some)

text \<open>
  The operations on the session of a handler, seen from the whole state: \<open>db_only\<close> relates states
  whose sessions are related and whose other members, if any are looked at by \<open>V\<close>, agree.
\<close>

definition sess_step :: "(session \<Rightarrow> session \<Rightarrow> bool) \<Rightarrow> 's handler_scheme \<Rightarrow> 's handler_scheme \<Rightarrow> bool" where
  "sess_step R s s' \<longleftrightarrow> R (sess s) (sess s')"

lemma stays_on_db: "stays R m \<Longrightarrow> stays (sess_step R) (on_db m)"
  by (auto simp: stays_def sess_step_def on_db_Inr)

lemma stays_on_sock: "(\<And>s. R s s) \<Longrightarrow> stays (sess_step R) (on_sock m)"
  by (auto simp: stays_def sess_step_def on_sock_Inr)

text \<open>The committed and the current tables keep the schema's keys and references.\<close>

definition keeps_wf :: "session \<Rightarrow> session \<Rightarrow> bool" where
  "keeps_wf s s' \<longleftrightarrow> (db_wf (cur s) \<and> db_wf (saved s) \<longrightarrow> db_wf (cur s') \<and> db_wf (saved s'))"

definition handler_wf :: "'s handler_scheme \<Rightarrow> 's handler_scheme \<Rightarrow> bool" where
  "handler_wf = sess_step keeps_wf"

interpretation hwf: effect handler_wf
  by unfold_locales (auto simp: handler_wf_def sess_step_def keeps_wf_def)

lemmas [wf_intros] = hwf.stays_intros

lemma tx_keeps_wf: "tx_step s s' \<Longrightarrow> keeps_wf s s'"
  by (auto simp: tx_step_def keeps_wf_def)

lemma on_db_wf [wf_intros]: "stays tx_step m \<Longrightarrow> stays handler_wf (on_db m)"
  unfolding handler_wf_def by (rule stays_on_db) (auto simp: stays_def intro: tx_keeps_wf)

lemma on_sock_wf [wf_intros]: "stays handler_wf (on_sock m)" "stays handler_wf (say f vs)" "stays handler_wf listen"
proof -
  show s: "stays handler_wf (on_sock m)" for m
    unfolding handler_wf_def by (rule stays_on_sock) (simp add: keeps_wf_def)
  show "stays handler_wf (say f vs)" "stays handler_wf listen"
    unfolding say_def listen_def by (intro wf_intros s)+
qed

lemma answers_wf [wf_intros]: "stays handler_wf (deref f)" "stays handler_wf (fails t vs)"
  unfolding deref_def fails_def by (intro wf_intros)+

lemma endtran_wf [wf_intros]: "stays handler_wf commit" "stays handler_wf rollback"
  by (auto simp: stays_def handler_wf_def sess_step_def keeps_wf_def commit_def rollback_def
      Commit_def Rollback_def split: prod.splits)

lemma modify_wf [wf_intros]: "(\<And>s. sess (g s) = sess s) \<Longrightarrow> stays handler_wf (modify g)"
  by (simp add: stays_def handler_wf_def sess_step_def keeps_wf_def)

text \<open>Operations that do not read from the connection.\<close>

definition same_input :: "'s handler_scheme \<Rightarrow> 's handler_scheme \<Rightarrow> bool" where
  "same_input s s' \<longleftrightarrow> incoming (sock s') = incoming (sock s)"

interpretation deaf: effect same_input
  by unfold_locales (auto simp: same_input_def)

named_theorems deaf_intros \<open>operations that do not read from the connection\<close>
lemmas [deaf_intros] = deaf.stays_intros

lemma deaf_db [deaf_intros]: "stays same_input (on_db m)"
  by (auto simp: stays_def same_input_def on_db_Inr)

lemma deaf_say [deaf_intros]: "stays same_input (say f vs)"
  by (rule staysI) (auto simp: same_input_def dest!: say_Inr)

lemma deaf_answers [deaf_intros]: "stays same_input (deref f)" "stays same_input (fails t vs)"
  unfolding deref_def fails_def by (intro deaf_intros)+

lemma deaf_endtran [deaf_intros]: "stays same_input commit" "stays same_input rollback"
  by (auto simp: stays_def same_input_def commit_def rollback_def)

lemma deaf_modify: "(\<And>s. sock (g s) = sock s) \<Longrightarrow> stays same_input (modify g)"
  by (simp add: stays_def same_input_def)

lemma same_input_lines: "same_input s s' \<Longrightarrow> lines_left s' = lines_left s"
  by (simp add: same_input_def lines_left_def pending_lines_def)

end
