(* ===== verification/EvalExpr.thy ===== *)
theory EvalExpr
  imports Cstdio
begin

text \<open>
  The expression evaluator \<open>src/source/eval.c\<close>, which gives the decimal length and the PRP
  status of a composite's value. Numbers (\<open>mpz_t\<close>) are integers. The primality test
  \<open>mpz_probab_prime_p\<close> of the GMP library is the parameter \<open>pp\<close>. The primes that \<open>getprime\<close>
  hands out one by one are the list \<open>primes_upto\<close>.
\<close>

section \<open>The operations of the number library that the evaluator uses\<close>

text \<open>\<open>mpz_get_ui\<close> and \<open>mpz_get_si\<close> keep the low bits of a large number (64-bit \<open>long\<close>).\<close>

definition get_ui :: "int \<Rightarrow> int" where
  "get_ui n = \<bar>n\<bar> mod 2 ^ 64"

definition get_si :: "int \<Rightarrow> int" where
  "get_si n = (if 0 \<le> n then n mod 2 ^ 63 else - 1 - ((\<bar>n\<bar> mod 2 ^ 64 - 1) mod 2 ^ 63))"

definition tdiv_q :: "int \<Rightarrow> int \<Rightarrow> int" where
  "tdiv_q a b = sgn a * sgn b * (\<bar>a\<bar> div \<bar>b\<bar>)"

definition tdiv_r :: "int \<Rightarrow> int \<Rightarrow> int" where
  "tdiv_r a b = a - b * tdiv_q a b"

definition prime_b :: "nat \<Rightarrow> bool" where
  "prime_b p \<longleftrightarrow> 1 < p \<and> list_all (\<lambda>d. p mod d \<noteq> 0) [2..<p]"

definition primes_upto :: "int \<Rightarrow> nat list" where
  "primes_upto n = filter prime_b [2..<Suc (nat n)]"

section \<open>Applying the operators\<close>

text \<open>The loop of the multi-factorial; \<open>None\<close> is a loop that never ends.\<close>

partial_function (option) multi_fact :: "int \<Rightarrow> int \<Rightarrow> int \<Rightarrow> int option" where
  "multi_fact n cur decr =
     (if 1 < cur then multi_fact (n * cur) (wrap64 (cur - decr)) decr else Some n)"

declare multi_fact.simps [code]

definition eval_power :: "int \<Rightarrow> int \<Rightarrow> char \<Rightarrow> halt + int" where
  "eval_power prior n op =
     (if op = CHR ''^'' then Inr (prior ^ nat (get_ui n))
      else if op = CHR ''!'' then Inr (fact (nat (get_ui n)))
      else if op = CHR ''@'' then
        (case multi_fact 1 (get_si prior) (get_ui n) of None \<Rightarrow> Inl Hang | Some r \<Rightarrow> Inr r)
      else if op = CHR ''#'' then
        Inr (prod_list (map (\<lambda>p. int p mod 2 ^ 32) (primes_upto (get_si n))))
      else if op = CHR ''$'' then
        Inr (prod_list (map (\<lambda>p. int p mod 2 ^ 32)
               (filter (\<lambda>p. get_ui n \<le> int p) (tl (primes_upto (get_si prior))))))
      else Inr n)"

definition eval_product :: "int \<Rightarrow> int \<Rightarrow> char \<Rightarrow> halt + int" where
  "eval_product prior n op =
     (if op = CHR ''*'' \<or> op = CHR ''.'' then Inr (prior * n)
      else if op = CHR ''/'' then
        (if n = 0 then Inl Undefined
         else if tdiv_r prior n \<noteq> 0 then Inl Exit
         else Inr (tdiv_q prior n))
      else if op = CHR ''%'' then
        (if n = 0 then Inl Undefined else Inr (tdiv_r prior n))
      else Inr n)"

definition eval_sum :: "int \<Rightarrow> int \<Rightarrow> char \<Rightarrow> int" where
  "eval_sum prior n op =
     (if op = CHR ''+'' then prior + n else if op = CHR ''-'' then prior - n else n)"

section \<open>The function Phi\<close>

text \<open>\<open>mpOne\<close> is a static number that only \<open>init_expr\<close> sets to one; no code calls it.\<close>

definition mpOne :: int where "mpOne = 0"

function strip_factor :: "int \<Rightarrow> int \<Rightarrow> int" where
  "strip_factor p B =
     (if 1 < p \<and> 0 < B then (if (B div p) mod p = 0 \<and> B div p \<noteq> 0 then strip_factor p (B div p) else B div p)
      else B)"
  by pat_completeness auto
termination
  by (relation "measure (\<lambda>(p, B). nat B)")
    (auto simp: nat_less_iff int_div_less_self pos_imp_zdiv_nonneg_iff intro: int_div_less_self)

declare strip_factor.simps [simp del]

fun phi_factors :: "nat list \<Rightarrow> int \<Rightarrow> int list" where
  "phi_factors [] B = []"
| "phi_factors (p # ps) B =
     (if int p \<le> B then
        (if B mod int p = 0 then int p # phi_factors ps (strip_factor (int p) B)
         else phi_factors ps B)
      else [])"

text \<open>One Moebius term: the mask \<open>dw\<close> chooses the factors; the exponent and their number.\<close>

fun phi_term :: "int list \<Rightarrow> nat \<Rightarrow> int \<times> nat \<Rightarrow> int \<times> nat" where
  "phi_term [] dw acc = acc"
| "phi_term (f # fs) dw (iPower, iMobius) =
     phi_term fs (dw div 2) (if odd dw then (tdiv_q iPower f, iMobius + 1) else (iPower, iMobius))"

fun phi_products :: "int \<Rightarrow> int list \<Rightarrow> int \<Rightarrow> nat list \<Rightarrow> int \<times> int \<Rightarrow> int \<times> int" where
  "phi_products org fs B [] acc = acc"
| "phi_products org fs B (dw # dws) (n, D) =
     (case phi_term fs dw (B, 0) of (iPower, iMobius) \<Rightarrow>
        let T = org ^ nat (iPower mod 2 ^ 64) - 1
        in phi_products org fs B dws (if odd iMobius then (n, D * T) else (n * T, D)))"

text \<open>Returns the status (0 is failure) and the new value of \<open>n\<close>.\<close>

definition eval_Phi :: "(int \<Rightarrow> int) \<Rightarrow> int \<Rightarrow> int \<Rightarrow> int \<times> int" where
  "eval_Phi pp b n =
     (if n = 1 then (1, if pp b \<noteq> 0 then b else mpOne)
      else if n = - 1 then (0, n)
      else if b = 0 then (0, mpOne)
      else if b = 1 then (1, n - 1)
      else
        let B = wrap32 (get_si b)
        in if b \<noteq> B mod 2 ^ 64 then (0, n)
           else
             let fs = phi_factors (primes_upto B) B
             in case phi_products n fs B [0..<2 ^ length fs] (1, 1) of (N, D) \<Rightarrow> (1, N div D))"

section \<open>The recursive descent parser\<close>

text \<open>
  \<open>expr_str\<close> points into a NUL-terminated buffer: \<open>Some s\<close> with the text up to the terminator,
  \<open>None\<close> once the terminator itself has been consumed; reading there is out of bounds.
\<close>

type_synonym cursor = "string option"

definition NUL :: char where "NUL = CHR 0x00"

definition peek :: "cursor \<Rightarrow> halt + char" where
  "peek cur = (case cur of None \<Rightarrow> Inl Undefined | Some [] \<Rightarrow> Inr NUL | Some (c # _) \<Rightarrow> Inr c)"

definition advance :: "cursor \<Rightarrow> cursor" where
  "advance cur = (case cur of None \<Rightarrow> None | Some [] \<Rightarrow> None | Some (_ # cs) \<Rightarrow> Some cs)"

definition lower :: "char \<Rightarrow> char" where
  "lower c = (if 65 \<le> code c \<and> code c \<le> 90 then char_of (code c + 32) else c)"

definition is_xdigit :: "char \<Rightarrow> bool" where
  "is_xdigit c \<longleftrightarrow> is_digit c \<or> (97 \<le> code (lower c) \<and> code (lower c) \<le> 102)"

definition xdigit_val :: "char \<Rightarrow> nat" where
  "xdigit_val c = (if is_digit c then digit_val c else code (lower c) - 87)"

definition hex_of :: "string \<Rightarrow> nat" where
  "hex_of s = foldl (\<lambda>a c. 16 * a + xdigit_val c) 0 s"

text \<open>
  The locals of one activation of \<open>eval_2\<close>: the number just read and the three stacked
  operands with their pending operators (sum, product, power).
\<close>

record frame =
  cur_n :: int
  n0 :: int
  n1 :: int
  n2 :: int
  op0 :: char
  op1 :: char
  op2 :: char

definition frame0 :: frame where
  "frame0 = \<lparr>cur_n = 0, n0 = 0, n1 = 0, n2 = 0, op0 = NUL, op1 = NUL, op2 = NUL\<rparr>"

text \<open>Closing an expression applies the pending operators from the tightest outwards.\<close>

definition finish :: "frame \<Rightarrow> halt + int" where
  "finish f = and_then (eval_power (n2 f) (cur_n f) (op2 f)) (\<lambda>a.
              and_then (eval_product (n1 f) a (op1 f)) (\<lambda>b.
              Inr (eval_sum (n0 f) b (op0 f))))"

text \<open>Pushing an operator applies the pending ones that bind at least as tightly.\<close>

definition push_power :: "char \<Rightarrow> frame \<Rightarrow> halt + frame" where
  "push_power c f = and_then (eval_power (n2 f) (cur_n f) (op2 f)) (\<lambda>a.
     Inr (f\<lparr>cur_n := a, n2 := a, op2 := c\<rparr>))"

definition push_product :: "char \<Rightarrow> frame \<Rightarrow> halt + frame" where
  "push_product c f = and_then (eval_power (n2 f) (cur_n f) (op2 f)) (\<lambda>a.
     and_then (eval_product (n1 f) a (op1 f)) (\<lambda>b.
     Inr (f\<lparr>cur_n := b, op2 := NUL, n1 := b, op1 := c\<rparr>)))"

definition push_sum :: "char \<Rightarrow> frame \<Rightarrow> halt + frame" where
  "push_sum c f = and_then (finish f) (\<lambda>s.
     Inr (f\<lparr>cur_n := s, op2 := NUL, op1 := NUL, n0 := s, op0 := c\<rparr>))"

definition is_open :: "char \<Rightarrow> bool" where
  "is_open c \<longleftrightarrow> c = CHR ''('' \<or> c = CHR ''['' \<or> c = CHR ''{''"

definition is_close :: "bool \<Rightarrow> char \<Rightarrow> bool" where
  "is_close fp c \<longleftrightarrow> c = NUL \<or> c = CHR '')'' \<or> c = CHR '']'' \<or> c = CHR ''}'' \<or> (c = CHR '','' \<and> fp)"

text \<open>A decimal or \<open>0x\<close> number at the cursor: its value (if any digit was read) and the rest.\<close>

definition read_number :: "string \<Rightarrow> int \<Rightarrow> int \<times> string" where
  "read_number s old =
     (let ds = takeWhile is_digit s; r = dropWhile is_digit s
      in if length ds = 1 \<and> map lower (take 2 s) = ''0x'' then
           (let hs = takeWhile is_xdigit (drop 2 s)
            in (if hs = [] then old else int (hex_of hs), dropWhile is_xdigit (drop 2 s)))
         else (int (num_of ds), r))"

text \<open>
  The control flow of \<open>eval_2\<close> is three entry points that call each other: \<open>CEval\<close> starts an
  activation, \<open>COperand\<close> is the head of its loop (sign, subexpression, function or number),
  \<open>CSuffix\<close> is the code after the label \<open>MONADIC_SUFFIX_LOOP\<close>. Their bodies take the function
  to continue with (\<open>rec\<close>); \<open>eval_run\<close> ties the knot with fuel. The result is the return
  code, the global \<open>t\<close> and the cursor; \<open>fp\<close> is \<open>bInFuncParams\<close>.
\<close>

datatype call = CEval bool int cursor | COperand bool frame int cursor | CSuffix bool frame int cursor

type_synonym ev_result = "halt + int \<times> int \<times> cursor"

definition phi_call :: "(call \<Rightarrow> ev_result) \<Rightarrow> (int \<Rightarrow> int) \<Rightarrow> bool \<Rightarrow> frame \<Rightarrow> int \<Rightarrow> string \<Rightarrow> ev_result" where
  "phi_call rec pp fp f t s =
     and_then (rec (CEval True t (Some (drop 4 s)))) (\<lambda>(r1, b, cur2).
       if r1 \<noteq> 2 then Inr (0, b, cur2)
       else and_then (rec (CEval False b cur2)) (\<lambda>(r2, t', cur3).
         if r2 = 0 then rec (CSuffix fp f t' cur3)
         else (case eval_Phi pp b t' of (ok, v) \<Rightarrow>
                 if ok = 0 then Inr (0, t', cur3)
                 else rec (CSuffix fp (f\<lparr>cur_n := v\<rparr>) t' cur3))))"

definition operand :: "(call \<Rightarrow> ev_result) \<Rightarrow> (int \<Rightarrow> int) \<Rightarrow> bool \<Rightarrow> frame \<Rightarrow> int \<Rightarrow> cursor \<Rightarrow> ev_result" where
  "operand rec pp fp f t cur =
     and_then (peek cur) (\<lambda>c0.
       let negate = (c0 = CHR ''-''); cur1 = (if negate then advance cur else cur)
       in and_then (peek cur1) (\<lambda>c.
         if is_open c then
           and_then (rec (CEval fp t (advance cur1))) (\<lambda>(r, t', cur2).
             rec (CSuffix fp (f\<lparr>cur_n := (if negate then - t' else t')\<rparr>) t' cur2))
         else if is_digit c then
           (case read_number (the cur1) (cur_n f) of (v, rest) \<Rightarrow>
              rec (CSuffix fp (f\<lparr>cur_n := (if negate then - v else v)\<rparr>) t (Some rest)))
         else if map lower (take 4 (the cur1)) = ''phi('' then phi_call rec pp fp f t (the cur1)
         else Inr (0, t, cur1)))"

definition suffix :: "(call \<Rightarrow> ev_result) \<Rightarrow> bool \<Rightarrow> frame \<Rightarrow> int \<Rightarrow> cursor \<Rightarrow> ev_result" where
  "suffix rec fp f t cur =
     and_then (peek cur) (\<lambda>c.
       let cur1 = advance cur
       in if is_close fp c then
            and_then (finish f) (\<lambda>v. Inr (if c = CHR '','' then 2 else 1, v, cur1))
          else if c = CHR ''^'' then
            and_then (push_power (CHR ''^'') f) (\<lambda>f'. rec (COperand fp f' t cur1))
          else if c = CHR ''!'' \<or> c = CHR ''#'' then
            and_then (peek cur1) (\<lambda>d.
              if \<not> is_digit d then rec (CSuffix fp (f\<lparr>n2 := cur_n f, op2 := c\<rparr>) t cur1)
              else and_then (push_power (if c = CHR ''!'' then CHR ''@'' else CHR ''$'') f)
                     (\<lambda>f'. rec (COperand fp f' t cur1)))
          else if c = CHR ''.'' \<or> c = CHR ''*'' \<or> c = CHR ''/'' \<or> c = CHR ''%'' then
            and_then (push_product c f) (\<lambda>f'. rec (COperand fp f' t cur1))
          else if c = CHR ''+'' \<or> c = CHR ''-'' then
            and_then (push_sum c f) (\<lambda>f'. rec (COperand fp f' t cur1))
          else Inr (0, t, cur1))"

primrec eval_run :: "(int \<Rightarrow> int) \<Rightarrow> nat \<Rightarrow> call \<Rightarrow> ev_result" where
  "eval_run pp 0 call = Inl Fuel"
| "eval_run pp (Suc k) call =
     (case call of
        CEval fp t cur \<Rightarrow> eval_run pp k (COperand fp frame0 t cur)
      | COperand fp f t cur \<Rightarrow> operand (eval_run pp k) pp fp f t cur
      | CSuffix fp f t cur \<Rightarrow> suffix (eval_run pp k) fp f t cur)"

definition eval_2 :: "(int \<Rightarrow> int) \<Rightarrow> nat \<Rightarrow> bool \<Rightarrow> int \<Rightarrow> cursor \<Rightarrow> ev_result" where
  "eval_2 pp k fp t cur = eval_run pp k (CEval fp t cur)"

text \<open>
  \<open>eval_str\<close>: the decimal length (with the sign) and, when the expression was accepted, the
  result of the probable prime test; \<open>None\<close> means that \<open>*isPRP\<close> was not written.
\<close>

definition eval_fuel :: "string \<Rightarrow> nat" where
  "eval_fuel s = 3 * length s + 3"

definition eval_value :: "(int \<Rightarrow> int) \<Rightarrow> string \<Rightarrow> halt + int \<times> int" where
  "eval_value pp s = and_then (eval_2 pp (eval_fuel s) False 0 (Some s)) (\<lambda>(r, t, cur). Inr (r, t))"

definition eval_str :: "(int \<Rightarrow> int) \<Rightarrow> string \<Rightarrow> halt + int \<times> int option" where
  "eval_str pp s =
     and_then (eval_value pp s) (\<lambda>(r, t).
       if r = 0 then Inr (0, None) else Inr (int (length (show_int t)), Some (pp t)))"

end
