(* ===== verification/CompositeObj.thy ===== *)
theory CompositeObj
  imports Database EvalExpr
begin

text \<open>
  \<open>src/source/Composite.cpp\<close> and \<open>Composite.h\<close>: the object a request handler keeps for one row of
  the \<open>Composite\<close> table. The members with no value before they are first assigned are \<open>co_prp\<close>
  (an option) and \<open>id_Difficulty\<close>, which is only written before it is read.
\<close>

record composite =
  co_name :: string
  co_value :: string
  co_master :: string
  co_length :: int
  co_sent :: int
  co_found :: bool
  co_verified :: bool
  co_prp :: "int option"
  co_events :: int
  co_difficulty :: double

definition Composite :: "string \<Rightarrow> bool \<Rightarrow> composite db" where
  "Composite compositeName hasBeenVerifiedAgainstMaster =
     bind (FetchRow [PStr compositeName NAME_LENGTH]
            (\<lambda>t. filter (\<lambda>r. cp_name r = compositeName) (comps t)))
       (\<lambda>row. ret (case row of
            Some r \<Rightarrow> \<lparr>co_name = compositeName, co_value = BindSelectedColumn (cp_value r) VALUE_LENGTH,
              co_master = BindSelectedColumn (cp_master r) NAME_LENGTH, co_length = cp_len r,
              co_sent = cp_sent r, co_found = True, co_verified = hasBeenVerifiedAgainstMaster,
              co_prp = None, co_events = cp_events r, co_difficulty = 0\<rparr>
          | None \<Rightarrow> \<lparr>co_name = compositeName, co_value = '''', co_master = '''', co_length = 0,
              co_sent = 0, co_found = False, co_verified = hasBeenVerifiedAgainstMaster,
              co_prp = None, co_events = 0, co_difficulty = 0\<rparr>))"

definition ComputeDecimalLengthAndPRPTest :: "(int \<Rightarrow> int) \<Rightarrow> composite \<Rightarrow> halt + composite" where
  "ComputeDecimalLengthAndPRPTest pp c =
     and_then (eval_str pp (co_value c)) (\<lambda>(len, prp). Inr (c\<lparr>co_length := len, co_prp := prp\<rparr>))"

definition SetValue :: "(int \<Rightarrow> int) \<Rightarrow> string \<Rightarrow> composite \<Rightarrow> halt + bool \<times> composite" where
  "SetValue pp compositeValue c =
     (if co_found c then Inr (co_value c = compositeValue, c)
      else
        let c1 = c\<lparr>co_value := compositeValue\<rparr>
        in if \<not> co_verified c1 \<or> co_length c1 = 0
           then and_then (ComputeDecimalLengthAndPRPTest pp c1) (\<lambda>c2. Inr (True, c2))
           else Inr (True, c1))"

definition SetMasterCompositeName :: "string \<Rightarrow> composite \<Rightarrow> bool \<times> composite" where
  "SetMasterCompositeName masterCompositeName c =
     (if \<not> co_found c then (True, c\<lparr>co_master := masterCompositeName, co_verified := True\<rparr>)
      else if masterCompositeName \<noteq> co_master c then (False, c)
      else (True, c\<lparr>co_verified := True\<rparr>))"

definition CompositeIsMasterComposite :: "composite \<Rightarrow> bool" where
  "CompositeIsMasterComposite c \<longleftrightarrow> co_master c = co_name c"

definition NextFactorEvent :: "composite \<Rightarrow> int \<times> composite" where
  "NextFactorEvent c = (co_events c + 1, c\<lparr>co_events := co_events c + 1\<rparr>)"

definition comp_SetLastSendTime :: "int \<Rightarrow> composite \<Rightarrow> composite" where
  "comp_SetLastSendTime time c = c\<lparr>co_sent := time\<rparr>"

definition update_comp :: "composite \<Rightarrow> tables \<Rightarrow> tables option" where
  "update_comp c = change (\<lambda>t. t\<lparr>comps := update_by cp_name (co_name c)
     (\<lambda>r. r\<lparr>cp_events := co_events c, cp_len := co_length c, cp_difficulty := co_difficulty c,
            cp_sent := co_sent c\<rparr>) (comps t)\<rparr>)"

definition comp_Update :: "composite \<Rightarrow> bool db" where
  "comp_Update c =
     Execute [PInt (co_events c), PInt (co_length c), PDbl (co_difficulty c), PBig (co_sent c),
              PStr (co_name c) NAME_LENGTH]
       (update_comp c)"

definition comp_Insert :: "composite \<Rightarrow> (bool \<times> composite) db" where
  "comp_Insert c =
     bind (Execute [PStr (co_name c) NAME_LENGTH, PStr (co_value c) VALUE_LENGTH, PInt (co_length c),
              PDbl (co_difficulty c), PInt (co_events c), PBig (co_sent c), PStr (co_master c) NAME_LENGTH]
            (insert_comp \<lparr>cp_name = co_name c, cp_value = co_value c, cp_master = co_master c,
               cp_events = co_events c, cp_len = co_length c, cp_difficulty = co_difficulty c,
               cp_sent = co_sent c\<rparr>))
       (\<lambda>success. ret (success, if success then c\<lparr>co_found := True\<rparr> else c))"

definition comp_FinalizeChanges :: "composite \<Rightarrow> (bool \<times> composite) db" where
  "comp_FinalizeChanges c =
     (if co_length c = 0 then ret (False, c)
      else if \<not> co_verified c then ret (False, c)
      else bind (FetchRow [PStr (co_master c) NAME_LENGTH] (select_sum_work (\<lambda>r. wd_master r = co_master c)))
        (\<lambda>row. case row of
             None \<Rightarrow> ret (False, c)
           | Some summed \<Rightarrow>
               let totalWorkDone = (case summed of None \<Rightarrow> 0 | Some x \<Rightarrow> x);
                   c1 = c\<lparr>co_difficulty := of_int (co_length c) * of_int (co_length c) * totalWorkDone\<rparr>
               in if co_found c1 then bind (comp_Update c1) (\<lambda>success. ret (success, c1))
                  else comp_Insert c1))"

lemma wf_update_comp [wf_intros]: "wf_stmt (update_comp c)"
  by (auto simp: wf_stmt_def update_comp_def change_def db_wf_defs map_update_by image_update_by)

lemma tx_comp [tx_intros]:
  "stays tx_step (Composite n v)" "stays tx_step (comp_Update c)" "stays tx_step (comp_Insert c)"
  "stays tx_step (comp_FinalizeChanges c)"
proof -
  show u: "stays tx_step (comp_Update c)" and i: "stays tx_step (comp_Insert c)" for c
    by (auto simp: comp_Update_def comp_Insert_def intro!: tx_intros wf_intros)
  show "stays tx_step (Composite n v)"
    by (auto simp: Composite_def intro!: tx_intros)
  show "stays tx_step (comp_FinalizeChanges c)"
    by (auto simp: comp_FinalizeChanges_def Let_def intro!: tx_intros u i)
qed

text \<open>The object of a row the table holds, and of a name it does not hold.\<close>

lemma Composite_Inr: "Composite n v s = Inr (c, s') \<Longrightarrow>
    co_name c = n \<and> co_verified c = v
    \<and> (co_found c \<longrightarrow> (\<exists>r \<in> set (comps (cur s)). cp_name r = n \<and> co_events c = cp_events r
         \<and> co_master c = BindSelectedColumn (cp_master r) NAME_LENGTH \<and> co_length c = cp_len r))"
  unfolding Composite_def
  by (auto simp: bind_eq_Inr dest!: FetchRow_Inr split: option.splits)
    (metis (mono_tags, lifting) filter_eq_Cons_iff in_set_conv_decomp)

end
