(* ===== verification/MasterObj.thy ===== *)
theory MasterObj
  imports Database EvalExpr
begin

text \<open>
  \<open>src/source/MasterComposite.cpp\<close> and \<open>MasterComposite.h\<close>: the object for one row of
  \<open>MasterComposite\<close>, the work done by method and B1, and the flags that tell the slaves.
  \<open>ms_send\<close> has no value in an object whose row was not found until the program sets it, and
  writing the row with such an object is undefined. The lock is a semaphore private to the
  object and constrains nothing; it is not part of the state.
\<close>

record master =
  ms_name :: string
  ms_value :: string
  ms_factors :: int
  ms_recurse :: int
  ms_length :: int
  ms_updated :: int
  ms_found :: bool
  ms_fully :: bool
  ms_active :: bool
  ms_send :: "bool option"
  ms_work :: double

definition MasterComposite :: "string \<Rightarrow> master db" where
  "MasterComposite masterCompositeName =
     bind (FetchRow [PStr masterCompositeName NAME_LENGTH]
            (\<lambda>t. filter (\<lambda>r. mc_name r = masterCompositeName) (masters t)))
       (\<lambda>row. bind (asks now) (\<lambda>time. ret (case row of
            Some r \<Rightarrow> \<lparr>ms_name = masterCompositeName, ms_value = BindSelectedColumn (mc_value r) VALUE_LENGTH,
              ms_factors = mc_factors r, ms_recurse = mc_recurse r, ms_length = mc_len r,
              ms_updated = mc_updated r, ms_found = True, ms_fully = (mc_fully r = 1),
              ms_active = (mc_active r = 1), ms_send = Some (mc_to_master r = 1), ms_work = 0\<rparr>
          | None \<Rightarrow> \<lparr>ms_name = masterCompositeName, ms_value = '''', ms_factors = 0, ms_recurse = 0,
              ms_length = 0, ms_updated = time, ms_found = False, ms_fully = False, ms_active = True,
              ms_send = None, ms_work = 0\<rparr>)))"

definition SetActive :: "bool \<Rightarrow> master \<Rightarrow> master" where
  "SetActive isActive m = m\<lparr>ms_active := isActive\<rparr>"

definition SetLastUpdateTime :: "int \<Rightarrow> master \<Rightarrow> master" where
  "SetLastUpdateTime time m = m\<lparr>ms_updated := time\<rparr>"

definition SetSendUpdatesToMaster :: "bool \<Rightarrow> master \<Rightarrow> master" where
  "SetSendUpdatesToMaster sendUpdates m = m\<lparr>ms_send := Some sendUpdates\<rparr>"

definition master_IncrementFactorCount :: "master \<Rightarrow> master" where
  "master_IncrementFactorCount m = m\<lparr>ms_factors := ms_factors m + 1\<rparr>"

definition ResetFactorCount :: "master \<Rightarrow> master" where
  "ResetFactorCount m = m\<lparr>ms_factors := 0\<rparr>"

definition ComputeDecimalLength :: "(int \<Rightarrow> int) \<Rightarrow> master \<Rightarrow> halt + master" where
  "ComputeDecimalLength pp m =
     and_then (eval_str pp (ms_value m)) (\<lambda>(len, ignore). Inr (m\<lparr>ms_length := len\<rparr>))"

text \<open>The test compares the new value with the name of the object.\<close>

definition master_SetValue :: "(int \<Rightarrow> int) \<Rightarrow> string \<Rightarrow> master \<Rightarrow> halt + bool \<times> master" where
  "master_SetValue pp masterCompositeValue m =
     (if ms_found m \<and> ms_name m \<noteq> masterCompositeValue then Inr (False, m)
      else and_then (ComputeDecimalLength pp (m\<lparr>ms_value := masterCompositeValue\<rparr>))
             (\<lambda>m1. Inr (True, m1)))"

definition flag :: "bool \<Rightarrow> int" where
  "flag b = (if b then 1 else 0)"

definition update_master :: "master \<Rightarrow> bool \<Rightarrow> tables \<Rightarrow> tables option" where
  "update_master m sendUpdates = change (\<lambda>t. t\<lparr>masters := update_by mc_name (ms_name m)
     (\<lambda>r. r\<lparr>mc_fully := flag (ms_fully m), mc_factors := ms_factors m, mc_recurse := ms_recurse m,
            mc_len := ms_length m, mc_work := ms_work m, mc_updated := ms_updated m,
            mc_to_master := flag sendUpdates, mc_active := flag (ms_active m)\<rparr>) (masters t)\<rparr>)"

definition master_Update :: "master \<Rightarrow> bool db" where
  "master_Update m = (case ms_send m of
       None \<Rightarrow> stop Undefined
     | Some sendUpdates \<Rightarrow>
         Execute [PInt (flag (ms_fully m)), PInt (ms_factors m), PInt (ms_recurse m), PInt (ms_length m),
                  PDbl (ms_work m), PBig (ms_updated m), PInt (flag sendUpdates), PInt (flag (ms_active m)),
                  PStr (ms_name m) NAME_LENGTH]
           (update_master m sendUpdates))"

definition master_Insert :: "master \<Rightarrow> (bool \<times> master) db" where
  "master_Insert m =
     bind (Execute [PStr (ms_name m) NAME_LENGTH, PStr (ms_value m) VALUE_LENGTH, PInt (flag (ms_fully m)),
              PInt (ms_factors m), PInt (ms_recurse m), PInt (ms_length m), PDbl (ms_work m),
              PBig (ms_updated m), PInt (flag (ms_active m))]
            (insert_master \<lparr>mc_name = ms_name m, mc_value = ms_value m, mc_active = flag (ms_active m),
               mc_fully = flag (ms_fully m), mc_factors = ms_factors m, mc_recurse = ms_recurse m,
               mc_len = ms_length m, mc_work = ms_work m, mc_updated = ms_updated m, mc_to_master = 0\<rparr>))
       (\<lambda>success. ret (success, if success then m\<lparr>ms_found := True\<rparr> else m))"

definition master_FinalizeChanges :: "master \<Rightarrow> (bool \<times> master) db" where
  "master_FinalizeChanges m =
     (if ms_length m = 0 then ret (False, m)
      else if ms_found m then
        bind (FetchRow [PStr (ms_name m) NAME_LENGTH, PStr FM_ECM METHOD_LENGTH]
               (select_sum_work (\<lambda>r. wd_master r = ms_name m \<and> wd_method r = FM_ECM)))
          (\<lambda>row. case row of
               None \<Rightarrow> ret (False, m)
             | Some summed \<Rightarrow>
                 let m1 = (case summed of None \<Rightarrow> m | Some x \<Rightarrow> m\<lparr>ms_work := x\<rparr>)
                 in bind (master_Update m1) (\<lambda>success. ret (success, m1)))
      else master_Insert m)"

text \<open>The three ways a row of work done is written.\<close>

definition InsertWorkDoneFromMaster :: "string \<Rightarrow> double \<Rightarrow> int \<Rightarrow> master \<Rightarrow> bool db" where
  "InsertWorkDoneFromMaster factorMethod b1 curvesDone m =
     Execute [PStr (ms_name m) NAME_LENGTH, PStr factorMethod METHOD_LENGTH, PDbl b1, PInt curvesDone]
       (insert_work \<lparr>wd_master = ms_name m, wd_method = factorMethod, wd_b1 = b1, wd_unreported = 0,
          wd_local = curvesDone\<rparr>)"

definition AddWorkDoneFromUpgrade :: "string \<Rightarrow> double \<Rightarrow> int \<Rightarrow> int \<Rightarrow> master \<Rightarrow> bool db" where
  "AddWorkDoneFromUpgrade factorMethod b1 curvesToMaster curvesDone m =
     Execute [PStr (ms_name m) NAME_LENGTH, PStr factorMethod METHOD_LENGTH, PDbl b1, PInt curvesToMaster,
              PInt curvesDone]
       (insert_work \<lparr>wd_master = ms_name m, wd_method = factorMethod, wd_b1 = b1,
          wd_unreported = curvesToMaster, wd_local = curvesDone\<rparr>)"

definition count_rows :: "('r \<Rightarrow> bool) \<Rightarrow> 'r list \<Rightarrow> int" where
  "count_rows P rs = int (length (filter P rs))"

definition add_curves :: "string \<times> string \<times> double \<Rightarrow> int \<Rightarrow> tables \<Rightarrow> tables option" where
  "add_curves key curvesDone = change (\<lambda>t. t\<lparr>works := update_by work_key key
     (\<lambda>r. r\<lparr>wd_unreported := wd_unreported r + curvesDone, wd_local := wd_local r + curvesDone\<rparr>)
     (works t)\<rparr>)"

definition AddWorkDone :: "string \<Rightarrow> double \<Rightarrow> int \<Rightarrow> master \<Rightarrow> bool db" where
  "AddWorkDone factorMethod b1 curvesDone m =
     bind (FetchRow [PStr (ms_name m) NAME_LENGTH, PStr factorMethod METHOD_LENGTH, PDbl b1]
            (\<lambda>t. [count_rows (\<lambda>r. work_key r = (ms_name m, factorMethod, b1)) (works t)]))
       (\<lambda>row. if (case row of None \<Rightarrow> False | Some rows \<Rightarrow> rows > 0)
          then Execute [PInt curvesDone, PInt curvesDone, PStr (ms_name m) NAME_LENGTH,
                        PStr factorMethod METHOD_LENGTH, PDbl b1]
                 (add_curves (ms_name m, factorMethod, b1) curvesDone)
          else Execute [PStr (ms_name m) NAME_LENGTH, PStr factorMethod METHOD_LENGTH, PDbl b1,
                        PInt curvesDone, PInt curvesDone]
                 (insert_work \<lparr>wd_master = ms_name m, wd_method = factorMethod, wd_b1 = b1,
                    wd_unreported = curvesDone, wd_local = curvesDone\<rparr>))"

text \<open>Composites of a master without a factor event, and composite factors not yet recursed.\<close>

definition unfactored :: "string \<Rightarrow> tables \<Rightarrow> int" where
  "unfactored name t = count_rows (\<lambda>c. cp_master c = name \<and> cp_events c = 0) (comps t)"

definition unrecursed :: "string \<Rightarrow> tables \<Rightarrow> int" where
  "unrecursed name t =
     int (length [(c, e, d). c \<leftarrow> comps t, cp_master c = name, e \<leftarrow> events t, cp_name c = ev_comp e,
                             d \<leftarrow> details t, cp_name c = dt_comp d, dt_event d = ev_no e,
                             dt_recursed d = 0, dt_prp d = 0])"

definition UpdateIfFullyFactored :: "master \<Rightarrow> (bool \<times> master) db" where
  "UpdateIfFullyFactored m =
     bind (FetchRow [PStr (ms_name m) NAME_LENGTH] (\<lambda>t. [unfactored (ms_name m) t]))
       (\<lambda>row1. if (case row1 of None \<Rightarrow> True | Some rows \<Rightarrow> rows > 0) then ret (True, m)
          else bind (FetchRow [PStr (ms_name m) NAME_LENGTH, PInt 0] (\<lambda>t. [unrecursed (ms_name m) t]))
            (\<lambda>row2. if (case row2 of None \<Rightarrow> True | Some rows \<Rightarrow> rows > 0) then ret (True, m)
               else let m1 = m\<lparr>ms_fully := True\<rparr>
                    in bind (master_Update m1) (\<lambda>success. ret (success, m1))))"

definition flag_slaves :: "(sync_row \<Rightarrow> bool) \<Rightarrow> int \<Rightarrow> tables \<Rightarrow> tables option" where
  "flag_slaves P v = change (\<lambda>t. t\<lparr>syncs := map (\<lambda>r. if P r then r\<lparr>ss_send := v\<rparr> else r) (syncs t)\<rparr>)"

definition SendUpdatesToAllSlaves :: "master \<Rightarrow> bool db" where
  "SendUpdatesToAllSlaves m =
     Execute [PStr (ms_name m) NAME_LENGTH] (flag_slaves (\<lambda>r. ss_master r = ms_name m) 1)"

definition SentUpdateToSlave :: "string \<Rightarrow> master \<Rightarrow> bool db" where
  "SentUpdateToSlave slaveID m =
     Execute [PStr (ms_name m) NAME_LENGTH, PStr slaveID ID_LENGTH]
       (flag_slaves (\<lambda>r. ss_master r = ms_name m \<and> ss_slave r = slaveID) 0)"

text \<open>The name of the lock is formatted into 200 bytes.\<close>

definition Lock :: "string \<Rightarrow> master \<Rightarrow> ('s, unit) run" where
  "Lock serverID m =
     (if length serverID + 1 + length (ms_name m) < NAME_LENGTH * 2 then ret () else stop Undefined)"

section \<open>Keys and references are kept\<close>

lemma wf_update_master [wf_intros]: "wf_stmt (update_master m b)"
  by (auto simp: wf_stmt_def update_master_def change_def db_wf_defs map_update_by image_update_by)

lemma wf_add_curves [wf_intros]: "wf_stmt (add_curves k n)"
  by (auto simp: wf_stmt_def add_curves_def change_def db_wf_defs map_update_by image_update_by work_key_def)

lemma wf_flag_slaves [wf_intros]: "wf_stmt (flag_slaves P v)"
proof -
  have "map sync_key (map (\<lambda>r. if P r then r\<lparr>ss_send := v\<rparr> else r) rs) = map sync_key rs" for rs
    by (induction rs) (auto simp: sync_key_def)
  then show ?thesis
    by (auto simp: wf_stmt_def flag_slaves_def change_def db_wf_defs simp del: map_map)
qed

lemma tx_master [tx_intros]:
  "stays tx_step (MasterComposite n)" "stays tx_step (master_Update m)" "stays tx_step (master_Insert m)"
  "stays tx_step (master_FinalizeChanges m)" "stays tx_step (InsertWorkDoneFromMaster f b k m)"
  "stays tx_step (AddWorkDoneFromUpgrade f b k k' m)" "stays tx_step (AddWorkDone f b k m)"
  "stays tx_step (UpdateIfFullyFactored m)" "stays tx_step (SendUpdatesToAllSlaves m)"
  "stays tx_step (SentUpdateToSlave sl m)"
proof -
  show u: "stays tx_step (master_Update m)" for m
    by (auto simp: master_Update_def intro!: tx_intros wf_intros)
  show i: "stays tx_step (master_Insert m)" for m
    by (auto simp: master_Insert_def intro!: tx_intros wf_intros)
  show "stays tx_step (MasterComposite n)"
    by (auto simp: MasterComposite_def intro!: tx_intros)
  show "stays tx_step (master_FinalizeChanges m)"
    by (auto simp: master_FinalizeChanges_def Let_def intro!: tx_intros u i)
  show "stays tx_step (InsertWorkDoneFromMaster f b k m)" "stays tx_step (AddWorkDoneFromUpgrade f b k k' m)"
    by (auto simp: InsertWorkDoneFromMaster_def AddWorkDoneFromUpgrade_def intro!: tx_intros wf_intros)
  show "stays tx_step (AddWorkDone f b k m)"
    unfolding AddWorkDone_def by (intro tx_intros wf_intros)
  show "stays tx_step (UpdateIfFullyFactored m)"
    unfolding UpdateIfFullyFactored_def Let_def by (intro tx_intros wf_intros u)
  show "stays tx_step (SendUpdatesToAllSlaves m)" "stays tx_step (SentUpdateToSlave sl m)"
    by (auto simp: SendUpdatesToAllSlaves_def SentUpdateToSlave_def intro!: tx_intros wf_intros)
qed

end
