(* ===== verification/FactorEvent.thy ===== *)
theory FactorEvent
  imports Database EvalExpr
begin

text \<open>
  \<open>src/source/CompositeFactorEvent.cpp\<close> and \<open>CompositeFactorEvent.h\<close>: a factor event and the at
  most \<open>MAX_FACTORS\<close> factors reported with it. \<open>ib_DuplicateEvent\<close> has no value until the first
  detail is added, and is not read before that.
\<close>

definition MAX_FACTORS :: nat where "MAX_FACTORS = 4"

record cfeDetail =
  cf_value :: string
  cf_len :: int
  cf_prp :: int

record factor_event =
  fe_comp :: string
  fe_no :: int
  fe_date :: int
  fe_email :: string
  fe_user :: string
  fe_machine :: string
  fe_instance :: string
  fe_server :: string
  fe_sent :: bool
  fe_method :: string
  fe_step :: int
  fe_b1 :: double
  fe_b1time :: double
  fe_b2 :: double
  fe_b2time :: double
  fe_sigma :: int
  fe_x0 :: int
  fe_duplicate :: bool
  fe_factors :: "cfeDetail list"

definition CompositeFactorEvent :: "string \<Rightarrow> int \<Rightarrow> int \<Rightarrow> factor_event" where
  "CompositeFactorEvent compositeName factorEvent reportedDate =
     \<lparr>fe_comp = compositeName, fe_no = factorEvent, fe_date = reportedDate, fe_email = '''', fe_user = '''',
      fe_machine = '''', fe_instance = '''', fe_server = '''', fe_sent = False, fe_method = '''', fe_step = 0,
      fe_b1 = 0, fe_b1time = 0, fe_b2 = 0, fe_b2time = 0, fe_sigma = 0, fe_x0 = 0, fe_duplicate = False,
      fe_factors = []\<rparr>"

definition SetIDs :: "string \<Rightarrow> string \<Rightarrow> string \<Rightarrow> string \<Rightarrow> string \<Rightarrow> factor_event \<Rightarrow> factor_event" where
  "SetIDs emailID userID machineID instanceID serverID e =
     e\<lparr>fe_email := emailID, fe_user := userID, fe_machine := machineID, fe_instance := instanceID,
       fe_server := serverID\<rparr>"

definition SetMethodB1 :: "string \<Rightarrow> double \<Rightarrow> factor_event \<Rightarrow> factor_event" where
  "SetMethodB1 factorMethod b1 e = e\<lparr>fe_method := factorMethod, fe_b1 := b1\<rparr>"

definition SetSigma :: "int \<Rightarrow> factor_event \<Rightarrow> factor_event" where
  "SetSigma sigma e = e\<lparr>fe_sigma := sigma\<rparr>"

definition SetSentToMaster :: "bool \<Rightarrow> factor_event \<Rightarrow> factor_event" where
  "SetSentToMaster sentToMaster e = e\<lparr>fe_sent := sentToMaster\<rparr>"

definition SetCurveDetail ::
    "string \<Rightarrow> int \<Rightarrow> double \<Rightarrow> double \<Rightarrow> double \<Rightarrow> double \<Rightarrow> int \<Rightarrow> int \<Rightarrow> factor_event \<Rightarrow> factor_event" where
  "SetCurveDetail factorMethod factorStep b1 b1Time b2 b2Time sigma x0 e =
     e\<lparr>fe_method := factorMethod, fe_step := factorStep, fe_b1 := b1, fe_b1time := b1Time, fe_b2 := b2,
       fe_b2time := b2Time, fe_sigma := sigma, fe_x0 := x0\<rparr>"

definition GetFactorCount :: "factor_event \<Rightarrow> int" where
  "GetFactorCount e = int (length (fe_factors e))"

text \<open>
  A fifth detail is written past the end of \<open>ip_Factors\<close>.
\<close>

definition AddEventDetailWith :: "string \<Rightarrow> int \<Rightarrow> int \<Rightarrow> factor_event \<Rightarrow> factor_event db" where
  "AddEventDetailWith value len prp e =
     bind (FetchRow [PStr (fe_comp e) NAME_LENGTH, PStr value VALUE_LENGTH]
            (\<lambda>t. map dt_event (filter (\<lambda>d. dt_comp d = fe_comp e \<and> dt_value d = value) (details t))))
       (\<lambda>row.
          let duplicate = (case row of None \<Rightarrow> False | Some factorEvent \<Rightarrow> factorEvent > 0)
          in if length (fe_factors e) < MAX_FACTORS
             then ret (e\<lparr>fe_duplicate := duplicate,
                         fe_factors := fe_factors e @ [\<lparr>cf_value = value, cf_len = len, cf_prp = prp\<rparr>]\<rparr>)
             else stop Undefined)"

text \<open>The result of the primality test has no value when the factor is not a valid expression.\<close>

definition AddEventDetail :: "(int \<Rightarrow> int) \<Rightarrow> string \<Rightarrow> factor_event \<Rightarrow> factor_event db" where
  "AddEventDetail pp value e =
     bind (lift (eval_str pp value)) (\<lambda>(len, prp). case prp of
         None \<Rightarrow> stop Undefined
       | Some p \<Rightarrow> AddEventDetailWith value len p e)"

definition event_row_of :: "factor_event \<Rightarrow> event_row" where
  "event_row_of e =
     \<lparr>ev_comp = fe_comp e, ev_no = fe_no e, ev_date = fe_date e, ev_email = fe_email e, ev_user = fe_user e,
      ev_machine = fe_machine e, ev_instance = fe_instance e, ev_server = fe_server e,
      ev_to_master = (if fe_sent e then 1 else 0), ev_emailed = 0,
      ev_duplicate = (if fe_duplicate e then 1 else 0), ev_method = fe_method e, ev_step = fe_step e,
      ev_b1 = fe_b1 e, ev_b1time = fe_b1time e, ev_b2 = fe_b2 e, ev_b2time = fe_b2time e,
      ev_sigma = fe_sigma e, ev_x0 = fe_x0 e\<rparr>"

definition InsertEvent :: "factor_event \<Rightarrow> bool db" where
  "InsertEvent e =
     (if fe_factors e = [] then ret False
      else Execute [PStr (fe_comp e) NAME_LENGTH, PInt (fe_no e), PBig (fe_date e), PStr (fe_email e) ID_LENGTH,
             PStr (fe_user e) ID_LENGTH, PStr (fe_machine e) ID_LENGTH, PStr (fe_instance e) ID_LENGTH,
             PStr (fe_server e) ID_LENGTH, PInt (if fe_sent e then 1 else 0),
             PInt (if fe_duplicate e then 1 else 0), PStr (fe_method e) METHOD_LENGTH, PInt (fe_step e),
             PDbl (fe_b1 e), PDbl (fe_b1time e), PDbl (fe_b2 e), PDbl (fe_b2time e), PBig (fe_sigma e),
             PBig (fe_x0 e)]
           (insert_event (event_row_of e)))"

text \<open>The loop over the details keeps the result of the last insert only.\<close>

primrec insert_details :: "factor_event \<Rightarrow> cfeDetail list \<Rightarrow> int \<Rightarrow> bool \<Rightarrow> bool db" where
  "insert_details e [] index success = ret success"
| "insert_details e (f # fs) index success =
     bind (Execute [PStr (fe_comp e) NAME_LENGTH, PInt (fe_no e), PInt (index + 1),
              PStr (cf_value f) VALUE_LENGTH, PInt (cf_len f), PInt (cf_prp f)]
            (insert_detail \<lparr>dt_comp = fe_comp e, dt_event = fe_no e, dt_seq = index + 1,
               dt_value = cf_value f, dt_len = cf_len f, dt_prp = cf_prp f,
               dt_recursed = 0\<rparr>))
       (insert_details e fs (index + 1))"

definition InsertEventDetails :: "factor_event \<Rightarrow> bool db" where
  "InsertEventDetails e = insert_details e (fe_factors e) 0 True"

definition event_FinalizeChanges :: "factor_event \<Rightarrow> bool db" where
  "event_FinalizeChanges e =
     bind (InsertEvent e) (\<lambda>inserted. if inserted then InsertEventDetails e else ret False)"

lemma tx_insert_details: "stays tx_step (insert_details e fs i b)"
  by (induction fs arbitrary: i b) (auto intro!: tx_intros wf_intros)

lemma tx_event [tx_intros]:
  "stays tx_step (AddEventDetailWith v l p e)" "stays tx_step (AddEventDetail pp v e)"
  "stays tx_step (InsertEvent e)" "stays tx_step (event_FinalizeChanges e)"
proof -
  show w: "stays tx_step (AddEventDetailWith v l p e)" for v l p e
    unfolding AddEventDetailWith_def Let_def by (intro tx_intros)
  show "stays tx_step (AddEventDetail pp v e)"
    unfolding AddEventDetail_def by (intro tx_intros w)
  show i: "stays tx_step (InsertEvent e)"
    unfolding InsertEvent_def by (intro tx_intros wf_intros)
  show "stays tx_step (event_FinalizeChanges e)"
    unfolding event_FinalizeChanges_def InsertEventDetails_def by (intro tx_intros i tx_insert_details)
qed

end
