(* ===== verification/UserStatsObj.thy ===== *)
theory UserStatsObj
  imports Database
begin

text \<open>
  \<open>src/source/UserStats.cpp\<close> and \<open>UserStats.h\<close>: the counters of one user, since the last report
  to the master server and in total.
\<close>

record stats =
  st_user :: string
  st_found :: bool
  st_work :: double
  st_factors :: int
  st_time :: double
  st_total_work :: double
  st_total_factors :: int
  st_total_time :: double

text \<open>The user ID is bound with the length of a name, not of an ID.\<close>

definition UserStats :: "string \<Rightarrow> stats db" where
  "UserStats userID =
     bind (FetchRow [PStr userID NAME_LENGTH] (\<lambda>t. filter (\<lambda>r. us_id r = userID) (users t)))
       (\<lambda>row. ret (case row of
            Some r \<Rightarrow> \<lparr>st_user = userID, st_found = True, st_work = us_work r, st_factors = us_factors r,
              st_time = us_time r, st_total_work = us_total_work r, st_total_factors = us_total_factors r,
              st_total_time = us_total_time r\<rparr>
          | None \<Rightarrow> \<lparr>st_user = userID, st_found = False, st_work = 0, st_factors = 0, st_time = 0,
              st_total_work = 0, st_total_factors = 0, st_total_time = 0\<rparr>))"

definition AddWork :: "double \<Rightarrow> stats \<Rightarrow> stats" where
  "AddWork workDone u = u\<lparr>st_work := st_work u + workDone, st_total_work := st_total_work u + workDone\<rparr>"

definition IncrementWorkDone :: "double \<Rightarrow> int \<Rightarrow> stats \<Rightarrow> stats" where
  "IncrementWorkDone b1 curvesDone u =
     u\<lparr>st_work := st_work u + b1 * of_int curvesDone, st_total_work := st_total_work u + b1 * of_int curvesDone\<rparr>"

definition IncrementTimeSpent :: "double \<Rightarrow> stats \<Rightarrow> stats" where
  "IncrementTimeSpent timeSpent u =
     u\<lparr>st_time := st_time u + timeSpent, st_total_time := st_total_time u + timeSpent\<rparr>"

definition AddFactors :: "int \<Rightarrow> stats \<Rightarrow> stats" where
  "AddFactors factorCount u =
     u\<lparr>st_factors := st_factors u + factorCount, st_total_factors := st_total_factors u + factorCount\<rparr>"

definition IncrementFactorCount :: "stats \<Rightarrow> stats" where
  "IncrementFactorCount u = u\<lparr>st_factors := st_factors u + 1, st_total_factors := st_total_factors u + 1\<rparr>"

definition SetTotals :: "double \<Rightarrow> double \<Rightarrow> int \<Rightarrow> stats \<Rightarrow> stats" where
  "SetTotals workDone timeSpent factorCount u =
     u\<lparr>st_total_work := workDone, st_work := 0, st_total_time := timeSpent, st_time := 0,
       st_total_factors := factorCount, st_factors := 0\<rparr>"

definition update_user :: "stats \<Rightarrow> tables \<Rightarrow> tables option" where
  "update_user u = change (\<lambda>t. t\<lparr>users := update_by us_id (st_user u)
     (\<lambda>r. r\<lparr>us_work := st_work u, us_factors := st_factors u, us_time := st_time u,
            us_total_work := st_total_work u, us_total_factors := st_total_factors u,
            us_total_time := st_total_time u\<rparr>) (users t)\<rparr>)"

definition user_Update :: "stats \<Rightarrow> bool db" where
  "user_Update u =
     Execute [PDbl (st_work u), PInt (st_factors u), PDbl (st_time u), PDbl (st_total_work u),
              PInt (st_total_factors u), PDbl (st_total_time u), PStr (st_user u) ID_LENGTH]
       (update_user u)"

definition user_Insert :: "stats \<Rightarrow> (bool \<times> stats) db" where
  "user_Insert u =
     bind (Execute [PStr (st_user u) ID_LENGTH, PDbl (st_work u), PInt (st_factors u), PDbl (st_time u),
              PDbl (st_total_work u), PInt (st_total_factors u), PDbl (st_total_time u)]
            (insert_user \<lparr>us_id = st_user u, us_work = st_work u, us_factors = st_factors u,
               us_time = st_time u, us_total_work = st_total_work u,
               us_total_factors = st_total_factors u, us_total_time = st_total_time u\<rparr>))
       (\<lambda>success. ret (success, if success then u\<lparr>st_found := True\<rparr> else u))"

definition user_FinalizeChanges :: "stats \<Rightarrow> (bool \<times> stats) db" where
  "user_FinalizeChanges u =
     (if st_found u then bind (user_Update u) (\<lambda>success. ret (success, u)) else user_Insert u)"

lemma wf_update_user [wf_intros]: "wf_stmt (update_user u)"
  by (auto simp: wf_stmt_def update_user_def change_def db_wf_defs map_update_by)

lemma tx_user [tx_intros]:
  "stays tx_step (UserStats n)" "stays tx_step (user_FinalizeChanges u)"
  unfolding UserStats_def user_FinalizeChanges_def user_Update_def user_Insert_def
  by (intro tx_intros wf_intros)+

end
