(* ===== verification/WorkReceiver.thy ===== *)
theory WorkReceiver
  imports Handler CompositeObj MasterObj FactorEvent UserStatsObj
begin

text \<open>
  \<open>src/source/WorkReceiver.cpp\<close>: the server's side of returned work. The state machine of one
  connection goes through \<open>Return Work\<close> (\<open>ProcessWork\<close>, nothing committed), any number of factor
  events with their details, and \<open>End Return Work for <name>\<close> (\<open>EndWork\<close>, which commits and
  acknowledges). \<open>ip_Composite\<close>, \<open>ip_MasterComposite\<close>, \<open>ip_UserStats\<close> and \<open>ip_CompositeFactorEvent\<close> are
  options, \<open>None\<close> for NULL. Log files are not part of the state.
\<close>

record receiver = handler +
  rc_comp :: "composite option"
  rc_master :: "master option"
  rc_stats :: "stats option"
  rc_event :: "factor_event option"
  rc_accepted :: int
  rc_factors :: int
  rc_date :: int
  rc_recurse :: bool
  rc_server :: string

definition WorkReceiver :: "session \<Rightarrow> helper \<Rightarrow> string \<Rightarrow> bool \<Rightarrow> int \<Rightarrow> receiver" where
  "WorkReceiver dbInterface theSocket serverID recurse junk =
     \<lparr>sess = dbInterface, sock = theSocket, rc_comp = None, rc_master = None, rc_stats = None, rc_event = None,
      rc_accepted = junk, rc_factors = junk, rc_date = junk, rc_recurse = recurse, rc_server = serverID\<rparr>"

text \<open>Writing a member of the object.\<close>

definition put_comp :: "composite \<Rightarrow> (receiver, unit) run" where
  "put_comp c = modify (\<lambda>s. s\<lparr>rc_comp := Some c\<rparr>)"

definition put_master :: "master \<Rightarrow> (receiver, unit) run" where
  "put_master m = modify (\<lambda>s. s\<lparr>rc_master := Some m\<rparr>)"

definition put_stats :: "stats \<Rightarrow> (receiver, unit) run" where
  "put_stats u = modify (\<lambda>s. s\<lparr>rc_stats := Some u\<rparr>)"

definition put_event :: "factor_event \<Rightarrow> (receiver, unit) run" where
  "put_event e = modify (\<lambda>s. s\<lparr>rc_event := Some e\<rparr>)"

definition StartWork :: "string \<Rightarrow> (receiver, unit) run" where
  "StartWork compositeName =
     bind (on_db (Composite compositeName True)) (\<lambda>c.
     bind (on_db (MasterComposite (co_master c))) (\<lambda>m.
     bind (asks (\<lambda>s. hs_user (sock s))) (\<lambda>user.
     bind (on_db (UserStats user)) (\<lambda>u.
     bind (asks rc_server) (\<lambda>serverID.
     bind (Lock serverID m) (\<lambda>_.
     modify (\<lambda>s. s\<lparr>rc_comp := Some c, rc_master := Some m, rc_stats := Some u,
                    rc_date := now (sess s), rc_event := None\<rparr>)))))))"

definition clear_work :: "(receiver, unit) run" where
  "clear_work = modify (\<lambda>s. s\<lparr>rc_comp := None, rc_master := None, rc_stats := None, rc_event := None\<rparr>)"

text \<open>The chain of updates that ends a unit of work, each done only if the previous one succeeded.\<close>

definition finalize :: "master \<Rightarrow> composite \<Rightarrow> stats \<Rightarrow> factor_event option \<Rightarrow> bool db" where
  "finalize m c u e =
     bind (asks now) (\<lambda>time.
     bind (master_FinalizeChanges (SetLastUpdateTime time m)) (\<lambda>(ok1, m1).
     if \<not> ok1 then ret False else
     bind (comp_FinalizeChanges c) (\<lambda>(ok2, c1).
     if \<not> ok2 then ret False else
     bind (user_FinalizeChanges u) (\<lambda>(ok3, u1).
     if \<not> ok3 then ret False else
     bind (case e of None \<Rightarrow> ret True | Some ev \<Rightarrow> event_FinalizeChanges ev) (\<lambda>ok4.
     if \<not> ok4 then ret False else
     bind (UpdateIfFullyFactored m1) (\<lambda>(ok5, m2). ret ok5))))))"

definition EndWork :: "bool \<Rightarrow> (receiver, bool) run" where
  "EndWork success0 =
     bind (asks rc_master) (\<lambda>p. case p of None \<Rightarrow> ret True | Some m \<Rightarrow>
     bind (if success0
           then bind (deref rc_comp) (\<lambda>c. bind (deref rc_stats) (\<lambda>u. bind (asks rc_event) (\<lambda>e.
                  on_db (finalize m c u e))))
           else ret False) (\<lambda>success.
     bind (if success
           then bind (modify (\<lambda>s. s\<lparr>rc_accepted := rc_accepted s + 1\<rparr>)) (\<lambda>_.
                bind commit (\<lambda>_.
                bind (asks (\<lambda>s. is_old (sock s))) (\<lambda>old.
                if old then say ''OK.'' []
                else bind (deref rc_comp) (\<lambda>c. say ''Accepted Work for %s'' [VS (co_name c)]))))
           else rollback) (\<lambda>_.
     bind clear_work (\<lambda>_. ret success))))"

section \<open>Returned work\<close>

text \<open>The rows of pending work a client's result settles.\<close>

definition pending_of :: "helper \<Rightarrow> string \<Rightarrow> string \<Rightarrow> double \<Rightarrow> pending_row \<Rightarrow> bool" where
  "pending_of h compositeName factorMethod b1 r \<longleftrightarrow>
     pw_user r = hs_user h \<and> pw_machine r = hs_machine h \<and> pw_instance r = hs_instance h
     \<and> pw_comp r = compositeName \<and> pw_method r = factorMethod \<and> pw_b1 r = b1"

definition delete_pending :: "(pending_row \<Rightarrow> bool) \<Rightarrow> tables \<Rightarrow> tables option" where
  "delete_pending P = change (\<lambda>t. t\<lparr>pendings := filter (\<lambda>r. \<not> P r) (pendings t)\<rparr>)"

definition pending_params :: "helper \<Rightarrow> string \<Rightarrow> string \<Rightarrow> double \<Rightarrow> sql_param list" where
  "pending_params h compositeName factorMethod b1 =
     [PStr (hs_user h) ID_LENGTH, PStr (hs_machine h) ID_LENGTH, PStr (hs_instance h) ID_LENGTH,
      PStr compositeName NAME_LENGTH, PStr factorMethod METHOD_LENGTH, PDbl b1]"

definition ProcessWork ::
    "(int \<Rightarrow> int) \<Rightarrow> string \<Rightarrow> string \<Rightarrow> int \<Rightarrow> double \<Rightarrow> int \<Rightarrow> double \<Rightarrow> (receiver, bool) run" where
  "ProcessWork pp compositeValue factorMethod factorIsNumber b1 curvesDone timeSpent =
     bind (deref rc_comp) (\<lambda>c.
     if \<not> co_found c then fails ''ERROR: Composite <%s> not found on server'' [VS (co_name c)]
     else
     bind (lift (SetValue pp compositeValue c)) (\<lambda>(ok, c1).
     bind (put_comp c1) (\<lambda>_.
     if \<not> ok then
       fails ''ERROR: Value for composite <%s> does not match value found on server'' [VS (co_name c1)]
     else
     bind (deref rc_master) (\<lambda>m0.
     let m1 = (if factorIsNumber \<noteq> 0 then SetActive False m0 else m0) in
     bind (on_db (AddWorkDone factorMethod b1 curvesDone m1)) (\<lambda>added.
     bind (if added then on_db (SendUpdatesToAllSlaves m1) else ret False) (\<lambda>flagged.
     bind (put_master (SetSendUpdatesToMaster True m1)) (\<lambda>_.
     bind (deref rc_stats) (\<lambda>u.
     bind (put_stats (IncrementWorkDone b1 curvesDone (IncrementTimeSpent timeSpent u))) (\<lambda>_.
     bind (asks sock) (\<lambda>h.
     if flagged
     then on_db (Execute (pending_params h (co_name c1) factorMethod b1)
                  (delete_pending (pending_of h (co_name c1) factorMethod b1)))
     else ret False))))))))))"

text \<open>The values of a message whose conversions were all scanned.\<close>

definition work_args ::
    "sval list \<Rightarrow> (string \<times> string \<times> string \<times> int \<times> double \<times> int \<times> double \<times> int) option" where
  "work_args vs = (case vs of
       [VS compositeName, VS compositeValue, VS factorMethod, VI factorIsNumber, VD b1, VI curvesDone,
        VD timeSpent, VI len] \<Rightarrow>
         Some (compositeName, compositeValue, factorMethod, factorIsNumber, b1, curvesDone, timeSpent, len)
     | _ \<Rightarrow> None)"

definition abandon_args :: "sval list \<Rightarrow> (string \<times> string \<times> double) option" where
  "abandon_args vs = (case vs of [VS compositeName, VS factorMethod, VD b1] \<Rightarrow> Some (compositeName, factorMethod, b1)
     | _ \<Rightarrow> None)"

definition event_args ::
    "sval list \<Rightarrow> (string \<times> string \<times> int \<times> double \<times> double \<times> double \<times> double \<times> int \<times> int) option" where
  "event_args vs = (case vs of
       [VS compositeName, VS factorMethod, VI factorStep, VD b1, VD b1Time, VD b2, VD b2Time, VI sigma, VI x0] \<Rightarrow>
         Some (compositeName, factorMethod, factorStep, b1, b1Time, b2, b2Time, sigma, x0)
     | _ \<Rightarrow> None)"

definition detail_args :: "sval list \<Rightarrow> (string \<times> string \<times> string) option" where
  "detail_args vs = (case vs of [VS compositeName, VS factorValue, VS factorType] \<Rightarrow>
       Some (compositeName, factorValue, factorType) | _ \<Rightarrow> None)"

definition RETURN_WORK :: string where
  "RETURN_WORK = ''Return Work for %s %s %s %d %lf %d %lf %d''"

definition ProcessWorkMessage :: "(int \<Rightarrow> int) \<Rightarrow> string \<Rightarrow> (receiver, bool \<times> string) run" where
  "ProcessWorkMessage pp buffer =
     bind (lift (sscanf buffer RETURN_WORK [NAME_LENGTH + 1, VALUE_LENGTH + 1, METHOD_LENGTH + 1])) (\<lambda>vs.
     case work_args vs of
       Some (compositeName, compositeValue, factorMethod, factorIsNumber, b1, curvesDone, timeSpent, len) \<Rightarrow>
         if len \<noteq> int (length compositeValue)
         then bind (fails ''Composite length mismatch.  Message ignored'' []) (\<lambda>ok. ret (ok, compositeName))
         else bind (StartWork compositeName) (\<lambda>_.
              bind (ProcessWork pp compositeValue factorMethod factorIsNumber b1 curvesDone timeSpent)
                (\<lambda>ok. ret (ok, compositeName)))
     | None \<Rightarrow> bind (fails ''Message <%s> could not be parsed'' [VS buffer]) (\<lambda>ok. ret (ok, [])))"

text \<open>
  The statement names a column \<open>ClientID\<close> that \<open>PendingWork\<close> does not have: the database refuses it.
\<close>

definition AbandonWork :: "string \<Rightarrow> (receiver, unit) run" where
  "AbandonWork buffer =
     bind (lift (sscanf buffer ''Abandon Work for %s %s %lf'' [NAME_LENGTH + 1, METHOD_LENGTH + 1])) (\<lambda>vs.
     case abandon_args vs of
       Some (compositeName, factorMethod, b1) \<Rightarrow>
         bind (asks sock) (\<lambda>h.
         bind (on_db (Execute (pending_params h compositeName factorMethod b1) (\<lambda>t. None))) (\<lambda>ok.
         if ok then commit else rollback))
     | None \<Rightarrow> say ''Message <%s> could not be parsed'' [VS buffer])"

section \<open>Returned factors\<close>

definition new_event :: "composite \<Rightarrow> (receiver, factor_event \<times> composite) run" where
  "new_event c =
     bind (asks (\<lambda>s. s)) (\<lambda>s.
       let (n, c1) = NextFactorEvent c; h = sock s
       in ret (SetIDs (hs_email h) (hs_user h) (hs_machine h) (hs_instance h) (rc_server s)
                 (CompositeFactorEvent (co_name c) n (rc_date s)), c1))"

definition ProcessFactorEvent :: "string \<Rightarrow> (receiver, bool) run" where
  "ProcessFactorEvent buffer =
     bind (lift (sscanf buffer ''Return Factor Event for %s %s %d %lf %lf %lf %lf %ld %ld''
                   [NAME_LENGTH + 1, METHOD_LENGTH + 1])) (\<lambda>vs.
     case event_args vs of
       Some (factorCompositeName, factorMethod, factorStep, b1, factorB1Time, b2, factorB2Time, sigma, x0) \<Rightarrow>
         bind (deref rc_comp) (\<lambda>c.
         if co_name c \<noteq> factorCompositeName
         then fails ''Factor is for a different composite.  Message ignored'' []
         else
         bind (new_event c) (\<lambda>(e, c1).
         bind (put_comp c1) (\<lambda>_.
         bind (put_event (SetCurveDetail factorMethod factorStep b1 factorB1Time b2 factorB2Time sigma x0 e))
           (\<lambda>_. ret True))))
     | None \<Rightarrow> fails ''Message <%s> could not be parsed'' [VS buffer])"

definition AddFactor :: "(int \<Rightarrow> int) \<Rightarrow> string \<Rightarrow> (receiver, unit) run" where
  "AddFactor pp factorValue =
     bind (deref rc_stats) (\<lambda>u.
     bind (put_stats (IncrementFactorCount u)) (\<lambda>_.
     bind (deref rc_comp) (\<lambda>c.
     bind (deref rc_master) (\<lambda>m.
     bind (deref rc_event) (\<lambda>e.
     bind (put_master (if CompositeIsMasterComposite c \<or> GetFactorCount e > 0
                       then master_IncrementFactorCount m else m)) (\<lambda>_.
     bind (on_db (AddEventDetail pp factorValue e)) (\<lambda>e1.
     bind (put_event e1) (\<lambda>_.
     modify (\<lambda>s. s\<lparr>rc_factors := rc_factors s + 1,
                    rc_master := (if \<not> rc_recurse s then map_option (SetActive False) (rc_master s)
                                  else rc_master s)\<rparr>)))))))))"

definition ProcessFactorEventDetail :: "(int \<Rightarrow> int) \<Rightarrow> string \<Rightarrow> (receiver, bool) run" where
  "ProcessFactorEventDetail pp buffer =
     bind (lift (sscanf buffer ''Return Factor Event Detail for %s %s %s''
                   [NAME_LENGTH + 1, VALUE_LENGTH + 1, METHOD_LENGTH + 1])) (\<lambda>vs.
     case detail_args vs of
       Some (factorCompositeName, factorValue, factorType) \<Rightarrow>
         bind (deref rc_comp) (\<lambda>c.
         if co_name c \<noteq> factorCompositeName
         then fails ''Factor is for a different composite.  Message ignored'' []
         else bind (AddFactor pp factorValue) (\<lambda>_. ret True))
     | None \<Rightarrow> fails ''Message <%s> could not be parsed'' [VS buffer])"

section \<open>The conversation with a 3.x client\<close>

text \<open>
  \<open>goodMessage\<close> has 100 bytes and no content before the first \<open>Return Work\<close>; it is compared with
  every message before that, so its initial content is an argument.
\<close>

definition expect_end :: "bool \<Rightarrow> string \<Rightarrow> halt + string" where
  "expect_end success compositeName =
     (if success then strcpy (''End Return Work for '' @ compositeName) 100 else Inr ''not gonna match'')"

type_synonym locals = "bool \<times> string"

definition handle_message :: "(int \<Rightarrow> int) \<Rightarrow> locals \<Rightarrow> string \<Rightarrow> (receiver, locals) run" where
  "handle_message pp l readBuf = (case l of (success, goodMessage) \<Rightarrow>
     if readBuf = goodMessage then bind (EndWork success) (\<lambda>_. ret (success, goodMessage))
     else if starts 11 ''Abandon Work'' readBuf then
       bind (EndWork success) (\<lambda>_. bind (AbandonWork readBuf) (\<lambda>_. ret (success, goodMessage)))
     else if starts 11 ''Return Work'' readBuf then
       bind (EndWork False) (\<lambda>_.
       bind (ProcessWorkMessage pp readBuf) (\<lambda>(ok, compositeName).
       bind (lift (expect_end ok compositeName)) (\<lambda>good. ret (ok, good))))
     else if success \<and> prefixed ''Return Factor Event for '' readBuf then
       bind (ProcessFactorEvent readBuf) (\<lambda>ok. ret (ok, goodMessage))
     else if success \<and> prefixed ''Return Factor Event Detail for '' readBuf then
       bind (ProcessFactorEventDetail pp readBuf) (\<lambda>ok. ret (ok, goodMessage))
     else bind (say ''ERROR: Did not understand message <%s>'' [VS readBuf]) (\<lambda>_. ret (False, goodMessage)))"

definition message_step :: "(int \<Rightarrow> int) \<Rightarrow> locals \<Rightarrow> (receiver, locals + locals) run" where
  "message_step pp l =
     bind listen (\<lambda>readBuf. case readBuf of
         None \<Rightarrow> ret (Inr l)
       | Some m \<Rightarrow> if m = ''End of Return Work'' then ret (Inr l)
                   else bind (handle_message pp l m) (\<lambda>l1. ret (Inl l1)))"

definition plural :: "int \<Rightarrow> string" where
  "plural n = (if n > 1 then ''s'' else [])"

definition report :: "(receiver, unit) run" where
  "report =
     bind (asks rc_accepted) (\<lambda>w.
     bind (asks rc_factors) (\<lambda>f.
     bind (if w = 0 then say ''INFO: There were no identifiable test results'' []
           else if f \<noteq> 0 then
             say ''INFO: Work for %d composite%s accepted.  %d factor%s accepted''
               [VI w, VS (plural w), VI f, VS (plural f)]
           else say ''INFO: Work for %d composite%s accepted.  No factors reported'' [VI w, VS (plural w)]) (\<lambda>_.
     say ''End of Message'' [])))"

definition ProcessMessage :: "(int \<Rightarrow> int) \<Rightarrow> string \<Rightarrow> (receiver, unit) run" where
  "ProcessMessage pp junk =
     bind (modify (\<lambda>s. s\<lparr>rc_accepted := 0, rc_factors := 0\<rparr>)) (\<lambda>_.
     bind (asks lines_left) (\<lambda>n.
     bind (iterate (Suc n) (message_step pp) (True, junk)) (\<lambda>_.
     bind rollback (\<lambda>_. report))))"

section \<open>The conversation with a 2.x client\<close>

text \<open>The local variables of \<open>ProcessMessageOld\<close>; the buffers start with any content.\<close>

record old_fields =
  of_name :: string
  of_value :: string
  of_method :: string
  of_is_number :: bool
  of_b1 :: double
  of_curves :: int
  of_factor :: string
  of_factor_type :: string
  of_cofactor :: string
  of_cofactor_type :: string
  of_sigma :: int

text \<open>One line of the first part, and one of the second.\<close>

definition old_result_line :: "string \<Rightarrow> old_fields \<Rightarrow> halt + old_fields" where
  "old_result_line m l =
     (if prefixed ''return_ECMname: '' m then
        and_then (strcpy (drop 16 m) (NAME_LENGTH + 1)) (\<lambda>v. Inr (l\<lparr>of_name := v\<rparr>))
      else if prefixed ''return_ECMnumber: '' m then
        and_then (strcpy (drop 18 m) (VALUE_LENGTH + 1)) (\<lambda>v. Inr (l\<lparr>of_value := v\<rparr>))
      else if prefixed ''return_FactorMethod: '' m then
        and_then (strcpy (drop 21 m) (METHOD_LENGTH + 1)) (\<lambda>v. Inr (l\<lparr>of_method := v\<rparr>))
      else if prefixed ''return_FactorIsNumber'' m then Inr (l\<lparr>of_is_number := True\<rparr>)
      else if prefixed ''return_B1: '' m then Inr (l\<lparr>of_b1 := atof (drop 11 m)\<rparr>)
      else if prefixed ''return_Curves: '' m then Inr (l\<lparr>of_curves := wrap32 (atol (drop 15 m))\<rparr>)
      else Inr l)"

definition old_factor_line :: "string \<Rightarrow> old_fields \<Rightarrow> halt + old_fields" where
  "old_factor_line m l =
     (if prefixed ''factor_ECMnumber: '' m then
        and_then (strcpy (drop 18 m) (VALUE_LENGTH + 1)) (\<lambda>v. Inr (l\<lparr>of_value := v\<rparr>))
      else if prefixed ''factor_FactorMethod: '' m then
        and_then (strcpy (drop 21 m) (METHOD_LENGTH + 1)) (\<lambda>v. Inr (l\<lparr>of_method := v\<rparr>))
      else if prefixed ''factor_B1: '' m then Inr (l\<lparr>of_b1 := atof (drop 11 m)\<rparr>)
      else if prefixed ''factor_Factor: '' m then
        and_then (strcpy (drop 15 m) (VALUE_LENGTH + 1)) (\<lambda>v. Inr (l\<lparr>of_factor := v\<rparr>))
      else if prefixed ''factor_FactorType: '' m then
        and_then (strcpy (drop 19 m) (METHOD_LENGTH + 1)) (\<lambda>v. Inr (l\<lparr>of_factor_type := v\<rparr>))
      else if prefixed ''factor_CoFactor: '' m then
        and_then (strcpy (drop 17 m) (VALUE_LENGTH + 1)) (\<lambda>v. Inr (l\<lparr>of_cofactor := v\<rparr>))
      else if prefixed ''factor_CoFactorType: '' m then
        and_then (strcpy (drop 21 m) (METHOD_LENGTH + 1)) (\<lambda>v. Inr (l\<lparr>of_cofactor_type := v\<rparr>))
      else if prefixed ''factor_FINDER: '' m then and_then (strcpy (drop 15 m) 100) (\<lambda>_. Inr l)
      else if prefixed ''factor_sigma: '' m then Inr (l\<lparr>of_sigma := trunc (atof (drop 14 m))\<rparr>)
      else Inr l)"

text \<open>
  The line with all four values: colons become blanks; on a malformed line the fields scanned so
  far are kept, and the answer is formatted with a \<open>%s\<close> that has no argument.
\<close>

definition old_factors_line :: "string \<Rightarrow> old_fields \<Rightarrow> halt + bool \<times> old_fields" where
  "old_factors_line m l =
     and_then (sscanf (drop 15 (replace_char (CHR '':'') (CHR '' '') m)) ''%s %s %s %s''
                 [VALUE_LENGTH + 1, METHOD_LENGTH + 1, VALUE_LENGTH + 1, METHOD_LENGTH + 1])
       (\<lambda>vs. Inr (length vs = 4,
          assign_words [\<lambda>v l. l\<lparr>of_factor := v\<rparr>, \<lambda>v l. l\<lparr>of_factor_type := v\<rparr>, \<lambda>v l. l\<lparr>of_cofactor := v\<rparr>,
                        \<lambda>v l. l\<lparr>of_cofactor_type := v\<rparr>] vs l))"

definition old_result_step :: "old_fields \<Rightarrow> (receiver, old_fields + bool \<times> old_fields) run" where
  "old_result_step l =
     bind listen (\<lambda>readBuf. case readBuf of
         None \<Rightarrow> ret (Inr (False, l))
       | Some m \<Rightarrow> if m = ''End of Message'' then ret (Inr (True, l))
                   else bind (lift (old_result_line m l)) (\<lambda>l1. ret (Inl l1)))"

definition old_factor_step :: "old_fields \<Rightarrow> (receiver, old_fields + old_fields) run" where
  "old_factor_step l =
     bind listen (\<lambda>readBuf. case readBuf of
         None \<Rightarrow> ret (Inr l)
       | Some m \<Rightarrow>
           if m = ''End of Message'' then bind (say ''OK.'' []) (\<lambda>_. ret (Inr l))
           else if prefixed ''factor_FACTOR: '' m then
             bind (lift (old_factors_line m l)) (\<lambda>(ok, l1).
               if ok then ret (Inl l1)
               else stop Undefined)
           else bind (lift (old_factor_line m l)) (\<lambda>l1. ret (Inl l1)))"

definition old_factor_event :: "(int \<Rightarrow> int) \<Rightarrow> old_fields \<Rightarrow> (receiver, unit) run" where
  "old_factor_event pp l =
     bind (StartWork (of_name l)) (\<lambda>_.
     bind (deref rc_comp) (\<lambda>c.
     bind (new_event c) (\<lambda>(e, c1).
     bind (put_comp c1) (\<lambda>_.
     bind (put_event (SetSigma (of_sigma l) (SetMethodB1 (of_method l) (of_b1 l) e))) (\<lambda>_.
     bind (AddFactor pp (of_factor l)) (\<lambda>_.
     bind (AddFactor pp (of_cofactor l)) (\<lambda>_.
     bind (EndWork True) (\<lambda>_. ret ()))))))))"

definition ProcessMessageOld :: "(int \<Rightarrow> int) \<Rightarrow> old_fields \<Rightarrow> (receiver, unit) run" where
  "ProcessMessageOld pp junk =
     bind (asks lines_left) (\<lambda>n.
     bind (iterate (Suc n) old_result_step (junk\<lparr>of_is_number := False, of_b1 := 0, of_curves := 0, of_sigma := 0\<rparr>))
       (\<lambda>(received, l).
     bind (if received then
             bind (StartWork (of_name l)) (\<lambda>_.
             bind (ProcessWork pp (of_value l) (of_method l) (if of_is_number l then 1 else 0) (of_b1 l) (of_curves l) 0)
               (\<lambda>ok. bind (EndWork ok) (\<lambda>returned. ret (ok, returned))))
           else ret (False, False)) (\<lambda>(success, returned).
     bind (asks lines_left) (\<lambda>n2.
     bind (iterate (Suc n2) old_factor_step (l\<lparr>of_factor := []\<rparr>)) (\<lambda>l2.
     bind (if success \<and> of_factor l2 \<noteq> [] then old_factor_event pp l2 else ret ()) (\<lambda>_.
     bind (if \<not> returned then say ''INFO: There were no identifiable test results'' []
           else say ''INFO: All results were accepted'' []) (\<lambda>_.
     say ''End of Message'' [])))))))"

section \<open>Keys and references are kept\<close>

lemma wf_delete_pending [wf_intros]: "wf_stmt (delete_pending P)" "wf_stmt (\<lambda>t. None)"
  by (auto simp: wf_stmt_def delete_pending_def change_def db_wf_defs)

lemma stays_case_bool: "stays R m \<Longrightarrow> stays R m' \<Longrightarrow> stays R (if b then m else m')"
  by simp

lemma wf_members [wf_intros]:
  "stays handler_wf (put_comp c)" "stays handler_wf (put_master m)"
  "stays handler_wf (put_stats u)" "stays handler_wf (put_event e)"
  "stays handler_wf (Lock i m)" "stays handler_wf clear_work"
  unfolding put_comp_def put_master_def put_stats_def put_event_def clear_work_def Lock_def
  by (intro wf_intros modify_wf; simp)+

lemma tx_finalize [tx_intros]: "stays tx_step (finalize m c u e)"
  unfolding finalize_def by (intro tx_intros tx_comp tx_master tx_event tx_user)

end
