(* ===== verification/ReceivedWork.thy ===== *)
theory ReceivedWork
  imports WorkReceiver
begin

text \<open>
  What the server guarantees about returned work: the schema is kept whatever a client sends,
  nothing is committed that is not acknowledged, the totals of the master composites stay the
  sums of the curves, and the curves a client reports are the curves that are added.
\<close>

section \<open>Keys and references\<close>

lemma StartWork_wf [wf_intros]: "stays handler_wf (StartWork n)"
  unfolding StartWork_def
  by (intro wf_intros tx_comp tx_master tx_user) simp

lemma EndWork_wf [wf_intros]: "stays handler_wf (EndWork b)"
  unfolding EndWork_def
  by (intro wf_intros tx_intros) simp

lemma ProcessWork_wf [wf_intros]: "stays handler_wf (ProcessWork pp v f n b k t)"
  unfolding ProcessWork_def Let_def
  by (intro wf_intros tx_intros tx_master)

lemma ProcessWorkMessage_wf [wf_intros]: "stays handler_wf (ProcessWorkMessage pp m)"
  unfolding ProcessWorkMessage_def by (intro wf_intros)

lemma AbandonWork_wf [wf_intros]: "stays handler_wf (AbandonWork m)"
  unfolding AbandonWork_def by (intro wf_intros tx_intros)

lemma new_event_wf [wf_intros]: "stays handler_wf (new_event c)"
  unfolding new_event_def Let_def by (intro wf_intros)

lemma ProcessFactorEvent_wf [wf_intros]: "stays handler_wf (ProcessFactorEvent m)"
  unfolding ProcessFactorEvent_def by (intro wf_intros)

lemma AddFactor_wf [wf_intros]: "stays handler_wf (AddFactor pp v)"
  unfolding AddFactor_def by (intro wf_intros tx_intros tx_event) simp

lemma ProcessFactorEventDetail_wf [wf_intros]: "stays handler_wf (ProcessFactorEventDetail pp m)"
  unfolding ProcessFactorEventDetail_def by (intro wf_intros)

lemma message_step_wf [wf_intros]: "stays handler_wf (message_step pp l)"
  unfolding message_step_def handle_message_def by (intro wf_intros)

lemma report_wf [wf_intros]: "stays handler_wf report"
  unfolding report_def by (intro wf_intros)

lemma ProcessMessage_wf: "stays handler_wf (ProcessMessage pp junk)"
  unfolding ProcessMessage_def by (intro wf_intros) simp

lemma old_steps_wf [wf_intros]: "stays handler_wf (old_result_step l)" "stays handler_wf (old_factor_step l)"
  "stays handler_wf (old_factor_event pp l)"
  unfolding old_result_step_def old_factor_step_def old_factor_event_def by (intro wf_intros)+

lemma ProcessMessageOld_wf: "stays handler_wf (ProcessMessageOld pp junk)"
  unfolding ProcessMessageOld_def by (intro wf_intros)

section \<open>Nothing is committed without an acknowledgement\<close>

definition acks :: "helper \<Rightarrow> int" where
  "acks h = int (length (filter (prefixed ''Accepted Work for '') (outgoing h)))"

text \<open>
  Along a run the acknowledgements sent are counted by \<open>ii_WorkAccepted\<close>, and the committed
  tables only change when the count does.
\<close>

definition ack_step :: "receiver \<Rightarrow> receiver \<Rightarrow> bool" where
  "ack_step s s' \<longleftrightarrow>
     hs_version (sock s') = hs_version (sock s) \<and> so_open (sock s') = so_open (sock s)
     \<and> rc_accepted s \<le> rc_accepted s'
     \<and> (rc_accepted s' = rc_accepted s \<longrightarrow> saved (sess s') = saved (sess s))
     \<and> (so_open (sock s) \<and> \<not> is_old (sock s) \<longrightarrow>
          acks (sock s') - acks (sock s) = rc_accepted s' - rc_accepted s)"

interpretation ack: effect ack_step
proof
  fix s s' s'' assume "ack_step s s'" "ack_step s' s''"
  moreover from this have "rc_accepted s'' = rc_accepted s \<Longrightarrow> rc_accepted s' = rc_accepted s"
    unfolding ack_step_def by linarith
  ultimately show "ack_step s s''"
    by (auto simp: ack_step_def is_old_def)
qed (simp add: ack_step_def)

named_theorems ack_intros \<open>operations of the receiver that keep track of acknowledgements\<close>

lemmas [ack_intros] = ack.stays_intros

lemma ack_db [ack_intros]: "stays tx_step m \<Longrightarrow> stays ack_step (on_db m)"
  by (auto simp: stays_def ack_step_def on_db_Inr tx_step_def)

lemma ack_members [ack_intros]:
  "stays ack_step (deref f)" "stays ack_step (put_comp c)" "stays ack_step (put_master m)"
  "stays ack_step (put_stats u)" "stays ack_step (put_event e)" "stays ack_step clear_work"
  "stays ack_step (Lock i m)"
  "stays ack_step rollback" "stays ack_step listen"
  by (auto simp: stays_def ack_step_def deref_def bind_eq_Inr put_comp_def put_master_def put_stats_def
      put_event_def clear_work_def Lock_def rollback_def Rollback_def listen_def on_sock_Inr Receive_def acks_def
      split: option.splits prod.splits if_splits list.splits input.splits)

lemma ack_modify: "(\<And>s. sess (g s) = sess s \<and> sock (g s) = sock s \<and> rc_accepted (g s) = rc_accepted s)
    \<Longrightarrow> stays ack_step (modify g)"
  by (simp add: stays_def ack_step_def)

lemma sprintf_head: "c \<noteq> CHR '' '' \<Longrightarrow> c \<noteq> CHR ''%'' \<Longrightarrow> sprintf (c # f) vs = c # sprintf f vs"
  by (simp add: sprintf_def)

lemma Send_sock: "Send m h = Inr (b, h') \<Longrightarrow> hs_version h' = hs_version (h :: helper) \<and> so_open h' = so_open h"
  by (auto simp: Send_def split: if_splits)

text \<open>Texts other than the acknowledgement are told apart by their first character.\<close>

definition quiet :: "string \<Rightarrow> bool" where
  "quiet f \<longleftrightarrow> f \<noteq> [] \<and> hd f \<notin> {CHR '' '', CHR ''%'', CHR ''A''}"

lemma ack_say [ack_intros]: "quiet f \<Longrightarrow> stays ack_step (say f vs)"
  by (cases f) (auto simp: quiet_def stays_def ack_step_def say_def bind_eq_Inr on_sock_Inr Sendf_def acks_def
      sprintf_head prefixed_def dest: Send_Inr Send_sock)

lemma ack_fails [ack_intros]: "quiet f \<Longrightarrow> stays ack_step (fails f vs)"
  unfolding fails_def by (intro ack.stays_bind ack_say ack.stays_ret)

lemma ack_StartWork [ack_intros]: "stays ack_step (StartWork n)"
  unfolding StartWork_def by (intro ack_intros tx_intros ack_modify) auto

text \<open>
  Ending a unit of work: either it is committed and acknowledged, or it is rolled back.
\<close>

lemma ack_accept:
  "stays ack_step (bind (modify (\<lambda>s. s\<lparr>rc_accepted := rc_accepted s + 1\<rparr>)) (\<lambda>_.
     bind commit (\<lambda>_. bind (asks (\<lambda>s. is_old (sock s))) (\<lambda>old.
       if old then say ''OK.'' []
       else bind (deref rc_comp) (\<lambda>c. say ''Accepted Work for %s'' [VS (co_name c)])))))"
proof (rule staysI)
  fix s s' :: receiver and u assume "bind (modify (\<lambda>s. s\<lparr>rc_accepted := rc_accepted s + 1\<rparr>)) (\<lambda>_.
     bind commit (\<lambda>_. bind (asks (\<lambda>s. is_old (sock s))) (\<lambda>old.
       if old then say ''OK.'' []
       else bind (deref rc_comp) (\<lambda>c. say ''Accepted Work for %s'' [VS (co_name c)])))) s = Inr (u, s')"
  then show "ack_step s s'"
    by (auto simp: commit_def bind_eq_Inr deref_def say_def on_sock_Inr Sendf_def Send_def ack_step_def acks_def
        sprintf_def prefixed_def split: if_splits option.splits)
qed

lemma ack_EndWork [ack_intros]: "stays ack_step (EndWork b)"
  unfolding EndWork_def by (intro ack_intros ack_accept tx_intros)

lemma ack_ProcessWork [ack_intros]: "stays ack_step (ProcessWork pp v f n b k t)"
  unfolding ProcessWork_def Let_def
  by (intro ack_intros tx_intros tx_master wf_intros) (simp_all add: quiet_def)

lemma ack_ProcessWorkMessage [ack_intros]: "stays ack_step (ProcessWorkMessage pp m)"
  unfolding ProcessWorkMessage_def by (intro ack_intros) (simp_all add: quiet_def)

lemma abandon_refused: "Execute ps (\<lambda>t. None) s = Inr (ok, s') \<Longrightarrow> \<not> ok"
  by (auto simp: Execute_def execute_def split: prod.splits if_splits)

lemma ack_AbandonWork [ack_intros]: "stays ack_step (AbandonWork m)"
proof -
  have refused: "stays ack_step (bind (on_db (Execute ps (\<lambda>t. None))) (\<lambda>ok. if ok then commit else rollback))" for ps
  proof (rule staysI)
    fix s u s' assume "bind (on_db (Execute ps (\<lambda>t. None))) (\<lambda>ok. if ok then commit else rollback) (s :: receiver) = Inr (u, s')"
    then obtain ok s1 where e: "on_db (Execute ps (\<lambda>t. None)) s = Inr (ok, s1)" "(if ok then commit else rollback) s1 = Inr (u, s')"
      by (rule bind_InrE)
    then have "\<not> ok" by (auto simp: on_db_Inr dest: abandon_refused)
    moreover have "ack_step s s1"
      using e(1) ack_db [OF tx_Execute [OF wf_delete_pending(2)]] by (auto dest: staysD)
    ultimately show "ack_step s s'"
      using e(2) ack_members(8) ack.trans by (auto dest: staysD)
  qed
  show ?thesis
    unfolding AbandonWork_def
    by (intro refused ack.stays_bind ack.stays_lift ack.stays_option ack.stays_prod ack.stays_asks ack_say)
      (simp add: quiet_def)
qed

lemma ack_factors [ack_intros]:
  "stays ack_step (new_event c)" "stays ack_step (ProcessFactorEvent m)" "stays ack_step (AddFactor pp v)"
  "stays ack_step (ProcessFactorEventDetail pp m)"
proof -
  show n: "stays ack_step (new_event c)" for c
    unfolding new_event_def Let_def by (intro ack_intros)
  show "stays ack_step (ProcessFactorEvent m)"
    unfolding ProcessFactorEvent_def by (intro ack_intros n) (simp_all add: quiet_def)
  show a: "stays ack_step (AddFactor pp v)" for v
    unfolding AddFactor_def by (intro ack_intros tx_intros tx_event ack_modify) auto
  show "stays ack_step (ProcessFactorEventDetail pp m)"
    unfolding ProcessFactorEventDetail_def by (intro ack_intros a) (simp_all add: quiet_def)
qed

lemma ack_message_step [ack_intros]: "stays ack_step (message_step pp l)"
  unfolding message_step_def handle_message_def by (intro ack_intros) (simp add: quiet_def)

lemma ack_report [ack_intros]: "stays ack_step report"
  unfolding report_def by (intro ack_intros) (simp_all add: quiet_def)

lemma ack_old [ack_intros]: "stays ack_step (old_result_step l)" "stays ack_step (old_factor_step l)"
  "stays ack_step (old_factor_event pp l)" "stays ack_step (ProcessMessageOld pp junk)"
proof -
  show s: "stays ack_step (old_result_step l)" "stays ack_step (old_factor_step l)" for l
    unfolding old_result_step_def old_factor_step_def by (intro ack_intros; simp add: quiet_def)+
  show e: "stays ack_step (old_factor_event pp l)" for l
    unfolding old_factor_event_def by (intro ack_intros)
  show "stays ack_step (ProcessMessageOld pp junk)"
    unfolding ProcessMessageOld_def by (intro ack_intros s e) (simp_all add: quiet_def)
qed

text \<open>
  A conversation as a whole: \<open>ProcessMessage\<close> starts counting at zero.
\<close>

lemma ProcessMessage_acks:
  assumes "ProcessMessage pp junk s = Inr ((), s')"
  shows "rc_accepted s' \<ge> 0"
    and "rc_accepted s' = 0 \<Longrightarrow> saved (sess s') = saved (sess s)"
    and "so_open (sock s) \<Longrightarrow> \<not> is_old (sock s) \<Longrightarrow> acks (sock s') = acks (sock s) + rc_accepted s'"
proof -
  define s0 where "s0 = s\<lparr>rc_accepted := 0, rc_factors := 0\<rparr>"
  have "stays ack_step (bind (asks lines_left) (\<lambda>n. bind (iterate (Suc n) (message_step pp) (True, junk)) (\<lambda>_.
      bind rollback (\<lambda>_. report))))"
    by (intro ack_intros)
  with assms have "ack_step s0 s'"
    unfolding ProcessMessage_def by (auto dest!: staysD simp: s0_def)
  then show "rc_accepted s' \<ge> 0" "rc_accepted s' = 0 \<Longrightarrow> saved (sess s') = saved (sess s)"
    "so_open (sock s) \<Longrightarrow> \<not> is_old (sock s) \<Longrightarrow> acks (sock s') = acks (sock s) + rc_accepted s'"
    by (auto simp: ack_step_def s0_def)
qed

end
