(* ===== verification/WorkTotals.thy ===== *)
theory WorkTotals
  imports ReceivedWork
begin

text \<open>
  The bookkeeping of work: \<open>TotalWorkDone\<close> of a master composite is the sum of its ECM curves
  times B1. Adding curves breaks this for one master, \<open>FinalizeChanges\<close> restores it, and a
  conversation only ever commits tables in which it holds for all of them.
\<close>

definition ecm_total :: "string \<Rightarrow> tables \<Rightarrow> double" where
  "ecm_total n t = sum_work (\<lambda>r. wd_master r = n \<and> wd_method r = FM_ECM) t"

definition total_ok :: "tables \<Rightarrow> string \<Rightarrow> bool" where
  "total_ok t n \<longleftrightarrow> (\<forall>r \<in> set (masters t). mc_name r = n \<longrightarrow> mc_work r = ecm_total n t)"

definition totals_ok :: "tables \<Rightarrow> bool" where
  "totals_ok t \<longleftrightarrow> (\<forall>r \<in> set (masters t). mc_work r = ecm_total (mc_name r) t)"

lemma totals_ok_iff: "totals_ok t \<longleftrightarrow> (\<forall>n. total_ok t n)"
  by (auto simp: totals_ok_def total_ok_def)

section \<open>Operations that leave work and masters alone\<close>

definition same_work :: "session \<Rightarrow> session \<Rightarrow> bool" where
  "same_work s s' \<longleftrightarrow> works (cur s') = works (cur s) \<and> masters (cur s') = masters (cur s)"

interpretation same: effect same_work
  by unfold_locales (auto simp: same_work_def)

named_theorems same_intros \<open>operations that leave the tables of work and masters alone\<close>
lemmas [same_intros] = same.stays_intros

definition stmt_same :: "(tables \<Rightarrow> tables option) \<Rightarrow> bool" where
  "stmt_same stmt \<longleftrightarrow> (\<forall>t t'. stmt t = Some t' \<longrightarrow> works t' = works t \<and> masters t' = masters t)"

lemma same_Execute [same_intros]: "stmt_same stmt \<Longrightarrow> stays same_work (Execute ps stmt)"
proof (rule staysI)
  fix s b s' assume "stmt_same stmt" "Execute ps stmt s = Inr (b, s')"
  then show "same_work s s'"
    by (cases b) (auto simp: stmt_same_def same_work_def dest!: Execute_True Execute_False)
qed

lemma same_queries [same_intros]:
  "stays same_work (Open ps q)" "stays same_work (fetch rows)" "stays same_work (FetchRow ps q)"
  by (auto intro!: staysI simp: same_work_def dest!: Open_Inr fetch_Inr FetchRow_Inr)

lemma stmt_same_intros [same_intros]:
  "stmt_same (insert_user r2)" "stmt_same (insert_comp r6)" "stmt_same (insert_event r7)"
  "stmt_same (insert_detail r8)" "stmt_same (update_comp c)" "stmt_same (update_user u)"
  "stmt_same (flag_slaves P v)" "stmt_same (delete_pending Q)" "stmt_same (\<lambda>t. None)"
  by (auto simp: stmt_same_def insert_defs update_comp_def update_user_def flag_slaves_def
      delete_pending_def change_def split: if_splits)

lemma same_details: "stays same_work (insert_details e fs i b)"
  by (induction fs arbitrary: i b) (auto intro!: same_intros)

lemma same_ops [same_intros]:
  "stays same_work (Composite n v)" "stays same_work (MasterComposite n)" "stays same_work (UserStats n)"
  "stays same_work (comp_FinalizeChanges c)" "stays same_work (user_FinalizeChanges u)"
  "stays same_work (event_FinalizeChanges e)" "stays same_work (AddEventDetail pp w e)"
  "stays same_work (SendUpdatesToAllSlaves m)"
  unfolding Composite_def MasterComposite_def UserStats_def comp_FinalizeChanges_def Let_def comp_Update_def
    comp_Insert_def user_FinalizeChanges_def user_Update_def user_Insert_def event_FinalizeChanges_def
    InsertEvent_def InsertEventDetails_def AddEventDetail_def AddEventDetailWith_def SendUpdatesToAllSlaves_def
  by (intro same_intros same_details)+

section \<open>Operations on one master\<close>

definition others_ok :: "string \<Rightarrow> session \<Rightarrow> session \<Rightarrow> bool" where
  "others_ok n s s' \<longleftrightarrow> (\<forall>k. k \<noteq> n \<longrightarrow> total_ok (cur s) k \<longrightarrow> total_ok (cur s') k)"

lemma others_effect: "effect (others_ok n)"
  by unfold_locales (auto simp: others_ok_def)

lemma same_others: "same_work s s' \<Longrightarrow> others_ok n s s'"
  by (simp add: same_work_def others_ok_def total_ok_def ecm_total_def sum_work_def)

lemma sum_work_cong: "(\<And>r. P r \<Longrightarrow> f r = r) \<Longrightarrow> (\<And>r. P (f r) = P r) \<Longrightarrow>
    works t' = map f (works t) \<Longrightarrow> sum_work P t' = sum_work P t"
  by (auto simp: sum_work_def filter_map o_def intro!: arg_cong [where f = sum_list] map_cong)

lemma add_curves_others:
  assumes "add_curves (n, f, b) k t = Some t'" "total_ok t j" "j \<noteq> n" shows "total_ok t' j"
proof -
  have "ecm_total j t' = ecm_total j t"
    unfolding ecm_total_def using assms(1,3)
    by (intro sum_work_cong [where f = "\<lambda>r. if work_key r = (n, f, b)
        then r\<lparr>wd_unreported := wd_unreported r + k, wd_local := wd_local r + k\<rparr> else r"])
      (auto simp: add_curves_def change_def update_by_def work_key_def)
  with assms show ?thesis by (auto simp: total_ok_def add_curves_def change_def)
qed

lemma insert_work_others:
  assumes "insert_work r t = Some t'" "total_ok t j" "j \<noteq> wd_master r" shows "total_ok t' j"
proof -
  have "works t' = works t @ [r]" "masters t' = masters t"
    using assms(1) by (auto simp: insert_work_def pk_insert_def split: if_splits)
  then have "ecm_total j t' = ecm_total j t"
    using assms(3) by (simp add: ecm_total_def sum_work_def)
  with assms \<open>masters t' = masters t\<close> show ?thesis by (simp add: total_ok_def)
qed

lemma others_Execute: "(\<And>t t' j. stmt t = Some t' \<Longrightarrow> total_ok t j \<Longrightarrow> j \<noteq> n \<Longrightarrow> total_ok t' j)
    \<Longrightarrow> stays (others_ok n) (Execute ps stmt)"
  apply (rule staysI)
  subgoal for s b s'
    by (cases b) (auto simp: others_ok_def dest!: Execute_True Execute_False)
  done

lemmas others_intros = effect.stays_intros [OF others_effect]

lemma others_same: "stays same_work m \<Longrightarrow> stays (others_ok n) m"
  by (auto simp: stays_def intro: same_others)

lemma others_AddWorkDone: "stays (others_ok (ms_name m)) (AddWorkDone f b k m)"
proof -
  have "stays (others_ok (ms_name m)) (Execute ps (add_curves (ms_name m, f, b) k))"
    "stays (others_ok (ms_name m)) (Execute ps (insert_work \<lparr>wd_master = ms_name m, wd_method = f,
       wd_b1 = b, wd_unreported = k, wd_local = k\<rparr>))" for ps
    by (rule others_Execute, (erule (2) add_curves_others | erule (1) insert_work_others, simp))+
  then show ?thesis
    unfolding AddWorkDone_def
    by (intro others_intros others_same [OF same_queries(3)])
qed

lemma update_master_totals:
  assumes "update_master m b t = Some t'"
  shows "j \<noteq> ms_name m \<Longrightarrow> total_ok t j \<Longrightarrow> total_ok t' j"
    and "ms_work m = ecm_total (ms_name m) t \<Longrightarrow> total_ok t' (ms_name m)"
  using assms by (auto simp: update_master_def change_def update_by_def total_ok_def ecm_total_def sum_work_def)

lemma insert_master_Some: "insert_master r t = Some t' \<longleftrightarrow>
    mc_name r \<notin> mc_name ` set (masters t) \<and> t' = t\<lparr>masters := masters t @ [r]\<rparr>"
  by (auto simp: insert_master_def pk_insert_def)

lemma insert_master_totals:
  assumes "insert_master r t = Some t'" "db_wf t"
  shows "j \<noteq> mc_name r \<Longrightarrow> total_ok t j \<Longrightarrow> total_ok t' j"
    and "mc_work r = 0 \<Longrightarrow> total_ok t' (mc_name r)"
proof -
  have t': "t' = t\<lparr>masters := masters t @ [r]\<rparr>" and new: "mc_name r \<notin> mc_name ` set (masters t)"
    using assms(1) by (simp_all add: insert_master_Some)
  then show "j \<noteq> mc_name r \<Longrightarrow> total_ok t j \<Longrightarrow> total_ok t' j"
    by (auto simp: total_ok_def ecm_total_def sum_work_def)
  have "filter (\<lambda>w. wd_master w = mc_name r \<and> wd_method w = FM_ECM) (works t) = []"
    using new assms(2) by (auto simp: filter_empty_conv db_wf_def refs_master_def) (metis imageI subsetD)
  then show "mc_work r = 0 \<Longrightarrow> total_ok t' (mc_name r)"
    using new by (auto simp: t' total_ok_def ecm_total_def sum_work_def image_iff)
qed

text \<open>\<open>MasterComposite::FinalizeChanges\<close> restores the total of its master.\<close>

lemma ecm_total_cong: "works t' = works t \<Longrightarrow> ecm_total n t' = ecm_total n t"
  by (simp add: ecm_total_def sum_work_def)

lemma works_update_master: "update_master m b t = Some t' \<Longrightarrow> works t' = works t"
  by (auto simp: update_master_def change_def)

lemma master_Update_Inr:
  "master_Update m s = Inr (ok, s') \<Longrightarrow>
     (ok \<longrightarrow> (\<exists>b. update_master m b (cur s) = Some (cur s'))) \<and> (\<not> ok \<longrightarrow> cur s' = cur s)
     \<and> works (cur s') = works (cur s)"
  by (cases ok) (auto simp: master_Update_def dest: works_update_master split: option.splits
      dest!: Execute_True Execute_False)

lemma others_master_Update: "stays (others_ok (ms_name m)) (master_Update m)"
  by (rule staysI) (auto simp: others_ok_def dest!: master_Update_Inr intro: update_master_totals(1))

text \<open>What holds after \<open>FinalizeChanges\<close> succeeded: the object carries the total of its master.\<close>

definition settled :: "master \<Rightarrow> session \<Rightarrow> bool" where
  "settled m s \<longleftrightarrow> ms_work m = ecm_total (ms_name m) (cur s) \<and> total_ok (cur s) (ms_name m)"

lemma settled_same: "same_work s s' \<Longrightarrow> settled m s \<Longrightarrow> settled m s'"
  by (simp add: settled_def same_work_def total_ok_def ecm_total_def sum_work_def)

lemma master_Update_settles:
  assumes "master_Update m s = Inr (True, s')" "ms_work m = ecm_total (ms_name m) (cur s)"
  shows "settled m s'"
proof -
  from master_Update_Inr [OF assms(1)] obtain b where u: "update_master m b (cur s) = Some (cur s')"
    and w: "works (cur s') = works (cur s)" by auto
  then have "total_ok (cur s') (ms_name m)" using assms(2) by (rule_tac update_master_totals(2))
  then show ?thesis using assms(2) ecm_total_cong [OF w] by (simp add: settled_def)
qed

lemma FetchRow_sum:
  assumes "FetchRow ps (select_sum_work P) s = Inr (Some x, s')"
  shows "x = (if filter P (works (cur s)) = [] then None else Some (sum_work P (cur s)))"
  using FetchRow_Inr [OF assms] by (auto simp: select_sum_work_def)

lemma master_FinalizeChanges_found:
  assumes "master_FinalizeChanges m s = Inr ((True, m1), s')" "ms_work m = 0" "ms_found m"
  shows "settled m1 s' \<and> ms_name m1 = ms_name m"
proof -
  let ?P = "\<lambda>r. wd_master r = ms_name m \<and> wd_method r = FM_ECM"
  from assms obtain x s1 where q: "FetchRow [PStr (ms_name m) NAME_LENGTH, PStr FM_ECM METHOD_LENGTH]
      (select_sum_work ?P) s = Inr (Some x, s1)"
    and u: "master_Update m1 s1 = Inr (True, s')"
    and m1: "m1 = (case x of None \<Rightarrow> m | Some y \<Rightarrow> m\<lparr>ms_work := y\<rparr>)"
  proof -
    from assms(1,3) obtain row s1 where "FetchRow [PStr (ms_name m) NAME_LENGTH, PStr FM_ECM METHOD_LENGTH]
        (select_sum_work ?P) s = Inr (row, s1)"
      and r: "(case row of None \<Rightarrow> ret (False, m) | Some summed \<Rightarrow>
           let m1 = (case summed of None \<Rightarrow> m | Some x \<Rightarrow> m\<lparr>ms_work := x\<rparr>)
           in bind (master_Update m1) (\<lambda>success. ret (success, m1))) s1 = Inr ((True, m1), s')"
      by (auto simp: master_FinalizeChanges_def elim!: bind_InrE split: if_splits)
    with that show ?thesis by (cases row) (auto simp: Let_def bind_eq_Inr)
  qed
  have "cur s1 = cur s" using FetchRow_Inr [OF q] by simp
  then have "ms_work m1 = ecm_total (ms_name m1) (cur s1) \<and> ms_name m1 = ms_name m"
    using FetchRow_sum [OF q] assms(2) by (auto simp: m1 ecm_total_def sum_work_def)
  then show ?thesis using master_Update_settles [OF u] by simp
qed

lemma master_FinalizeChanges_new:
  assumes "master_FinalizeChanges m s = Inr ((True, m1), s')" "ms_work m = 0" "\<not> ms_found m" "db_wf (cur s)"
  shows "settled m1 s' \<and> ms_name m1 = ms_name m"
proof -
  define r where "r = \<lparr>mc_name = ms_name m, mc_value = ms_value m, mc_active = flag (ms_active m),
               mc_fully = flag (ms_fully m), mc_factors = ms_factors m, mc_recurse = ms_recurse m,
               mc_len = ms_length m, mc_work = ms_work m, mc_updated = ms_updated m, mc_to_master = 0\<rparr>"
  have r: "mc_name r = ms_name m" "mc_work r = 0" by (simp_all add: r_def assms(2))
  from assms have i: "insert_master r (cur s) = Some (cur s')" and m1: "ms_name m1 = ms_name m" "ms_work m1 = 0"
    by (auto simp: master_FinalizeChanges_def master_Insert_def bind_eq_Inr r_def
        split: if_splits dest!: Execute_True)
  then have ok: "total_ok (cur s') (mc_name r)" using insert_master_totals(2) [OF i assms(4)] r by simp
  have "r \<in> set (masters (cur s'))" using i by (simp add: insert_master_Some)
  with ok r have "ecm_total (ms_name m) (cur s') = 0" by (auto simp: total_ok_def)
  then show ?thesis using ok r m1 by (simp add: settled_def)
qed

text \<open>The other masters, through the operations that write this one.\<close>

lemma others_master_Insert:
  assumes "master_Insert m s = Inr (r, s')" "db_wf (cur s)" shows "others_ok (ms_name m) s s'"
proof -
  let ?r = "\<lparr>mc_name = ms_name m, mc_value = ms_value m, mc_active = flag (ms_active m),
               mc_fully = flag (ms_fully m), mc_factors = ms_factors m, mc_recurse = ms_recurse m,
               mc_len = ms_length m, mc_work = ms_work m, mc_updated = ms_updated m, mc_to_master = 0\<rparr>"
  from assms(1) obtain ps ok where e: "Execute ps (insert_master ?r) s = Inr (ok, s')"
    by (auto simp: master_Insert_def bind_eq_Inr)
  show ?thesis
  proof (cases ok)
    case True
    with e have "insert_master ?r (cur s) = Some (cur s')" by (auto dest: Execute_True)
    from insert_master_totals(1) [OF this assms(2)] show ?thesis by (simp add: others_ok_def)
  next
    case False
    with e show ?thesis by (auto simp: others_ok_def dest: Execute_False)
  qed
qed

lemma others_master_FinalizeChanges:
  assumes "master_FinalizeChanges m s = Inr (r, s')" "db_wf (cur s)" shows "others_ok (ms_name m) s s'"
proof (cases "ms_found m")
  case False
  with assms others_master_Insert show ?thesis
    by (auto simp: master_FinalizeChanges_def others_ok_def split: if_splits)
next
  case True
  have upd: "stays (others_ok (ms_name m)) (master_Update (m\<lparr>ms_work := x\<rparr>))" for x
    using others_master_Update [of "m\<lparr>ms_work := x\<rparr>"] by simp
  have upd': "stays (others_ok (ms_name m)) (master_Update (case summed of None \<Rightarrow> m | Some x \<Rightarrow> m\<lparr>ms_work := x\<rparr>))"
    for summed by (cases summed) (auto intro: others_master_Update upd)
  have "stays (others_ok (ms_name m)) (master_FinalizeChanges m)"
    by (simp only: master_FinalizeChanges_def True if_True Let_def,
        intro others_intros others_same [OF same_queries(3)] upd')
  with assms(1) show ?thesis by (auto dest: staysD)
qed

definition keeps_settled :: "master \<Rightarrow> session \<Rightarrow> session \<Rightarrow> bool" where
  "keeps_settled m s s' \<longleftrightarrow> (settled m s \<longrightarrow> settled m s')"

lemma settled_effect: "effect (keeps_settled m)"
  by unfold_locales (auto simp: keeps_settled_def)

lemma settled_keep: "stays same_work m' \<Longrightarrow> stays (keeps_settled m) m'"
  unfolding stays_def keeps_settled_def using settled_same by metis

lemma settled_fully: "stays (keeps_settled m) (master_Update (m\<lparr>ms_fully := True\<rparr>))"
proof (rule staysI)
  fix s ok s' assume u: "master_Update (m\<lparr>ms_fully := True\<rparr>) s = Inr (ok, s')"
  have "settled m s'" if m: "settled m s"
  proof (cases ok)
    case True
    with u have "settled (m\<lparr>ms_fully := True\<rparr>) s'"
      using m by (intro master_Update_settles [of _ s]) (simp_all add: settled_def)
    then show ?thesis by (simp add: settled_def)
  next
    case False
    with u m have "cur s' = cur s" by (auto dest: master_Update_Inr)
    with m show ?thesis by (simp add: settled_def)
  qed
  then show "keeps_settled m s s'" by (simp add: keeps_settled_def)
qed

lemma UpdateIfFullyFactored_totals:
  "stays (others_ok (ms_name m)) (UpdateIfFullyFactored m)" "stays (keeps_settled m) (UpdateIfFullyFactored m)"
proof -
  have upd: "stays (others_ok (ms_name m)) (master_Update (m\<lparr>ms_fully := True\<rparr>))"
    using others_master_Update [of "m\<lparr>ms_fully := True\<rparr>"] by simp
  show "stays (others_ok (ms_name m)) (UpdateIfFullyFactored m)"
    unfolding UpdateIfFullyFactored_def Let_def
    by (intro others_intros others_same [OF same_queries(3)] upd)
  show "stays (keeps_settled m) (UpdateIfFullyFactored m)"
    unfolding UpdateIfFullyFactored_def Let_def
    by (intro effect.stays_intros [OF settled_effect] settled_keep [OF same_queries(3)] settled_fully)
qed

section \<open>Ending a unit of work\<close>

lemma finalize_totals:
  assumes "finalize m c u e s = Inr (ok, s')" "db_wf (cur s)" "ms_work m = 0"
  shows "others_ok (ms_name m) s s'" and "ok \<Longrightarrow> total_ok (cur s') (ms_name m)"
proof -
  let ?m = "SetLastUpdateTime (now s) m"
  have m: "ms_name ?m = ms_name m" "ms_work ?m = 0" using assms(3) by (simp_all add: SetLastUpdateTime_def)
  let ?rest = "\<lambda>m1. bind (comp_FinalizeChanges c) (\<lambda>(ok2, c1). if \<not> ok2 then ret False else
     bind (user_FinalizeChanges u) (\<lambda>(ok3, u1). if \<not> ok3 then ret False else
     bind (case e of None \<Rightarrow> ret True | Some ev \<Rightarrow> event_FinalizeChanges ev) (\<lambda>ok4. if \<not> ok4 then ret False else
     bind (UpdateIfFullyFactored m1) (\<lambda>(ok5, m2). ret ok5))))"
  from assms(1) obtain ok1 m1 s1 where f: "master_FinalizeChanges ?m s = Inr ((ok1, m1), s1)"
    and r: "(if \<not> ok1 then ret False else ?rest m1) s1 = Inr (ok, s')"
    by (auto simp: finalize_def elim!: bind_InrE)
  have o1: "others_ok (ms_name m) s s1"
    using others_master_FinalizeChanges [OF f assms(2)] m by simp
  have o2: "stays (others_ok (ms_name m1)) (?rest m1)"
    by (intro others_intros others_same [OF same_ops(4)] others_same [OF same_ops(5)]
        others_same [OF same_ops(6)] UpdateIfFullyFactored_totals)
  show "others_ok (ms_name m) s s'"
  proof (cases ok1)
    case True
    then have "ms_name m1 = ms_name m"
      using f m master_FinalizeChanges_found [of ?m s m1 s1] master_FinalizeChanges_new [of ?m s m1 s1] assms(2)
      by (cases "ms_found ?m") auto
    with True r o2 o1 show ?thesis by (auto dest!: staysD simp: others_ok_def)
  next
    case False
    with r o1 show ?thesis by simp
  qed
  assume ok
  with r have ok1 by (auto split: if_splits)
  then have s1: "settled m1 s1" "ms_name m1 = ms_name m"
    using f m master_FinalizeChanges_found [of ?m s m1 s1] master_FinalizeChanges_new [of ?m s m1 s1] assms(2)
    by (cases "ms_found ?m"; auto)+
  note ks = settled_keep [OF same_ops(4)] settled_keep [OF same_ops(5)] settled_keep [OF same_ops(6)]
  have "stays (keeps_settled m1) (?rest m1)"
    by (intro effect.stays_intros [OF settled_effect] ks UpdateIfFullyFactored_totals)
  with r s1 \<open>ok1\<close> show "total_ok (cur s') (ms_name m)"
    by (auto dest!: staysD simp: keeps_settled_def settled_def)
qed

section \<open>The receiver\<close>

text \<open>
  Between requests all totals are right; while a unit of work is in progress, those of the other
  masters. Rolling back must succeed for this: \<open>SQLEndTran\<close> carries out what it is asked.
\<close>

definition receiver_inv :: "receiver \<Rightarrow> bool" where
  "receiver_inv s \<longleftrightarrow>
     db_wf (cur (sess s)) \<and> db_wf (saved (sess s)) \<and> endtran (sess s) = [] \<and> totals_ok (saved (sess s))
     \<and> (\<forall>n. (\<forall>m. rc_master s = Some m \<longrightarrow> ms_name m \<noteq> n) \<longrightarrow> total_ok (cur (sess s)) n)
     \<and> (\<forall>m. rc_master s = Some m \<longrightarrow> ms_work m = 0)"

definition inv_step :: "receiver \<Rightarrow> receiver \<Rightarrow> bool" where
  "inv_step s s' \<longleftrightarrow> (receiver_inv s \<longrightarrow> receiver_inv s')"

interpretation inv: effect inv_step
  by unfold_locales (auto simp: inv_step_def)

named_theorems inv_intros \<open>operations of the receiver that keep the totals\<close>
lemmas [inv_intros] = inv.stays_intros

lemma inv_on_db [inv_intros]: "stays tx_step m \<Longrightarrow> stays same_work m \<Longrightarrow> stays inv_step (on_db m)"
  by (fastforce simp: stays_def inv_step_def receiver_inv_def on_db_Inr tx_step_def same_work_def total_ok_def
      ecm_total_def sum_work_def)

lemma inv_modify: "(\<And>s. sess (g s) = sess s \<and> rc_master (g s) = rc_master s) \<Longrightarrow> stays inv_step (modify g)"
  by (simp add: stays_def inv_step_def receiver_inv_def)

lemma inv_sock [inv_intros]: "stays inv_step (on_sock m)"
  by (auto simp: stays_def inv_step_def receiver_inv_def on_sock_Inr)

lemma inv_members [inv_intros]:
  "stays inv_step (deref f)" "stays inv_step (put_comp c)" "stays inv_step (put_stats u)"
  "stays inv_step (put_event e)" "stays inv_step (Lock i m)"
  by (auto simp: stays_def inv_step_def receiver_inv_def deref_def bind_eq_Inr put_comp_def put_stats_def
      put_event_def Lock_def split: option.splits if_splits)

lemma inv_say [inv_intros]: "stays inv_step (say f vs)" "stays inv_step (fails f vs)" "stays inv_step listen"
  unfolding say_def fails_def listen_def by (intro inv_intros)+

text \<open>With the master of the unit of work at hand.\<close>

definition inv_at :: "master \<Rightarrow> receiver \<Rightarrow> receiver \<Rightarrow> bool" where
  "inv_at m0 s s' \<longleftrightarrow>
     (receiver_inv s \<and> map_option ms_name (rc_master s) = Some (ms_name m0) \<longrightarrow>
      receiver_inv s' \<and> map_option ms_name (rc_master s') = Some (ms_name m0))"

lemma inv_at_effect: "effect (inv_at m)"
  by unfold_locales (auto simp: inv_at_def)

lemma deref_Inr: "deref f s = Inr (x, s') \<longleftrightarrow> f s = Some x \<and> s' = s"
  by (auto simp: deref_def split: option.splits)

lemma inv_deref:
  assumes "\<And>m. ms_work m = 0 \<Longrightarrow> stays (inv_at m) (f m)"
  shows "stays inv_step (bind (deref rc_master) f)"
proof (rule staysI)
  fix s a s' assume "bind (deref rc_master) f s = Inr (a, s')"
  then obtain m where m: "rc_master s = Some m" and f: "f m s = Inr (a, s')"
    by (auto simp: bind_eq_Inr deref_Inr)
  show "inv_step s s'"
    unfolding inv_step_def
  proof
    assume i: "receiver_inv s"
    with m have "ms_work m = 0" by (simp add: receiver_inv_def)
    from assms [OF this] f have "inv_at m s s'" by (rule staysD)
    with i m show "receiver_inv s'" by (simp add: inv_at_def)
  qed
qed

lemma inv_at_AddWorkDone: "ms_name m1 = ms_name m \<Longrightarrow> stays (inv_at m) (on_db (AddWorkDone f b k m1))"
proof (rule staysI)
  fix s :: receiver and a s' assume n: "ms_name m1 = ms_name m" and e: "on_db (AddWorkDone f b k m1) s = Inr (a, s')"
  then obtain x where x: "AddWorkDone f b k m1 (sess s) = Inr (a, x)" "s' = s\<lparr>sess := x\<rparr>"
    by (auto simp: on_db_Inr)
  have "tx_step (sess s) x" "others_ok (ms_name m) (sess s) x"
    using staysD [OF tx_master(7) x(1)] staysD [OF others_AddWorkDone x(1)] n by simp_all
  then show "inv_at m s s'"
    by (auto simp: inv_at_def receiver_inv_def x(2) tx_step_def others_ok_def)
qed

lemma inv_at_put: "ms_name m1 = ms_name m \<Longrightarrow> ms_work m1 = 0 \<Longrightarrow> stays (inv_at m) (put_master m1)"
  by (auto simp: stays_def inv_at_def receiver_inv_def put_master_def)

lemma inv_at_same: "stays inv_step m' \<Longrightarrow> (\<And>s a s'. m' s = Inr (a, s') \<Longrightarrow> rc_master s' = rc_master s) \<Longrightarrow>
    stays (inv_at m) m'"
  by (fastforce simp: stays_def inv_step_def inv_at_def)

text \<open>What ending a unit of work comes to.\<close>

lemma EndWork_cases:
  assumes "EndWork b s = Inr (ok, s')"
  shows "(rc_master s = None \<and> s' = s \<and> ok) \<or>
     (\<exists>m x. rc_master s = Some m \<and> rc_master s' = None \<and> sess s' = (if ok then Commit x else Rollback x) \<and>
        (b \<longrightarrow> (\<exists>c u. rc_comp s = Some c \<and> rc_stats s = Some u \<and> finalize m c u (rc_event s) (sess s) = Inr (ok, x)))
        \<and> (\<not> b \<longrightarrow> \<not> ok \<and> x = sess s))"
proof (cases "rc_master s")
  case None
  with assms show ?thesis by (simp add: EndWork_def)
next
  case (Some m)
  from assms obtain success s1 s2 where
      f: "(if b then bind (deref rc_comp) (\<lambda>c. bind (deref rc_stats) (\<lambda>u. bind (asks rc_event) (\<lambda>e.
                  on_db (finalize m c u e)))) else ret False) s = Inr (success, s1)"
    and g: "(if success
           then bind (modify (\<lambda>s. s\<lparr>rc_accepted := rc_accepted s + 1\<rparr>)) (\<lambda>_.
                bind commit (\<lambda>_.
                bind (asks (\<lambda>s. is_old (sock s))) (\<lambda>old.
                if old then say ''OK.'' []
                else bind (deref rc_comp) (\<lambda>c. say ''Accepted Work for %s'' [VS (co_name c)]))))
           else rollback) s1 = Inr ((), s2)"
    and h: "ok = success" "s' = s2\<lparr>rc_comp := None, rc_master := None, rc_stats := None, rc_event := None\<rparr>"
    by (auto simp: EndWork_def Some clear_work_def elim!: bind_InrE)
  have "sess s2 = (if ok then Commit (sess s1) else Rollback (sess s1))"
    using g h(1) by (auto simp: commit_def rollback_def bind_eq_Inr say_def on_sock_Inr deref_Inr split: if_splits)
  with f h Some show ?thesis
    by (cases b) (auto simp: bind_eq_Inr deref_Inr on_db_Inr)
qed

lemma EndWork_inv [inv_intros]: "stays inv_step (EndWork b)"
proof (rule staysI)
  fix s ok s' assume run: "EndWork b s = Inr (ok, s')"
  have "receiver_inv s'" if i: "receiver_inv s"
  proof (cases "rc_master s")
    case None
    with EndWork_cases [OF run] i show ?thesis by auto
  next
    case (Some m)
    with EndWork_cases [OF run] obtain x where s': "rc_master s' = None" "sess s' = (if ok then Commit x else Rollback x)"
      and x: "b \<longrightarrow> (\<exists>c u. finalize m c u (rc_event s) (sess s) = Inr (ok, x))" "\<not> b \<longrightarrow> \<not> ok \<and> x = sess s"
      by auto
    from i Some have m: "db_wf (cur (sess s))" "ms_work m = 0" by (auto simp: receiver_inv_def)
    have tx: "tx_step (sess s) x"
      using x by (cases b) (auto dest: staysD [OF tx_finalize] simp: tx.refl)
    show ?thesis
    proof (cases ok)
      case True
      with x obtain c u where f: "finalize m c u (rc_event s) (sess s) = Inr (True, x)" by auto
      have "totals_ok (cur x)"
        using finalize_totals [OF f m] i Some
        by (auto simp: totals_ok_iff others_ok_def receiver_inv_def) metis
      with True i tx s' show ?thesis
        by (simp add: receiver_inv_def Commit_ok tx_step_def totals_ok_iff)
    next
      case False
      with i tx s' show ?thesis
        by (simp add: receiver_inv_def Rollback_ok tx_step_def totals_ok_iff)
    qed
  qed
  then show "inv_step s s'" by (simp add: inv_step_def)
qed

lemma inv_keep: "stays inv_step m \<Longrightarrow> m s = Inr (a, s') \<Longrightarrow> receiver_inv s \<Longrightarrow> receiver_inv s'"
  by (auto dest: staysD simp: inv_step_def)

lemma StartWork_inv: "receiver_inv s \<Longrightarrow> rc_master s = None \<Longrightarrow> StartWork n s = Inr (u, s') \<Longrightarrow> receiver_inv s'"
proof -
  assume i: "receiver_inv s" and n: "rc_master s = None" and run: "StartWork n s = Inr (u, s')"
  then obtain c x m y st z where c: "Composite n True (sess s) = Inr (c, x)"
    and m: "MasterComposite (co_master c) x = Inr (m, y)" and u: "UserStats (hs_user (sock s)) y = Inr (st, z)"
    and s': "sess s' = z" "rc_master s' = Some m"
    by (auto simp: StartWork_def on_db_Inr Lock_def bind_eq_Inr split: if_splits)
  have tx: "tx_step (sess s) z" and sw: "same_work (sess s) z"
    using tx_comp(1) tx_master(1) tx_user(1) same_ops(1-3) c m u
    by (blast dest: staysD intro: tx.trans same.trans)+
  have "ms_work m = 0" using m by (auto simp: MasterComposite_def bind_eq_Inr split: option.splits)
  with i n tx sw show "receiver_inv s'"
    by (simp add: receiver_inv_def s' tx_step_def same_work_def total_ok_def ecm_total_def sum_work_def)
qed

lemma ProcessWork_inv [inv_intros]: "stays inv_step (ProcessWork pp v f n b k t)"
proof -
  have m: "stays (inv_at m) (let m1 = (if n \<noteq> 0 then SetActive False m else m) in
     bind (on_db (AddWorkDone f b k m1)) (\<lambda>added.
     bind (if added then on_db (SendUpdatesToAllSlaves m1) else ret False) (\<lambda>flagged.
     bind (put_master (SetSendUpdatesToMaster True m1)) (\<lambda>_.
     bind (deref rc_stats) (\<lambda>u.
     bind (put_stats (IncrementWorkDone b k (IncrementTimeSpent t u))) (\<lambda>_.
     bind (asks sock) (\<lambda>h.
     if flagged
     then on_db (Execute (pending_params h nm f b) (delete_pending (pending_of h nm f b)))
     else ret False)))))))" if "ms_work m = 0" for m nm
  proof -
    have db: "stays (inv_at m) (on_db m')" if "stays tx_step m'" "stays same_work m'" for m' :: "bool db"
      by (intro inv_at_same inv_on_db that) (auto simp: on_db_Inr)
    have mem: "stays (inv_at m) (deref rc_stats)" "stays (inv_at m) (put_stats u)" "stays (inv_at m) (asks g)" for u and g :: "receiver \<Rightarrow> helper"
      by (intro inv_at_same inv_intros; auto simp: deref_Inr put_stats_def)+
    show ?thesis
      unfolding Let_def
      by (intro effect.stays_intros [OF inv_at_effect] inv_at_AddWorkDone inv_at_put db mem tx_intros tx_master
          same_intros wf_intros) (simp_all add: that SetActive_def SetSendUpdatesToMaster_def)
  qed
  show ?thesis
    unfolding ProcessWork_def by (intro inv_intros inv_deref m)
qed

lemma ProcessWorkMessage_inv:
  assumes i: "receiver_inv s" and n: "rc_master s = None" and run: "ProcessWorkMessage pp m s = Inr (r, s')"
  shows "receiver_inv s'"
proof -
  have failed: "receiver_inv s'" if "bind (fails f vs) (\<lambda>ok. ret (g ok)) s = Inr (r, s')" for f vs and g :: "bool \<Rightarrow> bool \<times> string"
    using that inv_keep [OF inv_say(2) _ i] by (auto simp: bind_eq_Inr)
  from run obtain vs where vs: "(case work_args vs of
       Some (compositeName, compositeValue, factorMethod, factorIsNumber, b1, curvesDone, timeSpent, len) \<Rightarrow>
         if len \<noteq> int (length compositeValue)
         then bind (fails ''Composite length mismatch.  Message ignored'' []) (\<lambda>ok. ret (ok, compositeName))
         else bind (StartWork compositeName) (\<lambda>_.
              bind (ProcessWork pp compositeValue factorMethod factorIsNumber b1 curvesDone timeSpent)
                (\<lambda>ok. ret (ok, compositeName)))
     | None \<Rightarrow> bind (fails ''Message <%s> could not be parsed'' [VS m]) (\<lambda>ok. ret (ok, []))) s = Inr (r, s')"
    by (auto simp: ProcessWorkMessage_def elim!: bind_InrE)
  show ?thesis
  proof (cases "work_args vs")
    case None
    with vs failed show ?thesis by simp
  next
    case (Some a)
    with vs failed show ?thesis
      by (auto simp: bind_eq_Inr split: if_splits prod.splits
          intro: inv_keep [OF ProcessWork_inv _ StartWork_inv [OF i n]])
  qed
qed

lemma EndWork_clears: "EndWork b s = Inr (ok, s') \<Longrightarrow> rc_master s' = None"
  using EndWork_cases by fastforce

lemma AbandonWork_inv [inv_intros]: "rc_master s = None \<Longrightarrow> AbandonWork m s = Inr (u, s') \<Longrightarrow> inv_step s s'"
proof -
  assume n: "rc_master s = None" and run: "AbandonWork m s = Inr (u, s')"
  have "receiver_inv s'" if i: "receiver_inv s"
  proof -
    from run obtain vs where "(case abandon_args vs of
       Some (compositeName, factorMethod, b1) \<Rightarrow>
         bind (asks sock) (\<lambda>h.
         bind (on_db (Execute (pending_params h compositeName factorMethod b1) (\<lambda>t. None))) (\<lambda>ok.
         if ok then commit else rollback))
     | None \<Rightarrow> say ''Message <%s> could not be parsed'' [VS m]) s = Inr (u, s')"
      by (auto simp: AbandonWork_def elim!: bind_InrE)
    then consider (say) "say ''Message <%s> could not be parsed'' [VS m] s = Inr (u, s')"
      | (sql) ps ok x where "Execute ps (\<lambda>t. None) (sess s) = Inr (ok, x)" "s' = s\<lparr>sess := Rollback x\<rparr>"
      by (auto simp: bind_eq_Inr on_db_Inr rollback_def dest: abandon_refused split: option.splits if_splits)
    then show ?thesis
    proof cases
      case say
      with i show ?thesis by (auto dest: staysD [OF inv_say(1)] simp: inv_step_def)
    next
      case sql
      have "tx_step (sess s) x" using sql(1) tx_Execute [OF wf_delete_pending(2)] by (auto dest: staysD)
      with i n sql(2) show ?thesis
        by (simp add: receiver_inv_def Rollback_ok tx_step_def totals_ok_iff)
    qed
  qed
  then show ?thesis by (simp add: inv_step_def)
qed

lemma new_event_inv [inv_intros]: "stays inv_step (new_event c)"
  unfolding new_event_def Let_def by (intro inv_intros)

lemma ProcessFactorEvent_inv [inv_intros]: "stays inv_step (ProcessFactorEvent m)"
  unfolding ProcessFactorEvent_def by (intro inv_intros)

lemma AddFactor_inv [inv_intros]: "stays inv_step (AddFactor pp v)"
proof -
  have m: "stays (inv_at m) (bind (deref rc_event) (\<lambda>e.
     bind (put_master (if CompositeIsMasterComposite c \<or> GetFactorCount e > 0
                       then master_IncrementFactorCount m else m)) (\<lambda>_.
     bind (on_db (AddEventDetail pp v e)) (\<lambda>e1.
     bind (put_event e1) (\<lambda>_.
     modify (\<lambda>s. s\<lparr>rc_factors := rc_factors s + 1,
                    rc_master := (if \<not> rc_recurse s then map_option (SetActive False) (rc_master s)
                                  else rc_master s)\<rparr>))))))" if "ms_work m = 0" for m c
  proof -
    have db: "stays (inv_at m) (on_db (AddEventDetail pp v e))" "stays (inv_at m) (deref rc_event)"
      "stays (inv_at m) (put_event e)" for e
      by (intro inv_at_same inv_intros tx_event same_ops; auto simp: on_db_Inr deref_Inr put_event_def)+
    have fin: "stays (inv_at m) (modify (\<lambda>s. s\<lparr>rc_factors := rc_factors s + 1,
                    rc_master := (if \<not> rc_recurse s then map_option (SetActive False) (rc_master s)
                                  else rc_master s)\<rparr>))"
      by (auto simp: stays_def inv_at_def receiver_inv_def SetActive_def)
    show ?thesis
      by (intro effect.stays_intros [OF inv_at_effect] db fin inv_at_put)
        (simp_all add: that master_IncrementFactorCount_def)
  qed
  show ?thesis
    unfolding AddFactor_def by (intro inv_intros inv_deref m)
qed

lemma ProcessFactorEventDetail_inv [inv_intros]: "stays inv_step (ProcessFactorEventDetail pp m)"
  unfolding ProcessFactorEventDetail_def by (intro inv_intros)

lemma message_step_inv [inv_intros]: "stays inv_step (message_step pp l)"
proof -
  have work: "stays inv_step (bind (EndWork False) (\<lambda>_.
       bind (ProcessWorkMessage pp m) (\<lambda>(ok, compositeName).
       bind (lift (expect_end ok compositeName)) (\<lambda>good. ret (ok, good)))))" for m
    by (rule staysI)
      (auto simp: inv_step_def elim!: bind_InrE dest: ProcessWorkMessage_inv [rotated 2] EndWork_clears
        inv_keep [OF EndWork_inv])
  have abandon: "stays inv_step (bind (EndWork b) (\<lambda>_. bind (AbandonWork m) (\<lambda>_. ret l)))" for b m and l :: locals
  proof (rule staysI)
    fix s r s' assume "bind (EndWork b) (\<lambda>_. bind (AbandonWork m) (\<lambda>_. ret l)) s = Inr (r, s')"
    then obtain ok s1 u where "EndWork b s = Inr (ok, s1)" "AbandonWork m s1 = Inr (u, s')"
      by (auto simp: bind_eq_Inr)
    then show "inv_step s s'"
      using inv.trans staysD [OF EndWork_inv] AbandonWork_inv [OF EndWork_clears] by blast
  qed
  show ?thesis
    unfolding message_step_def handle_message_def by (intro inv_intros work abandon)
qed

text \<open>A session between two pieces of work, committed or not.\<close>

definition clean :: "session \<Rightarrow> bool" where
  "clean x \<longleftrightarrow> db_wf (cur x) \<and> db_wf (saved x) \<and> endtran x = [] \<and> totals_ok (saved x) \<and> totals_ok (cur x)"

lemma clean_receiver: "clean (sess s) \<Longrightarrow> rc_master s = None \<Longrightarrow> receiver_inv s"
  "receiver_inv s \<Longrightarrow> rc_master s = None \<Longrightarrow> clean (sess s)"
  by (simp_all add: clean_def receiver_inv_def totals_ok_iff)

lemma ProcessMessage_inv:
  assumes "ProcessMessage pp junk s = Inr (u, s')" "receiver_inv s" "rc_master s = None"
  shows "clean (sess s')"
proof -
  from assms(1) obtain n s1 s2 l where l: "iterate (Suc n) (message_step pp) (True, junk) s1 = Inr (l, s2)"
    and s1: "s1 = s\<lparr>rc_accepted := 0, rc_factors := 0\<rparr>"
    and r: "report (s2\<lparr>sess := Rollback (sess s2)\<rparr>) = Inr (u, s')"
    by (auto simp: ProcessMessage_def rollback_def simp del: iterate.simps elim!: bind_InrE)
  have "receiver_inv s1" using assms(2) by (simp add: receiver_inv_def s1)
  then have "receiver_inv s2"
    by (rule inv_keep [OF inv.stays_iterate [OF message_step_inv] l])
  moreover have "sess s' = Rollback (sess s2)"
    using r by (auto simp: report_def say_def on_sock_Inr bind_eq_Inr split: if_splits)
  ultimately show ?thesis by (simp add: receiver_inv_def Rollback_ok clean_def)
qed

end
