(* ===== verification/EvalProps.thy ===== *)
theory EvalProps
  imports EvalExpr
begin

text \<open>
  The evaluator always ends within the fuel \<open>eval_str\<close> gives it: every step of the descent
  consumes a character or moves to a later entry point, and the cursor never moves back.
\<close>

definition cur_len :: "cursor \<Rightarrow> nat" where
  "cur_len cur = (case cur of None \<Rightarrow> 0 | Some s \<Rightarrow> length s)"

fun call_size :: "call \<Rightarrow> nat" where
  "call_size (CEval fp t cur) = 3 * cur_len cur + 2"
| "call_size (COperand fp f t cur) = 3 * cur_len cur + 1"
| "call_size (CSuffix fp f t cur) = 3 * cur_len cur"

fun call_cur :: "call \<Rightarrow> cursor" where
  "call_cur (CEval fp t cur) = cur"
| "call_cur (COperand fp f t cur) = cur"
| "call_cur (CSuffix fp f t cur) = cur"

text \<open>A result that is not out of fuel and does not move the cursor back.\<close>

definition bounded :: "nat \<Rightarrow> ev_result \<Rightarrow> bool" where
  "bounded n r \<longleftrightarrow> (case r of Inl h \<Rightarrow> h \<noteq> Fuel | Inr (c, t, cur) \<Rightarrow> cur_len cur \<le> n)"

lemma bounded_simps [simp]: "bounded n (Inr (c, t, cur)) \<longleftrightarrow> cur_len cur \<le> n"
  "bounded n (Inl h) \<longleftrightarrow> h \<noteq> Fuel"
  by (simp_all add: bounded_def)

lemma bounded_mono: "bounded m r \<Longrightarrow> m \<le> n \<Longrightarrow> bounded n r"
  by (auto simp: bounded_def split: sum.splits)

lemma bounded_and_then: "m \<noteq> Inl Fuel \<Longrightarrow> (\<And>x. m = Inr x \<Longrightarrow> bounded n (f x)) \<Longrightarrow> bounded n (and_then m f)"
  by (cases m) auto

lemma bounded_call: "bounded m r \<Longrightarrow> (\<And>c t cur. cur_len cur \<le> m \<Longrightarrow> bounded n (f (c, t, cur))) \<Longrightarrow>
    bounded n (and_then r f)"
  by (cases r) (auto simp: bounded_def)

lemma bounded_if: "(c \<Longrightarrow> bounded n a) \<Longrightarrow> (\<not> c \<Longrightarrow> bounded n b) \<Longrightarrow> bounded n (if c then a else b)"
  by simp

lemma cur_len_simps [simp]: "cur_len None = 0" "cur_len (Some s) = length s" "cur_len (advance c) \<le> cur_len c"
  by (auto simp: cur_len_def advance_def split: option.splits list.splits)

lemma peek_char: "peek c = Inr x \<Longrightarrow> x \<noteq> NUL \<Longrightarrow> \<exists>s. c = Some (x # s)"
  by (auto simp: peek_def split: option.splits list.splits)

lemma no_fuel [simp]: "peek c \<noteq> Inl Fuel" "eval_power a b op \<noteq> Inl Fuel" "eval_product a b op \<noteq> Inl Fuel"
  by (auto simp: peek_def eval_power_def eval_product_def split: option.splits list.splits)

lemma and_then_no_fuel: "m \<noteq> Inl Fuel \<Longrightarrow> (\<And>x. f x \<noteq> Inl Fuel) \<Longrightarrow> and_then m f \<noteq> Inl Fuel"
  by (cases m) auto

lemma push_no_fuel [simp]: "finish f \<noteq> Inl Fuel" "push_power c f \<noteq> Inl Fuel" "push_product c f \<noteq> Inl Fuel"
  "push_sum c f \<noteq> Inl Fuel"
  unfolding finish_def push_power_def push_product_def push_sum_def finish_def
  by (intro and_then_no_fuel; simp)+

lemma not_NUL: "is_open c \<Longrightarrow> c \<noteq> NUL" "is_digit c \<Longrightarrow> c \<noteq> NUL"
  by (auto simp: is_open_def is_digit_def NUL_def code_def)

lemma read_number_rest:
  assumes "read_number s old = (v, rest)" "s = c # s'" "is_digit c" shows "length rest < length s"
proof -
  have "length (dropWhile is_digit s') \<le> length s'" "length (dropWhile is_xdigit (drop 2 s)) \<le> length (drop 2 s)"
    by (rule length_dropWhile_le)+
  moreover have "length (drop 2 s) < length s" "dropWhile is_digit s = dropWhile is_digit s'"
    using assms(2,3) by simp_all
  ultimately show ?thesis using assms by (auto simp: read_number_def Let_def split: if_splits)
qed

text \<open>One step, given that the calls it makes are bounded.\<close>

lemma operand_bounded:
  assumes rec: "\<And>call. call_size call < 3 * cur_len cur + 1 \<Longrightarrow> bounded (cur_len (call_cur call)) (rec call)"
  shows "bounded (cur_len cur) (operand rec pp fp f t cur)"
proof -
  have num: "bounded (cur_len cur) (rec (CSuffix fp g t' (Some rest)))"
    if "length rest < cur_len cur" for g t' rest
    using rec [of "CSuffix fp g t' (Some rest)"] that by (auto intro: bounded_mono)
  have suf: "bounded (cur_len cur) (rec (CSuffix fp g t' cur2))" if "cur_len cur2 < cur_len cur" for g t' cur2
    using rec [of "CSuffix fp g t' cur2"] that by (auto intro: bounded_mono)
  have par: "bounded (cur_len cur) (and_then (rec (CEval fp t (advance c1))) (\<lambda>(r, t', cur2).
             rec (CSuffix fp (g t') t' cur2)))"
    if "c1 = Some (c # cs)" "length (c # cs) \<le> cur_len cur" for c1 c cs g
    using rec [of "CEval fp t (Some cs)"] that suf
    by (cases "rec (CEval fp t (Some cs))") (auto simp: advance_def intro!: suf)
  have phi: "bounded (cur_len cur) (phi_call rec pp fp f t s)" if "length s \<le> cur_len cur" "4 \<le> length s" for s
  proof -
    have 1: "bounded (length s - 4) (rec (CEval True t (Some (drop 4 s))))"
      using rec [of "CEval True t (Some (drop 4 s))"] that by auto
    have 2: "bounded (cur_len cur2) (rec (CEval False b cur2))" if "cur_len cur2 \<le> length s - 4" for b cur2
      using rec [of "CEval False b cur2"] that \<open>length s \<le> cur_len cur\<close> \<open>4 \<le> length s\<close> by auto
    show ?thesis
      unfolding phi_call_def
    proof (rule bounded_call [OF 1], simp only: prod.case)
      fix r1 b cur2 assume c2: "cur_len cur2 \<le> length s - 4"
      have "bounded (cur_len cur) (and_then (rec (CEval False b cur2)) (\<lambda>(r2, t', cur3).
         if r2 = 0 then rec (CSuffix fp f t' cur3)
         else (case eval_Phi pp b t' of (ok, v) \<Rightarrow>
                 if ok = 0 then Inr (0, t', cur3) else rec (CSuffix fp (f\<lparr>cur_n := v\<rparr>) t' cur3))))"
        by (rule bounded_call [OF 2 [OF c2]]) (use c2 that in \<open>auto split: prod.splits intro!: suf\<close>)
      then show "bounded (cur_len cur) (if r1 \<noteq> 2 then Inr (0, b, cur2)
        else and_then (rec (CEval False b cur2)) (\<lambda>(r2, t', cur3).
         if r2 = 0 then rec (CSuffix fp f t' cur3)
         else (case eval_Phi pp b t' of (ok, v) \<Rightarrow>
                 if ok = 0 then Inr (0, t', cur3) else rec (CSuffix fp (f\<lparr>cur_n := v\<rparr>) t' cur3))))"
        using c2 that by auto
    qed
  qed
  have len4: "4 \<le> length s" if "map lower (take 4 s) = ''phi(''" for s
    using arg_cong [OF that, of length] by simp
  have body: "bounded (cur_len cur) (and_then (peek c1) (\<lambda>c.
         if is_open c then
           and_then (rec (CEval fp t (advance c1))) (\<lambda>(r, t', cur2).
             rec (CSuffix fp (f\<lparr>cur_n := (if negate then - t' else t')\<rparr>) t' cur2))
         else if is_digit c then
           (case read_number (the c1) (cur_n f) of (v, rest) \<Rightarrow>
              rec (CSuffix fp (f\<lparr>cur_n := (if negate then - v else v)\<rparr>) t (Some rest)))
         else if map lower (take 4 (the c1)) = ''phi('' then phi_call rec pp fp f t (the c1)
         else Inr (0, t, c1)))" if c1: "cur_len c1 \<le> cur_len cur" for c1 negate
  proof (rule bounded_and_then)
    fix c assume p: "peek c1 = Inr c"
    then obtain s1 where s1: "c1 = Some s1" by (auto simp: peek_def split: option.splits)
    show "bounded (cur_len cur) (if is_open c then
           and_then (rec (CEval fp t (advance c1))) (\<lambda>(r, t', cur2).
             rec (CSuffix fp (f\<lparr>cur_n := (if negate then - t' else t')\<rparr>) t' cur2))
         else if is_digit c then
           (case read_number (the c1) (cur_n f) of (v, rest) \<Rightarrow>
              rec (CSuffix fp (f\<lparr>cur_n := (if negate then - v else v)\<rparr>) t (Some rest)))
         else if map lower (take 4 (the c1)) = ''phi('' then phi_call rec pp fp f t (the c1)
         else Inr (0, t, c1))"
    proof (cases "is_open c \<or> is_digit c")
      case True
      then obtain cs where cs: "c1 = Some (c # cs)" using peek_char [OF p] not_NUL by auto
      show ?thesis
      proof (cases "is_open c")
        case o: True
        with par [OF cs] c1 cs show ?thesis by simp
      next
        case False
        with True cs c1 show ?thesis
          using read_number_rest [of "c # cs" "cur_n f" _ _ c cs]
          by (auto split: prod.splits intro!: num dest: order_less_le_trans)
      qed
    next
      case False
      then show ?thesis using phi [of s1] len4 [of s1] c1 s1 by auto
    qed
  qed simp
  show ?thesis
    unfolding operand_def Let_def
    by (rule bounded_and_then, simp) (use body [of cur] body [of "advance cur"] in \<open>simp split: if_splits\<close>)
qed

lemma suffix_bounded:
  assumes rec: "\<And>call. call_size call < 3 * cur_len cur \<Longrightarrow> bounded (cur_len (call_cur call)) (rec call)"
  shows "bounded (cur_len cur) (suffix rec fp f t cur)"
proof -
  have adv: "cur_len (advance cur) < cur_len cur" if "peek cur = Inr c" "c \<noteq> NUL" for c
    using peek_char [OF that] by (auto simp: advance_def)
  have calls: "bounded (cur_len cur) (rec (COperand fp g t' (advance cur)))"
    "bounded (cur_len cur) (rec (CSuffix fp g t' (advance cur)))"
    if "peek cur = Inr c" "c \<noteq> NUL" for c g t'
    using rec [of "COperand fp g t' (advance cur)"] rec [of "CSuffix fp g t' (advance cur)"] adv [OF that]
    by (auto intro: bounded_mono)
  show ?thesis
    unfolding suffix_def Let_def
  proof (rule bounded_and_then, simp)
    fix c assume p: "peek cur = Inr c"
    show "bounded (cur_len cur) (if is_close fp c then
            and_then (finish f) (\<lambda>v. Inr (if c = CHR '','' then 2 else 1, v, advance cur))
          else if c = CHR ''^'' then
            and_then (push_power (CHR ''^'') f) (\<lambda>f'. rec (COperand fp f' t (advance cur)))
          else if c = CHR ''!'' \<or> c = CHR ''#'' then
            and_then (peek (advance cur)) (\<lambda>d.
              if \<not> is_digit d then rec (CSuffix fp (f\<lparr>n2 := cur_n f, op2 := c\<rparr>) t (advance cur))
              else and_then (push_power (if c = CHR ''!'' then CHR ''@'' else CHR ''$'') f)
                     (\<lambda>f'. rec (COperand fp f' t (advance cur))))
          else if c = CHR ''.'' \<or> c = CHR ''*'' \<or> c = CHR ''/'' \<or> c = CHR ''%'' then
            and_then (push_product c f) (\<lambda>f'. rec (COperand fp f' t (advance cur)))
          else if c = CHR ''+'' \<or> c = CHR ''-'' then
            and_then (push_sum c f) (\<lambda>f'. rec (COperand fp f' t (advance cur)))
          else Inr (0, t, advance cur))"
    proof (cases "c = NUL")
      case True
      then show ?thesis by (auto simp: is_close_def intro!: bounded_and_then)
    next
      case False
      show ?thesis
        by (intro bounded_if bounded_and_then calls [OF p False] no_fuel push_no_fuel) simp_all
    qed
  qed
qed

theorem eval_run_bounded: "call_size call < k \<Longrightarrow> bounded (cur_len (call_cur call)) (eval_run pp k call)"
proof (induction k arbitrary: call)
  case (Suc k)
  show ?case
  proof (cases call)
    case (CEval fp t cur)
    with Suc.prems Suc.IH [of "COperand fp frame0 t cur"] show ?thesis by simp
  next
    case (COperand fp f t cur)
    with Suc show ?thesis by (auto intro!: operand_bounded Suc.IH)
  next
    case (CSuffix fp f t cur)
    with Suc show ?thesis by (auto intro!: suffix_bounded Suc.IH)
  qed
qed simp

lemma eval_str_ends: "eval_str pp s \<noteq> Inl Fuel"
proof -
  have "bounded (length s) (eval_run pp (eval_fuel s) (CEval False 0 (Some s)))"
    using eval_run_bounded [of "CEval False 0 (Some s)" "eval_fuel s" pp] by (simp add: eval_fuel_def)
  then show ?thesis
    by (auto simp: eval_str_def eval_value_def eval_2_def bounded_def split: sum.splits prod.splits
        intro!: and_then_no_fuel)
qed

end
