(* ===== verification/ReceiverEnds.thy ===== *)
theory ReceiverEnds
  imports WorkReceiver EvalProps
begin

text \<open>
  Every conversation of the work receiver ends: each round of its loops takes a line from the
  client, and no operation it calls runs out of fuel.
\<close>

section \<open>Database and connection\<close>

lemma ends_queries [end_intros]: "ends (Execute ps stmt)" "ends (Open ps q)" "ends (fetch rows)"
  by (auto simp: ends_def Execute_def Open_def fetch_def check_params_def split: prod.splits)

lemma ends_FetchRow [end_intros]: "ends (FetchRow ps q)"
  unfolding FetchRow_def by (intro end_intros)

lemma ends_socket [end_intros]: "ends (Send t)" "ends (Sendf f vs)" "ends Receive"
  by (auto simp: ends_def Sendf_def Send_def Receive_def split: list.splits input.splits)

lemma ends_handler [end_intros]:
  "ends m \<Longrightarrow> ends (on_db m)" "ends m2 \<Longrightarrow> ends (on_sock m2)" "ends (say f vs)" "ends listen"
  "ends commit" "ends rollback"
  unfolding on_db_def on_sock_def say_def listen_def commit_def rollback_def
  by (intro end_intros ends_part | assumption)+

lemma sscanf_ends [simp]: "sscanf s f n \<noteq> Inl Fuel"
  by (simp add: sscanf_def Let_def)

lemma strcpy_ends [simp]: "strcpy s n \<noteq> Inl Fuel"
  by (simp add: strcpy_def)

lemma and_then_ends: "m \<noteq> Inl Fuel \<Longrightarrow> (\<And>x. f x \<noteq> Inl Fuel) \<Longrightarrow> and_then m f \<noteq> Inl Fuel"
  by (cases m) auto

section \<open>The objects\<close>

lemma eval_str_ends2 [simp]: "eval_str pp v = Inl h \<Longrightarrow> h \<noteq> Fuel" "eval_str pp v \<noteq> Inl Fuel"
  using eval_str_ends [of pp v] by auto

lemma SetValue_ends [simp]: "SetValue pp v c \<noteq> Inl Fuel"
  using eval_str_ends [of pp v]
  by (cases "eval_str pp v") (auto simp: SetValue_def ComputeDecimalLengthAndPRPTest_def Let_def split: prod.splits)

lemma ends_composite [end_intros]: "ends (Composite n v)" "ends (comp_FinalizeChanges c)"
  unfolding Composite_def comp_FinalizeChanges_def Let_def comp_Update_def comp_Insert_def
  by (intro end_intros)+

lemma ends_master_Update [end_intros]: "ends (master_Update m)"
  unfolding master_Update_def by (intro end_intros) simp

lemma ends_master [end_intros]: "ends (MasterComposite n)" "ends (master_FinalizeChanges m)"
  "ends (AddWorkDone f b k m)" "ends (SendUpdatesToAllSlaves m)" "ends (UpdateIfFullyFactored m)"
  unfolding MasterComposite_def master_FinalizeChanges_def master_Insert_def Let_def AddWorkDone_def
    SendUpdatesToAllSlaves_def UpdateIfFullyFactored_def
  by (intro end_intros)+

lemma ends_details [end_intros]: "ends (insert_details e fs i b)"
  by (induction fs arbitrary: i b) (auto intro!: end_intros)

lemma ends_event [end_intros]: "ends (AddEventDetail pp v e)" "ends (event_FinalizeChanges e)"
  unfolding AddEventDetail_def AddEventDetailWith_def Let_def event_FinalizeChanges_def InsertEvent_def
    InsertEventDetails_def
  by (intro end_intros; simp)+

lemma ends_stats [end_intros]: "ends (UserStats n)" "ends (user_FinalizeChanges u)"
  unfolding UserStats_def user_FinalizeChanges_def user_Update_def user_Insert_def
  by (intro end_intros)+

section \<open>The receiver\<close>

lemma ends_members [end_intros]:
  "ends (deref f)" "ends (put_comp c)" "ends (put_master m)" "ends (put_stats u)" "ends (put_event e)"
  "ends (fails t vs)" "ends (Lock i m)" "ends clear_work" "ends (new_event c)"
  unfolding deref_def put_comp_def put_master_def put_stats_def put_event_def fails_def Lock_def clear_work_def
    new_event_def Let_def
  by (intro end_intros; simp)+

lemma ends_work [end_intros]: "ends (StartWork n)" "ends (finalize m c u e)" "ends (EndWork b)"
  "ends (ProcessWork pp v f isn b1 k t)"
proof -
  show "ends (StartWork n)" unfolding StartWork_def by (intro end_intros)
  show f: "ends (finalize m c u e)" for m c u e unfolding finalize_def by (intro end_intros)
  show "ends (EndWork b)" unfolding EndWork_def by (intro end_intros f)
  show "ends (ProcessWork pp v f isn b1 k t)" unfolding ProcessWork_def Let_def by (intro end_intros) simp
qed

lemma ends_messages [end_intros]: "ends (ProcessWorkMessage pp m)" "ends (AbandonWork m)"
  "ends (ProcessFactorEvent m)" "ends (AddFactor pp v)" "ends (ProcessFactorEventDetail pp m)"
proof -
  show a: "ends (AddFactor pp v)" for v unfolding AddFactor_def by (intro end_intros)
  show "ends (ProcessWorkMessage pp m)" "ends (AbandonWork m)" "ends (ProcessFactorEvent m)"
    "ends (ProcessFactorEventDetail pp m)"
    unfolding ProcessWorkMessage_def AbandonWork_def ProcessFactorEvent_def ProcessFactorEventDetail_def
    by (intro end_intros a; simp)+
qed

lemma ends_message_step: "ends (message_step pp l)"
  unfolding message_step_def handle_message_def
  by (intro end_intros) (simp add: expect_end_def)

section \<open>Only the loop reads\<close>

lemma deaf_members [deaf_intros]:
  "stays same_input (put_comp c)" "stays same_input (put_master m)"
  "stays same_input (put_stats u)" "stays same_input (put_event e)"
  "stays same_input (Lock i m)" "stays same_input clear_work" "stays same_input (new_event c)"
  unfolding put_comp_def put_master_def put_stats_def put_event_def Lock_def clear_work_def new_event_def Let_def
  by (intro deaf_intros deaf_modify; simp)+

lemma deaf_work [deaf_intros]: "stays same_input (StartWork n)" "stays same_input (EndWork b)"
  "stays same_input (ProcessWork pp v f isn b1 k t)" "stays same_input (AddFactor pp w)"
  unfolding StartWork_def EndWork_def ProcessWork_def AddFactor_def Let_def
  by (intro deaf_intros deaf_modify; simp)+

lemma deaf_messages [deaf_intros]: "stays same_input (ProcessWorkMessage pp m)" "stays same_input (AbandonWork m)"
  "stays same_input (ProcessFactorEvent m)" "stays same_input (ProcessFactorEventDetail pp m)"
  unfolding ProcessWorkMessage_def AbandonWork_def ProcessFactorEvent_def ProcessFactorEventDetail_def
  by (intro deaf_intros)+

lemma handle_message_deaf: "stays same_input (handle_message pp l m)"
  unfolding handle_message_def by (intro deaf_intros)

lemma message_step_consumes:
  "message_step pp l s = Inr (Inl l', s') \<Longrightarrow> lines_left s' < lines_left s"
proof -
  assume run: "message_step pp l s = Inr (Inl l', s')"
  then obtain m s1 where m: "listen s = Inr (Some m, s1)" and h: "handle_message pp l m s1 = Inr (l', s')"
    by (auto simp: message_step_def bind_eq_Inr split: option.splits if_splits)
  then show ?thesis
    using listen_Inr [OF m] same_input_lines [OF staysD [OF handle_message_deaf h]] by auto
qed

lemma ends_ProcessMessage: "ends (ProcessMessage pp junk)"
proof -
  have loop: "ends (bind (asks lines_left) (\<lambda>n. bind (iterate (Suc n) (message_step pp) l) f))"
    if "\<And>x. ends (f x)" for f :: "locals \<Rightarrow> (receiver, unit) run" and l
    using ends_bind [OF ends_iterate [where \<mu> = lines_left and x = l, OF ends_message_step message_step_consumes] that]
    by (simp add: ends_def bind_def asks_def)
  show ?thesis
    unfolding ProcessMessage_def report_def by (intro end_intros loop)
qed

lemma old_steps_consume:
  "old_result_step l s = Inr (Inl l', s') \<Longrightarrow> lines_left s' < lines_left s"
  "old_factor_step l s = Inr (Inl l', s') \<Longrightarrow> lines_left s' < lines_left s"
  by (auto simp: old_result_step_def old_factor_step_def bind_eq_Inr split: option.splits if_splits prod.splits
      dest!: listen_Inr)

lemma if_ends: "a \<noteq> Inl Fuel \<Longrightarrow> b \<noteq> Inl Fuel \<Longrightarrow> (if c then a else b) \<noteq> Inl Fuel"
  by simp

lemma old_lines_end [simp]: "old_result_line m l \<noteq> Inl Fuel" "old_factor_line m l \<noteq> Inl Fuel"
  "old_factors_line m l \<noteq> Inl Fuel"
  unfolding old_result_line_def old_factor_line_def old_factors_line_def
  by (intro if_ends and_then_ends; simp)+

lemma ends_ProcessMessageOld: "ends (ProcessMessageOld pp junk)"
proof -
  have steps: "ends (old_result_step l)" "ends (old_factor_step l)" for l
    unfolding old_result_step_def old_factor_step_def by (intro end_intros; simp)+
  have loop1: "ends (bind (asks lines_left) (\<lambda>n. bind (iterate (Suc n) old_result_step l) f))"
    if "\<And>x. ends (f x)" for f :: "bool \<times> old_fields \<Rightarrow> (receiver, unit) run" and l
    using ends_bind [OF ends_iterate [where \<mu> = lines_left and x = l, OF steps(1) old_steps_consume(1)] that]
    by (simp add: ends_def bind_def asks_def)
  have loop2: "ends (bind (asks lines_left) (\<lambda>n. bind (iterate (Suc n) old_factor_step l) f))"
    if "\<And>x. ends (f x)" for f :: "old_fields \<Rightarrow> (receiver, unit) run" and l
    using ends_bind [OF ends_iterate [where \<mu> = lines_left and x = l, OF steps(2) old_steps_consume(2)] that]
    by (simp add: ends_def bind_def asks_def)
  have ev: "ends (old_factor_event pp l)" for l
    unfolding old_factor_event_def by (intro end_intros)
  show ?thesis
    unfolding ProcessMessageOld_def by (intro end_intros loop1 loop2 ev)
qed

end
