(* ===== verification/Demo.thy ===== *)
theory Demo
  imports WorkReceiver
begin

text \<open>
  A small server to apply the theorems to: one master composite that is its own composite, with
  some ECM work done, one slave server, one user and one unit of work handed out.
\<close>

definition demo_tables :: tables where
  "demo_tables =
     \<lparr>pendings = [\<lparr>pw_user = ''bob'', pw_machine = ''pc'', pw_instance = ''i1'', pw_email = ''b@x'',
                   pw_comp = ''C'', pw_method = ''ECM'', pw_b1 = 100, pw_curves = 5, pw_date = 0\<rparr>],
      users = [\<lparr>us_id = ''bob'', us_work = 0, us_factors = 0, us_time = 0, us_total_work = 0,
                us_total_factors = 0, us_total_time = 0\<rparr>],
      syncs = [\<lparr>ss_master = ''C'', ss_slave = ''S'', ss_send = 0\<rparr>],
      masters = [\<lparr>mc_name = ''C'', mc_value = ''91'', mc_active = 1, mc_fully = 0, mc_factors = 0,
                  mc_recurse = 0, mc_len = 2, mc_work = 200, mc_updated = 0, mc_to_master = 0\<rparr>],
      works = [\<lparr>wd_master = ''C'', wd_method = ''ECM'', wd_b1 = 100, wd_unreported = 2, wd_local = 2\<rparr>],
      comps = [\<lparr>cp_name = ''C'', cp_value = ''91'', cp_master = ''C'', cp_events = 0, cp_len = 2,
                cp_difficulty = 800, cp_sent = 0\<rparr>],
      events = [], details = []\<rparr>"

definition demo_session :: session where
  "demo_session = \<lparr>cur = demo_tables, saved = demo_tables, odbc = [], endtran = [], now = 1000\<rparr>"

definition demo_helper :: "input list \<Rightarrow> helper" where
  "demo_helper inp =
     \<lparr>so_open = True, so_newline = True, incoming = inp, read_buf = [], outgoing = [], hs_email = ''b@x'',
      hs_machine = ''pc'', hs_instance = ''i1'', hs_user = ''bob'', hs_version = ''3.0.5''\<rparr>"

definition demo_receiver :: "string list \<Rightarrow> receiver" where
  "demo_receiver ms = WorkReceiver demo_session (demo_helper (map Line ms)) ''srv'' True 0"

definition return_msg :: string where
  "return_msg = ''Return Work for C 91 ECM 0 100 3 7.5 2''"

lemmas demo_defs = demo_tables_def demo_session_def demo_helper_def demo_receiver_def WorkReceiver_def

section \<open>Running the model by rewriting\<close>

text \<open>
  Rules that evaluate operations on concrete states: a state is evaluated before the
  continuation is looked at (the congruence rules), and a bound operation is run first.
\<close>

lemma lazy:
  "s = s' \<Longrightarrow> bind m f s = bind m f s'" "x = y \<Longrightarrow> and_then x g = and_then y g"
  "s1 = s2 \<Longrightarrow> iterate n b l s1 = iterate n b l s2" "t1 = t2 \<Longrightarrow> FetchRow ps q t1 = FetchRow ps q t2"
  "t1 = t2 \<Longrightarrow> Execute ps st t1 = Execute ps st t2" "t1 = t2 \<Longrightarrow> Open ps q t1 = Open ps q t2"
  by simp_all

lemma bind_run: "m s = r \<Longrightarrow> bind m f s = (case r of Inl h \<Rightarrow> Inl h | Inr p \<Rightarrow> f (fst p) (snd p))"
  by (auto simp: bind_def split: sum.splits)

lemma FetchRow_run: "FetchRow ps q s = bind (Open ps q) (\<lambda>c. case c of
       None \<Rightarrow> ret None
     | Some rows \<Rightarrow> bind (fetch rows) (\<lambda>r. ret (map_option fst r))) s"
  by (simp add: FetchRow_def)

lemmas run_base = bind_run FetchRow_run part_def on_db_def on_sock_def say_def listen_def commit_def rollback_def
  Commit_def Rollback_def Open_def fetch_def Execute_def execute_def check_params_def Sendf_def Send_def
  Receive_def lines_left_def pending_lines_def is_old_def SEND_SIZE_def strcpy_def change_def

lemmas run_text = sprintf_def sscanf_def fits_def scan_word_def scan_sign_def scan_int_def scan_exp_def
  scale10_def scan_frac_def scan_dbl_def num_of_def digit_val_def is_space_def is_digit_def code_def
  prefixed_def starts_def show_int_def show_f6_def show_f0_def round_even_def pad6_def dec_less dec_more
  digit_chars buffer_sizes

lemmas run_objects = Composite_def MasterComposite_def UserStats_def SetValue_def AddWorkDone_def
  SendUpdatesToAllSlaves_def flag_slaves_def add_curves_def count_rows_def work_key_def update_by_def
  BindSelectedColumn_def SetSendUpdatesToMaster_def SetLastUpdateTime_def IncrementWorkDone_def
  IncrementTimeSpent_def master_FinalizeChanges_def comp_FinalizeChanges_def user_FinalizeChanges_def
  user_Update_def comp_Update_def master_Update_def update_comp_def update_user_def update_master_def
  UpdateIfFullyFactored_def unfactored_def unrecursed_def select_sum_work_def sum_work_def flag_def FM_ECM_def

lemmas run_receiver = deref_def put_comp_def put_master_def put_stats_def put_event_def fails_def Lock_def
  StartWork_def clear_work_def finalize_def EndWork_def pending_of_def delete_pending_def pending_params_def
  ProcessWork_def RETURN_WORK_def work_args_def ProcessWorkMessage_def expect_end_def handle_message_def
  message_step_def plural_def report_def ProcessMessage_def

definition no_prp :: "int \<Rightarrow> int" where "no_prp n = 0"

lemma demo_accepted:
  "\<exists>s'. ProcessMessage no_prp ''xyz'' (demo_receiver [return_msg, ''End Return Work for C'', ''End of Return Work''])
     = Inr ((), s')
   \<and> outgoing (sock s') = [''Accepted Work for C'', ''INFO: Work for 1 composite accepted.  No factors reported'',
       ''End of Message'']
   \<and> map wd_local (works (saved (sess s'))) = [5] \<and> map mc_work (masters (saved (sess s'))) = [500]
   \<and> pendings (saved (sess s')) = []"
  by (simp add: run_base run_text run_objects run_receiver demo_defs return_msg_def cong: lazy)

end
