(* ===== verification/ReceiverProps.thy ===== *)
theory ReceiverProps
  imports WorkTotals ReceiverEnds Demo
begin

text \<open>
  The properties of returned work, each with a run of the small server of \<open>Demo\<close> that meets its
  hypotheses.
\<close>

section \<open>What a successful unit of work records\<close>

definition same_wp :: "session \<Rightarrow> session \<Rightarrow> bool" where
  "same_wp s s' \<longleftrightarrow> works (cur s') = works (cur s) \<and> pendings (cur s') = pendings (cur s)"

interpretation wp: effect same_wp
  by unfold_locales (auto simp: same_wp_def)

named_theorems wp_intros \<open>operations that leave the tables of work done and of pending work alone\<close>
lemmas [wp_intros] = wp.stays_intros

definition stmt_wp :: "(tables \<Rightarrow> tables option) \<Rightarrow> bool" where
  "stmt_wp stmt \<longleftrightarrow> (\<forall>t t'. stmt t = Some t' \<longrightarrow> works t' = works t \<and> pendings t' = pendings t)"

lemma wp_Execute [wp_intros]: "stmt_wp stmt \<Longrightarrow> stays same_wp (Execute ps stmt)"
proof (rule staysI)
  fix s b s' assume "stmt_wp stmt" "Execute ps stmt s = Inr (b, s')"
  then show "same_wp s s'"
    by (cases b) (auto simp: stmt_wp_def same_wp_def dest!: Execute_True Execute_False)
qed

lemma wp_FetchRow [wp_intros]: "stays same_wp (FetchRow ps q)"
  by (auto intro!: staysI simp: same_wp_def dest!: FetchRow_Inr)

lemma stmt_wp_intros [wp_intros]:
  "stmt_wp (insert_user r2)" "stmt_wp (insert_comp r6)" "stmt_wp (insert_event r7)"
  "stmt_wp (insert_detail r8)" "stmt_wp (update_comp c)" "stmt_wp (update_user u)"
  "stmt_wp (insert_master r9)" "stmt_wp (update_master m b)" "stmt_wp (flag_slaves P v)"
  by (auto simp: stmt_wp_def insert_defs update_comp_def update_user_def update_master_def
      change_def flag_slaves_def split: if_splits)

lemma wp_details [wp_intros]: "stays same_wp (insert_details e fs i b)"
  by (induction fs arbitrary: i b) (auto intro!: wp_intros)

lemma wp_finalize: "stays same_wp (finalize m c u e)"
  unfolding finalize_def master_FinalizeChanges_def master_Update_def master_Insert_def Let_def
    comp_FinalizeChanges_def comp_Update_def comp_Insert_def user_FinalizeChanges_def user_Update_def
    user_Insert_def event_FinalizeChanges_def InsertEvent_def InsertEventDetails_def UpdateIfFullyFactored_def
  by (intro wp_intros)

text \<open>The curves added to a table of work done under a key.\<close>

definition curves_added :: "string \<times> string \<times> double \<Rightarrow> int \<Rightarrow> work_row option \<Rightarrow> work_row" where
  "curves_added key k old = (case key of (n, f, b) \<Rightarrow> case old of
       None \<Rightarrow> \<lparr>wd_master = n, wd_method = f, wd_b1 = b, wd_unreported = k, wd_local = k\<rparr>
     | Some r \<Rightarrow> r\<lparr>wd_unreported := wd_unreported r + k, wd_local := wd_local r + k\<rparr>)"

definition adds_curves :: "string \<times> string \<times> double \<Rightarrow> int \<Rightarrow> tables \<Rightarrow> tables \<Rightarrow> bool" where
  "adds_curves key k t t' \<longleftrightarrow>
     (\<forall>key'. lookup_by work_key key' (works t') =
        (if key' = key then Some (curves_added key k (lookup_by work_key key (works t)))
         else lookup_by work_key key' (works t)))"

lemma add_curves_adds:
  assumes "count_rows (\<lambda>r. work_key r = key) (works t) > 0" "add_curves key k t = Some t'"
  shows "adds_curves key k t t'"
proof -
  have "lookup_by work_key key (works t) \<noteq> None"
    using assms(1) by (auto simp: count_rows_def lookup_by_None filter_empty_conv)
  moreover have "works t' = update_by work_key key
      (\<lambda>r. r\<lparr>wd_unreported := wd_unreported r + k, wd_local := wd_local r + k\<rparr>) (works t)"
    using assms(2) by (auto simp: add_curves_def change_def)
  ultimately show ?thesis
    using work_table.get_upd [of "\<lambda>r. r\<lparr>wd_unreported := wd_unreported r + k, wd_local := wd_local r + k\<rparr>" _ key "works t"]
    by (auto simp: adds_curves_def curves_added_def work_key_def split: prod.splits)
qed

lemma work_stmts_pendings:
  "add_curves key k t = Some t' \<Longrightarrow> pendings t' = pendings t"
  "insert_work r t = Some t' \<Longrightarrow> pendings t' = pendings t"
  "flag_slaves P v t = Some t' \<Longrightarrow> pendings t' = pendings t \<and> works t' = works t"
  "delete_pending Q t = Some t' \<Longrightarrow> pendings t' = filter (\<lambda>r. \<not> Q r) (pendings t) \<and> works t' = works t"
  by (auto simp: add_curves_def insert_work_def flag_slaves_def delete_pending_def change_def split: if_splits)

lemma insert_work_adds:
  assumes "insert_work \<lparr>wd_master = n, wd_method = f, wd_b1 = b, wd_unreported = k, wd_local = k\<rparr> t = Some t'"
  shows "adds_curves (n, f, b) k t t'"
proof -
  let ?r = "\<lparr>wd_master = n, wd_method = f, wd_b1 = b, wd_unreported = k, wd_local = k\<rparr>"
  have i: "pk_insert work_key ?r (works t) = Some (works t')"
    using assms by (auto simp: insert_work_def split: if_splits)
  then have "lookup_by work_key (work_key ?r) (works t) = None"
    using work_table.ins_None [of ?r "works t"] by simp
  then show ?thesis
    using work_table.get_ins [OF i] by (auto simp: adds_curves_def curves_added_def work_key_def)
qed

lemma AddWorkDone_adds:
  assumes "AddWorkDone f b k m s = Inr (True, s')"
  shows "adds_curves (ms_name m, f, b) k (cur s) (cur s') \<and> pendings (cur s') = pendings (cur s)"
proof -
  let ?q = "\<lambda>t. [count_rows (\<lambda>r. work_key r = (ms_name m, f, b)) (works t)]"
  let ?upd = "\<lambda>ps. Execute ps (add_curves (ms_name m, f, b) k)"
  let ?ins = "\<lambda>ps. Execute ps (insert_work \<lparr>wd_master = ms_name m, wd_method = f, wd_b1 = b,
            wd_unreported = k, wd_local = k\<rparr>)"
  from assms obtain row s1 ps1 ps2 ps3 where q: "FetchRow ps1 ?q s = Inr (row, s1)"
    and e: "(if (case row of None \<Rightarrow> False | Some rows \<Rightarrow> rows > 0) then ?upd ps2 else ?ins ps3) s1 = Inr (True, s')"
    unfolding AddWorkDone_def by (elim bind_InrE) blast
  have c: "cur s1 = cur s" "\<And>n. row = Some n \<Longrightarrow> n = count_rows (\<lambda>r. work_key r = (ms_name m, f, b)) (works (cur s))"
    using FetchRow_Inr [OF q] by auto
  show ?thesis
  proof (cases "case row of None \<Rightarrow> False | Some rows \<Rightarrow> rows > 0")
    case True
    with e have a: "add_curves (ms_name m, f, b) k (cur s) = Some (cur s')" by (auto dest!: Execute_True simp: c(1))
    moreover have "count_rows (\<lambda>r. work_key r = (ms_name m, f, b)) (works (cur s)) > 0"
      using True c(2) by (auto split: option.splits)
    ultimately show ?thesis using add_curves_adds work_stmts_pendings(1) by blast
  next
    case False
    with e have i: "insert_work \<lparr>wd_master = ms_name m, wd_method = f, wd_b1 = b,
            wd_unreported = k, wd_local = k\<rparr> (cur s) = Some (cur s')" by (auto dest!: Execute_True simp: c(1))
    then show ?thesis using insert_work_adds work_stmts_pendings(2) by blast
  qed
qed

lemma adds_curves_cong: "works t' = works t \<Longrightarrow> adds_curves key k t0 t \<Longrightarrow> adds_curves key k t0 t'"
  by (simp add: adds_curves_def)

lemma ProcessWork_True:
  assumes "ProcessWork pp v f isn b k t s = Inr (True, s')"
  shows "\<exists>c m. rc_comp s = Some c \<and> rc_master s = Some m \<and> co_found c \<and> co_value c = v
      \<and> adds_curves (ms_name m, f, b) k (cur (sess s)) (cur (sess s'))
      \<and> pendings (cur (sess s')) = filter (\<lambda>r. \<not> pending_of (sock s) (co_name c) f b r) (pendings (cur (sess s)))"
proof -
  let ?act = "\<lambda>m. if isn \<noteq> 0 then SetActive False m else m"
  have n: "ms_name (?act m) = ms_name m" for m by (simp add: SetActive_def)
  from assms obtain c m where c: "rc_comp s = Some c" "co_found c" "co_value c = v" and m: "rc_master s = Some m"
    by (auto simp: ProcessWork_def bind_eq_Inr deref_Inr fails_def SetValue_def put_comp_def split: if_splits)
  moreover from assms c m obtain s2 s3 ps where add: "AddWorkDone f b k (?act m) (sess s) = Inr (True, s2)"
    and flag: "SendUpdatesToAllSlaves (?act m) s2 = Inr (True, s3)"
    and del: "Execute ps (delete_pending (pending_of (sock s) (co_name c) f b)) s3 = Inr (True, sess s')"
    by (cases "isn = 0") (auto simp: ProcessWork_def bind_eq_Inr deref_Inr on_db_Inr SetValue_def put_comp_def
        put_master_def put_stats_def fails_def Let_def split: if_splits)
  moreover have "works (cur (sess s')) = works (cur s2)"
    "pendings (cur (sess s')) = filter (\<lambda>r. \<not> pending_of (sock s) (co_name c) f b r) (pendings (cur s2))"
    using flag del by (auto simp: SendUpdatesToAllSlaves_def dest!: Execute_True work_stmts_pendings(3,4))
  ultimately show ?thesis
    using AddWorkDone_adds [OF add] unfolding n by (auto intro: adds_curves_cong)
qed


section \<open>Properties\<close>

lemma demo_ok: "db_wf demo_tables" "totals_ok demo_tables"
  by (simp_all add: demo_tables_def db_wf_defs totals_ok_def ecm_total_def sum_work_def FM_ECM_def)

lemma demo_state [simp]: "sess (demo_receiver ms) = demo_session" "rc_master (demo_receiver ms) = None"
  "cur demo_session = demo_tables" "saved demo_session = demo_tables" "endtran demo_session = []"
  by (simp_all add: demo_receiver_def WorkReceiver_def demo_session_def)




text \<open>C3: If \<open>TotalWorkDone\<close> of every master composite is the sum of its ECM curves times B1 in the committed
  tables, it still is after any conversation with a version 3 client (the driver being able to commit and to
  roll back; single statements may fail).\<close>

theorem totals_are_kept:
  assumes "ProcessMessage pp junk s = Inr (u, s')"
    and "cur (sess s) = saved (sess s)" "endtran (sess s) = []" "rc_master s = None"
    and "db_wf (saved (sess s))" "totals_ok (saved (sess s))"
  shows "totals_ok (saved (sess s'))"
  using ProcessMessage_inv [OF assms(1)] assms(2-) by (simp add: receiver_inv_def totals_ok_iff clean_def)

theorem totals_are_kept_witness:
  "\<exists>s'. ProcessMessage no_prp ''xyz'' (demo_receiver [return_msg, ''End Return Work for C'', ''End of Return Work''])
       = Inr ((), s') \<and> map wd_local (works (saved (sess s'))) = [5] \<and> totals_ok (saved (sess s'))"
proof -
  let ?s = "demo_receiver [return_msg, ''End Return Work for C'', ''End of Return Work'']"
  obtain s' where r: "ProcessMessage no_prp ''xyz'' ?s = Inr ((), s')"
      "map wd_local (works (saved (sess s'))) = [5]"
    using demo_accepted by (elim exE conjE) (rule that)
  have "totals_ok (saved (sess s'))"
    by (rule totals_are_kept [OF r(1)]) (simp_all add: demo_ok)
  with r show ?thesis by (intro exI conjI)
qed

text \<open>C4: A unit of work that is returned and then acknowledged is committed exactly: the composite was on the
  server with the value the client sent, the curves are added to the row of its master, method and B1 (or make
  a new row), all other rows of work done are unchanged, and the pending work of this client is settled.\<close>

theorem accepted_work_is_recorded:
  assumes "ProcessWork pp v f isn b k t s = Inr (True, s1)" "EndWork True s1 = Inr (True, s2)"
    and "cur (sess s) = saved (sess s)" "endtran (sess s1) = []"
  shows "\<exists>c m. rc_comp s = Some c \<and> rc_master s = Some m \<and> co_found c \<and> co_value c = v
     \<and> adds_curves (ms_name m, f, b) k (saved (sess s)) (saved (sess s2))
     \<and> pendings (saved (sess s2)) = filter (\<lambda>r. \<not> pending_of (sock s) (co_name c) f b r) (pendings (saved (sess s)))"
proof -
  from ProcessWork_True [OF assms(1)] obtain c m where cm: "rc_comp s = Some c" "rc_master s = Some m" "co_found c"
      "co_value c = v" "adds_curves (ms_name m, f, b) k (cur (sess s)) (cur (sess s1))"
      "pendings (cur (sess s1)) = filter (\<lambda>r. \<not> pending_of (sock s) (co_name c) f b r) (pendings (cur (sess s)))"
    by auto
  have "rc_master s1 \<noteq> None"
    using assms(1) by (auto simp: ProcessWork_def bind_eq_Inr deref_Inr on_db_Inr SetValue_def put_comp_def
        put_master_def put_stats_def fails_def Let_def split: if_splits)
  with EndWork_cases [OF assms(2)] obtain x m' c' u where x: "sess s2 = Commit x"
      "finalize m' c' u (rc_event s1) (sess s1) = Inr (True, x)" by auto
  have "works (saved (sess s2)) = works (cur (sess s1)) \<and> pendings (saved (sess s2)) = pendings (cur (sess s1))"
    using staysD [OF wp_finalize x(2)] staysD [OF tx_finalize x(2)] assms(4)
    by (simp add: x(1) same_wp_def tx_step_def Commit_ok)
  with cm assms(3) show ?thesis by (auto intro: adds_curves_cong)
qed

definition demo_work :: receiver where
  "demo_work = (case StartWork ''C'' (demo_receiver []) of Inr (u, s) \<Rightarrow> s | Inl h \<Rightarrow> demo_receiver [])"

theorem accepted_work_is_recorded_witness:
  "\<exists>s1 s2. ProcessWork no_prp ''91'' ''ECM'' 0 100 3 7 demo_work = Inr (True, s1) \<and> EndWork True s1 = Inr (True, s2)
     \<and> adds_curves (''C'', ''ECM'', 100) 3 demo_tables (saved (sess s2))"
proof -
  have "\<exists>s1 s2. ProcessWork no_prp ''91'' ''ECM'' 0 100 3 7 demo_work = Inr (True, s1) \<and> EndWork True s1 = Inr (True, s2)
      \<and> cur (sess demo_work) = saved (sess demo_work) \<and> endtran (sess s1) = []
      \<and> saved (sess demo_work) = demo_tables \<and> map_option ms_name (rc_master demo_work) = Some ''C''"
    by (simp add: demo_work_def run_base run_text run_objects run_receiver demo_defs cong: lazy)
  then show ?thesis using accepted_work_is_recorded by fastforce
qed

text \<open>Whatever a client of version 3 or 2 sends, the primary keys and foreign keys of the schema hold in the
  committed tables afterwards.\<close>

theorem conversations_keep_the_schema:
  assumes "ProcessMessage pp junk s = Inr (u, s') \<or> ProcessMessageOld pp fs s = Inr (u, s')"
    and "db_wf (cur (sess s))" "db_wf (saved (sess s))"
  shows "db_wf (saved (sess s'))"
  using assms staysD [OF ProcessMessage_wf] staysD [OF ProcessMessageOld_wf]
  by (auto simp: handler_wf_def sess_step_def keeps_wf_def)

theorem conversations_keep_the_schema_witness:
  "\<exists>s'. ProcessMessage no_prp ''xyz'' (demo_receiver [return_msg, ''End Return Work for C'', ''End of Return Work''])
       = Inr ((), s') \<and> map wd_local (works (saved (sess s'))) = [5] \<and> db_wf (saved (sess s'))"
proof -
  let ?s = "demo_receiver [return_msg, ''End Return Work for C'', ''End of Return Work'']"
  obtain s' where r: "ProcessMessage no_prp ''xyz'' ?s = Inr ((), s')"
      "map wd_local (works (saved (sess s'))) = [5]"
    using demo_accepted by (elim exE conjE) (rule that)
  have "db_wf (saved (sess s'))"
    by (rule conversations_keep_the_schema [OF disjI1 [OF r(1)]]) (simp_all add: demo_ok)
  with r show ?thesis by (intro exI conjI)
qed

text \<open>C29: Both conversations end: the loops over the client's messages and the evaluation of every number run
  to completion within the bounds of the model, or the program stops as the code does.\<close>

theorem conversations_end:
  "ProcessMessage pp junk s \<noteq> Inl Fuel \<and> ProcessMessageOld pp fs s \<noteq> Inl Fuel"
  using ends_ProcessMessage ends_ProcessMessageOld by (simp add: ends_def)

text \<open>A factor event, or a detail of one, that arrives before any returned work makes the server use a NULL
  composite; a detail whose event was not reported makes it use a NULL event.\<close>

theorem stray_factor_is_undefined:
  assumes "sscanf m ''Return Factor Event Detail for %s %s %s'' [NAME_LENGTH + 1, VALUE_LENGTH + 1, METHOD_LENGTH + 1]
      = Inr [VS n, VS v, VS ty]"
    and "rc_event s = None" "\<forall>c. rc_comp s = Some c \<longrightarrow> co_name c = n"
  shows "ProcessFactorEventDetail pp m s = Inl Undefined"
proof -
  have args: "detail_args [VS n, VS v, VS ty] = Some (n, v, ty)" by (simp add: detail_args_def)
  have "AddFactor pp v s = Inl Undefined" if "rc_comp s = Some c" for c
    using assms(2) that
    by (cases "rc_stats s"; cases "rc_master s")
      (simp_all add: AddFactor_def bind_def deref_def asks_def put_stats_def)
  then show ?thesis
    using assms args by (cases "rc_comp s") (auto simp: ProcessFactorEventDetail_def bind_def deref_def)
qed

theorem stray_factor_is_undefined_witness:
  "ProcessFactorEventDetail no_prp ''Return Factor Event Detail for C 7 P'' (demo_receiver []) = Inl Undefined
   \<and> ProcessFactorEventDetail no_prp ''Return Factor Event Detail for C 7 P'' demo_work = Inl Undefined"
  by (intro conjI; rule stray_factor_is_undefined [where n = "''C''" and v = "''7''" and ty = "''P''"])
    (simp_all add: run_text run_base run_objects run_receiver demo_work_def demo_defs cong: lazy)

end
