(* ===== verification/TextFiles.thy ===== *)
theory TextFiles
  imports Cstdio
begin

text \<open>
  Text files and the search functions of the C library that the programs use on their lines.
\<close>

section \<open>Reading a file by lines\<close>

text \<open>
  \<open>fgets(line, n + 1, fp)\<close> reads up to \<open>n\<close> characters, the line feed included, so that a longer line is
  handed out in pieces.
\<close>

fun fgets :: "nat \<Rightarrow> string \<Rightarrow> string \<times> string" where
  "fgets 0 s = ([], s)"
| "fgets (Suc n) [] = ([], [])"
| "fgets (Suc n) (c # s) = (if c = CHR 0x0A then ([c], s) else apfst ((#) c) (fgets n s))"

lemma fgets_more:
  "fgets n [] = ([], [])"
  "0 < m \<Longrightarrow> fgets m (c # s) = (if c = CHR 0x0A then ([c], s) else apfst ((#) c) (fgets (m - 1) s))"
  by (cases n; simp) (cases m; simp)

lemma fgets_line: "CHR 0x0A \<notin> set l \<Longrightarrow> length l \<le> n \<Longrightarrow> fgets (Suc n) (l @ CHR 0x0A # r) = (l @ [CHR 0x0A], r)"
proof (induction l arbitrary: n)
  case (Cons c l)
  then show ?case by (cases n) auto
qed simp

lemma fgets_append: "fgets n s = (a, b) \<Longrightarrow> s = a @ b"
proof (induction n s arbitrary: a rule: fgets.induct)
  case (3 n c s)
  then show ?case by (cases "fgets n s") (auto split: if_splits)
qed auto

lemma fgets_less: "fgets (Suc n) (c # s) = (a, b) \<Longrightarrow> length b < Suc (length s)"
  using fgets_append [of n s] by (cases "fgets n s") (auto split: if_splits)

function file_lines :: "nat \<Rightarrow> string \<Rightarrow> string list" where
  "file_lines n [] = []"
| "file_lines n (c # s) = (case fgets (Suc n) (c # s) of (l, r) \<Rightarrow> l # file_lines n r)"
  by pat_completeness auto
termination
  by (relation "measure (length \<circ> snd)") (auto dest!: fgets_less [OF sym] simp del: fgets.simps)

lemma concat_file_lines: "concat (file_lines n s) = s"
  by (induction n s rule: file_lines.induct) (auto split: prod.splits dest!: fgets_append simp del: fgets.simps)

lemma fgets_length: "length (fst (fgets n s)) \<le> n"
  by (induction n s rule: fgets.induct) auto

section \<open>Searching a line\<close>

text \<open>\<open>strstr(s, p)\<close>: the text from the first occurrence of \<open>p\<close> on.\<close>

fun strstr :: "string \<Rightarrow> string \<Rightarrow> string option" where
  "strstr [] p = (if p = [] then Some [] else None)"
| "strstr (c # s) p = (if prefixed p (c # s) then Some (c # s) else strstr s p)"

section \<open>Scans that assign as far as they get\<close>

text \<open>
  \<open>sscanf\<close> assigns the variables of the conversions it has scanned, even when the caller goes on
  with an error: \<open>assign fs vs\<close> applies the assignments in order.
\<close>

fun assign :: "(sval \<Rightarrow> 'a \<Rightarrow> 'a) list \<Rightarrow> sval list \<Rightarrow> 'a \<Rightarrow> 'a" where
  "assign (f # fs) (v # vs) s = assign fs vs (f v s)"
| "assign _ _ s = s"

fun str_of :: "sval \<Rightarrow> string" where
  "str_of (VS w) = w" | "str_of _ = []"

fun int_of :: "sval \<Rightarrow> int" where
  "int_of (VI i) = i" | "int_of _ = 0"

fun dbl_of :: "sval \<Rightarrow> double" where
  "dbl_of (VD x) = x" | "dbl_of _ = 0"

end
