(* ===== verification/ServerConfig.thy ===== *)
theory ServerConfig
  imports SqlStatement TextFiles
begin

text \<open>
  The server's configuration (\<open>src/source/ecmserver.cpp\<close>, \<open>server.h\<close>): the lines of \<open>ecmserver.ini\<close> and
  \<open>ecmserver.b1\<close>, the table of B1 levels and the list of strategies they build, and the checks made
  before the server starts. The debug level, log limit and time zone only concern the log.
\<close>

section \<open>The globals\<close>

record b1_t =
  bl_b1 :: double
  bl_expected :: double
  bl_sum :: double
  bl_ecm :: int
  bl_pp1 :: int
  bl_pm1 :: int

definition MAX_B1 :: nat where "MAX_B1 = 50"

record strategy_t =
  sortSequence :: string
  selectStrategyPercent :: double
  selectCandidatePercent :: double
  hourBreak :: double
  percentAddIfOverHours :: double
  percentSubIfUnderHours :: double
  workSent :: double

text \<open>\<open>globals_t\<close> and the global variables the files set; \<open>g_port\<close> is not initialised by \<open>main\<close>.\<close>

record globals =
  g_email :: string
  g_emailPassword :: string
  g_title :: string
  g_server :: string
  g_port :: int
  g_upstream :: int
  g_expire :: int
  g_minB1 :: double
  g_maxB1 :: double
  g_pm1 :: int
  g_pp1 :: int
  g_masterPassword :: string
  g_adminPassword :: string
  g_slavePassword :: string
  g_mailServer :: string
  g_masterServer :: string
  g_dest :: "string list"
  g_recurse :: bool
  g_slave :: bool
  g_b1 :: "b1_t list"
  g_strategies :: "strategy_t list"

definition main_globals :: "int \<Rightarrow> globals" where
  "main_globals junk =
     \<lparr>g_email = [], g_emailPassword = [], g_title = [], g_server = [], g_port = junk, g_upstream = 0, g_expire = 240,
      g_minB1 = 0, g_maxB1 = 999999999999, g_pm1 = 0, g_pp1 = 0, g_masterPassword = [], g_adminPassword = [],
      g_slavePassword = [], g_mailServer = [], g_masterServer = [], g_dest = [], g_recurse = True, g_slave = False,
      g_b1 = [], g_strategies = []\<rparr>"

section \<open>B1 levels\<close>

definition b1_args :: "sval list \<Rightarrow> (int \<times> double \<times> int \<times> int \<times> int) option" where
  "b1_args vs = (case vs of [VI digits, VD b, VI ecmCurves, VI pp1, VI pm1] \<Rightarrow> Some (digits, b, ecmCurves, pp1, pm1)
     | _ \<Rightarrow> None)"

definition new_level :: "b1_t list \<Rightarrow> double \<Rightarrow> int \<Rightarrow> int \<Rightarrow> int \<Rightarrow> b1_t" where
  "new_level levels b ecmCurves pp1 pm1 =
     (let thisWork = b * of_int ecmCurves
      in \<lparr>bl_b1 = b, bl_expected = thisWork,
          bl_sum = (if levels = [] then thisWork else bl_sum (last levels) + thisWork),
          bl_ecm = ecmCurves, bl_pp1 = pp1, bl_pm1 = pm1\<rparr>)"

definition ExtractB1 :: "string \<Rightarrow> globals \<Rightarrow> halt + globals" where
  "ExtractB1 line g =
     and_then (sscanf line ''%d %lf %d %d %d'' []) (\<lambda>vs.
     case b1_args vs of
       None \<Rightarrow> Inl Exit
     | Some (digits, b, ecmCurves, pp1, pm1) \<Rightarrow>
         if g_b1 g \<noteq> [] \<and> b < bl_b1 (last (g_b1 g)) then Inl Exit
         else if length (g_b1 g) + 1 = MAX_B1 then Inl Exit
         else Inr (g\<lparr>g_b1 := g_b1 g @ [new_level (g_b1 g) b ecmCurves pp1 pm1]\<rparr>))"

definition b1_line :: "string \<Rightarrow> globals \<Rightarrow> halt + globals" where
  "b1_line line g =
     (if prefixed ''minb1='' line then Inr (g\<lparr>g_minB1 := atof (drop 6 line)\<rparr>)
      else if prefixed ''maxb1='' line then Inr (g\<lparr>g_maxB1 := atof (drop 6 line)\<rparr>)
      else if prefixed ''p-1depthoverecm='' line then Inr (g\<lparr>g_pm1 := atol (drop 16 line)\<rparr>)
      else if prefixed ''p+1depthoverecm='' line then Inr (g\<lparr>g_pp1 := atol (drop 16 line)\<rparr>)
      else if prefixed ''b1='' line then ExtractB1 (drop 3 line) g
      else Inr g)"

primrec each_line :: "(string \<Rightarrow> 'g \<Rightarrow> halt + 'g) \<Rightarrow> string list \<Rightarrow> 'g \<Rightarrow> halt + 'g" where
  "each_line f [] g = Inr g"
| "each_line f (l # ls) g = and_then (f (StripCRLF l) g) (each_line f ls)"

text \<open>A file that cannot be opened is \<open>None\<close>.\<close>

definition ProcessB1File :: "string option \<Rightarrow> globals \<Rightarrow> halt + globals" where
  "ProcessB1File b1File g = (case b1File of None \<Rightarrow> Inr g
     | Some text \<Rightarrow> each_line b1_line (file_lines 238 text) g)"

section \<open>Strategies\<close>

definition strategy_args :: "sval list \<Rightarrow> (double \<times> string \<times> double \<times> double \<times> double \<times> double) option" where
  "strategy_args vs = (case vs of [VD p, VS order, VD c, VD h, VD a, VD s] \<Rightarrow> Some (p, order, c, h, a, s) | _ \<Rightarrow> None)"

definition toupper :: "char \<Rightarrow> char" where
  "toupper c = (if 97 \<le> code c \<and> code c \<le> 122 then char_of (code c - 32) else c)"

definition sort_column :: "char \<Rightarrow> string option" where
  "sort_column c =
     (if toupper c = CHR ''L'' then Some ''Composite.DecimalLength''
      else if toupper c = CHR ''A'' then Some ''MasterComposite.LastUpdateTime''
      else if toupper c = CHR ''D'' then Some ''Composite.Difficulty''
      else if toupper c = CHR ''W'' then Some ''MasterComposite.TotalWorkDone''
      else None)"

text \<open>One option, then one delimiter that is not looked at.\<close>

fun sort_columns :: "string \<Rightarrow> string \<Rightarrow> string" where
  "sort_columns [] acc = acc"
| "sort_columns (c # s) acc =
     (let acc' = (case sort_column c of None \<Rightarrow> acc
                  | Some col \<Rightarrow> if acc = [] then col else acc @ '','' @ col)
      in case s of [] \<Rightarrow> acc' | d # s' \<Rightarrow> sort_columns s' acc')"

text \<open>\<open>sortSequence\<close> has 200 bytes, \<open>tempLine\<close> 100.\<close>

definition sort_sequence :: "string \<Rightarrow> halt + string" where
  "sort_sequence order =
     (if length order > 15 \<or> even (length order) then Inr ''DecimalLength,LastUpdateTime''
      else let cols = sort_columns order [] in if length cols < 200 then Inr cols else Inl Undefined)"

definition ExtractStrategy :: "string \<Rightarrow> globals \<Rightarrow> halt + globals" where
  "ExtractStrategy line g =
     (if 100 \<le> length line then Inl Undefined
      else if length (filter (\<lambda>c. c = CHR '':'') line) \<noteq> 5 then Inl Exit
      else and_then (sscanf (replace_char (CHR '':'') (CHR '' '') line) ''%lf %s %lf %lf %lf %lf'' [50]) (\<lambda>vs.
        case strategy_args vs of
          None \<Rightarrow> Inl Exit
        | Some (percent, order, candidate, hours, addPercent, subPercent) \<Rightarrow>
            and_then (sort_sequence order) (\<lambda>seq.
              Inr (g\<lparr>g_strategies := g_strategies g @
                 [\<lparr>sortSequence = seq, selectStrategyPercent = percent, selectCandidatePercent = candidate,
                   hourBreak = hours * 3600, percentAddIfOverHours = addPercent,
                   percentSubIfUnderHours = subPercent, workSent = 0\<rparr>]\<rparr>))))"

section \<open>The configuration file\<close>

definition ini_line :: "string \<Rightarrow> globals \<Rightarrow> halt + globals" where
  "ini_line line g =
     (if prefixed ''email='' line then
        (if length line - 6 < 100 then Inr (g\<lparr>g_email := drop 6 line\<rparr>) else Inl Undefined)
      else if prefixed ''htmltitle='' line then
        (if length line - 10 < 200 then Inr (g\<lparr>g_title := drop 10 line\<rparr>) else Inl Undefined)
      else if prefixed ''serverid='' line then
        (if length line - 9 < 200 then Inr (g\<lparr>g_server := drop 9 line\<rparr>) else Inl Undefined)
      else if prefixed ''emailpassword='' line then
        (if length line - 14 < 100 then Inr (g\<lparr>g_emailPassword := drop 14 line\<rparr>) else Inl Undefined)
      else if prefixed ''port='' line then Inr (g\<lparr>g_port := atol (drop 5 line)\<rparr>)
      else if prefixed ''debuglevel='' line then Inr g
      else if prefixed ''upstreamfrequency='' line then Inr (g\<lparr>g_upstream := atol (drop 18 line)\<rparr>)
      else if prefixed ''expirehours='' line then Inr (g\<lparr>g_expire := atol (drop 12 line)\<rparr>)
      else if prefixed ''loglimit='' line \<or> prefixed ''localtimelog='' line then Inr g
      else if prefixed ''minb1='' line then Inr (g\<lparr>g_minB1 := atof (drop 6 line)\<rparr>)
      else if prefixed ''maxb1='' line then Inr (g\<lparr>g_maxB1 := atof (drop 6 line)\<rparr>)
      else if prefixed ''masterpassword='' line then
        (if length line - 15 < 200 then Inr (g\<lparr>g_masterPassword := drop 15 line\<rparr>) else Inl Undefined)
      else if prefixed ''adminpassword='' line then
        (if length line - 14 < 200 then Inr (g\<lparr>g_adminPassword := drop 14 line\<rparr>) else Inl Undefined)
      else if prefixed ''slavepassword='' line then
        (if length line - 14 < 100 then Inr (g\<lparr>g_slavePassword := drop 14 line\<rparr>) else Inl Undefined)
      else if prefixed ''smtpserver='' line then
        (if length line - 11 < 200 then Inr (g\<lparr>g_mailServer := drop 11 line\<rparr>) else Inl Undefined)
      else if prefixed ''destid='' line then
        Inr (if length line > 7 \<and> length (g_dest g) < 10 then g\<lparr>g_dest := g_dest g @ [drop 7 line]\<rparr> else g)
      else if prefixed ''upstreamserver='' line then
        (if length line - 15 < 200 then Inr (g\<lparr>g_masterServer := drop 15 line\<rparr>) else Inl Undefined)
      else if prefixed ''recurse='' line then Inr (g\<lparr>g_recurse := (atol (drop 8 line) = 1)\<rparr>)
      else if prefixed ''strategy='' line then ExtractStrategy (drop 9 line) g
      else if prefixed ''b1='' line then ExtractB1 (drop 3 line) g
      else Inr g)"

definition ProcessINIFile :: "string option \<Rightarrow> globals \<Rightarrow> halt + globals" where
  "ProcessINIFile iniFile g = (case iniFile of None \<Rightarrow> Inr g
     | Some text \<Rightarrow> each_line ini_line (file_lines 238 text) g)"

definition reprocess_line :: "string \<Rightarrow> globals \<Rightarrow> halt + globals" where
  "reprocess_line line g =
     (if prefixed ''debuglevel='' line then Inr g
      else if prefixed ''expirehours='' line then Inr (g\<lparr>g_expire := atol (drop 12 line)\<rparr>)
      else if prefixed ''recurse='' line then Inr (g\<lparr>g_recurse := (atol (drop 8 line) = 1)\<rparr>)
      else Inr g)"

definition ReprocessINIFile :: "string option \<Rightarrow> globals \<Rightarrow> halt + globals" where
  "ReprocessINIFile iniFile g = (case iniFile of None \<Rightarrow> Inr g
     | Some text \<Rightarrow> each_line reprocess_line (file_lines 1998 text) g)"

section \<open>The checks before the server starts\<close>

text \<open>
  The percentages are scaled to a total of 100; with a total of zero the quotient is not a finite
  double. The second component of the result are the settings of the connection to the upstream
  server, the third those of the mail server.
\<close>

definition total_percent :: "strategy_t list \<Rightarrow> double" where
  "total_percent ss = sum_list (map selectStrategyPercent ss)"

definition scale_strategies :: "strategy_t list \<Rightarrow> halt + strategy_t list" where
  "scale_strategies ss =
     (let total = total_percent ss in
      if total = 100 \<or> ss = [] then Inr ss
      else if total = 0 then Inl Undefined
      else Inr (map (\<lambda>s. s\<lparr>selectStrategyPercent := selectStrategyPercent s * (100 / total)\<rparr>) ss))"

definition host_port :: "string \<Rightarrow> (string \<times> int) option" where
  "host_port s = (case split_at (CHR '':'') s of None \<Rightarrow> None | Some (host, port) \<Rightarrow> Some (host, atol port))"

definition ValidateConfiguration ::
    "globals \<Rightarrow> halt + (globals \<times> (string \<times> int) option \<times> (string \<times> int) option) option" where
  "ValidateConfiguration g =
     (if g_title g = [] \<or> g_email g = [] then Inr None
      else if CHR ''@'' \<notin> set (g_email g) \<or> CHR '':'' \<in> set (g_email g) then Inr None
      else if g_server g = [] \<or> g_b1 g = [] then Inr None
      else and_then (scale_strategies (g_strategies g)) (\<lambda>ss.
        Inr (Some (g\<lparr>g_strategies := ss, g_slave := (g_slave g \<or> g_masterServer g \<noteq> [])\<rparr>,
          if g_masterServer g = [] \<or> g_slavePassword g = [] then None else host_port (g_masterServer g),
          if g_mailServer g = [] then None else host_port (g_mailServer g)))))"

section \<open>What the files can build\<close>

text \<open>
  The table of B1 levels: ascending, fewer than \<open>MAX_B1\<close> entries, each \<open>bl_sum\<close> the ECM work of all
  levels up to its own.
\<close>

definition table_ok :: "b1_t list \<Rightarrow> bool" where
  "table_ok bs \<longleftrightarrow> sorted (map bl_b1 bs) \<and> length bs < MAX_B1
     \<and> (\<forall>b \<in> set bs. bl_expected b = bl_b1 b * of_int (bl_ecm b))
     \<and> (\<forall>i < length bs. bl_sum (bs ! i) = sum_list (map bl_expected (take (Suc i) bs)))"

lemma table_ok_Nil [simp]: "table_ok []"
  by (simp add: table_ok_def MAX_B1_def)

lemma table_ok_snoc:
  assumes "table_ok bs" "bs = [] \<or> bl_b1 (last bs) \<le> bl_b1 e" "Suc (length bs) < MAX_B1"
    "bl_expected e = bl_b1 e * of_int (bl_ecm e)"
    "bl_sum e = (if bs = [] then bl_expected e else bl_sum (last bs) + bl_expected e)"
  shows "table_ok (bs @ [e])"
proof -
  have sum: "bl_sum e = sum_list (map bl_expected bs) + bl_expected e"
  proof (cases "bs = []")
    case False
    then have "bl_sum (last bs) = sum_list (map bl_expected bs)"
      using assms(1) by (simp add: table_ok_def last_conv_nth)
    with False assms(5) show ?thesis by simp
  qed (use assms(5) in simp)
  have "x \<le> bl_b1 e" if "x \<in> set (map bl_b1 bs)" for x
  proof -
    have "bs \<noteq> []" and "sorted (map bl_b1 bs)" using assms(1) that by (auto simp: table_ok_def)
    then have "x \<le> bl_b1 (last bs)"
      using that by (cases bs rule: rev_cases) (auto simp: sorted_append)
    with assms(2) \<open>bs \<noteq> []\<close> show ?thesis by simp
  qed
  then show ?thesis
    using assms(1,3,4) sum by (auto simp: table_ok_def sorted_append nth_append less_Suc_eq)
qed

lemma ExtractB1_Inr:
  assumes "ExtractB1 line g = Inr g'"
  obtains e where "g' = g\<lparr>g_b1 := g_b1 g @ [e]\<rparr>" "g_b1 g = [] \<or> bl_b1 (last (g_b1 g)) \<le> bl_b1 e"
    "Suc (length (g_b1 g)) \<noteq> MAX_B1" "bl_expected e = bl_b1 e * of_int (bl_ecm e)"
    "bl_sum e = (if g_b1 g = [] then bl_expected e else bl_sum (last (g_b1 g)) + bl_expected e)"
proof -
  from assms obtain vs where vs: "sscanf line ''%d %lf %d %d %d'' [] = Inr vs"
    by (auto simp: ExtractB1_def)
  with assms obtain d b k p q where a: "b1_args vs = Some (d, b, k, p, q)"
    by (cases "b1_args vs") (auto simp: ExtractB1_def)
  show thesis
    using assms by (intro that [of "new_level (g_b1 g) b k p q"])
      (simp_all add: ExtractB1_def vs a new_level_def Let_def split: if_splits)
qed

lemma ExtractB1_table: "ExtractB1 line g = Inr g' \<Longrightarrow> table_ok (g_b1 g) \<Longrightarrow> table_ok (g_b1 g')"
proof (elim ExtractB1_Inr)
  fix e assume "table_ok (g_b1 g)" "Suc (length (g_b1 g)) \<noteq> MAX_B1"
  then have "Suc (length (g_b1 g)) < MAX_B1" by (simp add: table_ok_def)
  then show "table_ok (g_b1 g')"
    if "g' = g\<lparr>g_b1 := g_b1 g @ [e]\<rparr>" "g_b1 g = [] \<or> bl_b1 (last (g_b1 g)) \<le> bl_b1 e"
      "bl_expected e = bl_b1 e * of_int (bl_ecm e)"
      "bl_sum e = (if g_b1 g = [] then bl_expected e else bl_sum (last (g_b1 g)) + bl_expected e)"
    using that \<open>table_ok (g_b1 g)\<close> by (simp add: table_ok_snoc)
qed

lemma each_line_keeps:
  "(\<And>l g g'. f l g = Inr g' \<Longrightarrow> P g \<Longrightarrow> P g') \<Longrightarrow> each_line f ls g = Inr g' \<Longrightarrow> P g \<Longrightarrow> P g'"
  by (induction ls arbitrary: g) auto

lemma ExtractStrategy_table: "ExtractStrategy line g = Inr g' \<Longrightarrow> g_b1 g' = g_b1 g"
  by (auto simp: ExtractStrategy_def split: option.splits if_splits)

lemma ini_line_table: "ini_line line g = Inr g' \<Longrightarrow> table_ok (g_b1 g) \<Longrightarrow> table_ok (g_b1 g')"
  unfolding ini_line_def by (auto split: if_splits dest: ExtractB1_table ExtractStrategy_table)

lemma b1_line_table: "b1_line line g = Inr g' \<Longrightarrow> table_ok (g_b1 g) \<Longrightarrow> table_ok (g_b1 g')"
  unfolding b1_line_def by (auto split: if_splits dest: ExtractB1_table)

lemma scaled_total:
  assumes "scale_strategies ss = Inr ss'" "ss' \<noteq> []" shows "total_percent ss' = 100"
proof (cases "total_percent ss = 100 \<or> ss = []")
  case True
  with assms show ?thesis by (auto simp: scale_strategies_def Let_def)
next
  case False
  with assms have "total_percent ss \<noteq> 0"
    and "ss' = map (\<lambda>s. s\<lparr>selectStrategyPercent := selectStrategyPercent s * (100 / total_percent ss)\<rparr>) ss"
    by (auto simp: scale_strategies_def Let_def split: if_splits)
  moreover from this have "total_percent ss' = total_percent ss * (100 / total_percent ss)"
    using sum_list_mult_const [of selectStrategyPercent "100 / total_percent ss" ss]
    by (simp add: total_percent_def comp_def)
  ultimately show ?thesis by simp
qed

section \<open>Properties\<close>

text \<open>C26: However the two configuration files read, the table of B1 levels the server works with is
  ascending, has fewer than \<open>MAX_B1\<close> entries, and the cumulative work of a level is the sum of the ECM
  work of all levels up to it.\<close>

theorem configured_levels_are_cumulative:
  assumes "ProcessINIFile ini (main_globals junk) = Inr g1" "ProcessB1File b1s g1 = Inr g2"
  shows "table_ok (g_b1 g2)"
proof -
  have "table_ok (g_b1 g1)"
    using assms(1) by (auto simp: ProcessINIFile_def main_globals_def split: option.splits
        elim!: each_line_keeps [where P = "\<lambda>g. table_ok (g_b1 g)", rotated] intro: ini_line_table)
  with assms(2) show ?thesis
    by (auto simp: ProcessB1File_def split: option.splits
        elim!: each_line_keeps [where P = "\<lambda>g. table_ok (g_b1 g)", rotated] intro: b1_line_table)
qed

definition demo_ini :: string where
  "demo_ini = ''email=me@x'' @ [CHR 0x0A] @ ''strategy=30:l:20:2:5:5'' @ [CHR 0x0A]"


definition demo_b1 :: string where
  "demo_b1 = ''b1=15 2000 25 1 2'' @ [CHR 0x0A] @ ''b1=20 11000 90 1 2'' @ [CHR 0x0D, CHR 0x0A]"

lemmas read_text = fgets_more sscanf_def fits_def scan_word_def scan_sign_def scan_int_def scan_exp_def scale10_def
  scan_frac_def scan_dbl_def num_of_def digit_val_def is_space_def is_digit_def code_def prefixed_def
  StripCRLF_def atol_def atof_def

lemma upper_L: "char_of (76 :: nat) = CHR ''L''"
  by (simp add: char_of_def bit_simps)

lemmas read_config = Let_def upper_L ProcessB1File_def ProcessINIFile_def demo_b1_def demo_ini_def b1_line_def ini_line_def
  ExtractB1_def b1_args_def new_level_def ExtractStrategy_def strategy_args_def sort_sequence_def sort_column_def
  toupper_def replace_char_def main_globals_def MAX_B1_def read_text

theorem configured_levels_are_cumulative_witness:
  "\<exists>g1 g2. ProcessINIFile (Some demo_ini) (main_globals 0) = Inr g1 \<and> ProcessB1File (Some demo_b1) g1 = Inr g2
     \<and> map bl_sum (g_b1 g2) = [50000, 1040000] \<and> table_ok (g_b1 g2)"
proof -
  obtain g1 where g1: "ProcessINIFile (Some demo_ini) (main_globals 0) = Inr g1" "g_b1 g1 = []"
    by (simp add: read_config)
  obtain g2 where g2: "ProcessB1File (Some demo_b1) g1 = Inr g2" "map bl_sum (g_b1 g2) = [50000, 1040000]"
    using g1(2) by (simp add: read_config)
  from configured_levels_are_cumulative [OF g1(1) g2(1)] g1 g2 show ?thesis
    by (intro exI [of _ g1] exI [of _ g2]) simp
qed

text \<open>When the configuration is accepted, the percentages of the strategies, if there are any, add up to
  exactly 100, whatever the file gave; and the B1 table is not empty.\<close>

theorem strategies_total_100:
  assumes "ValidateConfiguration g = Inr (Some (g', upstream, mail))"
  shows "g_b1 g' \<noteq> [] \<and> (g_strategies g' = [] \<or> total_percent (g_strategies g') = 100)
    \<and> map sortSequence (g_strategies g') = map sortSequence (g_strategies g)"
proof -
  from assms obtain ss where ss: "scale_strategies (g_strategies g) = Inr ss" "g_strategies g' = ss"
    "g_b1 g' = g_b1 g" "g_b1 g \<noteq> []"
    by (auto simp: ValidateConfiguration_def split: if_splits)
  let ?scaled = "map (\<lambda>s. s\<lparr>selectStrategyPercent := selectStrategyPercent s * (100 / total_percent (g_strategies g))\<rparr>)
      (g_strategies g)"
  from ss have "ss = g_strategies g \<or> ss = ?scaled"
    by (auto simp: scale_strategies_def Let_def split: if_splits)
  then have "map sortSequence ss = map sortSequence (g_strategies g)" by (elim disjE) (simp_all add: comp_def)
  with ss scaled_total show ?thesis by auto
qed

theorem strategies_total_100_witness:
  "\<exists>g g' up m. ValidateConfiguration g = Inr (Some (g', up, m)) \<and> g_strategies g \<noteq> []
     \<and> map selectStrategyPercent (g_strategies g') = [60, 40] \<and> total_percent (g_strategies g') = 100"
proof -
  define g where "g = (main_globals 0)\<lparr>g_title := ''t'', g_email := ''me@x'', g_server := ''s'',
    g_b1 := [\<lparr>bl_b1 = 2000, bl_expected = 50000, bl_sum = 50000, bl_ecm = 25, bl_pp1 = 1, bl_pm1 = 2\<rparr>],
    g_strategies := map (\<lambda>p. \<lparr>sortSequence = ''Composite.Difficulty'', selectStrategyPercent = p,
      selectCandidatePercent = 20, hourBreak = 7200, percentAddIfOverHours = 5, percentSubIfUnderHours = 5,
      workSent = 0\<rparr>) [30, 20]\<rparr>"
  obtain g' up m where v: "ValidateConfiguration g = Inr (Some (g', up, m))"
    and "map selectStrategyPercent (g_strategies g') = [60, 40]"
    by (simp add: ValidateConfiguration_def g_def main_globals_def scale_strategies_def total_percent_def)
  with strategies_total_100 [OF v] show ?thesis
    by (intro exI [of _ g] exI [of _ g'] exI [of _ up] exI [of _ m]) (auto simp: g_def)
qed

end
