(* ===== verification/WorkSender.thy ===== *)
theory WorkSender
  imports ServerConfig Handler
begin

text \<open>
  \<open>src/source/WorkSender.cpp\<close>: choosing work for a client that asks for it. \<open>ws_rand\<close> are the values
  of \<open>rand() % 100\<close> to come, \<open>ws_order\<close> is the sorting the database does for \<open>order by\<close>. The thread
  that keeps the client waiting meanwhile is in \<open>KeepAlive\<close>.
\<close>

record sender = handler +
  ws_minB1 :: double
  ws_maxB1 :: double
  ws_pm1 :: int
  ws_pp1 :: int
  ws_b1 :: "b1_t list"
  ws_strategies :: "strategy_t list"
  ws_total :: double
  ws_rand :: "nat list"

section \<open>Which work is left\<close>

text \<open>
  The loop over the levels, at the level with index \<open>i\<close>. When the last level is below \<open>id_MinB1\<close> the
  loop ends with \<open>ecmCurves\<close> never written, and the test that follows reads it.
\<close>

fun ecm_level :: "double \<Rightarrow> double \<Rightarrow> double \<Rightarrow> b1_t list \<Rightarrow> nat \<Rightarrow> halt + (nat \<times> int) option" where
  "ecm_level minB1 maxB1 totalWorkDone [] i = Inl Undefined"
| "ecm_level minB1 maxB1 totalWorkDone (b # bs) i =
     (if bl_b1 b > maxB1 then Inr None
      else if bl_b1 b < minB1 then ecm_level minB1 maxB1 totalWorkDone bs (i + 1)
      else if bl_sum b > totalWorkDone then
        if bl_b1 b = 0 then Inl Undefined
        else and_then (to_int32 ((bl_sum b - totalWorkDone) / bl_b1 b))
               (\<lambda>curves. Inr (Some (i, if curves = 0 then 1 else curves)))
      else if bs = [] then Inr None
      else ecm_level minB1 maxB1 totalWorkDone bs (i + 1))"

definition GetECMIndexAndCurves :: "double \<Rightarrow> (sender, (nat \<times> int) option) run" where
  "GetECMIndexAndCurves totalWorkDone =
     bind (asks (\<lambda>s. ecm_level (ws_minB1 s) (ws_maxB1 s) totalWorkDone (ws_b1 s) 0)) lift"

definition curves_done :: "string \<Rightarrow> string \<Rightarrow> double \<Rightarrow> tables \<Rightarrow> int list" where
  "curves_done masterCompositeName factorMethod b t =
     map wd_local (filter (\<lambda>r. work_key r = (masterCompositeName, factorMethod, b)) (works t))"

definition GetCurvesDone :: "string \<Rightarrow> string \<Rightarrow> double \<Rightarrow> int db" where
  "GetCurvesDone masterCompositeName factorMethod b =
     bind (FetchRow [PStr masterCompositeName NAME_LENGTH, PStr factorMethod METHOD_LENGTH, PDbl b]
             (curves_done masterCompositeName factorMethod b))
       (\<lambda>r. ret (case r of None \<Rightarrow> 0 | Some n \<Rightarrow> n))"

text \<open>P-1 or P+1 work at one level, if there is any left: the method, the level and the curves.\<close>

definition curves_left :: "string \<Rightarrow> (b1_t \<Rightarrow> int) \<Rightarrow> string \<Rightarrow> nat \<Rightarrow> (sender, (string \<times> double \<times> int) option) run" where
  "curves_left factorMethod wanted masterCompositeName i =
     bind (asks (\<lambda>s. s)) (\<lambda>s.
     if i < length (ws_b1 s) then
       bind (on_db (GetCurvesDone masterCompositeName factorMethod (bl_b1 (ws_b1 s ! i)))) (\<lambda>curvesDone.
         let b = ws_b1 s ! i; curvesLeft = wrap32 (wanted b - curvesDone)
         in ret (if curvesLeft > 0 \<and> bl_b1 b \<ge> ws_minB1 s \<and> bl_b1 b \<le> ws_maxB1 s
                 then Some (factorMethod, bl_b1 b, curvesLeft) else None))
     else ret None)"

text \<open>
  The loop over the levels above the current one: both indices go up together from the same
  start, so that the loop runs as long as the smaller of the two depths.
\<close>

primrec other_work :: "nat \<Rightarrow> string \<Rightarrow> nat \<Rightarrow> (sender, (string \<times> double \<times> int) option) run" where
  "other_work 0 masterCompositeName i = ret None"
| "other_work (Suc n) masterCompositeName i =
     bind (curves_left FM_PM1 bl_pm1 masterCompositeName i) (\<lambda>pm1. case pm1 of
       Some w \<Rightarrow> ret (Some w)
     | None \<Rightarrow> bind (curves_left FM_PP1 bl_pp1 masterCompositeName i) (\<lambda>pp1. case pp1 of
           Some w \<Rightarrow> ret (Some w)
         | None \<Rightarrow> other_work n masterCompositeName (i + 1)))"

text \<open>The decision of \<open>SendWork\<close>: P-1 and P+1 first, then ECM at the current level.\<close>

definition choose_work :: "string \<Rightarrow> double \<Rightarrow> (sender, (string \<times> double \<times> int) option) run" where
  "choose_work masterCompositeName totalWorkDone =
     bind (GetECMIndexAndCurves totalWorkDone) (\<lambda>r. case r of
       None \<Rightarrow> ret None
     | Some (ecmIndex, ecmCurves) \<Rightarrow>
         bind (asks (\<lambda>s. nat (min (ws_pm1 s) (ws_pp1 s)))) (\<lambda>depth.
         bind (other_work depth masterCompositeName ecmIndex) (\<lambda>w. case w of
           Some x \<Rightarrow> ret (Some x)
         | None \<Rightarrow> bind (asks (\<lambda>s. ws_b1 s ! ecmIndex)) (\<lambda>b. ret (Some (FM_ECM, bl_b1 b, ecmCurves))))))"

section \<open>Handing it out\<close>

text \<open>
  The insertion into \<open>PendingWork\<close> names nine columns, binds nine values and has eight question
  marks: the database refuses it, once the tracing of the statement is done.
\<close>

definition insert_pending_sql :: string where
  "insert_pending_sql =
     ''insert into PendingWork ( UserID, MachineID, InstanceID, EmailID, CompositeName, '' @
     '' FactorMethod, B1, Curves, DateAssigned ) values ( ?,?,?,?,?,?,?,? ) ''"

definition Execute_text :: "string \<Rightarrow> sql_param list \<Rightarrow> (tables \<Rightarrow> tables option) \<Rightarrow> bool db" where
  "Execute_text sql ps stmt s =
     and_then (and_then (bind_parameters ps (SQLStatement sql)) ExpandStatement) (\<lambda>_. Inr (execute stmt s))"

definition set_last_sent :: "string \<Rightarrow> int \<Rightarrow> tables \<Rightarrow> tables option" where
  "set_last_sent compositeName time =
     change (\<lambda>t. t\<lparr>comps := update_by cp_name compositeName (\<lambda>r. r\<lparr>cp_sent := time\<rparr>) (comps t)\<rparr>)"

definition offer :: "string \<Rightarrow> string \<Rightarrow> int \<Rightarrow> string \<Rightarrow> double \<Rightarrow> int \<Rightarrow> (sender, unit) run" where
  "offer compositeName compositeValue decimalLength factorMethod b curvesToDo =
     bind (asks (\<lambda>s. is_old (sock s))) (\<lambda>old.
     if old then
       bind (say ''ServerVersion: %s'' [VS ECMNET_VERSION]) (\<lambda>_.
       bind (say ''ServerType: GMP-ECM'' []) (\<lambda>_.
       bind (say ''ECMname: %s'' [VS compositeName]) (\<lambda>_.
       bind (say ''ECMnumber: %s'' [VS compositeValue]) (\<lambda>_.
       bind (say ''ECMB1: %.0lf'' [VD b]) (\<lambda>_.
       bind (say ''FactorMethod: %s'' [VS factorMethod]) (\<lambda>_.
       say ''ECMCurves: 1:%ld'' [VI curvesToDo]))))))
     else
       say ''Factoring Work for %s %s %d %s %.0lf %d %d''
         [VS compositeName, VS compositeValue, VI decimalLength, VS factorMethod, VD b, VI curvesToDo,
          VI (int (length compositeValue))])"

definition pending_values :: "helper \<Rightarrow> string \<Rightarrow> string \<Rightarrow> double \<Rightarrow> int \<Rightarrow> int \<Rightarrow> sql_param list" where
  "pending_values h compositeName factorMethod b curvesToDo time =
     [PStr (hs_user h) ID_LENGTH, PStr (hs_machine h) ID_LENGTH, PStr (hs_instance h) ID_LENGTH,
      PStr (hs_email h) ID_LENGTH, PStr compositeName NAME_LENGTH, PStr factorMethod METHOD_LENGTH, PDbl b,
      PInt curvesToDo, PBig time]"

definition SendWorkUnit :: "string \<Rightarrow> string \<Rightarrow> int \<Rightarrow> string \<Rightarrow> double \<Rightarrow> int \<Rightarrow> (sender, unit) run" where
  "SendWorkUnit compositeName compositeValue decimalLength factorMethod b curvesToDo =
     bind (offer compositeName compositeValue decimalLength factorMethod b curvesToDo) (\<lambda>_.
     bind (asks (\<lambda>s. s)) (\<lambda>s.
     bind (on_db (Execute_text insert_pending_sql
             (pending_values (sock s) compositeName factorMethod b curvesToDo (now (sess s))) (\<lambda>t. None))) (\<lambda>inserted.
     if \<not> inserted then stop Exit else
     bind (on_db (Execute [PBig (now (sess s)), PStr compositeName NAME_LENGTH]
             (set_last_sent compositeName (now (sess s))))) (\<lambda>updated.
     if \<not> updated then stop Exit else ret ()))))"

text \<open>A row of the query for candidates.\<close>

record candidate =
  ca_master :: string
  ca_name :: string
  ca_len :: int
  ca_work :: double
  ca_sent :: int
  ca_value :: string

definition SendWork :: "candidate \<Rightarrow> (sender, double) run" where
  "SendWork c =
     bind (choose_work (ca_master c) (ca_work c)) (\<lambda>w. case w of
       None \<Rightarrow> ret 0
     | Some (factorMethod, b, curves) \<Rightarrow>
         bind (SendWorkUnit (ca_name c) (ca_value c) (ca_len c) factorMethod b curves) (\<lambda>_.
         ret (of_int curves * b)))"

section \<open>Going through the candidates\<close>

definition candidates :: "tables \<Rightarrow> candidate list" where
  "candidates t =
     [\<lparr>ca_master = BindSelectedColumn (cp_master c) NAME_LENGTH,
       ca_name = BindSelectedColumn (cp_name c) NAME_LENGTH, ca_len = cp_len c, ca_work = mc_work m,
       ca_sent = cp_sent c, ca_value = BindSelectedColumn (cp_value c) VALUE_LENGTH\<rparr>.
      m \<leftarrow> masters t, c \<leftarrow> comps t, mc_active m = 1 \<and> mc_name m = cp_master c \<and> cp_events c = 0]"

type_synonym ordering = "string \<Rightarrow> candidate list \<Rightarrow> candidate list"

definition hours_apart :: "double \<Rightarrow> double \<Rightarrow> halt + double" where
  "hours_apart a b = and_then (to_int32 ((a - b) / 3600)) (\<lambda>n. Inr (of_int n))"

text \<open>\<open>selectPercent + adjustPercent\<close> for a candidate.\<close>

definition selection :: "strategy_t \<Rightarrow> double \<Rightarrow> candidate \<Rightarrow> halt + double" where
  "selection st baseTime c =
     (if ca_sent c = 0 then Inr 100
      else and_then (hours_apart baseTime (of_int (ca_sent c))) (\<lambda>h.
        Inr (selectCandidatePercent st
          + (if of_int (ca_sent c) < baseTime then percentAddIfOverHours st else percentSubIfUnderHours st) * h)))"

definition random :: "(sender, double) run" where
  "random = bind (asks ws_rand) (\<lambda>rs. case rs of
       [] \<Rightarrow> ret 0
     | r # rest \<Rightarrow> bind (modify (\<lambda>s. s\<lparr>ws_rand := rest\<rparr>)) (\<lambda>_. ret (of_nat (r mod 100))))"

definition add_sent :: "nat \<Rightarrow> double \<Rightarrow> sender \<Rightarrow> sender" where
  "add_sent k w s = s\<lparr>ws_strategies := (ws_strategies s)[k := (ws_strategies s ! k)\<lparr>workSent := workSent (ws_strategies s ! k) + w\<rparr>],
                      ws_total := ws_total s + w\<rparr>"

definition try_candidate :: "nat \<Rightarrow> strategy_t \<Rightarrow> double \<Rightarrow> double \<Rightarrow> candidate \<Rightarrow> (sender, double) run" where
  "try_candidate k st baseTime loopAdjustPercent c =
     bind (lift (selection st baseTime c)) (\<lambda>percent.
     bind random (\<lambda>randomPercent.
     if randomPercent - loopAdjustPercent \<le> percent then
       bind (SendWork c) (\<lambda>workSent.
       bind (if workSent > 0 then bind (modify (add_sent k workSent)) (\<lambda>_. commit) else rollback) (\<lambda>_.
       ret workSent))
     else ret 0))"

text \<open>
  One pass through the result of the query: the rows fetched, and the work sent, which ends
  the pass when it is not zero.
\<close>

primrec read_candidates :: "nat \<Rightarrow> strategy_t \<Rightarrow> double \<Rightarrow> double \<Rightarrow> candidate list \<Rightarrow> nat \<Rightarrow> (sender, nat \<times> double) run" where
  "read_candidates k st baseTime adj [] n = bind (on_db (fetch ([] :: candidate list))) (\<lambda>_. ret (n, 0))"
| "read_candidates k st baseTime adj (c # rows) n =
     bind (on_db (fetch (c # rows))) (\<lambda>r. case r of
       None \<Rightarrow> ret (n, 0)
     | Some _ \<Rightarrow>
         bind (try_candidate k st baseTime adj c) (\<lambda>w.
         if w = 0 then read_candidates k st baseTime adj rows (n + 1) else ret (n + 1, w)))"

definition candidate_rows :: "ordering \<Rightarrow> strategy_t \<Rightarrow> tables \<Rightarrow> candidate list" where
  "candidate_rows order st t = take 100 (order (sortSequence st) (candidates t))"

text \<open>The loop over the passes: the chance of a candidate grows by 10 each time.\<close>

definition strategy_pass :: "ordering \<Rightarrow> nat \<Rightarrow> strategy_t \<Rightarrow> double \<Rightarrow> double \<Rightarrow> (sender, double + double) run" where
  "strategy_pass order k st baseTime loopAdjustPercent =
     bind (on_db (Open [] (candidate_rows order st))) (\<lambda>q.
     bind (case q of None \<Rightarrow> ret (0, 0) | Some rows \<Rightarrow> read_candidates k st baseTime loopAdjustPercent rows 0)
       (\<lambda>(rowsFetched, w).
     ret (if w \<noteq> 0 then Inr w else if rowsFetched = 0 then Inr 0 else Inl (loopAdjustPercent + 10))))"

definition SendUsingStrategy :: "nat \<Rightarrow> ordering \<Rightarrow> nat \<Rightarrow> (sender, bool) run" where
  "SendUsingStrategy fuel order k =
     bind (asks (\<lambda>s. (ws_strategies s ! k, now (sess s)))) (\<lambda>(st, time).
     bind (iterate fuel (strategy_pass order k st (of_int time - hourBreak st * 3600)) 0) (\<lambda>w.
     ret (w > 0)))"

text \<open>The first strategy that has sent less than its share, or else the first.\<close>

fun behind :: "double \<Rightarrow> strategy_t list \<Rightarrow> nat option" where
  "behind workTotal [] = None"
| "behind workTotal (st # ss) =
     (if workSent st < workTotal * selectStrategyPercent st * (1 / 100) then Some 0
      else map_option Suc (behind workTotal ss))"

definition GetWork :: "nat \<Rightarrow> ordering \<Rightarrow> string \<Rightarrow> (sender, unit) run" where
  "GetWork fuel order theMessage =
     bind (asks (\<lambda>s. (ws_strategies s, ws_total s))) (\<lambda>(ss, workTotal).
     if ss = [] then stop Undefined
     else
       bind (lift (sscanf (replace_char (CHR '':'') (CHR '' '') theMessage) ''GETWORK %s %s'' [20, 80])) (\<lambda>_.
       bind (SendUsingStrategy fuel order (case behind workTotal ss of None \<Rightarrow> 0 | Some k \<Rightarrow> k)) (\<lambda>sent.
       bind (if \<not> sent then say ''INFO: No available candidates are left on this server.'' [] else ret ()) (\<lambda>_.
       say ''End of Message'' []))))"

section \<open>The level for ECM\<close>

lemma ecm_level_Some:
  assumes "ecm_level lo hi sofar bs i = Inr (Some (j, k))" "\<forall>b \<in> set bs. 0 < bl_b1 b"
  shows "\<exists>n. j = i + n \<and> n < length bs \<and> lo \<le> bl_b1 (bs ! n) \<and> bl_b1 (bs ! n) \<le> hi
    \<and> sofar < bl_sum (bs ! n) \<and> 1 \<le> k \<and> (k = 1 \<or> sofar + of_int k * bl_b1 (bs ! n) \<le> bl_sum (bs ! n))
    \<and> (\<forall>m < n. bl_b1 (bs ! m) < lo \<or> bl_sum (bs ! m) \<le> sofar)"
  using assms
proof (induction lo hi sofar bs i rule: ecm_level.induct)
  case (2 lo hi sofar b bs i)
  let ?b = "bl_b1 b"
  have later: ?case if "\<exists>n. j = (i + 1) + n \<and> n < length bs \<and> lo \<le> bl_b1 (bs ! n) \<and> bl_b1 (bs ! n) \<le> hi
      \<and> sofar < bl_sum (bs ! n) \<and> 1 \<le> k \<and> (k = 1 \<or> sofar + of_int k * bl_b1 (bs ! n) \<le> bl_sum (bs ! n))
      \<and> (\<forall>m < n. bl_b1 (bs ! m) < lo \<or> bl_sum (bs ! m) \<le> sofar)" and "?b < lo \<or> bl_sum b \<le> sofar"
  proof -
    from that(1) obtain n where "j = (i + 1) + n" "n < length bs" "lo \<le> bl_b1 (bs ! n)" "bl_b1 (bs ! n) \<le> hi"
      "sofar < bl_sum (bs ! n)" "1 \<le> k" "k = 1 \<or> sofar + of_int k * bl_b1 (bs ! n) \<le> bl_sum (bs ! n)"
      "\<forall>m < n. bl_b1 (bs ! m) < lo \<or> bl_sum (bs ! m) \<le> sofar" by blast
    with that(2) show ?thesis by (intro exI [of _ "Suc n"]) (auto simp: less_Suc_eq_0_disj)
  qed
  show ?case
  proof (cases "?b < lo")
    case True
    with 2 have "ecm_level lo hi sofar bs (i + 1) = Inr (Some (j, k))" by (simp split: if_splits)
    with 2 True later show ?thesis by (simp split: if_splits)
  next
    case False
    show ?thesis
    proof (cases "bl_sum b > sofar")
      case True
      define x where "x = (bl_sum b - sofar) / ?b"
      have b: "0 < ?b" "lo \<le> ?b" "?b \<le> hi" using 2 False by (auto split: if_splits)
      with 2 False True have j: "j = i" and "k = (if trunc x = 0 then 1 else trunc x)"
        by (auto simp: x_def to_int32_def split: if_splits)
      moreover have "0 \<le> x" using True b by (simp add: x_def)
      ultimately have "1 \<le> k" "k = 1 \<or> of_int k \<le> x"
        using trunc_nonneg [of x] by (auto split: if_splits)
      moreover have "of_int k * ?b \<le> bl_sum b - sofar" if "of_int k \<le> x"
        using that b by (simp add: x_def pos_le_divide_eq)
      ultimately show ?thesis using True b j by (intro exI [of _ 0]) auto
    next
      case notdone: False
      with 2 False have "ecm_level lo hi sofar bs (i + 1) = Inr (Some (j, k))" "bs \<noteq> []"
        by (simp_all split: if_splits)
      with 2 False notdone later show ?thesis by (simp split: if_splits)
    qed
  qed
qed simp

lemma level_curves:
  assumes ok: "table_ok bs" and i: "i < length bs" and b: "0 < bl_b1 (bs ! i)"
    and k: "k = 1 \<or> sofar + of_int k * bl_b1 (bs ! i) \<le> bl_sum (bs ! i)"
    and before: "\<forall>m < i. bl_sum (bs ! m) \<le> sofar" and sofar: "0 \<le> sofar"
  shows "k \<le> max 1 (bl_ecm (bs ! i))"
proof (cases "k = 1")
  case False
  have exp: "bl_expected (bs ! i) = bl_b1 (bs ! i) * of_int (bl_ecm (bs ! i))"
    using ok i by (simp add: table_ok_def)
  have "bl_sum (bs ! i) \<le> sofar + bl_expected (bs ! i)"
  proof (cases i)
    case 0
    with ok i sofar show ?thesis by (simp add: table_ok_def take_Suc_conv_app_nth)
  next
    case (Suc m)
    with ok i have "bl_sum (bs ! i) = bl_sum (bs ! m) + bl_expected (bs ! i)"
      by (simp add: table_ok_def take_Suc_conv_app_nth)
    with Suc before show ?thesis by simp
  qed
  with False k exp have "of_int k * bl_b1 (bs ! i) \<le> of_int (bl_ecm (bs ! i)) * bl_b1 (bs ! i)"
    by (simp add: mult.commute)
  with b show ?thesis by simp
qed simp

end
