(* ===== verification/SenderProps.thy ===== *)
theory SenderProps
  imports WorkSender Demo
begin

text \<open>
  The properties of the work sender: which level and how many curves it picks, in which order the
  methods come, and what handing out work and going through the candidates leads to.
\<close>

section \<open>The level for ECM\<close>

lemma GetECMIndexAndCurves_eq: "GetECMIndexAndCurves sofar s =
    and_then (ecm_level (ws_minB1 s) (ws_maxB1 s) sofar (ws_b1 s) 0) (\<lambda>r. Inr (r, s))"
  by (simp add: GetECMIndexAndCurves_def lift_def)

text \<open>The level chosen for ECM lies within the configured bounds and is the first one that is
  not finished, at least one curve is asked for, and more than one only as long as their work does
  not exceed what is missing; with a cumulative table and no level below the minimum, never more
  curves than the level has.\<close>

theorem ecm_level_is_first_unfinished:
  assumes "GetECMIndexAndCurves sofar s = Inr (Some (i, k), s')" "\<forall>b \<in> set (ws_b1 s). 0 < bl_b1 b"
  shows "i < length (ws_b1 s) \<and> ws_minB1 s \<le> bl_b1 (ws_b1 s ! i) \<and> bl_b1 (ws_b1 s ! i) \<le> ws_maxB1 s
    \<and> sofar < bl_sum (ws_b1 s ! i) \<and> 1 \<le> k
    \<and> (k = 1 \<or> sofar + of_int k * bl_b1 (ws_b1 s ! i) \<le> bl_sum (ws_b1 s ! i))
    \<and> (\<forall>m < i. bl_b1 (ws_b1 s ! m) < ws_minB1 s \<or> bl_sum (ws_b1 s ! m) \<le> sofar)
    \<and> (table_ok (ws_b1 s) \<and> (\<forall>b \<in> set (ws_b1 s). ws_minB1 s \<le> bl_b1 b) \<and> 0 \<le> sofar
         \<longrightarrow> k \<le> max 1 (bl_ecm (ws_b1 s ! i)))"
proof -
  let ?bs = "ws_b1 s"
  have "ecm_level (ws_minB1 s) (ws_maxB1 s) sofar ?bs 0 = Inr (Some (i, k))"
    using assms(1) by (auto simp: GetECMIndexAndCurves_eq)
  from ecm_level_Some [OF this assms(2)]
  have *: "i < length ?bs" "ws_minB1 s \<le> bl_b1 (?bs ! i)" "bl_b1 (?bs ! i) \<le> ws_maxB1 s"
    "sofar < bl_sum (?bs ! i)" "1 \<le> k" "k = 1 \<or> sofar + of_int k * bl_b1 (?bs ! i) \<le> bl_sum (?bs ! i)"
    "\<forall>m < i. bl_b1 (?bs ! m) < ws_minB1 s \<or> bl_sum (?bs ! m) \<le> sofar" by auto
  have "k \<le> max 1 (bl_ecm (?bs ! i))"
    if "table_ok ?bs" "\<forall>b \<in> set ?bs. ws_minB1 s \<le> bl_b1 b" "0 \<le> sofar"
  proof (rule level_curves [OF that(1) *(1) _ *(6) _ that(3)])
    show "0 < bl_b1 (?bs ! i)" using *(1) assms(2) by simp
    show "\<forall>m < i. bl_sum (?bs ! m) \<le> sofar"
    proof (intro allI impI)
      fix m assume "m < i"
      then have "ws_minB1 s \<le> bl_b1 (?bs ! m)" using *(1) that(2) by simp
      with *(7) \<open>m < i\<close> show "bl_sum (?bs ! m) \<le> sofar" by (meson not_le)
    qed
  qed
  with * show ?thesis by blast
qed

text \<open>A sender over the small server, with two levels.\<close>

definition demo_levels :: "b1_t list" where
  "demo_levels = [\<lparr>bl_b1 = 100, bl_expected = 2500, bl_sum = 2500, bl_ecm = 25, bl_pp1 = 1, bl_pm1 = 2\<rparr>,
     \<lparr>bl_b1 = 1000, bl_expected = 50000, bl_sum = 52500, bl_ecm = 50, bl_pp1 = 0, bl_pm1 = 3\<rparr>]"

definition demo_sender :: "double \<Rightarrow> double \<Rightarrow> sender" where
  "demo_sender lo hi =
     \<lparr>sess = demo_session, sock = demo_helper [], ws_minB1 = lo, ws_maxB1 = hi, ws_pm1 = 1, ws_pp1 = 1,
      ws_b1 = demo_levels,
      ws_strategies = [\<lparr>sortSequence = ''Composite.Difficulty'', selectStrategyPercent = 100,
        selectCandidatePercent = 20, hourBreak = 7200, percentAddIfOverHours = 5, percentSubIfUnderHours = 5,
        workSent = 0\<rparr>], ws_total = 0, ws_rand = [57, 99, 3]\<rparr>"

lemmas sender_defs = demo_sender_def demo_levels_def demo_defs

theorem ecm_level_is_first_unfinished_witness:
  "GetECMIndexAndCurves 200 (demo_sender 0 5000) = Inr (Some (0, 23), demo_sender 0 5000)
   \<and> (200 :: double) < bl_sum (ws_b1 (demo_sender 0 5000) ! 0)
   \<and> (200 :: double) + of_int 23 * bl_b1 (ws_b1 (demo_sender 0 5000) ! 0) \<le> bl_sum (ws_b1 (demo_sender 0 5000) ! 0)"
proof -
  have g: "GetECMIndexAndCurves 200 (demo_sender 0 5000) = Inr (Some (0, 23), demo_sender 0 5000)"
    by (simp add: GetECMIndexAndCurves_eq sender_defs to_int32_def trunc_def)
  with ecm_level_is_first_unfinished [OF g] show ?thesis by (simp add: sender_defs)
qed

section \<open>The order of the methods\<close>










section \<open>Handing out work\<close>

lemma insert_marks: "marks insert_pending_sql = 8"
  by (simp add: insert_pending_sql_def)

lemma execute_refused: "execute (\<lambda>t. None) s = (False, s\<lparr>odbc := snd (answer (odbc s))\<rparr>)"
  by (simp add: execute_def split: prod.splits)

lemma Execute_text_refused: "Execute_text sql ps (\<lambda>t. None) s = Inr (b, s') \<Longrightarrow> \<not> b"
  by (auto simp: Execute_text_def execute_refused)

lemma expand_surplus:
  "\<forall>p \<in> set ps. \<not> has_mark p \<and> \<not> overflows p \<Longrightarrow> marks q \<le> length ps \<Longrightarrow> \<exists>t. expand ps q = Inr t"
proof (induction ps arbitrary: q)
  case Nil
  then show ?case by (subst expand.simps) (auto split: option.splits dest: split_at_Some)
next
  case (Cons p ps)
  show ?case
  proof (cases "split_at (CHR ''?'') q")
    case None
    show ?thesis by (subst expand.simps, subst None) simp
  next
    case (Some ab)
    then obtain a b where ab: "split_at (CHR ''?'') q = Some (a, b)" by (cases ab) auto
    then have q: "q = a @ CHR ''?'' # b" by (auto dest: split_at_Some)
    have "CHR ''?'' \<notin> set (text_of p)" using Cons.prems by (simp add: text_of_mark)
    then have "marks (text_of p) = 0" by simp
    with q Cons.prems have "marks (a @ text_of p @ b) \<le> length ps" by (simp del: marks_0)
    with Cons have "\<exists>t. expand ps (a @ text_of p @ b) = Inr t" by simp
    with ab Cons.prems show ?thesis by (subst expand.simps) (simp add: param_text_cases)
  qed
qed

lemma Execute_text_refused_ok:
  assumes "check_params ps = Inr ()" "marks sql \<le> length ps" "length ps \<le> 400"
  shows "\<exists>s'. Execute_text sql ps (\<lambda>t. None) s = Inr (False, s')"
proof -
  have ok: "\<forall>p \<in> set (map own_length ps). \<not> has_mark p \<and> \<not> overflows p"
    using assms(1) by (auto simp: check_params_Inr)
  have "bind_parameters ps (SQLStatement sql) = Inr ((SQLStatement sql)\<lparr>sq_params := map own_length ps, sq_index := length ps\<rparr>)"
    using assms by (simp add: bind_parameters_eq SQLStatement_def check_params_Inr)
  moreover obtain t where "expand (map own_length ps) sql = Inr t"
    using expand_surplus [OF ok] assms(2) by (metis length_map)
  ultimately show ?thesis
    by (simp add: Execute_text_def ExpandStatement_def execute_refused SQLStatement_def)
qed

text \<open>C35: No unit of work is ever handed out: whatever the driver answers, \<open>SendWorkUnit\<close> does not return,
  since the statement that is to record the pending work has one question mark less than columns and is
  refused; when the message could be sent and the values pass the checks of the statement, the server exits.\<close>

theorem handing_out_work_stops_the_server:
  "SendWorkUnit name value len method b k s \<noteq> Inr (u, s')
   \<and> (\<forall>s1. offer name value len method b k s = Inr ((), s1)
        \<and> check_params (pending_values (sock s1) name method b k (now (sess s1))) = Inr ()
        \<longrightarrow> SendWorkUnit name value len method b k s = Inl Exit)"
proof (intro conjI allI impI)
  show "SendWorkUnit name value len method b k s \<noteq> Inr (u, s')"
    unfolding SendWorkUnit_def by (auto simp: bind_eq_Inr on_db_Inr dest!: Execute_text_refused)
next
  fix s1 assume "offer name value len method b k s = Inr ((), s1)
    \<and> check_params (pending_values (sock s1) name method b k (now (sess s1))) = Inr ()"
  then have o: "offer name value len method b k s = Inr ((), s1)"
    and c: "check_params (pending_values (sock s1) name method b k (now (sess s1))) = Inr ()" by simp_all
  have "marks insert_pending_sql \<le> length (pending_values (sock s1) name method b k (now (sess s1)))"
    by (simp add: insert_marks pending_values_def)
  from Execute_text_refused_ok [OF c this, of "sess s1"]
  obtain x where x: "Execute_text insert_pending_sql (pending_values (sock s1) name method b k (now (sess s1)))
      (\<lambda>t. None) (sess s1) = Inr (False, x)"
    by (auto simp: pending_values_def)
  then show "SendWorkUnit name value len method b k s = Inl Exit"
    by (simp add: SendWorkUnit_def bind_def [where m = "offer name value len method b k"] o)
      (simp add: bind_def on_db_def part_def)
qed

theorem handing_out_work_stops_the_server_witness:
  "SendWorkUnit ''C'' ''91'' 2 ''ECM'' 100 5 (demo_sender 0 5000) = Inl Exit"
proof -
  obtain s1 where o: "offer ''C'' ''91'' 2 ''ECM'' 100 5 (demo_sender 0 5000) = Inr ((), s1)"
    and s: "hs_user (sock s1) = ''bob''" "hs_machine (sock s1) = ''pc''" "hs_instance (sock s1) = ''i1''"
      "hs_email (sock s1) = ''b@x''"
    by (simp add: offer_def sender_defs run_base run_text)
  have "check_params (pending_values (sock s1) ''C'' ''ECM'' 100 5 (now (sess s1))) = Inr ()"
    by (simp add: pending_values_def s check_params_def run_text)
  with o handing_out_work_stops_the_server [of "''C''" "''91''" 2 "''ECM''" 100 5 "demo_sender 0 5000"]
  show ?thesis by blast
qed

section \<open>Candidates without work left\<close>

definition idle :: "ordering \<Rightarrow> strategy_t \<Rightarrow> double \<Rightarrow> sender \<Rightarrow> bool" where
  "idle order st baseTime s \<longleftrightarrow> driver_ok (sess s) \<and> cur (sess s) = saved (sess s)
     \<and> candidate_rows order st (cur (sess s)) \<noteq> []
     \<and> (\<forall>c \<in> set (candidate_rows order st (cur (sess s))).
          ecm_level (ws_minB1 s) (ws_maxB1 s) (ca_work c) (ws_b1 s) 0 = Inr None
          \<and> (\<exists>p. selection st baseTime c = Inr p))"

definition but_random :: "sender \<Rightarrow> sender \<Rightarrow> bool" where
  "but_random s s' \<longleftrightarrow> (\<exists>r. s' = s\<lparr>ws_rand := r\<rparr>)"

lemma but_random_refl: "but_random s s"
  unfolding but_random_def by (rule exI [of _ "ws_rand s"]) simp

lemma but_random_trans: "but_random s s' \<Longrightarrow> but_random s' s'' \<Longrightarrow> but_random s s''"
  by (auto simp: but_random_def)

lemma try_idle:
  assumes "ecm_level (ws_minB1 s) (ws_maxB1 s) (ca_work c) (ws_b1 s) 0 = Inr None" "selection st baseTime c = Inr p"
    "driver_ok (sess s)" "cur (sess s) = saved (sess s)"
  shows "\<exists>s'. try_candidate k st baseTime adj c s = Inr (0, s') \<and> but_random s s'"
proof -
  obtain v r where rnd: "random s = Inr (v, s\<lparr>ws_rand := r\<rparr>)"
    by (cases "ws_rand s") (auto simp: random_def intro!: that [of _ "ws_rand s"])
  have work: "SendWork c (s\<lparr>ws_rand := r\<rparr>) = Inr (0, s\<lparr>ws_rand := r\<rparr>)"
    using assms(1) by (simp add: SendWork_def choose_work_def GetECMIndexAndCurves_eq bind_def)
  have roll: "rollback (s\<lparr>ws_rand := r\<rparr>) = Inr ((), s\<lparr>ws_rand := r\<rparr>)"
    using assms(3,4) by (cases s) (simp add: rollback_def Rollback_ok driver_ok_def)
  show ?thesis
    using assms(2) rnd work roll
    by (intro exI [of _ "s\<lparr>ws_rand := r\<rparr>"]) (auto simp: try_candidate_def bind_def but_random_def)
qed

lemma fetch_ok: "odbc (sess s) = [] \<Longrightarrow> on_db (fetch rows) s = Inr (case rows of [] \<Rightarrow> None | r # rs \<Rightarrow> Some (r, rs), s)"
  by (cases s) (simp add: on_db_def part_def fetch_def split: list.splits)

lemma cursor_idle:
  assumes "\<forall>c \<in> set rows. ecm_level (ws_minB1 s) (ws_maxB1 s) (ca_work c) (ws_b1 s) 0 = Inr None
      \<and> (\<exists>p. selection st baseTime c = Inr p)" "driver_ok (sess s)" "cur (sess s) = saved (sess s)"
  shows "\<exists>s'. read_candidates k st baseTime adj rows n s = Inr ((n + length rows, 0), s') \<and> but_random s s'"
  using assms
proof (induction rows arbitrary: s n)
  case Nil
  then show ?case
    by (intro exI [of _ s]) (simp add: bind_def fetch_ok driver_ok_def but_random_refl)
next
  case (Cons c rows)
  then obtain p where "selection st baseTime c = Inr p" by auto
  with Cons.prems try_idle [of s c st baseTime p k adj]
  obtain s1 where s1: "try_candidate k st baseTime adj c s = Inr (0, s1)" "but_random s s1" by auto
  then have "\<forall>c \<in> set rows. ecm_level (ws_minB1 s1) (ws_maxB1 s1) (ca_work c) (ws_b1 s1) 0 = Inr None
      \<and> (\<exists>p. selection st baseTime c = Inr p)" "driver_ok (sess s1)" "cur (sess s1) = saved (sess s1)"
    using Cons.prems by (auto simp: but_random_def)
  from Cons.IH [OF this, of "n + 1"] obtain s2
    where "read_candidates k st baseTime adj rows (n + 1) s1 = Inr ((n + 1 + length rows, 0), s2)" "but_random s1 s2" by auto
  with s1 Cons.prems but_random_trans [OF s1(2)] show ?case
    by (intro exI [of _ s2]) (simp add: bind_def fetch_ok driver_ok_def)
qed

lemma pass_idle:
  assumes "idle order st baseTime s"
  shows "\<exists>s'. strategy_pass order k st baseTime adj s = Inr (Inl (adj + 10), s') \<and> but_random s s'"
proof -
  let ?rows = "candidate_rows order st (cur (sess s))"
  have o: "on_db (Open [] (candidate_rows order st)) s = Inr (Some ?rows, s)"
    using assms by (cases s) (simp add: idle_def driver_ok_def on_db_def part_def Open_def check_params_def)
  from assms obtain s' where "read_candidates k st baseTime adj ?rows 0 s = Inr ((0 + length ?rows, 0), s')" "but_random s s'"
    using cursor_idle [of ?rows s st baseTime k adj 0] by (auto simp: idle_def)
  with o assms show ?thesis
    by (intro exI [of _ s']) (auto simp: strategy_pass_def bind_def idle_def)
qed

lemma idle_random: "idle order st baseTime s \<Longrightarrow> but_random s s' \<Longrightarrow> idle order st baseTime s'"
  by (auto simp: but_random_def idle_def)

lemma passes_idle: "idle order st baseTime s \<Longrightarrow> iterate n (strategy_pass order k st baseTime) adj s = Inl Fuel"
proof (induction n arbitrary: adj s)
  case (Suc n)
  from pass_idle [OF Suc.prems] obtain s'
    where p: "strategy_pass order k st baseTime adj s = Inr (Inl (adj + 10), s')" "but_random s s'" by blast
  with Suc.IH [OF idle_random [OF Suc.prems p(2)]] show ?case by (simp add: bind_def)
qed simp

text \<open>C36: When there are candidates but each of them has all its ECM work done, the search for work never
  ends: however many passes are made, nothing is sent and none of the loop's exits is taken. (The client
  is kept waiting; the code expects the query to return no rows in that case.)\<close>

theorem finished_candidates_keep_the_sender_busy:
  assumes "idle order (ws_strategies s ! k) (of_int (now (sess s)) - hourBreak (ws_strategies s ! k) * 3600) s"
  shows "\<forall>passes. SendUsingStrategy passes order k s = Inl Fuel"
  using passes_idle [OF assms] by (simp add: SendUsingStrategy_def bind_def)

theorem finished_candidates_keep_the_sender_busy_witness:
  "\<forall>passes. SendUsingStrategy passes (\<lambda>_ cs. cs) 0
     ((demo_sender 0 5000)\<lparr>ws_b1 := [\<lparr>bl_b1 = 10, bl_expected = 100, bl_sum = 100, bl_ecm = 10, bl_pp1 = 0, bl_pm1 = 0\<rparr>]\<rparr>)
     = Inl Fuel"
  by (rule finished_candidates_keep_the_sender_busy)
    (simp add: idle_def sender_defs candidate_rows_def candidates_def driver_ok_def selection_def)

end
