(* ===== verification/AdminThread.thy ===== *)
theory AdminThread
  imports WorkReceiver ServerConfig
begin

text \<open>
  The administrator's part of \<open>src/source/HelperThread.cpp\<close>: activating composites, adding composites
  and adding curves, and \<open>SendFile\<close>. \<open>ht_globals\<close> is the server's configuration, \<open>ht_files\<close> the
  contents of the files of the working directory, \<open>ht_total\<close> and \<open>ht_rand\<close> are the shared state of the
  work sender.
\<close>

record helper_thread = handler +
  ht_globals :: globals
  ht_total :: double
  ht_rand :: "nat list"
  ht_files :: "string \<Rightarrow> string option"

definition put_read_buf :: "string \<Rightarrow> ('s handler_scheme, unit) run" where
  "put_read_buf m = modify (\<lambda>s. s\<lparr>sock := (sock s)\<lparr>read_buf := m\<rparr>\<rparr>)"

definition VerifyAdminPassword :: "string \<Rightarrow> (helper_thread, bool) run" where
  "VerifyAdminPassword password =
     bind (asks (\<lambda>s. g_adminPassword (ht_globals s))) (\<lambda>admin.
     if password = admin then bind (say ''OK: Password Verified'' []) (\<lambda>_. ret True)
     else bind (say ''ERR: The entered password is not valid.  No access will be granted.'' []) (\<lambda>_. ret False))"

text \<open>What every admin function does first.\<close>

definition on_master_server :: "(helper_thread, unit) run \<Rightarrow> (helper_thread, unit) run" where
  "on_master_server m =
     bind (asks (\<lambda>s. g_slave (ht_globals s))) (\<lambda>slave.
     if slave then say ''Cannot use ADMIN functions on a slave server'' [] else m)"

primrec send_lines :: "string list \<Rightarrow> ('s handler_scheme, unit) run" where
  "send_lines [] = ret ()"
| "send_lines (l # ls) =
     bind (if StripCRLF l \<noteq> [] then say ''%s'' [VS (StripCRLF l)] else ret ()) (\<lambda>_. send_lines ls)"

definition SendFile :: "string \<Rightarrow> (helper_thread, unit) run" where
  "SendFile fileName =
     bind (asks (\<lambda>s. ht_files s fileName)) (\<lambda>file. case file of
       None \<Rightarrow> ret ()
     | Some text \<Rightarrow> send_lines (file_lines (BUFFER_SIZE - 2) text))"

section \<open>ChangeStatus\<close>

text \<open>
  The two values are bound in the wrong order: the composite's name becomes the new status, which the
  database only takes when it reads as a number, and the row changed is the one whose name is the flag.
\<close>

definition set_active_swapped :: "string \<Rightarrow> bool \<Rightarrow> tables \<Rightarrow> tables option" where
  "set_active_swapped compositeName makeActive t =
     (case scan_int compositeName of
        Some (n, []) \<Rightarrow> change (\<lambda>t. t\<lparr>masters := update_by mc_name (show_int (flag makeActive))
                                    (\<lambda>r. r\<lparr>mc_active := n\<rparr>) (masters t)\<rparr>) t
      | _ \<Rightarrow> None)"

definition two_words :: "sval list \<Rightarrow> (string \<times> string) option" where
  "two_words vs = (case vs of [VS a, VS b] \<Rightarrow> Some (a, b) | _ \<Rightarrow> None)"

definition ChangeStatus :: "string \<Rightarrow> bool \<Rightarrow> (helper_thread, unit) run" where
  "ChangeStatus theMessage makeActive =
     on_master_server (bind (lift (sscanf theMessage ''%s %s'' [100, NAME_LENGTH + 1])) (\<lambda>vs.
       case two_words vs of
         None \<Rightarrow> say ''ADMIN Message format incorrect'' []
       | Some (password, compositeName) \<Rightarrow>
           bind (VerifyAdminPassword password) (\<lambda>ok.
           if \<not> ok then ret () else
           bind (on_db (FetchRow [PStr compositeName NAME_LENGTH]
                   (\<lambda>t. map mc_active (filter (\<lambda>r. mc_name r = compositeName) (masters t))))) (\<lambda>row.
           if row = None then say ''Composite %s not found'' [VS compositeName]
           else
             bind (on_db (Execute [PStr compositeName NAME_LENGTH, PInt (flag makeActive)]
                     (set_active_swapped compositeName makeActive))) (\<lambda>done.
             if done then commit
             else bind (say ''The server encounted an SQL error when changing the status of %s'' [VS compositeName])
                    (\<lambda>_. rollback))))))"

section \<open>AddComposites\<close>

definition add_composite :: "(int \<Rightarrow> int) \<Rightarrow> string \<Rightarrow> string \<Rightarrow> composite \<Rightarrow> (helper_thread, bool) run" where
  "add_composite pp compositeName compositeValue c =
     bind (on_db (MasterComposite compositeName)) (\<lambda>m.
     bind (lift (master_SetValue pp compositeValue m)) (\<lambda>(_, m1).
     bind (lift (SetValue pp compositeValue c)) (\<lambda>(_, c1).
     case co_prp c1 of
       None \<Rightarrow> stop Undefined
     | Some prp \<Rightarrow>
         if prp \<noteq> 0 then
           bind (say ''Number %s appears to be PRP or prime.  It was not added.'' [VS compositeValue]) (\<lambda>_. ret False)
         else
           let c2 = snd (SetMasterCompositeName compositeName c1) in
           bind (on_db (master_FinalizeChanges m1)) (\<lambda>(ok1, _).
           bind (if ok1 then on_db (comp_FinalizeChanges c2) else ret (False, c2)) (\<lambda>(ok2, _).
           if ok2 then bind commit (\<lambda>_. ret True)
           else bind rollback (\<lambda>_.
                bind (say ''The server encountered an error inserting composite %s'' [VS compositeName])
                  (\<lambda>_. ret False)))))))"

text \<open>The blank after the name is overwritten in the buffer the message was received in.\<close>

definition name_and_value :: "string \<Rightarrow> (helper_thread, string \<times> string) run" where
  "name_and_value readBuf =
     (case split_at (CHR '' '') readBuf of
        None \<Rightarrow> bind (lift (strcpy readBuf (NAME_LENGTH + 1))) (\<lambda>n.
                 bind (lift (strcpy readBuf (VALUE_LENGTH + 1))) (\<lambda>v. ret (n, v)))
      | Some (a, b) \<Rightarrow>
          bind (put_read_buf a) (\<lambda>_.
          bind (lift (strcpy a (NAME_LENGTH + 1))) (\<lambda>n.
          bind (lift (strcpy b (VALUE_LENGTH + 1))) (\<lambda>v. ret (n, v)))))"

definition add_line :: "(int \<Rightarrow> int) \<Rightarrow> string \<Rightarrow> (helper_thread, bool) run" where
  "add_line pp readBuf =
     bind (name_and_value readBuf) (\<lambda>(compositeName, compositeValue).
     if length compositeValue > VALUE_LENGTH then stop Exit
     else
     bind (on_db (Composite compositeName False)) (\<lambda>c.
     if co_found c then
       bind (say ''Composite %s already in the database'' [VS compositeName]) (\<lambda>_. ret False)
     else
       bind (on_db (FetchRow [PStr compositeValue VALUE_LENGTH]
               (\<lambda>t. map mc_active (filter (\<lambda>r. mc_value r = compositeValue) (masters t))))) (\<lambda>row.
       if row \<noteq> None then
         bind (say ''Composite %s already in the database under a different name'' [VS compositeValue])
           (\<lambda>_. ret False)
       else add_composite pp compositeName compositeValue c)))"

definition composites_step :: "(int \<Rightarrow> int) \<Rightarrow> int \<Rightarrow> (helper_thread, int + int) run" where
  "composites_step pp added =
     bind listen (\<lambda>readBuf. case readBuf of
         None \<Rightarrow> ret (Inr added)
       | Some m \<Rightarrow> if m = ''No more composites'' then ret (Inr added)
           else bind (add_line pp m) (\<lambda>ok. ret (Inl (if ok then added + 1 else added))))"

definition AddComposites :: "(int \<Rightarrow> int) \<Rightarrow> string \<Rightarrow> (helper_thread, unit) run" where
  "AddComposites pp thePassword =
     on_master_server (bind (VerifyAdminPassword thePassword) (\<lambda>ok.
       if \<not> ok then ret () else
       bind (asks lines_left) (\<lambda>n.
       bind (iterate (Suc n) (composites_step pp) 0) (\<lambda>added.
       bind (say ''%d composites were added to the server'' [VI added]) (\<lambda>_.
       say ''Done'' [])))))"

section \<open>AddCurves\<close>

text \<open>
  The parts of a line: the name, the method, the number of curves and B1. Absent parts leave zero; the
  first two blanks found are overwritten in the buffer.
\<close>

definition curve_fields :: "string \<Rightarrow> halt + (string \<times> string \<times> int \<times> double) option \<times> string" where
  "curve_fields readBuf =
     (case split_at (CHR '' '') readBuf of
        None \<Rightarrow> Inr (None, readBuf)
      | Some (name, rest1) \<Rightarrow>
          and_then (strcpy name (NAME_LENGTH + 1)) (\<lambda>compositeName.
          case split_at (CHR '' '') rest1 of
            None \<Rightarrow> Inr (None, name)
          | Some (method, rest2) \<Rightarrow>
              and_then (strcpy method (METHOD_LENGTH + 1)) (\<lambda>factorMethod.
              Inr (case split_at (CHR '' '') rest2 of
                None \<Rightarrow> None
              | Some (_, rest3) \<Rightarrow>
                  if atof rest3 = 0 \<or> atol rest2 = 0 then None
                  else Some (compositeName, factorMethod, atol rest2, atof rest3), name))))"

definition record_curves :: "string \<Rightarrow> double \<Rightarrow> int \<Rightarrow> master \<Rightarrow> bool db" where
  "record_curves factorMethod b1 curvesDone m =
     bind (AddWorkDone factorMethod b1 curvesDone m) (\<lambda>ok1.
     if \<not> ok1 then ret False else
     bind (SendUpdatesToAllSlaves m) (\<lambda>ok2.
     if \<not> ok2 then ret False else
     bind (master_FinalizeChanges (SetSendUpdatesToMaster True m)) (\<lambda>(ok3, _). ret ok3)))"

definition add_curves_line :: "string \<Rightarrow> string \<Rightarrow> int \<Rightarrow> double \<Rightarrow> (helper_thread, unit) run" where
  "add_curves_line compositeName factorMethod curvesDone b1 =
     bind (on_db (Composite compositeName True)) (\<lambda>c.
     if \<not> co_found c then say ''Composite %s not found'' [VS compositeName]
     else
       bind (on_db (MasterComposite (co_master c))) (\<lambda>m.
       bind (on_db (record_curves factorMethod b1 (wrap32 curvesDone) m)) (\<lambda>success.
       if success then commit else rollback)))"

text \<open>
  An invalid line is answered and then looked at again, for ever, since no new line is read; what is
  looked at again is the buffer with its blanks overwritten, which is invalid too.
\<close>

definition curves_step :: "unit \<Rightarrow> (helper_thread, unit + unit) run" where
  "curves_step u =
     bind listen (\<lambda>readBuf. case readBuf of
         None \<Rightarrow> ret (Inr ())
       | Some m \<Rightarrow> if m = ''No more curves'' then ret (Inr ())
           else bind (lift (curve_fields m)) (\<lambda>(fields, buf).
             bind (put_read_buf buf) (\<lambda>_.
             case fields of
               None \<Rightarrow> bind (say ''Curve input format is invalid'' []) (\<lambda>_. stop Hang)
             | Some (compositeName, factorMethod, curvesDone, b1) \<Rightarrow>
                 bind (add_curves_line compositeName factorMethod curvesDone b1) (\<lambda>_. ret (Inl ())))))"

definition AddCurves :: "string \<Rightarrow> (helper_thread, unit) run" where
  "AddCurves thePassword =
     on_master_server (bind (VerifyAdminPassword thePassword) (\<lambda>ok.
       if \<not> ok then ret () else
       bind (asks lines_left) (\<lambda>n.
       bind (iterate (Suc n) curves_step ()) (\<lambda>_.
       bind (say ''%d composites were added to the server'' [VI 0]) (\<lambda>_.
       say ''Done'' [])))))"

end
