(* ===== verification/EvalGrammar.thy ===== *)
theory EvalGrammar
  imports EvalProps
begin

text \<open>
  What the evaluator of \<open>eval.c\<close> computes: expressions of signed numbers, parentheses and the operators
  \<open>^\<close>, \<open>* . / %\<close>, \<open>+ -\<close>, in three levels of precedence and all of them left associative (the power too).
  The specification is a syntax tree with its value; the evaluator reads the text of the tree.
\<close>

datatype ex = Num bool nat | Par bool ex | Bin char ex ex

definition level_of :: "char \<Rightarrow> nat" where
  "level_of c = (if c = CHR ''^'' then 1
     else if c = CHR ''*'' \<or> c = CHR ''.'' \<or> c = CHR ''/'' \<or> c = CHR ''%'' then 2
     else if c = CHR ''+'' \<or> c = CHR ''-'' then 3 else 0)"

fun level :: "ex \<Rightarrow> nat" where
  "level (Bin c l r) = level_of c"
| "level e = 0"

fun wf_ex :: "ex \<Rightarrow> bool" where
  "wf_ex (Num s n) = True"
| "wf_ex (Par s e) = wf_ex e"
| "wf_ex (Bin c l r) \<longleftrightarrow> level_of c \<noteq> 0 \<and> level l \<le> level_of c \<and> level r < level_of c \<and> wf_ex l \<and> wf_ex r"

definition sign :: "bool \<Rightarrow> string" where
  "sign s = (if s then [CHR ''-''] else [])"

fun render :: "ex \<Rightarrow> string" where
  "render (Num s n) = sign s @ dec n"
| "render (Par s e) = sign s @ CHR ''('' # render e @ [CHR '')'']"
| "render (Bin c l r) = render l @ c # render r"

text \<open>Division is exact or undefined, the remainder has the sign of the dividend, the exponent fits a word.\<close>

definition apply_op :: "char \<Rightarrow> int \<Rightarrow> int \<Rightarrow> int option" where
  "apply_op c a b =
     (if c = CHR ''+'' then Some (a + b) else if c = CHR ''-'' then Some (a - b)
      else if c = CHR ''*'' \<or> c = CHR ''.'' then Some (a * b)
      else if c = CHR ''/'' then (if b \<noteq> 0 \<and> b dvd a then Some (a div b) else None)
      else if c = CHR ''%'' then (if b \<noteq> 0 then Some (sgn a * (\<bar>a\<bar> mod \<bar>b\<bar>)) else None)
      else if c = CHR ''^'' then (if 0 \<le> b \<and> b < 2 ^ 64 then Some (a ^ nat b) else None)
      else None)"

fun meaning :: "ex \<Rightarrow> int option" where
  "meaning (Num s n) = Some (if s then - int n else int n)"
| "meaning (Par s e) = map_option (\<lambda>v. if s then - v else v) (meaning e)"
| "meaning (Bin c l r) = (case (meaning l, meaning r) of (Some a, Some b) \<Rightarrow> apply_op c a b | _ \<Rightarrow> None)"

section \<open>More fuel changes nothing\<close>

definition ext :: "halt + 'a \<Rightarrow> halt + 'a \<Rightarrow> bool" where
  "ext m m' \<longleftrightarrow> (m \<noteq> Inl Fuel \<longrightarrow> m' = m)"

named_theorems ext_intros \<open>runs that more fuel does not change\<close>

lemma ext_rules [ext_intros]:
  "ext m m' \<Longrightarrow> (\<And>x. ext (f x) (f' x)) \<Longrightarrow> ext (and_then m f) (and_then m' f')"
  "ext a a' \<Longrightarrow> ext b b' \<Longrightarrow> ext (if c then a else b) (if c then a' else b')"
  "(\<And>x y. ext (h x y) (h' x y)) \<Longrightarrow> ext (case p of (x, y) \<Rightarrow> h x y) (case p of (x, y) \<Rightarrow> h' x y)"
  "ext z z"
  by (cases m; auto simp: ext_def) (auto simp: ext_def split: prod.splits)

lemma ext_let [ext_intros]: "(\<And>x. ext (f x) (f' x)) \<Longrightarrow> ext (let x = y in f x) (let x = y in f' x)"
  by simp

lemma ext_bodies:
  assumes "\<And>c. ext (g c) (g' c)"
  shows "ext (operand g pp fp f t cur) (operand g' pp fp f t cur)" "ext (suffix g fp f t cur) (suffix g' fp f t cur)"
  unfolding operand_def suffix_def phi_call_def by (intro ext_intros assms)+

lemma ext_eval_run: "ext (eval_run pp k c) (eval_run pp (Suc k) c)"
proof (induction k arbitrary: c)
  case (Suc k)
  show ?case
  proof (cases c)
    case (CEval fp t cur)
    with Suc [of "COperand fp frame0 t cur"] show ?thesis by simp
  next
    case (COperand fp f t cur)
    then show ?thesis
      using ext_bodies(1) [of "eval_run pp k" "eval_run pp (Suc k)" pp fp f t cur, OF Suc]
      by (simp only: eval_run.simps call.case)
  next
    case (CSuffix fp f t cur)
    then show ?thesis
      using ext_bodies(2) [of "eval_run pp k" "eval_run pp (Suc k)" fp f t cur, OF Suc]
      by (simp only: eval_run.simps call.case)
  qed
qed (simp add: ext_def)

lemma eval_run_more: "eval_run pp k c = r \<Longrightarrow> r \<noteq> Inl Fuel \<Longrightarrow> eval_run pp (k + j) c = r"
proof (induction j)
  case (Suc j)
  then show ?case using ext_eval_run [of pp "k + j" c] by (simp add: ext_def del: eval_run.simps)
qed simp

text \<open>A call comes to a result with enough fuel.\<close>

definition gives :: "(int \<Rightarrow> int) \<Rightarrow> call \<Rightarrow> ev_result \<Rightarrow> bool" where
  "gives pp c r \<longleftrightarrow> r \<noteq> Inl Fuel \<and> (\<exists>k. eval_run pp k c = r)"

lemma gives_Eval: "gives pp (COperand fp frame0 t cur) r \<Longrightarrow> gives pp (CEval fp t cur) r"
  unfolding gives_def by (metis (no_types, lifting) call.case(1) eval_run.simps(2))

lemma gives_run:
  assumes "gives pp c r" obtains k where "\<And>j. eval_run pp (k + j) c = r"
  using assms eval_run_more unfolding gives_def by blast

text \<open>The steps the grammar needs: each reduces a call to the ones its body makes.\<close>

lemma gives_suffix:
  assumes "gives pp c r" "\<And>rec. rec c = r \<Longrightarrow> suffix rec fp f t cur = r"
  shows "gives pp (CSuffix fp f t cur) r"
proof -
  from assms(1) obtain k where "eval_run pp k c = r" "r \<noteq> Inl Fuel" by (auto simp: gives_def)
  then have "eval_run pp (Suc k) (CSuffix fp f t cur) = r" using assms(2) by simp
  with \<open>r \<noteq> Inl Fuel\<close> show ?thesis unfolding gives_def by blast
qed

lemma gives_operand:
  assumes "gives pp c r" "\<And>rec. rec c = r \<Longrightarrow> operand rec pp fp f t cur = r"
  shows "gives pp (COperand fp f t cur) r"
proof -
  from assms(1) obtain k where "eval_run pp k c = r" "r \<noteq> Inl Fuel" by (auto simp: gives_def)
  then have "eval_run pp (Suc k) (COperand fp f t cur) = r" using assms(2) by simp
  with \<open>r \<noteq> Inl Fuel\<close> show ?thesis unfolding gives_def by blast
qed

lemma gives_operand2:
  assumes "gives pp c1 r1" "gives pp c2 r" "\<And>rec. rec c1 = r1 \<Longrightarrow> rec c2 = r \<Longrightarrow> operand rec pp fp f t cur = r"
  shows "gives pp (COperand fp f t cur) r"
proof -
  obtain k1 k2 where "\<And>j. eval_run pp (k1 + j) c1 = r1" "\<And>j. eval_run pp (k2 + j) c2 = r"
    using gives_run [OF assms(1)] gives_run [OF assms(2)] by metis
  then have "eval_run pp (k1 + k2) c1 = r1" "eval_run pp (k1 + k2) c2 = r" by (auto simp: add.commute [of k1])
  then have "eval_run pp (Suc (k1 + k2)) (COperand fp f t cur) = r" using assms(3) by simp
  then show ?thesis using assms(2) unfolding gives_def by blast
qed

section \<open>The machine reads a tree\<close>

text \<open>The value the pending operators up to a level give.\<close>

definition at_level :: "nat \<Rightarrow> frame \<Rightarrow> halt + int" where
  "at_level n f =
     (if n = 0 then Inr (cur_n f)
      else and_then (eval_power (n2 f) (cur_n f) (op2 f)) (\<lambda>a.
        if n = 1 then Inr a
        else and_then (eval_product (n1 f) a (op1 f)) (\<lambda>b.
          if n = 2 then Inr b else Inr (eval_sum (n0 f) b (op0 f)))))"

text \<open>Nothing is pending below a level; the frame is the same from a level on.\<close>

definition free_below :: "nat \<Rightarrow> frame \<Rightarrow> bool" where
  "free_below n f \<longleftrightarrow> (1 \<le> n \<longrightarrow> op2 f = NUL) \<and> (2 \<le> n \<longrightarrow> op1 f = NUL) \<and> (3 \<le> n \<longrightarrow> op0 f = NUL)"

definition same_above :: "nat \<Rightarrow> frame \<Rightarrow> frame \<Rightarrow> bool" where
  "same_above n f f' \<longleftrightarrow> (n < 1 \<longrightarrow> op2 f' = op2 f \<and> n2 f' = n2 f) \<and> (n < 2 \<longrightarrow> op1 f' = op1 f \<and> n1 f' = n1 f)
     \<and> (n < 3 \<longrightarrow> op0 f' = op0 f \<and> n0 f' = n0 f)"

lemma eval_NUL [simp]: "eval_power a b NUL = Inr b" "eval_product a b NUL = Inr b" "eval_sum a b NUL = b"
  by (simp_all add: eval_power_def eval_product_def eval_sum_def NUL_def)

text \<open>What may follow an expression: not a digit, and not the \<open>x\<close> of a hexadecimal number.\<close>

definition ends_number :: "string \<Rightarrow> bool" where
  "ends_number s \<longleftrightarrow> s = [] \<or> (\<not> is_digit (hd s) \<and> lower (hd s) \<noteq> CHR ''x'')"

lemma read_dec:
  assumes "ends_number rest" shows "read_number (dec n @ rest) old = (int n, rest)"
proof -
  have d: "takeWhile is_digit (dec n @ rest) = dec n" "dropWhile is_digit (dec n @ rest) = rest"
    using takeWhile_all_append [of "dec n" is_digit rest] dec_digits [of n] assms by (auto simp: ends_number_def)
  have "\<not> (length (dec n) = 1 \<and> map lower (take 2 (dec n @ rest)) = ''0x'')"
    using assms by (cases rest) (auto simp: ends_number_def length_Suc_conv)
  then show ?thesis by (simp only: read_number_def Let_def d if_False num_of_dec)
qed

text \<open>The operators of the machine compute the operators of the trees.\<close>

lemma tdiv_exact: "b dvd a \<Longrightarrow> b \<noteq> 0 \<Longrightarrow> tdiv_q a b = a div b" "b \<noteq> 0 \<Longrightarrow> tdiv_r a b = sgn a * (\<bar>a\<bar> mod \<bar>b\<bar>)"
proof -
  show q: "tdiv_q a b = a div b" if "b dvd a" "b \<noteq> 0"
    using that by (auto simp: tdiv_q_def dvd_def abs_mult sgn_mult ac_simps abs_mult_sgn)
  show "tdiv_r a b = sgn a * (\<bar>a\<bar> mod \<bar>b\<bar>)" if "b \<noteq> 0"
  proof -
    have "tdiv_r a b = sgn a * \<bar>a\<bar> - (b * sgn b) * (sgn a * (\<bar>a\<bar> div \<bar>b\<bar>))"
      by (simp add: tdiv_r_def tdiv_q_def ac_simps abs_mult_sgn)
    also have "\<dots> = sgn a * (\<bar>a\<bar> - \<bar>b\<bar> * (\<bar>a\<bar> div \<bar>b\<bar>))"
      by (simp only: abs_sgn [symmetric] right_diff_distrib mult.left_commute)
    finally show ?thesis by (simp add: minus_mult_div_eq_mod)
  qed
qed

lemma tdiv_r_zero: "b \<noteq> 0 \<Longrightarrow> tdiv_r a b = 0 \<longleftrightarrow> b dvd a"
  by (auto simp: tdiv_exact(2) sgn_zero_iff sgn_0_0 mod_eq_0_iff_dvd)

lemma apply_machine:
  "level_of c = 1 \<Longrightarrow> apply_op c a b = Some v \<Longrightarrow> eval_power a b c = Inr v"
  "level_of c = 2 \<Longrightarrow> apply_op c a b = Some v \<Longrightarrow> eval_product a b c = Inr v"
  "level_of c = 3 \<Longrightarrow> apply_op c a b = Some v \<Longrightarrow> eval_sum a b c = v"
  by (auto simp: level_of_def apply_op_def eval_power_def eval_product_def eval_sum_def get_ui_def
      tdiv_r_zero tdiv_exact split: if_splits)

lemma free_at_level:
  "free_below n f \<Longrightarrow> n \<le> 3 \<Longrightarrow> at_level n (f\<lparr>cur_n := v\<rparr>) = Inr v" "same_above n f (f\<lparr>cur_n := v\<rparr>)"
  by (auto simp: at_level_def free_below_def same_above_def)

text \<open>Pushing an operator leaves a frame in which its right operand completes it.\<close>

definition push :: "char \<Rightarrow> frame \<Rightarrow> halt + frame" where
  "push c f = (if level_of c = 1 then push_power c f else if level_of c = 2 then push_product c f else push_sum c f)"

lemma level_cases: "level_of c \<noteq> 0 \<Longrightarrow> level_of c = 1 \<or> level_of c = 2 \<or> level_of c = 3"
  by (auto simp: level_of_def split: if_splits)

lemma push_ok:
  assumes "at_level (level_of c) f' = Inr a" "level_of c \<noteq> 0" "free_below n f" "same_above (level_of c) f f'"
    "level_of c \<le> n" "n \<le> 3"
  shows "\<exists>g. push c f' = Inr g \<and> free_below (level_of c - 1) g
    \<and> (\<forall>h b v. same_above (level_of c - 1) g h \<longrightarrow> at_level (level_of c - 1) h = Inr b \<longrightarrow> apply_op c a b = Some v
         \<longrightarrow> same_above n f h \<and> at_level n h = Inr v)"
  using level_cases [OF assms(2)]
proof (elim disjE)
  assume l: "level_of c = 1"
  with assms show ?thesis
    by (auto simp: push_def push_power_def at_level_def free_below_def same_above_def apply_machine(1) [OF l])
next
  assume l: "level_of c = 2"
  with assms show ?thesis
    by (auto simp: push_def push_product_def at_level_def free_below_def same_above_def apply_machine(2) [OF l])
next
  assume l: "level_of c = 3"
  with assms show ?thesis
    by (auto simp: push_def push_sum_def finish_def at_level_def free_below_def same_above_def apply_machine(3) [OF l])
qed

lemma op_chars: "level_of c \<noteq> 0 \<Longrightarrow> \<not> is_close fp c \<and> c \<noteq> NUL \<and> c \<noteq> CHR ''!'' \<and> c \<noteq> CHR ''#'' \<and> ends_number (c # s)"
  by (auto simp: level_of_def is_close_def NUL_def ends_number_def is_digit_def lower_def code_def split: if_splits)

lemma suffix_push: "level_of c \<noteq> 0 \<Longrightarrow> push c f = Inr g \<Longrightarrow>
    suffix rec fp f t (Some (c # s)) = rec (COperand fp g t (Some s))"
  using op_chars [of c fp s]
  by (auto simp: suffix_def peek_def advance_def push_def level_of_def split: if_splits)

lemma gives_push:
  assumes "gives pp (COperand fp g t (Some s)) r" "level_of c \<noteq> 0" "push c f = Inr g"
  shows "gives pp (CSuffix fp f t (Some (c # s))) r"
  using assms(1) by (rule gives_suffix) (simp add: suffix_push [OF assms(2,3)])

lemma gives_close: "at_level 3 f = Inr v \<Longrightarrow> gives pp (CSuffix fp f t (Some (CHR '')'' # s))) (Inr (1, v, Some s))"
proof -
  assume "at_level 3 f = Inr v"
  then have "finish f = Inr v" by (simp add: at_level_def finish_def)
  then have "eval_run pp 1 (CSuffix fp f t (Some (CHR '')'' # s))) = Inr (1, v, Some s)"
    by (simp add: suffix_def peek_def advance_def is_close_def)
  then show ?thesis by (auto simp: gives_def simp del: eval_run.simps)
qed

lemma gives_end: "at_level 3 f = Inr v \<Longrightarrow> gives pp (CSuffix fp f t (Some [])) (Inr (1, v, None))"
proof -
  assume "at_level 3 f = Inr v"
  then have "finish f = Inr v" by (simp add: at_level_def finish_def)
  then have "eval_run pp 1 (CSuffix fp f t (Some [])) = Inr (1, v, None)"
    by (simp add: suffix_def peek_def advance_def is_close_def NUL_def)
  then show ?thesis by (auto simp: gives_def simp del: eval_run.simps)
qed

lemma level_le: "level e \<le> 3"
  by (cases e) (auto simp: level_of_def)

lemma dec_first: obtains d ds where "dec n = d # ds" "is_digit d" "d \<noteq> CHR ''-''" "\<not> is_open d"
proof -
  obtain d ds where d: "dec n = d # ds" using dec_nonempty [of n] by (cases "dec n") auto
  then have i: "is_digit d" using dec_digits [of n] by auto
  then have "d \<noteq> CHR ''-''" "\<not> is_open d" by (auto simp: is_digit_def is_open_def code_def)
  with d i show thesis by (rule that)
qed

lemma operand_number:
  assumes "ends_number rest"
  shows "operand rec pp fp f t (Some (sign s @ dec n @ rest)) =
    rec (CSuffix fp (f\<lparr>cur_n := (if s then - int n else int n)\<rparr>) t (Some rest))"
proof -
  obtain d ds where d: "dec n = d # ds" "is_digit d" "d \<noteq> CHR ''-''" "\<not> is_open d" by (rule dec_first)
  show ?thesis
    using d read_dec [OF assms, of n "cur_n f"]
    by (cases s) (simp_all add: operand_def sign_def peek_def advance_def)
qed

lemma operand_paren:
  "operand rec pp fp f t (Some (sign s @ CHR ''('' # rest)) =
    and_then (rec (CEval fp t (Some rest))) (\<lambda>(r, t', cur2).
      rec (CSuffix fp (f\<lparr>cur_n := (if s then - t' else t')\<rparr>) t' cur2))"
  by (cases s) (simp_all add: operand_def sign_def peek_def advance_def is_open_def)

lemma reads:
  "wf_ex e \<Longrightarrow> meaning e = Some v \<Longrightarrow> level e \<le> n \<Longrightarrow> n \<le> 3 \<Longrightarrow> free_below n f \<Longrightarrow> ends_number rest \<Longrightarrow>
   (\<And>f' t'. same_above n f f' \<Longrightarrow> at_level n f' = Inr v \<Longrightarrow> gives pp (CSuffix fp f' t' (Some rest)) r) \<Longrightarrow>
   gives pp (COperand fp f t (Some (render e @ rest))) r"
proof (induction e arbitrary: v n f t rest r)
  case (Num s m)
  let ?f = "f\<lparr>cur_n := (if s then - int m else int m)\<rparr>"
  have "gives pp (CSuffix fp ?f t (Some rest)) r"
    using Num free_at_level [of n f] by simp
  then show ?case
    by (rule gives_operand) (simp add: operand_number [OF Num.prems(6)])
next
  case (Par s e)
  then obtain w where w: "meaning e = Some w" "v = (if s then - w else w)" by auto
  have inner: "gives pp (CEval fp t (Some (render e @ CHR '')'' # rest))) (Inr (1, w, Some rest))"
  proof (rule gives_Eval, rule Par.IH [where n = 3 and v = w])
    show "wf_ex e" "meaning e = Some w" "level e \<le> 3" "(3 :: nat) \<le> 3"
      using Par.prems w by (simp_all add: level_le)
    show "free_below 3 frame0" by (simp add: free_below_def frame0_def)
    show "ends_number (CHR '')'' # rest)" by (simp add: ends_number_def is_digit_def lower_def code_def)
  qed (rule gives_close)
  let ?f = "f\<lparr>cur_n := v\<rparr>"
  have "gives pp (CSuffix fp ?f w (Some rest)) r" using Par.prems free_at_level [of n f] by simp
  with inner show ?case
    by (rule gives_operand2) (simp add: operand_paren w(2))
next
  case (Bin c l e2)
  then obtain a b where ab: "meaning l = Some a" "meaning e2 = Some b" "apply_op c a b = Some v"
    by (auto split: option.splits)
  let ?m = "level_of c"
  have c: "?m \<noteq> 0" "level l \<le> ?m" "level e2 \<le> ?m - 1" "wf_ex l" "wf_ex e2" "?m \<le> n" "?m \<le> 3"
    using Bin.prems level_cases [of c] by auto
  have "gives pp (COperand fp f t (Some (render l @ c # render e2 @ rest))) r"
  proof (rule Bin.IH(1) [OF c(4) ab(1) c(2,7)])
    show "free_below ?m f" using Bin.prems(5) c(6) by (auto simp: free_below_def)
    show "ends_number (c # render e2 @ rest)" using op_chars [OF c(1)] by blast
    fix f' t' assume f': "same_above ?m f f'" "at_level ?m f' = Inr a"
    from push_ok [OF f'(2) c(1) Bin.prems(5) f'(1) c(6) Bin.prems(4)] obtain g where g: "push c f' = Inr g"
      "free_below (?m - 1) g" and compl: "\<And>h b v. same_above (?m - 1) g h \<Longrightarrow> at_level (?m - 1) h = Inr b \<Longrightarrow>
        apply_op c a b = Some v \<Longrightarrow> same_above n f h \<and> at_level n h = Inr v" by blast
    have "gives pp (COperand fp g t' (Some (render e2 @ rest))) r"
    proof (rule Bin.IH(2) [OF c(5) ab(2) c(3) _ g(2) Bin.prems(6)])
      show "?m - 1 \<le> 3" using c(7) by simp
    qed (use Bin.prems(7) compl [OF _ _ ab(3)] in blast)
    then show "gives pp (CSuffix fp f' t' (Some (c # render e2 @ rest))) r" by (rule gives_push [OF _ c(1) g(1)])
  qed
  then show ?case by simp
qed

lemma evaluates:
  assumes "wf_ex e" "meaning e = Some v"
  shows "eval_value pp (render e) = Inr (1, v)
    \<and> eval_str pp (render e) = Inr (int (length (show_int v)), Some (pp v))"
proof -
  have "gives pp (COperand False frame0 0 (Some (render e @ []))) (Inr (1, v, None))"
  proof (rule reads [OF assms, where n = 3])
    show "level e \<le> 3" by (rule level_le)
    show "free_below 3 frame0" by (simp add: free_below_def frame0_def)
  qed (simp_all add: ends_number_def gives_end)
  then have "gives pp (CEval False 0 (Some (render e))) (Inr (1, v, None))" by (intro gives_Eval) simp
  then obtain k where k: "\<And>j. eval_run pp (k + j) (CEval False 0 (Some (render e))) = Inr (1, v, None)"
    using gives_run by blast
  let ?F = "eval_fuel (render e)"
  have "eval_run pp ?F (CEval False 0 (Some (render e))) \<noteq> Inl Fuel"
    using eval_run_bounded [of "CEval False 0 (Some (render e))" ?F pp] by (auto simp: eval_fuel_def)
  from eval_run_more [OF refl this, of k] k [of ?F]
  have "eval_run pp ?F (CEval False 0 (Some (render e))) = Inr (1, v, None)" by (simp add: add.commute)
  then have "eval_value pp (render e) = Inr (1, v)" by (simp add: eval_value_def eval_2_def)
  then show ?thesis by (simp add: eval_str_def)
qed

text \<open>A decimal number is its own value.\<close>

lemma eval_dec: "eval_str pp (dec n) = Inr (int (length (dec n)), Some (pp (int n)))"
  using evaluates [of "Num False n" "int n" pp] by (simp add: sign_def show_int_def)

text \<open>C16: The evaluator computes the value of the expression it reads: for every well-formed tree of signed
  numbers, parentheses and operators whose value is defined (divisions exact, exponents below \<open>2 ^ 64\<close>), its text
  evaluates to that value, with the usual precedences and every operator, the power included, left
  associative.\<close>

theorem evaluator_follows_the_grammar:
  assumes "wf_ex e" "meaning e = Some v"
  shows "eval_value pp (render e) = Inr (1, v)
    \<and> eval_str pp (render e) = Inr (int (length (show_int v)), Some (pp v))"
  by (rule evaluates [OF assms])

theorem evaluator_follows_the_grammar_witness:
  "eval_value (\<lambda>_. 0) ''2^3^2-(-7)*3/7'' = Inr (1, 67)"
proof -
  let ?e = "Bin (CHR ''-'') (Bin (CHR ''^'') (Bin (CHR ''^'') (Num False 2) (Num False 3)) (Num False 2))
    (Bin (CHR ''/'') (Bin (CHR ''*'') (Par False (Num True 7)) (Num False 3)) (Num False 7))"
  have "wf_ex ?e" "meaning ?e = Some 67" by (simp_all add: level_of_def apply_op_def)
  then have "eval_value (\<lambda>_. 0) (render ?e) = Inr (1, 67)" using evaluator_follows_the_grammar by blast
  then show ?thesis by (simp add: sign_def dec_less digit_chars)
qed

end
