(* ===== verification/AdminProps.thy ===== *)
theory AdminProps
  imports AdminThread WorkTotals Demo EvalGrammar
begin

text \<open>The properties of the administrator's functions.\<close>

section \<open>Keys and references\<close>

lemma wf_set_active [wf_intros]: "wf_stmt (set_active_swapped n b)"
  by (auto simp: wf_stmt_def set_active_swapped_def change_def db_wf_defs map_update_by image_update_by
      split: option.splits list.splits)

lemma admin_members_wf [wf_intros]:
  "stays handler_wf (put_read_buf m)" "stays handler_wf (VerifyAdminPassword p)"
  "stays handler_wf m1 \<Longrightarrow> stays handler_wf (on_master_server m1)" "stays handler_wf (name_and_value l)"
proof -
  show p: "stays handler_wf (put_read_buf m)" for m
    unfolding put_read_buf_def by (rule modify_wf) simp
  show "stays handler_wf (VerifyAdminPassword p)" "stays handler_wf m1 \<Longrightarrow> stays handler_wf (on_master_server m1)"
    "stays handler_wf (name_and_value l)"
    unfolding VerifyAdminPassword_def on_master_server_def name_and_value_def by (intro wf_intros p | assumption)+
qed

lemma ChangeStatus_wf: "stays handler_wf (ChangeStatus m b)"
  unfolding ChangeStatus_def by (intro wf_intros tx_intros)

lemma add_line_wf [wf_intros]: "stays handler_wf (add_line pp l)"
  unfolding add_line_def add_composite_def Let_def by (intro wf_intros tx_intros)

lemma AddComposites_wf: "stays handler_wf (AddComposites pp p)"
  unfolding AddComposites_def composites_step_def by (intro wf_intros)

lemma tx_record_curves [tx_intros]: "stays tx_step (record_curves f b k m)"
  unfolding record_curves_def by (intro tx_intros)

lemma add_curves_line_wf [wf_intros]: "stays handler_wf (add_curves_line n f k b)"
  unfolding add_curves_line_def by (intro wf_intros tx_intros)

lemma AddCurves_wf: "stays handler_wf (AddCurves p)"
  unfolding AddCurves_def curves_step_def by (intro wf_intros)

section \<open>Activating a composite\<close>







definition demo_thread :: "input list \<Rightarrow> helper_thread" where
  "demo_thread inp = \<lparr>sess = demo_session, sock = demo_helper inp,
     ht_globals = (main_globals 0)\<lparr>g_adminPassword := ''pw''\<rparr>, ht_total = 0, ht_rand = [], ht_files = (\<lambda>_. None)\<rparr>"

lemmas run_admin = demo_thread_def main_globals_def ChangeStatus_def on_master_server_def two_words_def
  VerifyAdminPassword_def set_active_swapped_def AddComposites_def composites_step_def add_line_def
  name_and_value_def put_read_buf_def add_composite_def AddCurves_def curves_step_def curve_fields_def
  record_curves_def add_curves_line_def atof_def atol_def


section \<open>Adding curves\<close>

text \<open>One invalid line of curves stops the administrator's connection: with a correct password the line
  that is not of the form name, method, curves and B1 with numbers other than zero is examined for ever, and
  no later line is read.\<close>

theorem invalid_curves_hang:
  assumes "curve_fields m = Inr (None, buf)" "m \<noteq> ''No more curves''" "incoming (sock s) = Line m # rest"
    "so_open (sock s)" "so_newline (sock s)"
  shows "iterate (Suc n) curves_step () s = Inl Hang"
proof -
  obtain s1 where l: "listen s = Inr (Some m, s1)" "so_open (sock s1)"
    using assms(3,4) by (simp add: listen_def on_sock_def part_def Receive_def)
  obtain s2 where p: "put_read_buf buf s1 = Inr ((), s2)" "so_open (sock s2)"
    using l by (simp add: put_read_buf_def)
  have "\<exists>s3. say ''Curve input format is invalid'' [] s2 = Inr ((), s3)"
    using p by (auto simp: say_def on_sock_def part_def Sendf_def Send_def bind_def SEND_SIZE_def run_text)
  with l p assms(1,2) show ?thesis by (auto simp: curves_step_def bind_def)
qed

theorem invalid_curves_hang_witness:
  "iterate 5 curves_step () (demo_thread [Line ''C ECM 0 100'', Line ''C ECM 3 100'']) = Inl Hang"
  using invalid_curves_hang [of "''C ECM 0 100''" "''C''" "demo_thread [Line ''C ECM 0 100'', Line ''C ECM 3 100'']"
      "[Line ''C ECM 3 100'']" 4]
  by (simp add: curve_fields_def demo_thread_def demo_defs run_text atof_def atol_def strcpy_def del: iterate.simps)

lemma MasterComposite_work: "MasterComposite n s = Inr (m, s') \<Longrightarrow> ms_work m = 0 \<and> ms_name m = n"
  by (auto simp: MasterComposite_def bind_eq_Inr split: option.splits)

lemma others_ok_trans: "others_ok n s s' \<Longrightarrow> others_ok n s' s'' \<Longrightarrow> others_ok n s s''"
  by (auto simp: others_ok_def)

lemma curves_totals:
  assumes "record_curves f b k m s = Inr (True, s3)" "ms_work m = 0" "db_wf (cur s)" "totals_ok (cur s)"
  shows "totals_ok (cur s3)"
proof -
  let ?m = "SetSendUpdatesToMaster True m"
  from assms(1) obtain s1 s2 m' where run: "AddWorkDone f b k m s = Inr (True, s1)"
    "SendUpdatesToAllSlaves m s1 = Inr (True, s2)" "master_FinalizeChanges ?m s2 = Inr ((True, m'), s3)"
    by (auto simp: record_curves_def bind_eq_Inr split: if_splits)
  have m: "ms_name ?m = ms_name m" "ms_work ?m = 0" using assms(2) by (simp_all add: SetSendUpdatesToMaster_def)
  have "tx_step s s1" "tx_step s1 s2" using run(1,2) tx_master(7,9) by (blast dest: staysD)+
  then have wf: "db_wf (cur s2)" using assms(3) by (simp add: tx_step_def)
  have o1: "others_ok (ms_name m) s s1" by (rule staysD [OF others_AddWorkDone run(1)])
  have o2: "others_ok (ms_name m) s1 s2" by (rule staysD [OF others_same [OF same_ops(8)] run(2)])
  have o3: "others_ok (ms_name m) s2 s3" using others_master_FinalizeChanges [OF run(3) wf] m by simp
  have set': "settled m' s3" and n: "ms_name m' = ms_name m"
    using master_FinalizeChanges_found [OF run(3)] master_FinalizeChanges_new [OF run(3) _ _ wf] m by metis+
  have "total_ok (cur s3) (ms_name m)" using set' by (simp add: settled_def n)
  moreover have "total_ok (cur s3) j" if "j \<noteq> ms_name m" for j
    using others_ok_trans [OF o1 others_ok_trans [OF o2 o3]] assms(4) that by (auto simp: others_ok_def totals_ok_iff)
  ultimately show ?thesis unfolding totals_ok_iff by metis
qed

text \<open>The books of a handler between two transactions.\<close>

definition books_ok :: "'s handler_scheme \<Rightarrow> bool" where
  "books_ok s \<longleftrightarrow> cur (sess s) = saved (sess s) \<and> endtran (sess s) = [] \<and> db_wf (saved (sess s))
     \<and> totals_ok (saved (sess s))"

text \<open>Curves an administrator adds keep the books: when \<open>TotalWorkDone\<close> of every master composite is the sum
  of its ECM curves times B1, it still is in the committed tables after a line of curves, whether they were
  added, refused or rolled back.\<close>

theorem added_curves_keep_totals:
  assumes "add_curves_line name f k b s = Inr (u, s')" "books_ok s"
  shows "books_ok s'"
proof -
  from assms(1) obtain c x where c: "Composite name True (sess s) = Inr (c, x)"
    and rest: "(if \<not> co_found c then say ''Composite %s not found'' [VS name] else
       bind (on_db (MasterComposite (co_master c))) (\<lambda>m.
       bind (on_db (record_curves f b (wrap32 k) m)) (\<lambda>success.
       if success then commit else rollback))) (s\<lparr>sess := x\<rparr>) = Inr (u, s')"
    by (auto simp: add_curves_line_def bind_eq_Inr on_db_Inr)
  have x: "cur x = cur (sess s)" "saved x = saved (sess s)" "endtran x = endtran (sess s)"
    using c by (auto simp: Composite_def bind_eq_Inr dest!: FetchRow_Inr)
  show ?thesis
  proof (cases "co_found c")
    case False
    with rest x assms(2) show ?thesis by (auto simp: books_ok_def dest!: say_Inr)
  next
    case True
    with rest obtain m y ok z where m: "MasterComposite (co_master c) x = Inr (m, y)"
      and r: "record_curves f b (wrap32 k) m y = Inr (ok, z)"
      and e: "(if ok then commit else rollback) (s\<lparr>sess := z\<rparr>) = Inr (u, s')"
      by (auto simp: bind_eq_Inr on_db_Inr)
    have y: "cur y = cur x" "saved y = saved x" "endtran y = endtran x" "ms_work m = 0"
      using m MasterComposite_work [OF m] by (auto simp: MasterComposite_def bind_eq_Inr dest!: FetchRow_Inr)
    have z: "tx_step y z" by (rule staysD [OF tx_record_curves r])
    show ?thesis
    proof (cases ok)
      case True
      with r y x assms(2) have "totals_ok (cur z)" by (auto simp: books_ok_def intro: curves_totals)
      with True e z y x assms(2) show ?thesis
        by (auto simp: books_ok_def commit_def Commit_def tx_step_def)
    next
      case False
      with e z y x assms(2) show ?thesis by (auto simp: books_ok_def rollback_def Rollback_def tx_step_def)
    qed
  qed
qed

theorem added_curves_keep_totals_witness:
  "\<exists>s'. add_curves_line ''C'' ''ECM'' 3 100 (demo_thread []) = Inr ((), s')
     \<and> map mc_work (masters (saved (sess s'))) = [500] \<and> books_ok s'"
proof -
  obtain s' where r: "add_curves_line ''C'' ''ECM'' 3 100 (demo_thread []) = Inr ((), s')"
    and w: "map mc_work (masters (saved (sess s'))) = [500]"
    by (simp add: run_base run_text run_objects run_admin demo_defs flag_def wrap32_def cong: lazy)
  have "books_ok s'"
    by (rule added_curves_keep_totals [OF r])
      (simp add: books_ok_def demo_thread_def demo_defs db_wf_defs totals_ok_def ecm_total_def sum_work_def
        work_key_def sync_key_def FM_ECM_def)
  with r w show ?thesis by (intro exI conjI)
qed

section \<open>Adding a composite\<close>

lemma comp_Insert_True: "comp_Insert c s = Inr ((True, c'), s') \<Longrightarrow>
    \<exists>r. insert_comp r (cur s) = Some (cur s') \<and> cp_name r = co_name c \<and> cp_value r = co_value c
    \<and> cp_master r = co_master c \<and> cp_len r = co_length c \<and> cp_events r = co_events c"
  unfolding comp_Insert_def by (elim bind_InrE) (auto dest!: Execute_True intro!: exI conjI)

lemma comp_FinalizeChanges_new:
  assumes "comp_FinalizeChanges c s = Inr ((True, c'), s')" "\<not> co_found c"
  shows "\<exists>r. insert_comp r (cur s) = Some (cur s') \<and> cp_name r = co_name c \<and> cp_value r = co_value c
    \<and> cp_master r = co_master c \<and> cp_len r = co_length c \<and> cp_events r = co_events c"
proof -
  from assms obtain row s1 where "FetchRow [PStr (co_master c) NAME_LENGTH]
        (select_sum_work (\<lambda>r. wd_master r = co_master c)) s = Inr (row, s1)"
    and rest: "(case row of None \<Rightarrow> ret (False, c) | Some summed \<Rightarrow>
       let totalWorkDone = (case summed of None \<Rightarrow> 0 | Some x \<Rightarrow> x);
           c1 = c\<lparr>co_difficulty := of_int (co_length c) * of_int (co_length c) * totalWorkDone\<rparr>
       in if co_found c1 then bind (comp_Update c1) (\<lambda>success. ret (success, c1)) else comp_Insert c1) s1
       = Inr ((True, c'), s')"
    by (auto simp: comp_FinalizeChanges_def elim!: bind_InrE split: if_splits)
  then obtain d where "comp_Insert (c\<lparr>co_difficulty := d\<rparr>) s1 = Inr ((True, c'), s')" "cur s1 = cur s"
    using assms(2) by (cases row) (auto simp: Let_def dest!: FetchRow_Inr)
  with comp_Insert_True [of "c\<lparr>co_difficulty := d\<rparr>" s1 c' s'] show ?thesis by simp
qed

lemma add_composite_True:
  assumes "add_composite pp n v c s = Inr (True, s')" "\<not> co_found c" "co_name c = n" "\<not> co_verified c" "co_events c = 0"
    "endtran (sess s) = []"
  shows "\<exists>len r. eval_str pp v = Inr (len, Some 0) \<and> r \<in> set (comps (saved (sess s'))) \<and> cp_name r = n
    \<and> cp_value r = v \<and> cp_master r = n \<and> cp_len r = len \<and> cp_events r = 0 \<and> n \<in> mc_name ` set (masters (saved (sess s')))"
proof -
  from assms(1) obtain m x m1 a c1 where m: "MasterComposite n (sess s) = Inr (m, x)"
    and c1: "SetValue pp v c = Inr (a, c1)"
    and prp: "co_prp c1 = Some 0"
    and rest: "bind (on_db (master_FinalizeChanges m1)) (\<lambda>(ok1, _).
           bind (if ok1 then on_db (comp_FinalizeChanges (snd (SetMasterCompositeName n c1)))
                 else ret (False, snd (SetMasterCompositeName n c1))) (\<lambda>(ok2, _).
           if ok2 then bind commit (\<lambda>_. ret True)
           else bind rollback (\<lambda>_.
                bind (say ''The server encountered an error inserting composite %s'' [VS n]) (\<lambda>_. ret False))))
        (s\<lparr>sess := x\<rparr>) = Inr (True, s')"
    unfolding add_composite_def Let_def
    by (elim bind_InrE) (auto simp: on_db_Inr bind_eq_Inr split: option.splits if_splits)
  from c1 assms(2,4) obtain len p where e: "eval_str pp v = Inr (len, p)"
    and c1': "c1 = c\<lparr>co_value := v, co_length := len, co_prp := p\<rparr>"
    by (auto simp: SetValue_def ComputeDecimalLengthAndPRPTest_def)
  let ?c2 = "snd (SetMasterCompositeName n c1)"
  have c2: "co_name ?c2 = n" "co_value ?c2 = v" "co_master ?c2 = n" "co_length ?c2 = len" "co_events ?c2 = 0"
    "\<not> co_found ?c2"
    using assms(2,3,5) by (simp_all add: SetMasterCompositeName_def c1')
  from rest obtain y z c3 m2 where f: "master_FinalizeChanges m1 x = Inr ((True, m2), y)"
    and g: "comp_FinalizeChanges ?c2 y = Inr ((True, c3), z)"
    and com: "commit (s\<lparr>sess := z\<rparr>) = Inr ((), s')"
    by (elim bind_InrE) (auto simp: on_db_Inr bind_eq_Inr split: if_splits prod.splits)
  have "endtran z = []"
    using assms(6) m f g tx_master(1,4) tx_comp(4) by (metis staysD tx_step_def)
  with com have s': "saved (sess s') = cur z" by (auto simp: commit_def Commit_def)
  from comp_FinalizeChanges_new [OF g c2(6)] c2 obtain r where r: "insert_comp r (cur y) = Some (cur z)"
    "cp_name r = n" "cp_value r = v" "cp_master r = n" "cp_len r = len" "cp_events r = 0" by auto
  then have "r \<in> set (comps (cur z))" "n \<in> mc_name ` set (masters (cur z))"
    by (auto simp: insert_comp_def pk_insert_def dest!: sym [of _ "cur z"] split: if_splits)
  with e r prp c1' show ?thesis by (auto simp: s')
qed

text \<open>C27: A composite that is counted as added evaluates to a number the test takes for composite, and is
  committed with the name, the value and the length of that number, without factors and as its own master; the
  name and the value are the parts of the line before and after the first blank, or both the whole line.\<close>

theorem added_composite_is_recorded:
  assumes "add_line pp l s = Inr (True, s')" "endtran (sess s) = []"
  shows "\<exists>n v len. (n, v) = (case split_at (CHR '' '') l of None \<Rightarrow> (l, l) | Some p \<Rightarrow> p)
    \<and> eval_str pp v = Inr (len, Some 0)
    \<and> (\<exists>r \<in> set (comps (saved (sess s'))). cp_name r = n \<and> cp_value r = v \<and> cp_master r = n \<and> cp_len r = len
          \<and> cp_events r = 0)
    \<and> n \<in> mc_name ` set (masters (saved (sess s')))"
proof -
  from assms(1) obtain n v s1 where nv: "name_and_value l s = Inr ((n, v), s1)"
    and rest: "(if length v > VALUE_LENGTH then stop Exit else
       bind (on_db (Composite n False)) (\<lambda>c.
       if co_found c then bind (say ''Composite %s already in the database'' [VS n]) (\<lambda>_. ret False)
       else bind (on_db (FetchRow [PStr v VALUE_LENGTH] (\<lambda>t. map mc_active (filter (\<lambda>r. mc_value r = v) (masters t))))) (\<lambda>row.
       if row \<noteq> None then bind (say ''Composite %s already in the database under a different name'' [VS v]) (\<lambda>_. ret False)
       else add_composite pp n v c))) s1 = Inr (True, s')"
    by (auto simp: add_line_def bind_eq_Inr)
  have s1: "sess s1 = sess s" using nv
    by (auto simp: name_and_value_def put_read_buf_def bind_eq_Inr split: option.splits)
  have nv': "(n, v) = (case split_at (CHR '' '') l of None \<Rightarrow> (l, l) | Some p \<Rightarrow> p)"
    using nv by (auto simp: name_and_value_def put_read_buf_def bind_eq_Inr strcpy_Inr
        simp del: split_at_None split: option.splits)
  from rest obtain c x row y where c: "Composite n False (sess s1) = Inr (c, x)" "\<not> co_found c"
    and q: "FetchRow [PStr v VALUE_LENGTH] (\<lambda>t. map mc_active (filter (\<lambda>r. mc_value r = v) (masters t))) x = Inr (row, y)"
    and add: "add_composite pp n v c (s1\<lparr>sess := y\<rparr>) = Inr (True, s')"
    by (auto simp: bind_eq_Inr on_db_Inr split: if_splits)
  have y: "cur y = cur (sess s)" "endtran y = []"
    using c(1) q assms(2) s1 by (auto simp: Composite_def bind_eq_Inr dest!: FetchRow_Inr)
  have c': "co_name c = n" "\<not> co_verified c" "co_events c = 0"
    using c by (auto simp: Composite_def bind_eq_Inr split: option.splits)
  from add_composite_True [OF add c(2) c'] y obtain len r where r: "eval_str pp v = Inr (len, Some 0)"
    "r \<in> set (comps (saved (sess s')))" "cp_name r = n" "cp_value r = v" "cp_master r = n" "cp_len r = len"
    "cp_events r = 0" "n \<in> mc_name ` set (masters (saved (sess s')))" by auto
  then show ?thesis using nv' by blast
qed

lemma eval_35: "eval_str no_prp ''35'' = Inr (2, Some 0)"
  using eval_dec [of no_prp 35] by (simp add: dec_less dec_more digit_chars no_prp_def)

theorem added_composite_is_recorded_witness:
  "\<exists>s'. add_line no_prp ''D 35'' (demo_thread []) = Inr (True, s')
     \<and> (\<exists>r \<in> set (comps (saved (sess s'))). cp_name r = ''D'' \<and> cp_value r = ''35'' \<and> cp_master r = ''D'' \<and> cp_len r = 2)"
proof -
  obtain s' where r: "add_line no_prp ''D 35'' (demo_thread []) = Inr (True, s')"
    by (simp add: run_base run_text run_objects run_admin demo_defs flag_def eval_35 master_SetValue_def
        ComputeDecimalLength_def ComputeDecimalLengthAndPRPTest_def SetMasterCompositeName_def master_Insert_def
        comp_Insert_def insert_master_def insert_comp_def pk_insert_def Let_def cong: lazy)
  have "endtran (sess (demo_thread [])) = []" by (simp add: demo_thread_def demo_defs)
  from added_composite_is_recorded [OF r this] have
    "\<exists>r \<in> set (comps (saved (sess s'))). cp_name r = ''D'' \<and> cp_value r = ''35'' \<and> cp_master r = ''D'' \<and> cp_len r = 2"
    by (auto simp: eval_35)
  with r show ?thesis by (intro exI conjI)
qed

end
