(* ===== verification/SocketBytes.thy ===== *)
theory SocketBytes
  imports SocketIO
begin

text \<open>
  \<open>src/source/Socket.cpp\<close> at the level of bytes: the buffers of a connection and what goes over the
  wire. The connection of \<open>SocketIO\<close>, which works with lines, is shown to be an abstraction of this one.

  \<open>wi_bursts\<close> is what \<open>recv\<close> hands out between two silences: \<open>None\<close> when the other side has gone,
  an empty text when nothing comes in the time allowed. \<open>wi_faults\<close> says for each buffer sent whether
  \<open>send\<close> fails after a number of bytes.
\<close>

definition TEMP_BUFFER_SIZE :: nat where "TEMP_BUFFER_SIZE = 4000"
definition SEND_BUFFER_SIZE :: nat where "SEND_BUFFER_SIZE = 4000"
definition READ_BUFFER_SIZE :: nat where "READ_BUFFER_SIZE = 10000"


record wire =
  wi_open :: bool
  wi_mail :: bool
  wi_newline :: bool
  wi_sending :: bool
  wi_reading :: bool
  wi_send :: string
  wi_size :: nat
  wi_read :: string
  wi_temp :: string
  wi_sent :: string
  wi_bursts :: "string option list"
  wi_faults :: "nat option list"

definition ClearBuffer :: "wire \<Rightarrow> wire" where
  "ClearBuffer w = w\<lparr>wi_reading := False, wi_sending := False, wi_read := [], wi_send := [], wi_size := 0\<rparr>"

text \<open>The copy of the whole buffer goes to \<open>is_TempReadBuffer\<close>, which never grows.\<close>

definition GetNextMessageFromReadBuffer :: "(wire, string option) run" where
  "GetNextMessageFromReadBuffer w =
     (if READ_BUFFER_SIZE + 10 \<le> length (wi_read w) then Inl Undefined
      else case split_at LF (wi_read w) of
          None \<Rightarrow> Inr (None, ClearBuffer (w\<lparr>wi_temp := wi_read w\<rparr>))
        | Some (a, b) \<Rightarrow>
            Inr (Some a, if b = [] then ClearBuffer (w\<lparr>wi_temp := a\<rparr>) else w\<lparr>wi_temp := a, wi_read := b\<rparr>))"

definition wire_Receive :: "(wire, string option) run" where
  "wire_Receive w =
     (if \<not> wi_open w then Inr (None, w)
      else if wi_reading w then GetNextMessageFromReadBuffer w
      else case wi_bursts w of
          [] \<Rightarrow> Inr (None, w\<lparr>wi_read := []\<rparr>)
        | None # rest \<Rightarrow> Inr (None, w\<lparr>wi_bursts := rest, wi_read := [], wi_temp := []\<rparr>)
        | Some burst # rest \<Rightarrow>
            if burst = [] then Inr (None, w\<lparr>wi_bursts := rest, wi_read := []\<rparr>)
            else GetNextMessageFromReadBuffer (w\<lparr>wi_bursts := rest, wi_read := burst, wi_reading := True\<rparr>))"

text \<open>\<open>SendBuffer(buffer)\<close> of one of the two buffers: what is sent, and whether all of it was.\<close>

definition transmit :: "string \<Rightarrow> wire \<Rightarrow> bool \<times> wire" where
  "transmit buffer w =
     (if buffer = [] then (True, w)
      else case wi_faults w of
          [] \<Rightarrow> (True, w\<lparr>wi_sent := wi_sent w @ buffer, wi_size := 0\<rparr>)
        | None # fs \<Rightarrow> (True, w\<lparr>wi_sent := wi_sent w @ buffer, wi_size := 0, wi_faults := fs\<rparr>)
        | Some k # fs \<Rightarrow> (False, w\<lparr>wi_sent := wi_sent w @ take k buffer, wi_size := 0, wi_faults := fs\<rparr>))"

definition flush :: "(wire, bool) run" where
  "flush w = (if \<not> wi_open w then Inr (False, w)
     else case transmit (wi_send w) w of (ok, w') \<Rightarrow> Inr (ok, w'\<lparr>wi_send := []\<rparr>))"

definition SendBuffer :: "(wire, bool) run" where
  "SendBuffer w = flush (w\<lparr>wi_sending := False\<rparr>)"

definition StartBuffering :: "(wire, unit) run" where
  "StartBuffering w = Inr ((), w\<lparr>wi_sending := True, wi_size := 0\<rparr>)"

text \<open>\<open>strcat\<close> to \<open>is_SendBuffer\<close>.\<close>

definition append_send :: "string \<Rightarrow> (wire, unit) run" where
  "append_send t w = (if SEND_BUFFER_SIZE + 10 \<le> length (wi_send w) + length t then Inl Undefined
     else Inr ((), w\<lparr>wi_send := wi_send w @ t\<rparr>))"

text \<open>The text with its line end; a mail connection that is buffering gets the line end first.\<close>

definition SendNewLine :: "string \<Rightarrow> (wire, string) run" where
  "SendNewLine text w =
     (if wi_mail w \<and> wi_sending w then bind (append_send [CHR 0x0D, LF]) (\<lambda>_. ret text) w
      else let line = text @ (if wi_mail w then [CHR 0x0D, LF] else [LF])
           in if TEMP_BUFFER_SIZE + 10 \<le> length line then Inl Undefined else Inr (line, w))"

definition wire_Send :: "string \<Rightarrow> (wire, bool) run" where
  "wire_Send text w =
     (if TEMP_BUFFER_SIZE + 10 \<le> length text then Inl Undefined
      else bind (if wi_newline w then SendNewLine text else ret text) (\<lambda>line.
        bind (asks (\<lambda>w. w)) (\<lambda>w1.
        if wi_sending w1 then
          bind (if wi_size w1 + length line > SEND_BUFFER_SIZE then flush else ret True) (\<lambda>didSend.
          bind (modify (\<lambda>w. w\<lparr>wi_size := wi_size w + length line\<rparr>)) (\<lambda>_.
          bind (append_send line) (\<lambda>_. ret didSend)))
        else if \<not> wi_open w1 then ret False
        else bind (asks (transmit line)) (\<lambda>(ok, w2). bind (modify (\<lambda>_. w2)) (\<lambda>_. ret ok)))) w)"

section \<open>Lines as an abstraction\<close>

function lines_of :: "string \<Rightarrow> input list" where
  "lines_of s = (case split_at LF s of
      None \<Rightarrow> [Part s]
    | Some (a, b) \<Rightarrow> Line a # (if b = [] then [] else lines_of b))"
  by auto
termination by (relation "measure length") (auto dest: split_at_Some)

declare lines_of.simps [simp del]

fun burst_inputs :: "string option \<Rightarrow> input list" where
  "burst_inputs None = [Closed]"
| "burst_inputs (Some b) = (if b = [] then [Quiet] else lines_of b)"

definition wire_input :: "wire \<Rightarrow> input list" where
  "wire_input w = (if wi_reading w then lines_of (wi_read w) else []) @ concat (map burst_inputs (wi_bursts w))"

text \<open>Everything put into the connection, in order, sent or still buffered.\<close>

definition stream :: "wire \<Rightarrow> string" where
  "stream w = wi_sent w @ wi_send w"

definition abstracts :: "wire \<Rightarrow> 'a socket_scheme \<Rightarrow> bool" where
  "abstracts w s \<longleftrightarrow> so_open s = wi_open w \<and> so_newline s = wi_newline w \<and> incoming s = wire_input w
     \<and> read_buf s = wi_temp w \<and> stream w = concat (map (\<lambda>l. l @ [LF]) (outgoing s))"

text \<open>A buffer without an incomplete message is clear.\<close>

lemma GetNext_refines:
  assumes "GetNextMessageFromReadBuffer w = Inr (r, w')" "wi_reading w" "wi_send w = []"
  shows "wi_send w' = [] \<and> wi_sent w' = wi_sent w \<and> (wi_reading w' \<longrightarrow> wi_read w' \<noteq> [])
    \<and> wi_open w' = wi_open w \<and> wi_newline w' = wi_newline w
    \<and> wire_input w = (case r of Some m \<Rightarrow> Line m | None \<Rightarrow> Part (wi_temp w')) # wire_input w'
    \<and> (r \<noteq> None \<longrightarrow> r = Some (wi_temp w'))"
proof (cases "split_at LF (wi_read w)")
  case None
  with assms show ?thesis
    by (auto simp: GetNextMessageFromReadBuffer_def ClearBuffer_def wire_input_def lines_of.simps [of "wi_read w"]
        simp del: split_at_None split: if_splits)
next
  case (Some ab)
  with assms show ?thesis
    by (cases ab) (auto simp: GetNextMessageFromReadBuffer_def ClearBuffer_def wire_input_def
        lines_of.simps [of "wi_read w"] split: if_splits)
qed

lemma Receive_refines:
  assumes "abstracts w s" "wi_send w = []" "wi_reading w \<longrightarrow> wi_read w \<noteq> []" "wire_Receive w = Inr (r, w')"
  shows "\<exists>s'. Receive s = Inr (r, s') \<and> abstracts w' s' \<and> wi_send w' = [] \<and> (wi_reading w' \<longrightarrow> wi_read w' \<noteq> [])"
proof -
  have step: "\<exists>s'. Receive s = Inr (r, s') \<and> abstracts w' s' \<and> wi_send w' = [] \<and> (wi_reading w' \<longrightarrow> wi_read w' \<noteq> [])"
    if "GetNextMessageFromReadBuffer v = Inr (r, w')" "wi_reading v" "wi_send v = []"
      "wire_input v = wire_input w" "wi_open v" "wi_open v = wi_open w" "wi_newline v = wi_newline w"
      "wi_sent v = wi_sent w" for v
    using GetNext_refines [OF that(1-3)] that assms(1,2)
    by (cases r) (auto simp: Receive_def abstracts_def stream_def)
  show ?thesis
  proof (cases "\<not> wi_open w")
    case True
    with assms show ?thesis by (auto simp: wire_Receive_def Receive_def abstracts_def)
  next
    case open': False
    show ?thesis
    proof (cases "wi_reading w")
      case True
      with open' assms step [of w] show ?thesis by (simp add: wire_Receive_def)
    next
      case idle: False
      show ?thesis
      proof (cases "\<exists>b rest. wi_bursts w = Some b # rest \<and> b \<noteq> []")
        case True
        then obtain b rest where b: "wi_bursts w = Some b # rest" "b \<noteq> []" by blast
        let ?v = "w\<lparr>wi_bursts := rest, wi_read := b, wi_reading := True\<rparr>"
        have "wire_input ?v = wire_input w" using idle b by (simp add: wire_input_def)
        with step [of ?v] open' idle b assms show ?thesis by (simp add: wire_Receive_def)
      next
        case False
        with open' idle assms show ?thesis
          by (cases "wi_bursts w"; cases "hd (wi_bursts w)")
            (auto simp: wire_Receive_def Receive_def abstracts_def wire_input_def stream_def split: if_splits)
      qed
    qed
  qed
qed

lemma transmit_all: "wi_faults w = [] \<Longrightarrow>
    transmit b w = (True, if b = [] then w else w\<lparr>wi_sent := wi_sent w @ b, wi_size := 0\<rparr>)"
  by (simp add: transmit_def)

text \<open>Sending, on an open connection that loses nothing.\<close>

definition sends :: "wire \<Rightarrow> bool" where
  "sends w \<longleftrightarrow> wi_open w \<and> wi_newline w \<and> \<not> wi_mail w \<and> wi_faults w = []
     \<and> (\<not> wi_sending w \<longrightarrow> wi_send w = []) \<and> length (wi_send w) \<le> wi_size w"

lemma Send_refines:
  assumes "sends w" "abstracts w s"
  shows "case wire_Send text w of
      Inl h \<Rightarrow> Send text s = Inl h
    | Inr (b, w') \<Rightarrow> \<exists>s'. Send text s = Inr (b, s') \<and> abstracts w' s' \<and> sends w'"
proof (cases "TEMP_BUFFER_SIZE + 10 \<le> length text + 1")
  case True
  with assms show ?thesis
    by (auto simp: wire_Send_def Send_def abstracts_def sends_def SendNewLine_def SEND_SIZE_def TEMP_BUFFER_SIZE_def
        bind_def)
next
  case short: False
  let ?line = "text @ [LF]"
  have new: "(if wi_newline w then SendNewLine text else ret text) w = Inr (?line, w)"
    using assms short by (simp add: SendNewLine_def sends_def)
  have s: "Send text s = Inr (True, s\<lparr>outgoing := outgoing s @ [text]\<rparr>)"
    using assms short by (simp add: Send_def abstracts_def sends_def SEND_SIZE_def TEMP_BUFFER_SIZE_def)
  show ?thesis
  proof (cases "wi_sending w")
    case False
    with assms short new s show ?thesis
      by (auto simp: wire_Send_def bind_def sends_def transmit_all abstracts_def stream_def wire_input_def)
  next
    case True
    show ?thesis
    proof (cases "wi_size w + length ?line > SEND_BUFFER_SIZE")
      case over: True
      have "flush w = Inr (True, (if wi_send w = [] then w else w\<lparr>wi_sent := wi_sent w @ wi_send w, wi_size := 0\<rparr>)\<lparr>wi_send := []\<rparr>)"
        using assms by (simp add: flush_def sends_def transmit_all)
      with True over assms short new s show ?thesis
        by (auto simp: wire_Send_def bind_def sends_def append_send_def abstracts_def stream_def wire_input_def
            SEND_BUFFER_SIZE_def TEMP_BUFFER_SIZE_def)
    next
      case False
      with True assms short new s show ?thesis
        by (auto simp: wire_Send_def bind_def sends_def append_send_def abstracts_def stream_def wire_input_def
            SEND_BUFFER_SIZE_def TEMP_BUFFER_SIZE_def)
    qed
  qed
qed

section \<open>Sequences of operations\<close>

datatype sock_op = Say string | Listen | Begin_buffer | End_buffer

definition wire_op :: "sock_op \<Rightarrow> (wire, string option) run" where
  "wire_op c = (case c of
       Say t \<Rightarrow> bind (wire_Send t) (\<lambda>_. ret None)
     | Listen \<Rightarrow> wire_Receive
     | Begin_buffer \<Rightarrow> bind StartBuffering (\<lambda>_. ret None)
     | End_buffer \<Rightarrow> bind SendBuffer (\<lambda>_. ret None))"

definition line_op :: "sock_op \<Rightarrow> ('a socket_scheme, string option) run" where
  "line_op c = (case c of
       Say t \<Rightarrow> bind (Send t) (\<lambda>_. ret None)
     | Listen \<Rightarrow> Receive
     | Begin_buffer \<Rightarrow> ret None
     | End_buffer \<Rightarrow> ret None)"

primrec run_ops :: "(sock_op \<Rightarrow> ('s, string option) run) \<Rightarrow> sock_op list \<Rightarrow> ('s, string option list) run" where
  "run_ops f [] = ret []"
| "run_ops f (c # cs) = bind (f c) (\<lambda>r. bind (run_ops f cs) (\<lambda>rs. ret (r # rs)))"

text \<open>
  The program only receives, and only starts to buffer, when it is not buffering: a message received
  while messages are buffered would discard them (\<open>ClearBuffer\<close>).
\<close>

primrec polite :: "bool \<Rightarrow> sock_op list \<Rightarrow> bool" where
  "polite buffering [] = True"
| "polite buffering (c # cs) = (case c of
       Say _ \<Rightarrow> polite buffering cs
     | Listen \<Rightarrow> \<not> buffering \<and> polite False cs
     | Begin_buffer \<Rightarrow> \<not> buffering \<and> polite True cs
     | End_buffer \<Rightarrow> polite False cs)"

definition wire_inv :: "bool \<Rightarrow> wire \<Rightarrow> bool" where
  "wire_inv buffering w \<longleftrightarrow> sends w \<and> wi_sending w = buffering \<and> (wi_reading w \<longrightarrow> wi_read w \<noteq> [])"

lemma flush_frame: "flush w = Inr (b, w') \<Longrightarrow> wi_open w' = wi_open w \<and> wi_newline w' = wi_newline w
    \<and> wi_mail w' = wi_mail w \<and> wi_reading w' = wi_reading w \<and> wi_read w' = wi_read w \<and> wi_sending w' = wi_sending w"
  by (auto simp: flush_def transmit_def split: if_splits list.splits option.splits)

lemma GetNext_frame: "GetNextMessageFromReadBuffer w = Inr (r, w') \<Longrightarrow>
    wi_open w' = wi_open w \<and> wi_newline w' = wi_newline w \<and> wi_mail w' = wi_mail w \<and> wi_faults w' = wi_faults w
    \<and> (wi_sending w' \<longrightarrow> wi_sending w)"
  by (auto simp: GetNextMessageFromReadBuffer_def ClearBuffer_def split: if_splits option.splits)

lemma Receive_frame: "wire_Receive w = Inr (r, w') \<Longrightarrow>
    wi_open w' = wi_open w \<and> wi_newline w' = wi_newline w \<and> wi_mail w' = wi_mail w \<and> wi_faults w' = wi_faults w
    \<and> (wi_sending w' \<longrightarrow> wi_sending w)"
  by (auto simp: wire_Receive_def dest!: GetNext_frame split: if_splits list.splits option.splits)

lemma Send_frame: "wire_Send t w = Inr (b, w') \<Longrightarrow> wi_sending w' = wi_sending w
    \<and> wi_reading w' = wi_reading w \<and> wi_read w' = wi_read w"
  by (auto simp: wire_Send_def SendNewLine_def append_send_def bind_eq_Inr transmit_def
      dest!: flush_frame split: if_splits list.splits option.splits)

lemma op_refines:
  assumes "wire_inv bf w" "abstracts w s" "polite bf [c]" "wire_op c w = Inr (r, w')"
  shows "\<exists>s'. line_op c s = Inr (r, s') \<and> abstracts w' s'
    \<and> wire_inv (case c of Say _ \<Rightarrow> bf | Begin_buffer \<Rightarrow> True | _ \<Rightarrow> False) w'"
proof (cases c)
  case (Say t)
  with assms(4) obtain b where b: "wire_Send t w = Inr (b, w')" "r = None"
    by (auto simp: wire_op_def bind_eq_Inr)
  with Send_refines [of w s t] assms obtain s' where "Send t s = Inr (b, s')" "abstracts w' s'" "sends w'"
    by (auto simp: wire_inv_def)
  with b assms Send_frame [OF b(1)] Say show ?thesis
    by (intro exI [of _ s']) (simp add: line_op_def bind_Inr wire_inv_def)
next
  case Listen
  have e: "wi_send w = []" using assms(1,3) Listen by (auto simp: wire_inv_def sends_def)
  have r: "wire_Receive w = Inr (r, w')" using assms(4) Listen by (simp add: wire_op_def)
  with Receive_refines [OF assms(2) e _ r] assms(1) obtain s'
    where "Receive s = Inr (r, s')" "abstracts w' s'" "wi_send w' = []" "wi_reading w' \<longrightarrow> wi_read w' \<noteq> []"
    by (auto simp: wire_inv_def)
  with Receive_frame [OF r] assms(1,3) Listen show ?thesis
    by (intro exI [of _ s']) (auto simp: line_op_def wire_inv_def sends_def)
next
  case Begin_buffer
  with assms show ?thesis
    by (auto simp: wire_op_def line_op_def StartBuffering_def bind_eq_Inr wire_inv_def sends_def abstracts_def
        stream_def wire_input_def)
next
  case End_buffer
  with assms show ?thesis
    by (auto simp: wire_op_def line_op_def SendBuffer_def flush_def bind_eq_Inr wire_inv_def sends_def abstracts_def
        stream_def wire_input_def transmit_all split: if_splits)
qed

lemma polite_Cons: "polite bf (c # cs) \<Longrightarrow>
    polite bf [c] \<and> polite (case c of Say _ \<Rightarrow> bf | Begin_buffer \<Rightarrow> True | _ \<Rightarrow> False) cs"
  by (cases c) auto

text \<open>C7: The connection of bytes refines the connection of lines: on an open connection that loses nothing,
  any sequence of sends, receives and buffered sections run on the buffers of the code returns the same
  messages as the line-level operations, and leaves the lines sent, in order, on the wire or in the
  buffer.\<close>

theorem bytes_refine_lines:
  assumes "wire_inv bf w" "abstracts w s" "polite bf cs" "run_ops wire_op cs w = Inr (rs, w')"
  shows "\<exists>s'. run_ops line_op cs s = Inr (rs, s') \<and> abstracts w' s'"
  using assms
proof (induction cs arbitrary: bf w s rs)
  case (Cons c cs)
  then obtain r rs' w1 where r: "wire_op c w = Inr (r, w1)" "run_ops wire_op cs w1 = Inr (rs', w')" "rs = r # rs'"
    by (auto simp: bind_eq_Inr)
  from op_refines [OF Cons.prems(1,2) _ r(1)] polite_Cons [OF Cons.prems(3)]
  obtain s1 where s1: "line_op c s = Inr (r, s1)" "abstracts w1 s1"
    "wire_inv (case c of Say _ \<Rightarrow> bf | Begin_buffer \<Rightarrow> True | _ \<Rightarrow> False) w1" by blast
  from Cons.IH [OF s1(3,2) _ r(2)] polite_Cons [OF Cons.prems(3)]
  obtain s2 where "run_ops line_op cs s1 = Inr (rs', s2)" "abstracts w' s2" by blast
  with s1(1) r(3) show ?case by (auto simp: bind_Inr)
qed auto

theorem bytes_refine_lines_witness:
  "\<exists>s'. run_ops line_op [Say ''hello'', Listen, Begin_buffer, Say ''a'', Say ''b'', End_buffer, Listen, Listen]
      \<lparr>so_open = True, so_newline = True, incoming = [Line ''x'', Part ''y'', Closed], read_buf = [], outgoing = []\<rparr>
    = Inr ([None, Some ''x'', None, None, None, None, None, None], s') \<and> outgoing s' = [''hello'', ''a'', ''b'']"
proof -
  let ?w = "\<lparr>wi_open = True, wi_mail = False, wi_newline = True, wi_sending = False, wi_reading = False, wi_send = [],
    wi_size = 0, wi_read = [], wi_temp = [], wi_sent = [], wi_bursts = [Some (''x'' @ LF # ''y''), None], wi_faults = []\<rparr>"
  let ?s = "\<lparr>so_open = True, so_newline = True, incoming = [Line ''x'', Part ''y'', Closed], read_buf = [], outgoing = []\<rparr>"
  let ?cs = "[Say ''hello'', Listen, Begin_buffer, Say ''a'', Say ''b'', End_buffer, Listen, Listen]"
  have inv: "wire_inv False ?w" "abstracts ?w ?s" "polite False ?cs"
    by (simp_all add: wire_inv_def sends_def abstracts_def stream_def wire_input_def lines_of.simps LF_def)
  obtain w' where w: "run_ops wire_op ?cs ?w = Inr ([None, Some ''x'', None, None, None, None, None, None], w')"
    by (simp add: wire_op_def wire_Send_def wire_Receive_def SendNewLine_def StartBuffering_def SendBuffer_def
        flush_def transmit_def append_send_def GetNextMessageFromReadBuffer_def ClearBuffer_def bind_def LF_def
        TEMP_BUFFER_SIZE_def SEND_BUFFER_SIZE_def READ_BUFFER_SIZE_def)
  from bytes_refine_lines [OF inv w] obtain s'
    where s: "run_ops line_op ?cs ?s = Inr ([None, Some ''x'', None, None, None, None, None, None], s')" by blast
  then have "outgoing s' = [''hello'', ''a'', ''b'']"
    by (simp add: line_op_def Send_def Receive_def bind_def SEND_SIZE_def)
      (metis (no_types, lifting) socket.select_convs(5))
  with s show ?thesis by blast
qed

end
