(* ===== verification/ClientUnit.thy ===== *)
theory ClientUnit
  imports TextFiles Handler
begin

text \<open>
  The client's end of a connection (\<open>src/source/ClientSocket.cpp\<close>) and one assignment of work on it
  (\<open>src/source/WorkUnit.cpp\<close>): how it is received, done by calling GMP-ECM, returned, saved and loaded.

  GMP-ECM is a program of its own: one run of it is a function from the command line and the input
  to the text it leaves in the output file (\<open>None\<close> when there is no such file). Log messages are not
  modelled.
\<close>

section \<open>The connection\<close>

text \<open>
  \<open>cs_dials\<close> is what the next attempts to connect meet: no server, or a server and what it sends.
\<close>

record client = socket +
  cs_server :: string
  cs_port :: int
  cs_email :: string
  cs_user :: string
  cs_machine :: string
  cs_instance :: string
  cs_version :: string
  cs_dials :: "input list option list"

definition dial :: "(client, bool) run" where
  "dial s = (case cs_dials s of
       Some inp # rest \<Rightarrow> Inr (True, s\<lparr>cs_dials := rest, so_open := True, incoming := inp\<rparr>)
     | None # rest \<Rightarrow> Inr (False, s\<lparr>cs_dials := rest\<rparr>)
     | [] \<Rightarrow> Inr (False, s))"

definition Close :: "(client, unit) run" where
  "Close = modify (\<lambda>s. s\<lparr>so_open := False, incoming := []\<rparr>)"

definition client_FROM :: string where
  "client_FROM = ''FROM %s %s %s %s''"

text \<open>The version is scanned into 20 bytes; the machine is not announced.\<close>

definition set_server_version :: "string \<Rightarrow> (client, unit) run" where
  "set_server_version m =
     bind (lift (sscanf m ''Connected to server version %s'' [20])) (\<lambda>vs.
     modify (\<lambda>s. s\<lparr>cs_version := (case vs of [VS v] \<Rightarrow> v | _ \<Rightarrow> ''2.x'')\<rparr>))"

definition client_Open :: "string \<Rightarrow> string \<Rightarrow> string \<Rightarrow> string \<Rightarrow> (client, bool) run" where
  "client_Open emailID userID machineID instanceID =
     bind (asks so_open) (\<lambda>isOpen.
     if isOpen then ret True
     else if \<not> fits [emailID, userID, machineID, instanceID] [200, 200, 200, 200] then stop Undefined
     else
     bind (modify (\<lambda>s. s\<lparr>cs_email := emailID, cs_user := userID, cs_machine := machineID,
                         cs_instance := instanceID\<rparr>)) (\<lambda>_.
     bind dial (\<lambda>connected.
     if \<not> connected then ret False
     else
     bind (Sendf client_FROM [VS emailID, VS instanceID, VS userID, VS ECMNET_VERSION]) (\<lambda>_.
     bind Receive (\<lambda>readBuf. case readBuf of
       None \<Rightarrow> bind Close (\<lambda>_. ret False)
     | Some m \<Rightarrow>
         if \<not> prefixed ''Connected to server'' m then bind Close (\<lambda>_. ret False)
         else bind (set_server_version m) (\<lambda>_. ret True))))))"

text \<open>\<open>memcmp(version, "3", 1) >= 0\<close>: the first character of the version decides.\<close>

definition version_3 :: "client \<Rightarrow> bool" where
  "version_3 s = (case cs_version s of [] \<Rightarrow> False | c # _ \<Rightarrow> code (CHR ''3'') \<le> code c)"

section \<open>The state of a unit\<close>

record unit_state =
  wu_in :: string
  wu_out :: string
  wu_didCurve :: bool
  wu_exe :: string
  wu_machine :: string
  wu_instance :: string
  wu_suffix :: string
  wu_name :: string
  wu_value :: string
  wu_length :: int
  wu_command :: string
  wu_method :: string
  wu_b1 :: double
  wu_b2 :: double
  wu_k :: int
  wu_maxmem :: int
  wu_max :: int
  wu_curves :: int
  wu_isNumber :: bool
  wu_factored :: bool
  wu_factor :: string
  wu_factorType :: string
  wu_cofactor :: string
  wu_cofactorType :: string
  wu_step :: int
  wu_b1Time :: double
  wu_b2Time :: double
  wu_factorB1Time :: double
  wu_factorB2Time :: double
  wu_sigma :: int
  wu_x0 :: int

text \<open>The constructor leaves \<open>ib_JustDidCurve\<close> and the assignment as they are in memory (\<open>junk\<close>).\<close>

definition WorkUnit ::
    "unit_state \<Rightarrow> string \<Rightarrow> string \<Rightarrow> string \<Rightarrow> string \<Rightarrow> int \<Rightarrow> int \<Rightarrow> halt + unit_state" where
  "WorkUnit junk machineID instanceID suffix gmpExe kValue maxmemValue =
     (let file = ''wu_'' @ suffix @ ''_'' @ machineID @ ''_'' @ instanceID
      in if \<not> fits [machineID, instanceID, gmpExe, suffix] [200, 200, 200, 200] \<or> length (file @ ''.out'') \<ge> 200
         then Inl Undefined
         else Inr (junk\<lparr>wu_machine := machineID, wu_instance := instanceID, wu_exe := gmpExe, wu_suffix := suffix,
                wu_k := kValue, wu_maxmem := maxmemValue, wu_in := file @ ''.in'', wu_out := file @ ''.out'',
                wu_name := [], wu_b1 := 0, wu_b2 := 0, wu_b1Time := 0, wu_b2Time := 0, wu_factorB1Time := 0,
                wu_factorB2Time := 0, wu_curves := 0, wu_isNumber := False, wu_command := [],
                wu_factored := False\<rparr>))"

definition CanDoAnotherCurve :: "bool \<Rightarrow> unit_state \<Rightarrow> bool" where
  "CanDoAnotherCurve offline w =
     (if wu_isNumber w then False
      else if wu_factored w then False
      else if wu_b1 w = 0 then False
      else if \<not> offline \<and> wu_curves w \<ge> wu_max w then False
      else if prefixed FM_PM1 (wu_method w) \<and> wu_curves w > 0 then False
      else True)"

definition GetCurvesToDo :: "unit_state \<Rightarrow> int" where
  "GetCurvesToDo w = wrap32 (wu_max w - wu_curves w)"

section \<open>Doing a curve\<close>

text \<open>\<open>tempCommand\<close> and \<open>is_Command\<close> have 200 bytes.\<close>

definition SetUpCall :: "unit_state \<Rightarrow> halt + unit_state" where
  "SetUpCall w =
     and_then (strcpy (wu_exe w @ (if prefixed FM_PM1 (wu_method w) then '' -pm1''
                                   else if prefixed FM_PP1 (wu_method w) then '' -pp1'' else [])) 200) (\<lambda>tempCommand.
     let tempK = (if wu_k w \<noteq> 0 then sprintf ''-k %d'' [VI (wu_k w)] else []);
         tempM = (if wu_maxmem w \<noteq> 0 then sprintf ''-maxmem %d'' [VI (wu_maxmem w)] else [])
     in and_then (strcpy (sprintf ''%s %s %s %.0lf < %s > %s''
                    [VS tempCommand, VS tempK, VS tempM, VD (wu_b1 w), VS (wu_in w), VS (wu_out w)]) 200)
          (\<lambda>c. Inr (w\<lparr>wu_command := c\<rparr>)))"

text \<open>What the loop of \<open>ParseCurveOutput\<close> has seen; \<open>step\<close> starts uninitialised.\<close>

record curve_output =
  cu_done :: bool
  cu_factor :: bool
  cu_number :: bool
  cu_step :: "int option"
  cu_b1Time :: double
  cu_b2Time :: double

definition step_time :: "string \<Rightarrow> curve_output \<Rightarrow> curve_output" where
  "step_time line o1 = (case scan (fmt ''Step %d took %lf'') line of
       [VI n, VD ms] \<Rightarrow> (if n = 1 then o1\<lparr>cu_step := Some n, cu_b1Time := ms / 1000\<rparr>
                        else if n = 2 then o1\<lparr>cu_step := Some n, cu_b2Time := ms / 1000\<rparr>
                        else o1\<lparr>cu_step := Some n\<rparr>)
     | [VI n] \<Rightarrow> o1\<lparr>cu_step := Some n\<rparr>
     | _ \<Rightarrow> o1)"

fun curve_lines :: "string list \<Rightarrow> curve_output \<Rightarrow> curve_output" where
  "curve_lines [] o1 = o1"
| "curve_lines (line # ls) o1 =
     (if prefixed ''Found input number'' line then o1\<lparr>cu_done := True, cu_factor := False, cu_number := True\<rparr>
      else let o2 = (if strstr line ''Step 2 took'' \<noteq> None then o1\<lparr>cu_done := True\<rparr> else o1);
               o3 = (if strstr line ''Factor found'' \<noteq> None then o2\<lparr>cu_done := True, cu_factor := True\<rparr> else o2)
           in curve_lines ls (step_time line o3))"

definition NextWord :: "string \<Rightarrow> string" where
  "NextWord s = takeWhile (\<lambda>c. c \<noteq> CHR '' '' \<and> c \<noteq> CHR '':'') s"

text \<open>Conversion of a double to \<open>int64_t\<close>.\<close>

definition to_int64 :: "double \<Rightarrow> halt + int" where
  "to_int64 x = (if - (2 ^ 63) \<le> trunc x \<and> trunc x < 2 ^ 63 then Inr (trunc x) else Inl Undefined)"

text \<open>The line with the factor: its type, and its value unless that is the composite itself.\<close>

definition found_line :: "string \<Rightarrow> unit_state \<Rightarrow> halt + unit_state" where
  "found_line ptr w =
     and_then (strcpy (NextWord (drop 6 ptr)) 20) (\<lambda>type.
     let w1 = w\<lparr>wu_factorType := type\<rparr>
     in case strstr ptr '': '' of
          None \<Rightarrow> Inr w1
        | Some p \<Rightarrow> if drop 2 p = wu_value w1 then Inr w1
                    else and_then (strcpy (drop 2 p) VALUE_LENGTH) (\<lambda>f. Inr (w1\<lparr>wu_factor := f\<rparr>)))"

text \<open>The line with the parameters; without a \<open>, B2=\<close> in it a null pointer is used.\<close>

definition using_line :: "string \<Rightarrow> string \<Rightarrow> unit_state \<Rightarrow> halt + unit_state" where
  "using_line line ptr w =
     (let w1 = w\<lparr>wu_b1 := atof (drop 9 ptr)\<rparr>
      in and_then
           (if wu_method w1 = FM_ECM then
              (case strstr line ''sigma='' of
                 None \<Rightarrow> Inr w1
               | Some p \<Rightarrow> and_then (to_int64 (atof (case split_at (CHR '':'') p of
                                Some (_, q) \<Rightarrow> q | None \<Rightarrow> drop 6 p))) (\<lambda>x. Inr (w1\<lparr>wu_sigma := x\<rparr>)))
            else
              (case strstr line ''x0='' of
                 None \<Rightarrow> Inr w1
               | Some p \<Rightarrow> and_then (to_int64 (atof (drop 3 p))) (\<lambda>x. Inr (w1\<lparr>wu_x0 := x\<rparr>))))
           (\<lambda>w2. case strstr line '', B2='' of
              None \<Rightarrow> Inl Undefined
            | Some p \<Rightarrow> Inr (w2\<lparr>wu_b2 := atof (drop 5 p)\<rparr>)))"

definition factor_line :: "string \<Rightarrow> unit_state \<Rightarrow> halt + unit_state" where
  "factor_line raw w =
     (let line = StripCRLF raw
      in and_then (if wu_factor w \<noteq> [] \<and> wu_cofactorType w = []
                   then and_then (strcpy (NextWord line) 20) (\<lambda>type. Inr (w\<lparr>wu_cofactorType := type\<rparr>))
                   else Inr w) (\<lambda>w1.
         case strstr line ''Found '' of Some ptr \<Rightarrow> found_line ptr w1 | None \<Rightarrow>
         case strstr line ''Using B1='' of Some ptr \<Rightarrow> using_line line ptr w1 | None \<Rightarrow>
         case strstr line ''Using B2='' of Some ptr \<Rightarrow> Inr (w1\<lparr>wu_b2 := atof (drop 9 ptr)\<rparr>) | None \<Rightarrow>
         case strstr line ''ofactor '' of
           Some ptr \<Rightarrow> and_then (strcpy (NextWord (drop 8 ptr)) VALUE_LENGTH) (\<lambda>v. Inr (w1\<lparr>wu_cofactor := v\<rparr>))
         | None \<Rightarrow> Inr w1))"

primrec factor_lines :: "string list \<Rightarrow> unit_state \<Rightarrow> halt + unit_state" where
  "factor_lines [] w = Inr w"
| "factor_lines (l # ls) w = and_then (factor_line l w) (factor_lines ls)"

definition ExtractFactor :: "string \<Rightarrow> unit_state \<Rightarrow> halt + unit_state" where
  "ExtractFactor out w =
     and_then (factor_lines (file_lines (BUFFER_SIZE - 2) out)
                (w\<lparr>wu_sigma := 0, wu_x0 := 0, wu_b2 := 0, wu_factor := [], wu_cofactor := [], wu_factorType := [],
                   wu_cofactorType := []\<rparr>))
       (\<lambda>w1. Inr (if wu_factor w1 \<noteq> [] then w1\<lparr>wu_factored := True\<rparr> else w1))"

definition ParseCurveOutput :: "string option \<Rightarrow> unit_state \<Rightarrow> halt + bool \<times> unit_state" where
  "ParseCurveOutput file w = (case file of
       None \<Rightarrow> Inr (False, w)
     | Some out \<Rightarrow>
         let o1 = curve_lines (file_lines 238 out) \<lparr>cu_done = False, cu_factor = False, cu_number = False,
                    cu_step = None, cu_b1Time = 0, cu_b2Time = 0\<rparr>;
             w1 = w\<lparr>wu_isNumber := (wu_isNumber w \<or> cu_number o1), wu_b1Time := wu_b1Time w + cu_b1Time o1,
                    wu_b2Time := wu_b2Time w + cu_b2Time o1\<rparr>
         in and_then (if cu_factor o1
                      then (case cu_step o1 of
                              None \<Rightarrow> Inl Undefined
                            | Some n \<Rightarrow> ExtractFactor out (w1\<lparr>wu_factorB1Time := cu_b1Time o1,
                                          wu_factorB2Time := cu_b2Time o1, wu_step := n\<rparr>))
                      else Inr w1)
              (\<lambda>w2. Inr (cu_done o1, if cu_done o1 then w2\<lparr>wu_didCurve := True\<rparr> else w2)))"

text \<open>
  One curve: the work done, whether the process signals itself to stop, and the unit. \<open>writable\<close> tells
  whether the input file can be created.
\<close>

definition DoCurve ::
    "(string \<Rightarrow> string \<Rightarrow> string option) \<Rightarrow> bool \<Rightarrow> bool \<Rightarrow> unit_state \<Rightarrow> halt + double \<times> bool \<times> unit_state" where
  "DoCurve ecm writable offline w =
     (if \<not> CanDoAnotherCurve offline w then Inr (1 / 100000, False, w)
      else if \<not> writable then Inl Exit
      else and_then (SetUpCall w) (\<lambda>w1.
           and_then (ParseCurveOutput (ecm (wu_command w1) (wu_value w1)) w1) (\<lambda>(curveCompleted, w2).
           if \<not> curveCompleted then Inr (0, True, w2)
           else let w3 = w2\<lparr>wu_curves := wrap32 (wu_curves w2 + 1)\<rparr> in Inr (wu_b1 w3, False, w3))))"

end
