(* ===== verification/UnitExchange.thy ===== *)
theory UnitExchange
  imports ClientUnit
begin

text \<open>
  How a unit of work travels (\<open>src/source/WorkUnit.cpp\<close>): the messages that bring it from the server and
  take it back, and the line that keeps it in the save file.
\<close>

section \<open>Receiving a unit\<close>

definition FACTORING_WORK :: string where
  "FACTORING_WORK = ''Factoring Work for %s %s %d %s %lf %d %u''"

definition unit_fields :: "(sval \<Rightarrow> unit_state \<Rightarrow> unit_state) list" where
  "unit_fields =
     [\<lambda>v w. w\<lparr>wu_name := str_of v\<rparr>, \<lambda>v w. w\<lparr>wu_value := str_of v\<rparr>, \<lambda>v w. w\<lparr>wu_length := int_of v\<rparr>,
      \<lambda>v w. w\<lparr>wu_method := str_of v\<rparr>, \<lambda>v w. w\<lparr>wu_b1 := dbl_of v\<rparr>, \<lambda>v w. w\<lparr>wu_max := int_of v\<rparr>, \<lambda>v w. w]"

text \<open>The single message of a 3.x server; the seventh value is the length of the number.\<close>

definition unit_from_line :: "string \<Rightarrow> unit_state \<Rightarrow> halt + bool \<times> unit_state" where
  "unit_from_line m w =
     and_then (sscanf m FACTORING_WORK [200, VALUE_LENGTH, 20]) (\<lambda>vs.
     let w1 = assign unit_fields vs w
     in if length vs \<noteq> 7 then Inr (False, w1)
        else Inr (int_of (vs ! 6) mod 2 ^ 32 = int (length (wu_value w1)), w1))"

text \<open>One line of a 2.x server: \<open>None\<close> for one that ends the attempt.\<close>

definition old_unit_line :: "string \<Rightarrow> unit_state \<Rightarrow> halt + unit_state option" where
  "old_unit_line m w =
     (if prefixed ''ECMname: '' m then and_then (strcpy (drop 9 m) 200) (\<lambda>v. Inr (Some (w\<lparr>wu_name := v\<rparr>)))
      else if prefixed ''ECMnumber: '' m then
        and_then (strcpy (drop 11 m) VALUE_LENGTH) (\<lambda>v. Inr (Some (w\<lparr>wu_value := v\<rparr>)))
      else if prefixed ''ServerVersion: '' m then Inr (Some w)
      else if prefixed ''ServerType: '' m then Inr (Some w)
      else if prefixed ''ECMB1: '' m then Inr (Some (w\<lparr>wu_b1 := atof (drop 7 m)\<rparr>))
      else if prefixed ''FactorMethod: '' m then
        and_then (strcpy (drop 14 m) 20) (\<lambda>v. Inr (Some (w\<lparr>wu_method := v\<rparr>)))
      else if prefixed ''ECMCurves: '' m then Inr (Some (w\<lparr>wu_max := wrap32 (atol (drop 11 m))\<rparr>))
      else Inr None)"

text \<open>\<open>Inl\<close>: on to the checks after the loop; \<open>Inr\<close>: returned from within.\<close>

definition unit_step :: "unit_state \<Rightarrow> (client, unit_state + (unit_state + bool \<times> unit_state)) run" where
  "unit_step w =
     bind Receive (\<lambda>readBuf. case readBuf of
         None \<Rightarrow> ret (Inr (Inl w))
       | Some m \<Rightarrow>
           if prefixed ''INACTIVE'' m \<or> prefixed ''INFO'' m then ret (Inr (Inr (False, w)))
           else bind (asks version_3) (\<lambda>new.
             if new then
               if prefixed ''End of Message'' m then ret (Inr (Inr (False, w)))
               else bind (lift (unit_from_line m w)) (\<lambda>r. ret (Inr (Inr r)))
             else if prefixed ''End of Message'' m then ret (Inr (Inl w))
             else bind (lift (old_unit_line m w)) (\<lambda>r. case r of
                 Some w1 \<Rightarrow> ret (Inl w1)
               | None \<Rightarrow> ret (Inr (Inr (False, w))))))"

definition checked_unit :: "unit_state \<Rightarrow> bool \<times> unit_state" where
  "checked_unit w =
     (let w1 = (if wu_max w = 0 then w\<lparr>wu_max := 999999999\<rparr> else w)
      in if wu_name w1 = [] \<or> wu_value w1 = [] \<or> wu_b1 w1 < 1 then (False, w1)
         else (True, if wu_length w1 = 0 then w1\<lparr>wu_length := int (length (wu_value w1))\<rparr> else w1))"

definition GetWorkUnitFromServer :: "unit_state \<Rightarrow> (client, bool \<times> unit_state) run" where
  "GetWorkUnitFromServer w =
     bind (asks pending_lines) (\<lambda>n.
     bind (iterate (Suc n) unit_step (w\<lparr>wu_curves := 0, wu_max := 0, wu_b1 := 0, wu_length := 0\<rparr>)) (\<lambda>r.
     ret (case r of Inl w1 \<Rightarrow> checked_unit w1 | Inr res \<Rightarrow> res)))"

section \<open>Returning a unit\<close>

definition tell :: "string \<Rightarrow> sval list \<Rightarrow> (client, unit) run" where
  "tell f vs = bind (Sendf f vs) (\<lambda>_. ret ())"

definition return_args :: "unit_state \<Rightarrow> sval list" where
  "return_args w = [VS (wu_name w), VS (wu_value w), VS (wu_method w), VI (if wu_isNumber w then 1 else 0),
     VD (wu_b1 w), VI (wu_curves w), VD (wu_b1Time w + wu_b2Time w), VI (int (length (wu_value w)))]"

definition factor_args :: "unit_state \<Rightarrow> sval list" where
  "factor_args w = [VS (wu_name w), VS (wu_method w), VI (wu_step w), VD (wu_b1 w), VD (wu_factorB1Time w),
     VD (wu_b2 w), VD (wu_factorB2Time w), VI (wu_sigma w), VI (wu_x0 w)]"

definition RETURN_LINE :: string where
  "RETURN_LINE = ''Return Work for %s %s %s %d %.0lf %d %lf %d''"

definition FACTOR_LINE :: string where
  "FACTOR_LINE = ''Return Factor Event for %s %s %d %.0lf %lf %.0lf %lf %ld %ld''"

definition DETAIL_LINE :: string where
  "DETAIL_LINE = ''Return Factor Event Detail for %s %s %s''"

definition return_3 :: "unit_state \<Rightarrow> (client, bool) run" where
  "return_3 w =
     bind (lift (strcpy (sprintf ''Accepted Work for %s'' [VS (wu_name w)]) 200)) (\<lambda>goodMessage.
     bind (tell RETURN_LINE (return_args w)) (\<lambda>_.
     bind (if wu_factored w then
             bind (tell FACTOR_LINE (factor_args w)) (\<lambda>_.
             bind (tell DETAIL_LINE [VS (wu_name w), VS (wu_factor w), VS (wu_factorType w)]) (\<lambda>_.
             tell DETAIL_LINE [VS (wu_name w), VS (wu_cofactor w), VS (wu_cofactorType w)]))
           else ret ()) (\<lambda>_.
     bind (tell ''End Return Work for %s'' [VS (wu_name w)]) (\<lambda>_.
     bind Receive (\<lambda>theMessage. ret (theMessage = Some goodMessage))))))"

definition return_2_factor :: "unit_state \<Rightarrow> (client, bool) run" where
  "return_2_factor w =
     bind (tell ''RETURNFACTOR %s'' [VS ECMNET_VERSION]) (\<lambda>_.
     bind (tell ''factor_ECMname: %s'' [VS (wu_name w)]) (\<lambda>_.
     bind (tell ''factor_ECMnumber: %s'' [VS (wu_value w)]) (\<lambda>_.
     bind (tell ''factor_FACTOR: %s:%s:%s:%s''
             [VS (wu_factor w), VS (wu_factorType w), VS (wu_cofactor w), VS (wu_cofactorType w)]) (\<lambda>_.
     bind (asks cs_email) (\<lambda>email.
     bind (tell ''factor_FINDER: %s'' [VS email]) (\<lambda>_.
     bind (tell ''factor_B1: %.0lf'' [VD (wu_b1 w)]) (\<lambda>_.
     bind (tell ''factor_sigma: %ld'' [VI (wu_sigma w)]) (\<lambda>_.
     bind (tell ''End of Message'' []) (\<lambda>_.
     bind Receive (\<lambda>theMessage. ret (case theMessage of
         None \<Rightarrow> False
       | Some m \<Rightarrow> m \<noteq> [] \<and> (prefixed ''OK.'' m \<or> prefixed ''INFO'' m \<or> \<not> prefixed ''ERR'' m))))))))))))"

definition return_2 :: "unit_state \<Rightarrow> (client, bool) run" where
  "return_2 w =
     bind (tell ''RETURNWORK %s'' [VS ECMNET_VERSION]) (\<lambda>_.
     bind (tell ''return_ECMname: %s'' [VS (wu_name w)]) (\<lambda>_.
     bind (tell ''return_ECMnumber: %s'' [VS (wu_value w)]) (\<lambda>_.
     bind (tell ''return_ClientVersion: %s'' [VS ECMNET_VERSION]) (\<lambda>_.
     bind (tell ''return_FactorMethod: %s'' [VS (wu_method w)]) (\<lambda>_.
     bind (if wu_isNumber w then tell ''return_FactorIsNumber:'' [] else ret ()) (\<lambda>_.
     bind (tell ''return_B1: %.0lf'' [VD (wu_b1 w)]) (\<lambda>_.
     bind (tell ''return_Curves: %ld'' [VI (wu_curves w)]) (\<lambda>_.
     bind (tell ''End of Message'' []) (\<lambda>_.
     if wu_factored w then return_2_factor w else ret True)))))))))"

definition ABANDON_LINE :: string where
  "ABANDON_LINE = ''Abandon Work for %s %s %.0lf''"

definition ReturnWorkUnit :: "unit_state \<Rightarrow> (client, bool) run" where
  "ReturnWorkUnit w =
     (if wu_curves w = 0 then
        bind (tell ABANDON_LINE [VS (wu_name w), VS (wu_method w), VD (wu_b1 w)]) (\<lambda>_. ret True)
      else if wu_name w = [] then ret True
      else bind (asks version_3) (\<lambda>new. if new then return_3 w else return_2 w))"

section \<open>The save file\<close>

definition FACTORED_LINE :: string where
  "FACTORED_LINE = ''%s %s %s %d %.0lf %lf %lf %.0lf %lf %lf %ld %ld %d %d %s %s %s %s''"

definition PLAIN_LINE :: string where
  "PLAIN_LINE = ''%s %s %s %.0lf %d %d %d %lf %lf''"

definition factored_args :: "unit_state \<Rightarrow> sval list" where
  "factored_args w =
     [VS (wu_name w), VS (wu_value w), VS (wu_method w), VI (wu_step w), VD (wu_b1 w), VD (wu_b1Time w),
      VD (wu_factorB1Time w), VD (wu_b2 w), VD (wu_b2Time w), VD (wu_factorB2Time w), VI (wu_sigma w),
      VI (wu_x0 w), VI (wu_max w), VI (wu_curves w), VS (wu_factor w), VS (wu_factorType w),
      VS (wu_cofactor w), VS (wu_cofactorType w)]"

definition plain_args :: "unit_state \<Rightarrow> sval list" where
  "plain_args w =
     [VS (wu_name w), VS (wu_value w), VS (wu_method w), VD (wu_b1 w), VI (wu_max w), VI (wu_curves w),
      VI (if wu_isNumber w then 1 else 0), VD (wu_b1Time w), VD (wu_b2Time w)]"

text \<open>The line of a unit, without its line feed.\<close>

definition unit_Save :: "unit_state \<Rightarrow> string" where
  "unit_Save w = (if wu_factored w then sprintf FACTORED_LINE (factored_args w) else sprintf PLAIN_LINE (plain_args w))"

text \<open>
  \<open>Load\<close> tries the line of a factored unit first, and assigns what it scans, the time of step 2 of
  the factor before the time of all step 2 (\<open>Save\<close> writes them the other way round).
\<close>

definition FACTORED_SCAN :: string where
  "FACTORED_SCAN = ''%s %s %s %d %lf %lf %lf %lf %lf %lf %ld %ld %d %d %s %s %s %s''"

definition PLAIN_SCAN :: string where
  "PLAIN_SCAN = ''%s %s %s %lf %d %d %d %lf %lf''"

definition factored_fields :: "(sval \<Rightarrow> unit_state \<Rightarrow> unit_state) list" where
  "factored_fields =
     [\<lambda>v w. w\<lparr>wu_name := str_of v\<rparr>, \<lambda>v w. w\<lparr>wu_value := str_of v\<rparr>, \<lambda>v w. w\<lparr>wu_method := str_of v\<rparr>,
      \<lambda>v w. w\<lparr>wu_step := int_of v\<rparr>, \<lambda>v w. w\<lparr>wu_b1 := dbl_of v\<rparr>, \<lambda>v w. w\<lparr>wu_b1Time := dbl_of v\<rparr>,
      \<lambda>v w. w\<lparr>wu_factorB1Time := dbl_of v\<rparr>, \<lambda>v w. w\<lparr>wu_b2 := dbl_of v\<rparr>, \<lambda>v w. w\<lparr>wu_factorB2Time := dbl_of v\<rparr>,
      \<lambda>v w. w\<lparr>wu_b2Time := dbl_of v\<rparr>, \<lambda>v w. w\<lparr>wu_sigma := int_of v\<rparr>, \<lambda>v w. w\<lparr>wu_x0 := int_of v\<rparr>,
      \<lambda>v w. w\<lparr>wu_max := int_of v\<rparr>, \<lambda>v w. w\<lparr>wu_curves := int_of v\<rparr>, \<lambda>v w. w\<lparr>wu_factor := str_of v\<rparr>,
      \<lambda>v w. w\<lparr>wu_factorType := str_of v\<rparr>, \<lambda>v w. w\<lparr>wu_cofactor := str_of v\<rparr>, \<lambda>v w. w\<lparr>wu_cofactorType := str_of v\<rparr>]"

definition plain_fields :: "(sval \<Rightarrow> unit_state \<Rightarrow> unit_state) list" where
  "plain_fields =
     [\<lambda>v w. w\<lparr>wu_name := str_of v\<rparr>, \<lambda>v w. w\<lparr>wu_value := str_of v\<rparr>, \<lambda>v w. w\<lparr>wu_method := str_of v\<rparr>,
      \<lambda>v w. w\<lparr>wu_b1 := dbl_of v\<rparr>, \<lambda>v w. w\<lparr>wu_max := int_of v\<rparr>, \<lambda>v w. w\<lparr>wu_curves := int_of v\<rparr>,
      \<lambda>v w. w\<lparr>wu_isNumber := (int_of v = 1)\<rparr>, \<lambda>v w. w\<lparr>wu_b1Time := dbl_of v\<rparr>, \<lambda>v w. w\<lparr>wu_b2Time := dbl_of v\<rparr>]"

definition unit_Load :: "string \<Rightarrow> unit_state \<Rightarrow> halt + unit_state" where
  "unit_Load inputLine w =
     and_then (sscanf inputLine FACTORED_SCAN
                 [200, VALUE_LENGTH, 20, VALUE_LENGTH, 20, VALUE_LENGTH, 20]) (\<lambda>vs.
     let w1 = assign factored_fields vs (w\<lparr>wu_factored := False\<rparr>)
     in if length vs = 18 then Inr (w1\<lparr>wu_factored := True\<rparr>)
        else and_then (sscanf inputLine PLAIN_SCAN [200, VALUE_LENGTH, 20]) (\<lambda>us.
             if length us \<noteq> 9 then Inl Exit else Inr (assign plain_fields us w1)))"

end
