(* ===== verification/ClientWork.thy ===== *)
theory ClientWork
  imports UnitExchange
begin

text \<open>
  The work of one server (\<open>src/source/Work.cpp\<close>): its list of units, the connection they come and go
  over, and the save file.
\<close>

section \<open>The state\<close>

text \<open>\<open>wk_files\<close> is the directory of the client: the text of each file there is.\<close>

record work_state =
  wk_suffix :: string
  wk_save :: string
  wk_percent :: double
  wk_exe :: string
  wk_gmp :: string
  wk_email :: string
  wk_user :: string
  wk_machine :: string
  wk_instance :: string
  wk_conn :: client
  wk_k :: int
  wk_maxmem :: int
  wk_units :: "unit_state list"
  wk_dead :: bool
  wk_files :: "string \<Rightarrow> string option"

definition on_conn :: "(client, 'a) run \<Rightarrow> (work_state, 'a) run" where
  "on_conn m = part wk_conn (\<lambda>x s. s\<lparr>wk_conn := x\<rparr>) m"

definition AddWorkUnit :: "unit_state \<Rightarrow> (work_state, unit) run" where
  "AddWorkUnit w = modify (\<lambda>s. s\<lparr>wk_units := wk_units s @ [w]\<rparr>)"

definition new_unit :: "unit_state \<Rightarrow> (work_state, unit_state) run" where
  "new_unit junk =
     bind (asks (\<lambda>s. s)) (\<lambda>s.
     lift (WorkUnit junk (wk_machine s) (wk_instance s) (wk_suffix s) (wk_exe s) (wk_k s) (wk_maxmem s)))"

definition work_CurvesDone :: "work_state \<Rightarrow> int" where
  "work_CurvesDone s = foldl (\<lambda>n w. wrap32 (n + wu_curves w)) 0 (wk_units s)"

definition work_CurvesToDo :: "work_state \<Rightarrow> int" where
  "work_CurvesToDo s = foldl (\<lambda>n w. wrap32 (n + GetCurvesToDo w)) 0 (wk_units s)"

definition work_WasFactorFound :: "work_state \<Rightarrow> bool" where
  "work_WasFactorFound s = list_ex wu_factored (wk_units s)"

definition work_CanDoAnotherCurve :: "work_state \<Rightarrow> bool" where
  "work_CanDoAnotherCurve s = list_ex (CanDoAnotherCurve False) (wk_units s)"

section \<open>The save file\<close>

definition save_header :: "client \<Rightarrow> string" where
  "save_header c =
     sprintf ''ServerName=%s'' [VS (cs_server c)] @ [LF] @ sprintf ''PortID=%d'' [VI (cs_port c)] @ [LF] @
     sprintf ''ServerVersion=%s'' [VS (cs_version c)] @ [LF]"

definition save_text :: "work_state \<Rightarrow> string" where
  "save_text s = save_header (wk_conn s) @ concat (map (\<lambda>w. unit_Save w @ [LF]) (wk_units s))"

definition work_Save :: "bool \<Rightarrow> (work_state, unit) run" where
  "work_Save writable =
     bind (asks wk_units) (\<lambda>us.
     if us = [] then ret ()
     else if \<not> writable then stop Exit
     else modify (\<lambda>s. s\<lparr>wk_files := (wk_files s)(wk_save s := Some (save_text s))\<rparr>))"

text \<open>The server named in the save file: unset until its lines are read.\<close>

type_synonym saved_server = "string option \<times> int"

definition load_line :: "unit_state \<Rightarrow> string \<Rightarrow> saved_server \<Rightarrow> (work_state, saved_server) run" where
  "load_line junk raw l =
     (let line = StripCRLF raw
      in if prefixed ''ServerName='' line then
           bind (lift (strcpy (drop 11 line) 200)) (\<lambda>v. ret (Some v, snd l))
         else if prefixed ''PortID='' line then ret (fst l, wrap32 (atol (drop 7 line)))
         else if prefixed ''ServerVersion='' line then
           bind (lift (strcpy (drop 14 line) 20)) (\<lambda>v.
           bind (on_conn (modify (\<lambda>c. c\<lparr>cs_version := v\<rparr>))) (\<lambda>_. ret l))
         else
           bind (new_unit junk) (\<lambda>w0.
           bind (lift (unit_Load line w0)) (\<lambda>w.
           bind (AddWorkUnit w) (\<lambda>_. ret l))))"

primrec load_lines :: "unit_state \<Rightarrow> string list \<Rightarrow> saved_server \<Rightarrow> (work_state, saved_server) run" where
  "load_lines junk [] l = ret l"
| "load_lines junk (x # xs) l = bind (load_line junk x l) (load_lines junk xs)"

text \<open>
  When the file names another server, \<open>Load\<close> means to return the work to that one; it holds it in a
  \<open>Socket *\<close>, whose \<open>Open\<close> is not virtual and answers false, so that nothing is sent and \<open>ib_DeadWork\<close>
  stays false.
\<close>

definition Socket_Open :: bool where "Socket_Open = False"

definition other_server :: "work_state \<Rightarrow> saved_server \<Rightarrow> halt + bool" where
  "other_server s l = (case fst l of
       None \<Rightarrow> Inl Undefined
     | Some serverName \<Rightarrow> Inr (cs_server (wk_conn s) \<noteq> serverName \<or> cs_port (wk_conn s) \<noteq> snd l))"

section \<open>Getting work\<close>

definition get_step :: "unit_state \<Rightarrow> unit \<Rightarrow> (work_state, unit + unit) run" where
  "get_step junk u =
     bind (new_unit junk) (\<lambda>w0.
     bind (on_conn (GetWorkUnitFromServer w0)) (\<lambda>(accepted, w).
     if \<not> accepted then ret (Inr ())
     else
     bind (AddWorkUnit w) (\<lambda>_.
     bind (asks (\<lambda>s. cs_version (wk_conn s))) (\<lambda>v.
     ret (if prefixed ''2'' v then Inr () else Inl ())))))"

definition greeting_step :: "unit \<Rightarrow> (work_state, unit + unit) run" where
  "greeting_step u =
     bind (on_conn Receive) (\<lambda>readBuf. ret (case readBuf of
         None \<Rightarrow> Inr ()
       | Some m \<Rightarrow> if prefixed ''End Greeting'' m then Inr () else Inl ()))"

definition work_lines :: "work_state \<Rightarrow> nat" where
  "work_lines s = pending_lines (wk_conn s)"

definition open_server :: "(work_state, bool) run" where
  "open_server =
     bind (asks (\<lambda>s. s)) (\<lambda>s.
     on_conn (client_Open (wk_email s) (wk_user s) (wk_machine s) (wk_instance s)))"

definition work_GetWork :: "unit_state \<Rightarrow> bool \<Rightarrow> (work_state, bool) run" where
  "work_GetWork junk writable =
     bind (asks wk_units) (\<lambda>us.
     if us \<noteq> [] then ret False
     else
     bind open_server (\<lambda>opened.
     if \<not> opened then ret False
     else
     bind (asks wk_gmp) (\<lambda>v.
     bind (on_conn (tell ''GETWORK %s %s'' [VS ECMNET_VERSION, VS v])) (\<lambda>_.
     bind (asks work_lines) (\<lambda>n.
     bind (iterate (Suc n) (get_step junk) ()) (\<lambda>_.
     bind (work_Save writable) (\<lambda>_.
     bind (asks work_lines) (\<lambda>n2.
     bind (iterate (Suc n2) greeting_step ()) (\<lambda>_.
     bind (on_conn Close) (\<lambda>_. ret True))))))))))"

section \<open>Returning work\<close>

text \<open>The units that are not accepted are kept, in their order.\<close>

primrec return_units :: "unit_state list \<Rightarrow> (work_state, unit) run" where
  "return_units [] = ret ()"
| "return_units (w # ws) =
     bind (on_conn (ReturnWorkUnit w)) (\<lambda>accepted.
     bind (if accepted then ret () else AddWorkUnit w) (\<lambda>_. return_units ws))"

definition answer_step :: "unit \<Rightarrow> (work_state, unit + unit) run" where
  "answer_step u =
     bind (on_conn Receive) (\<lambda>readBuf. ret (case readBuf of
         None \<Rightarrow> Inr ()
       | Some m \<Rightarrow> if m = ''End of Message'' then Inr () else Inl ()))"

definition work_ReturnWork :: "(work_state, bool) run" where
  "work_ReturnWork =
     bind (asks wk_units) (\<lambda>us.
     if us = [] then ret True
     else
     bind open_server (\<lambda>opened.
     if \<not> opened then ret False
     else
     bind (asks (\<lambda>s. version_3 (wk_conn s))) (\<lambda>new.
     bind (if new then on_conn (tell ''Start Return'' []) else ret ()) (\<lambda>_.
     bind (modify (\<lambda>s. s\<lparr>wk_units := []\<rparr>)) (\<lambda>_.
     bind (return_units us) (\<lambda>_.
     bind (if new then
             bind (on_conn (tell ''End of Return Work'' [])) (\<lambda>_.
             bind (asks work_lines) (\<lambda>n. iterate (Suc n) answer_step ()))
           else ret ()) (\<lambda>_.
     bind (on_conn Close) (\<lambda>_.
     bind (asks wk_units) (\<lambda>kept.
     if kept \<noteq> [] then ret False
     else bind (modify (\<lambda>s. s\<lparr>wk_files := (wk_files s)(wk_save s := None)\<rparr>)) (\<lambda>_. ret True))))))))))"

definition work_Load :: "unit_state \<Rightarrow> (work_state, unit) run" where
  "work_Load junk =
     bind (modify (\<lambda>s. s\<lparr>wk_dead := False\<rparr>)) (\<lambda>_.
     bind (asks (\<lambda>s. wk_files s (wk_save s))) (\<lambda>file. case file of
       None \<Rightarrow> ret ()
     | Some text \<Rightarrow>
         bind (load_lines junk (file_lines (BUFFER_SIZE - 2) text) (None, 0)) (\<lambda>l.
         bind (asks (\<lambda>s. other_server s l)) (\<lambda>o1.
         bind (lift o1) (\<lambda>other.
         if other \<and> Socket_Open then
           bind work_ReturnWork (\<lambda>ok. if \<not> ok then modify (\<lambda>s. s\<lparr>wk_dead := True\<rparr>) else ret ())
         else ret ())))))"

section \<open>Doing a curve\<close>

text \<open>
  The search for the unit to go on with: it forgets that a unit did the last curve, and stops at
  that unit, not at the next, when the next can do a curve. The index of the unit it ends with is the
  first one's when it runs off the list.
\<close>

fun choose_unit :: "unit_state list \<Rightarrow> nat \<Rightarrow> nat option \<times> unit_state list" where
  "choose_unit [] i = (None, [])"
| "choose_unit (w # ws) i =
     (if wu_didCurve w then
        let w1 = w\<lparr>wu_didCurve := False\<rparr>
        in if ws \<noteq> [] \<and> CanDoAnotherCurve False (hd ws) then (Some i, w1 # ws)
           else apsnd ((#) w1) (choose_unit ws (i + 1))
      else apsnd ((#) w) (choose_unit ws (i + 1)))"

text \<open>The work done by one curve, and whether the process signals itself to stop.\<close>

definition work_DoCurve ::
    "(string \<Rightarrow> string \<Rightarrow> string option) \<Rightarrow> bool \<Rightarrow> (work_state, double \<times> bool) run" where
  "work_DoCurve ecm writable =
     bind (asks wk_units) (\<lambda>us.
     let (found, us1) = choose_unit us 0; i = (case found of None \<Rightarrow> 0 | Some k \<Rightarrow> k)
     in bind (modify (\<lambda>s. s\<lparr>wk_units := us1\<rparr>)) (\<lambda>_.
        if us1 = [] then stop Undefined
        else if CanDoAnotherCurve False (us1 ! i) then
          bind (lift (DoCurve ecm writable False (us1 ! i))) (\<lambda>(workDone, interrupted, w).
          bind (modify (\<lambda>s. s\<lparr>wk_units := us1[i := w]\<rparr>)) (\<lambda>_.
          bind (work_Save writable) (\<lambda>_. ret (workDone, interrupted))))
        else ret (0, False)))"

section \<open>Creation and destruction\<close>

text \<open>The colons of the configuration, of which there must be exactly three, become blanks.\<close>

definition server_words :: "string \<Rightarrow> halt + (string \<times> string \<times> string \<times> int option)" where
  "server_words serverConfiguration =
     (if length (filter (\<lambda>c. c = CHR '':'') serverConfiguration) \<noteq> 3 then Inl Exit
      else and_then (sscanf (replace_char (CHR '':'') (CHR '' '') serverConfiguration) ''%s %s %s %d'' [50, 50, 50])
        (\<lambda>vs. case vs of
            [VS first, VS second, VS serverName, VI port] \<Rightarrow> Inr (first, second, serverName, Some port)
          | [VS first, VS second, VS serverName] \<Rightarrow> Inr (first, second, serverName, None)
          | _ \<Rightarrow> Inl Undefined))"

definition suffix_and_percent :: "string \<Rightarrow> string \<Rightarrow> string \<times> double option" where
  "suffix_and_percent first second =
     (let (suffix, percent) = (if is_digit (hd first) \<and> \<not> is_digit (hd second) then (second, first) else (first, second))
      in (suffix, case scan (fmt ''%lf'') percent of [VD x] \<Rightarrow> Some x | _ \<Rightarrow> None))"

text \<open>
  The version of GMP-ECM, from the first line of a run of it that begins with the name: 20
  characters at most, up to a blank. Without a blank or an end in these, the search runs out of the
  array.
\<close>

definition gmp_version :: "string list \<Rightarrow> halt + string" where
  "gmp_version ls = (case find (prefixed ''GMP-ECM'') ls of
       None \<Rightarrow> Inr []
     | Some line \<Rightarrow>
         let v = drop 8 line
         in case split_at (CHR '' '') (take 20 v) of
              Some (a, _) \<Rightarrow> Inr a
            | None \<Rightarrow> if length v < 20 then Inr v else Inl Undefined)"

definition GetGMPEXEVersion :: "(string \<Rightarrow> string \<Rightarrow> string option) \<Rightarrow> bool \<Rightarrow> (work_state, unit) run" where
  "GetGMPEXEVersion ecm writable =
     bind (asks (\<lambda>s. s)) (\<lambda>s.
     if wk_exe s = [] then modify (\<lambda>s. s\<lparr>wk_gmp := ''none''\<rparr>)
     else
     bind (lift (strcpy (''temp_'' @ wk_machine s @ ''_'' @ wk_instance s @ ''.in'') 50)) (\<lambda>inFile.
     bind (lift (strcpy (''temp_'' @ wk_machine s @ ''_'' @ wk_instance s @ ''.out'') 50)) (\<lambda>outFile.
     if \<not> writable then stop Exit
     else
     bind (lift (strcpy (sprintf ''%s 100 < %s >> %s'' [VS (wk_exe s), VS inFile, VS outFile]) 241)) (\<lambda>line.
     bind (lift (case ecm line [] of
             None \<Rightarrow> Inr []
           | Some out \<Rightarrow> gmp_version (file_lines 238 out))) (\<lambda>v.
     modify (\<lambda>s. s\<lparr>wk_gmp := v\<rparr>))))))"

text \<open>
  The constructor. The members it does not set, and the percentage and the port when the configuration
  has no number there, are what \<open>junk\<close> has.
\<close>

definition Work ::
    "work_state \<Rightarrow> unit_state \<Rightarrow> (string \<Rightarrow> string \<Rightarrow> string option) \<Rightarrow> bool \<Rightarrow> string \<Rightarrow> string \<Rightarrow> string \<Rightarrow> string
      \<Rightarrow> string \<Rightarrow> string \<Rightarrow> int \<Rightarrow> int \<Rightarrow> halt + work_state" where
  "Work junk junk_unit ecm writable emailID userID machineID instanceID gmpExe serverConfiguration kValue maxmemValue =
     (if \<not> fits [emailID, userID, machineID, instanceID, gmpExe] [200, 200, 200, 200, 50] then Inl Undefined
      else and_then (server_words serverConfiguration) (\<lambda>(first, second, serverName, port).
        let (suffix, percent) = suffix_and_percent first second;
            save = ''work_'' @ machineID @ ''_'' @ instanceID @ ''_'' @ suffix @ ''.save'';
            s0 = junk\<lparr>wk_email := emailID, wk_user := userID, wk_machine := machineID, wk_instance := instanceID,
                   wk_exe := gmpExe, wk_k := kValue, wk_maxmem := maxmemValue, wk_units := [], wk_suffix := suffix,
                   wk_percent := (case percent of None \<Rightarrow> wk_percent junk | Some x \<Rightarrow> x),
                   wk_conn := (wk_conn junk)\<lparr>so_open := False, so_newline := True, cs_server := serverName,
                                 cs_port := (case port of None \<Rightarrow> cs_port (wk_conn junk) | Some p \<Rightarrow> p)\<rparr>\<rparr>
        in and_then (strcpy save 200) (\<lambda>name.
           and_then (bind (work_Load junk_unit) (\<lambda>_. GetGMPEXEVersion ecm writable) (s0\<lparr>wk_save := name\<rparr>))
             (\<lambda>(u, s). Inr s))))"

definition Work_delete :: "bool \<Rightarrow> (work_state, unit) run" where
  "Work_delete writable = bind (work_Save writable) (\<lambda>_. on_conn Close)"

end
