(* ===== verification/ClientMain.thy ===== *)
theory ClientMain
  imports ClientWork
begin

text \<open>
  The client program (\<open>src/source/ecmclient.cpp\<close>): its configuration, the choice of the server to work for,
  the loop over curves, and the rounds of its main loop.

  The runs of GMP-ECM and the clock are numbered by the curves done so far (\<open>cm_calls\<close>): \<open>cm_gmp\<close> is what a
  run leaves in its output file, \<open>cm_clock\<close> the seconds since \<open>DoWork\<close> began. \<open>cm_keys\<close> is what is typed. Of
  the signals only the one the program sends itself is modelled. Every work has a save file of its own.
\<close>

section \<open>The globals\<close>

record client_main =
  cm_works :: "work_state list"
  cm_workTotals :: "double list"
  cm_count :: int
  cm_email :: string
  cm_user :: string
  cm_machine :: string
  cm_instance :: string
  cm_exe :: string
  cm_quitting :: bool
  cm_terminating :: bool
  cm_frequency :: int
  cm_errorTimeout :: int
  cm_curves :: int
  cm_factors :: int
  cm_total :: double
  cm_kvalue :: int
  cm_maxmem :: int
  cm_start :: int
  cm_stop :: int
  cm_asap :: int
  cm_ini :: "string option"
  cm_keys :: string
  cm_calls :: nat
  cm_gmp :: "nat \<Rightarrow> string \<Rightarrow> string \<Rightarrow> string option"
  cm_clock :: "nat \<Rightarrow> double"

definition SO_PROMPT :: int where "SO_PROMPT = 0"
definition SO_REPORT_WORK :: int where "SO_REPORT_WORK = 1"
definition SO_REPORT_QUIT :: int where "SO_REPORT_QUIT = 2"
definition SO_CONTINUE :: int where "SO_CONTINUE = 9"

text \<open>The start of \<open>main\<close>.\<close>

definition client_defaults :: "client_main \<Rightarrow> client_main" where
  "client_defaults s = s\<lparr>cm_works := [], cm_workTotals := [], cm_email := [], cm_user := [], cm_machine := [],
     cm_instance := [], cm_exe := [], cm_count := 0, cm_quitting := False, cm_terminating := False, cm_frequency := 720,
     cm_errorTimeout := 20, cm_curves := 0, cm_factors := 0, cm_total := 0, cm_kvalue := 0, cm_maxmem := 0,
     cm_start := SO_PROMPT, cm_stop := SO_PROMPT, cm_asap := SO_PROMPT\<rparr>"

section \<open>Configuration\<close>

definition cm_string :: "string \<Rightarrow> nat \<Rightarrow> (string \<Rightarrow> client_main \<Rightarrow> client_main) \<Rightarrow> client_main \<Rightarrow> halt + client_main" where
  "cm_string text n put s = and_then (strcpy text n) (\<lambda>v. Inr (put v s))"

definition client_ini_line :: "string \<Rightarrow> client_main \<Rightarrow> halt + client_main" where
  "client_ini_line raw s =
     (let line = StripCRLF raw; num = (\<lambda>n. wrap32 (atol (drop n line)))
      in if prefixed ''userid='' line then cm_string (drop 7 line) 100 (\<lambda>v s. s\<lparr>cm_user := v\<rparr>) s
         else if prefixed ''email='' line then cm_string (drop 6 line) 100 (\<lambda>v s. s\<lparr>cm_email := v\<rparr>) s
         else if prefixed ''machineid='' line then cm_string (drop 10 line) 100 (\<lambda>v s. s\<lparr>cm_machine := v\<rparr>) s
         else if prefixed ''instanceid='' line then cm_string (drop 11 line) 100 (\<lambda>v s. s\<lparr>cm_instance := v\<rparr>) s
         else if prefixed ''server='' line then Inr (s\<lparr>cm_count := cm_count s + 1\<rparr>)
         else if prefixed ''gmpecmexe='' line then cm_string (drop 10 line) 100 (\<lambda>v s. s\<lparr>cm_exe := v\<rparr>) s
         else if prefixed ''gmpecmkvalue='' line then Inr (s\<lparr>cm_kvalue := num 13\<rparr>)
         else if prefixed ''gmpecmmaxmemvalue='' line then Inr (s\<lparr>cm_maxmem := num 18\<rparr>)
         else if prefixed ''frequency='' line then Inr (s\<lparr>cm_frequency := num 10\<rparr>)
         else if prefixed ''errtimeout='' line then Inr (s\<lparr>cm_errorTimeout := num 11\<rparr>)
         else if prefixed ''startoption='' line then Inr (s\<lparr>cm_start := num 12\<rparr>)
         else if prefixed ''stopoption='' line then Inr (s\<lparr>cm_stop := num 11\<rparr>)
         else if prefixed ''stopasapoption='' line then Inr (s\<lparr>cm_asap := num 15\<rparr>)
         else Inr s)"

primrec client_ini_lines :: "string list \<Rightarrow> client_main \<Rightarrow> halt + client_main" where
  "client_ini_lines [] s = Inr s"
| "client_ini_lines (l # ls) s = and_then (client_ini_line l s) (client_ini_lines ls)"

definition client_ProcessINIFile :: "client_main \<Rightarrow> halt + client_main" where
  "client_ProcessINIFile s = (case cm_ini s of
       None \<Rightarrow> Inr s
     | Some text \<Rightarrow> client_ini_lines (file_lines 1998 text) s)"

text \<open>
  Rereading the file while working: the values read are overwritten at the end with the initial ones of
  two local variables that nothing else assigns, so that the checks on these always pass.
\<close>

definition valid_stop :: "int \<Rightarrow> bool" where
  "valid_stop n \<longleftrightarrow> n = SO_PROMPT \<or> n = SO_REPORT_QUIT \<or> n = SO_CONTINUE"

fun reread_lines :: "string list \<Rightarrow> client_main \<Rightarrow> client_main" where
  "reread_lines [] s = s"
| "reread_lines (raw # ls) s =
     (let line = StripCRLF raw
      in reread_lines ls
           (if prefixed ''debuglevel='' line then s
            else if prefixed ''stopoption='' line then s\<lparr>cm_stop := wrap32 (atol (drop 11 line))\<rparr>
            else if prefixed ''stopasapoption='' line then s\<lparr>cm_asap := wrap32 (atol (drop 15 line))\<rparr>
            else s))"

definition client_ReprocessINIFile :: "client_main \<Rightarrow> client_main" where
  "client_ReprocessINIFile s = (case cm_ini s of
       None \<Rightarrow> s
     | Some text \<Rightarrow>
         let s1 = reread_lines (file_lines 1998 text) s; stopOption = SO_PROMPT; stopASAPOption = SO_PROMPT;
             s2 = (if valid_stop stopOption then s1\<lparr>cm_stop := stopOption\<rparr> else s1)
         in if valid_stop stopASAPOption then s2\<lparr>cm_asap := stopASAPOption\<rparr> else s2)"

text \<open>
  The arguments after the program's name. The test for \<open>-e\<close> is not part of the chain that follows it:
  after it, the address itself is looked at as an option.
\<close>

fun ProcessCommandLine :: "string list \<Rightarrow> client_main \<Rightarrow> halt + client_main" where
  "ProcessCommandLine [] s = Inr s"
| "ProcessCommandLine (a # as) s =
     (if a = ''-e'' then (case as of
          [] \<Rightarrow> Inl Undefined
        | e # as1 \<Rightarrow> and_then (cm_string e 100 (\<lambda>v s. s\<lparr>cm_email := v\<rparr>) s) (\<lambda>s1.
            if e = ''-debug'' then ProcessCommandLine as1 s1
            else if e \<in> {''-debuglevel'', ''-loglimit''} then (case as1 of
                [] \<Rightarrow> Inl Undefined | n # as2 \<Rightarrow> ProcessCommandLine as2 s1)
            else if e = ''-errtimeout'' then (case as1 of
                [] \<Rightarrow> Inl Undefined
              | n # as2 \<Rightarrow> ProcessCommandLine as2 (s1\<lparr>cm_errorTimeout := wrap32 (atol n)\<rparr>))
            else if e = ''-id'' then (case as1 of
                [] \<Rightarrow> Inl Undefined
              | n # as2 \<Rightarrow> and_then (cm_string n 100 (\<lambda>v s. s\<lparr>cm_machine := v, cm_instance := v\<rparr>) s1)
                              (ProcessCommandLine as2))
            else Inl Exit))
      else if a = ''-debug'' then ProcessCommandLine as s
      else if a \<in> {''-debuglevel'', ''-loglimit''} then (case as of
          [] \<Rightarrow> Inl Undefined | n # as1 \<Rightarrow> ProcessCommandLine as1 s)
      else if a = ''-errtimeout'' then (case as of
          [] \<Rightarrow> Inl Undefined
        | n # as1 \<Rightarrow> ProcessCommandLine as1 (s\<lparr>cm_errorTimeout := wrap32 (atol n)\<rparr>))
      else if a = ''-id'' then (case as of
          [] \<Rightarrow> Inl Undefined
        | n # as1 \<Rightarrow> and_then (cm_string n 100 (\<lambda>v s. s\<lparr>cm_machine := v, cm_instance := v\<rparr>) s)
                        (ProcessCommandLine as1))
      else Inl Exit)"

text \<open>\<open>exists\<close> tells whether there is a file of a name.\<close>

definition client_ValidateConfiguration :: "(string \<Rightarrow> bool) \<Rightarrow> client_main \<Rightarrow> halt + client_main" where
  "client_ValidateConfiguration exists s =
     (if cm_email s = [] then Inl Exit
      else if CHR ''@'' \<notin> set (cm_email s) \<or> CHR '':'' \<in> set (cm_email s) \<or> CHR '' '' \<in> set (cm_email s) then Inl Exit
      else let s1 = (if cm_user s = [] then s\<lparr>cm_user := cm_email s\<rparr> else s)
      in if cm_machine s1 = [] then Inl Exit
      else if cm_instance s1 = [] then Inl Exit
      else let s2 = (if cm_exe s1 \<noteq> [] \<and> \<not> exists (cm_exe s1) then s1\<lparr>cm_exe := []\<rparr> else s1)
      in if cm_exe s2 = [] then Inl Exit
      else let s3 = (if cm_start s2 \<noteq> SO_PROMPT \<and> cm_start s2 \<noteq> SO_CONTINUE \<and> cm_start s2 \<noteq> SO_REPORT_WORK
                        \<and> cm_start s2 \<noteq> SO_REPORT_QUIT then s2\<lparr>cm_start := SO_PROMPT\<rparr> else s2);
               s4 = (if cm_start s3 \<noteq> SO_PROMPT \<and> cm_start s3 \<noteq> SO_CONTINUE \<and> cm_start s3 \<noteq> SO_REPORT_QUIT
                     then s3\<lparr>cm_stop := SO_PROMPT\<rparr> else s3)
      in if cm_asap s4 \<noteq> SO_PROMPT then Inl Exit else Inr s4)"

section \<open>The works\<close>

text \<open>
  \<open>AllocateWorkClasses\<close>, for the lines \<open>server=\<close> of the file; what memory holds for the new objects is
  \<open>junk\<close>. The percentages must add up to 100.
\<close>

primrec allocate_lines ::
    "work_state \<Rightarrow> unit_state \<Rightarrow> string list \<Rightarrow> client_main \<Rightarrow> halt + client_main" where
  "allocate_lines junk junk_unit [] s = Inr s"
| "allocate_lines junk junk_unit (raw # ls) s =
     (let line = StripCRLF raw
      in if prefixed ''server='' line then
           and_then (Work junk junk_unit (cm_gmp s (cm_calls s)) True (cm_email s) (cm_user s) (cm_machine s)
                       (cm_instance s) (cm_exe s) (drop 7 line) (cm_kvalue s) (cm_maxmem s)) (\<lambda>w.
           allocate_lines junk junk_unit ls
             (s\<lparr>cm_works := cm_works s @ [w], cm_workTotals := cm_workTotals s @ [0], cm_calls := cm_calls s + 1\<rparr>))
         else allocate_lines junk junk_unit ls s)"

definition AllocateWorkClasses :: "work_state \<Rightarrow> unit_state \<Rightarrow> client_main \<Rightarrow> halt + client_main" where
  "AllocateWorkClasses junk junk_unit s = (case cm_ini s of
       None \<Rightarrow> Inr s
     | Some text \<Rightarrow> and_then (allocate_lines junk junk_unit (file_lines 1998 text) s) (\<lambda>s1.
         if sum_list (map wk_percent (cm_works s1)) \<noteq> 100 then Inl Exit else Inr s1))"

definition on_work :: "nat \<Rightarrow> (work_state, 'a) run \<Rightarrow> (client_main, 'a) run" where
  "on_work i m = part (\<lambda>s. cm_works s ! i) (\<lambda>x s. s\<lparr>cm_works := (cm_works s)[i := x]\<rparr>) m"

definition the_work :: "nat \<Rightarrow> (work_state \<Rightarrow> 'a) \<Rightarrow> (client_main, 'a) run" where
  "the_work i f = asks (\<lambda>s. f (cm_works s ! i))"

section \<open>Which server to work for\<close>

text \<open>The index of the first work a test accepts, the tests being made in order: they may connect to servers.\<close>

primrec first_work :: "(nat \<Rightarrow> (client_main, bool option) run) \<Rightarrow> nat list \<Rightarrow> (client_main, nat option) run" where
  "first_work test [] = ret None"
| "first_work test (i # is) =
     bind (test i) (\<lambda>r. case r of
         None \<Rightarrow> ret None
       | Some ok \<Rightarrow> if ok then ret (Some i) else first_work test is)"

definition work_ids :: "(client_main, nat list) run" where
  "work_ids = asks (\<lambda>s. [0 ..< length (cm_works s)])"

definition below_share :: "client_main \<Rightarrow> nat \<Rightarrow> double \<Rightarrow> bool" where
  "below_share s i overWorkLevel \<longleftrightarrow>
     cm_total s = 0 \<or> cm_workTotals s ! i * 100 / cm_total s < wk_percent (cm_works s ! i) * overWorkLevel"

definition FindNextServerForWork :: "unit_state \<Rightarrow> double \<Rightarrow> (client_main, nat option) run" where
  "FindNextServerForWork junk overWorkLevel =
     bind work_ids (first_work (\<lambda>i.
       bind (asks (\<lambda>s. s)) (\<lambda>s.
       if work_CurvesToDo (cm_works s ! i) \<noteq> 0 then ret (Some True)
       else if wk_percent (cm_works s ! i) > 0 \<and> \<not> cm_quitting s \<and> below_share s i overWorkLevel
       then bind (on_work i (work_GetWork junk True)) (\<lambda>ok. ret (Some ok))
       else ret (Some False))))"

definition available_pass :: "unit_state \<Rightarrow> (double \<Rightarrow> bool) \<Rightarrow> (client_main, nat option) run" where
  "available_pass junk wanted =
     bind work_ids (first_work (\<lambda>i.
       bind (asks (\<lambda>s. s)) (\<lambda>s.
       if cm_quitting s then ret None
       else if \<not> work_CanDoAnotherCurve (cm_works s ! i) \<and> wanted (wk_percent (cm_works s ! i))
       then bind (on_work i (work_GetWork junk True)) (\<lambda>ok. ret (Some ok))
       else ret (Some False))))"

definition FindAnyAvailableServerForWork :: "unit_state \<Rightarrow> (client_main, nat option) run" where
  "FindAnyAvailableServerForWork junk =
     bind (available_pass junk (\<lambda>p. p > 0)) (\<lambda>r. case r of
         Some i \<Rightarrow> ret (Some i)
       | None \<Rightarrow> available_pass junk (\<lambda>p. p = 0))"

definition FindAnyIncompleteWork :: "(client_main, nat option) run" where
  "FindAnyIncompleteWork =
     bind work_ids (first_work (\<lambda>i. bind (the_work i work_CanDoAnotherCurve) (\<lambda>ok. ret (Some ok))))"

section \<open>Stopping\<close>

text \<open>
  \<open>SetQuitting\<close>, the handler of the signal the program raises when a curve was not completed (\<open>sigint\<close>), also
  called by \<open>DoWork\<close>. At the end of the input the prompt goes on forever.
\<close>

fun prompt :: "(int \<Rightarrow> bool) \<Rightarrow> string \<Rightarrow> halt + int \<times> string" where
  "prompt accept [] = Inl Hang"
| "prompt accept (c # cs) =
     (if is_digit c \<and> accept (int (digit_val c)) then Inr (int (digit_val c), cs) else prompt accept cs)"

definition SetQuitting :: "bool \<Rightarrow> (client_main, unit) run" where
  "SetQuitting sigint =
     bind (modify (\<lambda>s. s\<lparr>cm_terminating := True\<rparr>)) (\<lambda>_.
     bind (asks (\<lambda>s. cm_quitting s \<and> cm_stop s \<noteq> SO_PROMPT)) (\<lambda>twice.
     if twice then stop Exit
     else
     bind (modify client_ReprocessINIFile) (\<lambda>_.
     bind (asks (\<lambda>s. foldl (\<lambda>n w. wrap32 (n + wrap32 (work_CurvesDone w + work_CurvesToDo w))) 0 (cm_works s))) (\<lambda>workToDo.
     bind (asks (\<lambda>s. s)) (\<lambda>s.
     bind (if sigint \<and> cm_stop s = SO_PROMPT \<and> workToDo \<noteq> 0 then
             bind (lift (prompt (\<lambda>n. n = SO_REPORT_QUIT \<or> n = SO_CONTINUE) (cm_keys s))) (\<lambda>(n, ks).
             modify (\<lambda>s. s\<lparr>cm_stop := n, cm_keys := ks\<rparr>))
           else ret ()) (\<lambda>_.
     modify (\<lambda>s. s\<lparr>cm_asap := SO_PROMPT, cm_quitting := True\<rparr>)))))))"

section \<open>Doing the work\<close>

definition count_curve :: "nat \<Rightarrow> double \<Rightarrow> client_main \<Rightarrow> client_main" where
  "count_curve i workDone s = s\<lparr>cm_workTotals := (cm_workTotals s)[i := cm_workTotals s ! i + workDone],
     cm_total := cm_total s + workDone, cm_curves := wrap32 (cm_curves s + 1)\<rparr>"

text \<open>
  One round of the loop of \<open>DoWork\<close>; the local variables are the last work done and the factor flag.
  \<open>after_curve\<close> is what follows the curve.
\<close>

definition after_curve ::
    "nat \<Rightarrow> bool \<Rightarrow> bool \<Rightarrow> double \<Rightarrow> (client_main, (double \<times> bool) + (double \<times> bool)) run" where
  "after_curve i doOneCurve found0 workDone =
     bind (asks cm_terminating) (\<lambda>terminating.
     if workDone = 0 \<or> terminating then ret (Inr (workDone, found0))
     else
     bind (modify client_ReprocessINIFile) (\<lambda>_.
     bind (modify (count_curve i workDone)) (\<lambda>_.
     bind (the_work i work_WasFactorFound) (\<lambda>found.
     if found then ret (Inr (workDone, True))
     else
     bind (the_work i work_CurvesToDo) (\<lambda>left.
     bind (asks (\<lambda>s. cm_clock s (cm_calls s) > of_int (cm_frequency s) * 60)) (\<lambda>late.
     ret (if left \<le> 0 \<or> doOneCurve \<or> late then Inr (workDone, False) else Inl (workDone, False))))))))"

definition work_step :: "nat \<Rightarrow> bool \<Rightarrow> double \<times> bool \<Rightarrow> (client_main, (double \<times> bool) + (double \<times> bool)) run" where
  "work_step i doOneCurve l =
     bind (asks (\<lambda>s. s)) (\<lambda>s.
     if cm_quitting s then ret (Inr l)
     else if cm_terminating s \<or> \<not> work_CanDoAnotherCurve (cm_works s ! i) then ret (Inr l)
     else
     bind (modify (\<lambda>s. s\<lparr>cm_calls := cm_calls s + 1\<rparr>)) (\<lambda>_.
     bind (on_work i (work_DoCurve (cm_gmp s (cm_calls s)) True)) (\<lambda>(workDone, interrupted).
     bind (if interrupted then SetQuitting True else ret ()) (\<lambda>_.
     after_curve i doOneCurve (snd l) workDone))))"

text \<open>The curves a work can still do bound the rounds.\<close>

definition curves_to_go :: "work_state \<Rightarrow> nat" where
  "curves_to_go w = sum_list (map (\<lambda>u. nat (wu_max u - wu_curves u)) (wk_units w))"

definition DoWork :: "nat \<Rightarrow> bool \<Rightarrow> (client_main, bool) run" where
  "DoWork i doOneCurve =
     bind (asks (\<lambda>s. curves_to_go (cm_works s ! i))) (\<lambda>n.
     bind (iterate (Suc n) (work_step i doOneCurve) (0, False)) (\<lambda>(workDone, found).
     bind (asks (\<lambda>s. cm_terminating s \<and> \<not> cm_quitting s)) (\<lambda>stopping.
     bind (if stopping then SetQuitting False else ret ()) (\<lambda>_.
     bind (modify (\<lambda>s. s\<lparr>cm_factors := wrap32 (cm_factors s + (if found then 1 else 0))\<rparr>)) (\<lambda>_.
     ret (workDone > 0))))))"

section \<open>The main loop\<close>

primrec for_works :: "(nat \<Rightarrow> (client_main, unit) run) \<Rightarrow> nat list \<Rightarrow> (client_main, unit) run" where
  "for_works f [] = ret ()"
| "for_works f (i # is) = bind (f i) (\<lambda>_. for_works f is)"

definition return_one :: "nat \<Rightarrow> (client_main, unit) run" where
  "return_one i = bind (on_work i work_ReturnWork) (\<lambda>_. ret ())"

definition choose_server :: "unit_state \<Rightarrow> (client_main, nat option) run" where
  "choose_server junk =
     foldr (\<lambda>attempt rest. bind attempt (\<lambda>r. case r of None \<Rightarrow> rest | Some i \<Rightarrow> ret (Some i)))
       (map (FindNextServerForWork junk) [1, 2, 5, 10, 25] @ [FindAnyAvailableServerForWork junk]) (ret None)"

text \<open>
  One round: \<open>Inr\<close> leaves the loop. \<open>didWork\<close> is not initialised, and is read even if no work was done in the
  first round.
\<close>

definition main_round :: "unit_state \<Rightarrow> bool option \<Rightarrow> (client_main, bool option + unit) run" where
  "main_round junk didWork0 =
     bind (asks cm_quitting) (\<lambda>quitting.
     if quitting then ret (Inr ())
     else
     bind (choose_server junk) (\<lambda>r.
     bind (case r of
             Some i \<Rightarrow> bind (DoWork i False) (\<lambda>d. ret (Some d))
           | None \<Rightarrow> bind FindAnyIncompleteWork (\<lambda>r2. case r2 of
               None \<Rightarrow> ret didWork0
             | Some i \<Rightarrow> bind (DoWork i True) (\<lambda>d. ret (Some d)))) (\<lambda>didWork.
     case didWork of
       None \<Rightarrow> stop Undefined
     | Some d \<Rightarrow>
         bind (asks (\<lambda>s. cm_quitting s \<or> cm_asap s \<noteq> SO_PROMPT)) (\<lambda>leave.
         if \<not> d \<or> leave then ret (Inr ())
         else
         bind work_ids (\<lambda>is.
         bind (for_works (\<lambda>i. bind (the_work i wk_dead) (\<lambda>dead. if dead then ret () else return_one i)) is) (\<lambda>_.
         ret (Inl (Some d))))))))"

text \<open>After the loop.\<close>

definition shutdown :: "(client_main, unit) run" where
  "shutdown =
     bind (asks (\<lambda>s. cm_asap s = SO_REPORT_QUIT \<or> cm_asap s = SO_PROMPT \<and> cm_stop s = SO_REPORT_QUIT)) (\<lambda>report.
     bind work_ids (\<lambda>is.
     bind (if report then for_works return_one is else ret ()) (\<lambda>_.
     for_works (\<lambda>i. on_work i (Work_delete True)) is)))"

text \<open>Work left from an earlier run. The first argument tells whether any server's answer was to shut down.\<close>

definition PromptForStartOption :: "(client_main, int) run" where
  "PromptForStartOption =
     bind (asks cm_keys) (\<lambda>keys.
     bind (lift (prompt (\<lambda>n. n = SO_CONTINUE \<or> n = SO_REPORT_WORK \<or> n = SO_REPORT_QUIT) keys)) (\<lambda>(n, ks).
     bind (modify (\<lambda>s. s\<lparr>cm_keys := ks\<rparr>)) (\<lambda>_. ret n)))"

primrec check_works :: "nat list \<Rightarrow> int \<Rightarrow> bool \<Rightarrow> (client_main, bool) run" where
  "check_works [] startOption shutDown = ret shutDown"
| "check_works (i # is) startOption shutDown =
     bind (the_work i work_CanDoAnotherCurve) (\<lambda>more.
     bind (if \<not> more then return_one i else ret ()) (\<lambda>_.
     bind (the_work i work_CurvesDone) (\<lambda>n.
     if n = 0 then check_works is startOption shutDown
     else
     bind (asks cm_start) (\<lambda>start.
     bind (if start = SO_PROMPT then PromptForStartOption else ret startOption) (\<lambda>option.
     if option = SO_REPORT_WORK then bind (return_one i) (\<lambda>_. check_works is option shutDown)
     else if option = SO_REPORT_QUIT then bind (return_one i) (\<lambda>_. check_works is option True)
     else check_works is option shutDown)))))"

definition CheckForIncompleteWork :: "(client_main, unit) run" where
  "CheckForIncompleteWork =
     bind work_ids (\<lambda>is.
     bind (asks cm_start) (\<lambda>start.
     bind (check_works is start False) (\<lambda>shutDown. if shutDown then stop Exit else ret ())))"

text \<open>The whole program, for a bounded number of rounds.\<close>

definition client_run :: "work_state \<Rightarrow> unit_state \<Rightarrow> (string \<Rightarrow> bool) \<Rightarrow> string list \<Rightarrow> nat \<Rightarrow> client_main \<Rightarrow> halt + client_main" where
  "client_run junk junk_unit exists args rounds s0 =
     and_then (client_ProcessINIFile (client_defaults s0)) (\<lambda>s1.
     and_then (ProcessCommandLine args s1) (\<lambda>s2.
     and_then (client_ValidateConfiguration exists s2) (\<lambda>s3.
     and_then (AllocateWorkClasses junk junk_unit s3) (\<lambda>s4.
     let s5 = s4\<lparr>cm_frequency := max 1 (cm_frequency s4), cm_errorTimeout := max 1 (cm_errorTimeout s4)\<rparr>
     in and_then
          (bind CheckForIncompleteWork (\<lambda>_.
           bind (modify (\<lambda>s. s\<lparr>cm_quitting := False\<rparr>)) (\<lambda>_.
           bind (iterate rounds (main_round junk_unit) None) (\<lambda>_. shutdown))) s5)
          (\<lambda>(u, s). Inr s)))))"

end
