(* ===== verification/Protocol.thy ===== *)
theory Protocol
  imports ClientWork WorkSender WorkReceiver Demo
begin

text \<open>
  The messages of the 3.x protocol between client and server, from one program to the other: what the
  one prints, the other scans back. The client's save file is a message of the client to itself.
\<close>

section \<open>Formats\<close>

named_theorems format_simps \<open>evaluation of the formats and of the texts printed with them\<close>

lemma fmt_cases [format_simps]:
  "fmt (CHR '' '' # cs) = Ws # fmt cs"
  "fmt (CHR ''%'' # CHR ''s'' # cs) = PS # fmt cs"
  "fmt (CHR ''%'' # CHR ''d'' # cs) = PD # fmt cs"
  "fmt (CHR ''%'' # CHR ''u'' # cs) = PD # fmt cs"
  "fmt (CHR ''%'' # CHR ''l'' # CHR ''d'' # cs) = PD # fmt cs"
  "fmt (CHR ''%'' # CHR ''l'' # CHR ''f'' # cs) = PF # fmt cs"
  "fmt (CHR ''%'' # CHR ''.'' # CHR ''0'' # CHR ''l'' # CHR ''f'' # cs) = PF0 # fmt cs"
  "c \<noteq> CHR '' '' \<Longrightarrow> c \<noteq> CHR ''%'' \<Longrightarrow> fmt (c # cs) = Lit c # fmt cs"
  "fmt [] = []"
  by (simp_all add: prefixed_def)

lemma message_starts [format_simps]:
  "prefixed (p # ps) (c # s) \<longleftrightarrow> p = c \<and> prefixed ps s" "prefixed [] s"
  "starts (Suc n) (p # ps) (c # s) \<longleftrightarrow> p = c \<and> starts n ps s" "starts 0 q s"
  by (auto simp: prefixed_def starts_def)

lemmas message_simps = format_simps sprintf_def is_space_def code_def

text \<open>What the members of a unit must be to survive the way through a message.\<close>

definition assignment_ok :: "nat \<Rightarrow> string \<Rightarrow> string \<Rightarrow> string \<Rightarrow> double \<Rightarrow> bool" where
  "assignment_ok n name val method b \<longleftrightarrow>
     ok_word name \<and> ok_word val \<and> ok_word method \<and> ok_f0 b
     \<and> length name < n \<and> length val < VALUE_LENGTH \<and> length method < METHOD_LENGTH"

lemma offer_scanned:
  assumes "assignment_ok 200 n v f b"
  shows "unit_from_line (sprintf ''Factoring Work for %s %s %d %s %.0lf %d %d''
     [VS n, VS v, VI len, VS f, VD b, VI k, VI (int (length v))]) w =
    Inr (True, w\<lparr>wu_name := n, wu_value := v, wu_length := len, wu_method := f, wu_b1 := b, wu_max := k\<rparr>)"
proof -
  let ?f = "''Factoring Work for %s %s %d %s %.0lf %d %d''"
  let ?vs = "[VS n, VS v, VI len, VS f, VD b, VI k, VI (int (length v))]"
  have "sscanf (sprintf ?f ?vs) FACTORING_WORK [200, VALUE_LENGTH, 20] = Inr ?vs"
    by (rule sscanf_sprintf)
      (use assms in \<open>simp_all add: FACTORING_WORK_def message_simps assignment_ok_def fits_def METHOD_LENGTH_def\<close>)
  moreover have "int (length v) mod 4294967296 = int (length v)"
    using assms by (simp add: assignment_ok_def VALUE_LENGTH_def)
  ultimately show ?thesis
    by (simp add: unit_from_line_def unit_fields_def)
qed

lemma GetWorkUnit_line:
  assumes "so_open c" "version_3 c" "incoming c = Line m # rest" "prefixed ''Factoring'' m"
    "unit_from_line m (w\<lparr>wu_curves := 0, wu_max := 0, wu_b1 := 0, wu_length := 0\<rparr>) = Inr r"
  shows "GetWorkUnitFromServer w c = Inr (r, c\<lparr>incoming := rest, read_buf := m\<rparr>)"
proof -
  have v: "version_3 (c\<lparr>incoming := rest, read_buf := m\<rparr>)"
    using assms(2) by (simp add: version_3_def)
  obtain s where m: "m = ''Factoring'' @ s" using assms(4) by (auto simp: prefixed_iff)
  show ?thesis
    using assms(1,3,5) v unfolding m
    by (simp add: GetWorkUnitFromServer_def unit_step_def Receive_def bind_def format_simps)
qed

section \<open>The way back\<close>

definition unit_ok :: "nat \<Rightarrow> unit_state \<Rightarrow> bool" where
  "unit_ok n w \<longleftrightarrow> assignment_ok n (wu_name w) (wu_value w) (wu_method w) (wu_b1 w)
     \<and> ok_f6 (wu_b1Time w) \<and> ok_f6 (wu_b2Time w)"

definition factor_ok :: "unit_state \<Rightarrow> bool" where
  "factor_ok w \<longleftrightarrow> ok_word (wu_factor w) \<and> ok_word (wu_cofactor w) \<and> ok_word (wu_factorType w)
     \<and> ok_word (wu_cofactorType w) \<and> ok_f0 (wu_b2 w) \<and> ok_f6 (wu_factorB1Time w) \<and> ok_f6 (wu_factorB2Time w)
     \<and> length (wu_factor w) < VALUE_LENGTH \<and> length (wu_cofactor w) < VALUE_LENGTH
     \<and> length (wu_factorType w) < METHOD_LENGTH \<and> length (wu_cofactorType w) < METHOD_LENGTH"

lemma ok_f6_add: "ok_f6 x \<Longrightarrow> ok_f6 y \<Longrightarrow> ok_f6 (x + y)"
proof -
  assume "ok_f6 x" "ok_f6 y"
  then have "(x + y) * 1000000 = of_int (\<lfloor>x * 1000000\<rfloor> + \<lfloor>y * 1000000\<rfloor>)"
    by (simp add: ok_f6_def ok_f0_def distrib_right)
  then show "ok_f6 (x + y)" unfolding ok_f6_def ok_f0_def by (metis floor_of_int)
qed

lemma returned_scanned:
  assumes "unit_ok NAME_LENGTH w"
  shows "sscanf (sprintf RETURN_LINE (return_args w)) RETURN_WORK [NAME_LENGTH + 1, VALUE_LENGTH + 1, METHOD_LENGTH + 1]
    = Inr (return_args w)"
  by (rule sscanf_sprintf)
    (use assms in \<open>simp_all add: RETURN_LINE_def RETURN_WORK_def return_args_def message_simps unit_ok_def
       assignment_ok_def fits_def ok_f6_add\<close>)

lemma factor_scanned:
  assumes "unit_ok NAME_LENGTH w" "factor_ok w"
  shows "sscanf (sprintf FACTOR_LINE (factor_args w)) ''Return Factor Event for %s %s %d %lf %lf %lf %lf %ld %ld''
     [NAME_LENGTH + 1, METHOD_LENGTH + 1] = Inr (factor_args w)"
  by (rule sscanf_sprintf)
    (use assms in \<open>simp_all add: FACTOR_LINE_def factor_args_def message_simps unit_ok_def factor_ok_def
       assignment_ok_def fits_def\<close>)

lemma detail_scanned:
  assumes "ok_word n" "ok_word v" "ok_word t" "length n < NAME_LENGTH" "length v < VALUE_LENGTH" "length t < METHOD_LENGTH"
  shows "sscanf (sprintf DETAIL_LINE [VS n, VS v, VS t]) ''Return Factor Event Detail for %s %s %s''
     [NAME_LENGTH + 1, VALUE_LENGTH + 1, METHOD_LENGTH + 1] = Inr [VS n, VS v, VS t]"
  by (rule sscanf_sprintf) (use assms in \<open>simp_all add: DETAIL_LINE_def message_simps fits_def\<close>)

lemma abandon_scanned:
  assumes "unit_ok NAME_LENGTH w"
  shows "sscanf (sprintf ABANDON_LINE [VS (wu_name w), VS (wu_method w), VD (wu_b1 w)]) ''Abandon Work for %s %s %lf''
     [NAME_LENGTH + 1, METHOD_LENGTH + 1] = Inr [VS (wu_name w), VS (wu_method w), VD (wu_b1 w)]"
  by (rule sscanf_sprintf) (use assms in \<open>simp_all add: ABANDON_LINE_def message_simps unit_ok_def assignment_ok_def fits_def\<close>)

text \<open>What the server makes of the first message of a returned unit.\<close>

lemma handle_returned:
  assumes "unit_ok NAME_LENGTH w" "g \<noteq> sprintf RETURN_LINE (return_args w)"
  shows "handle_message pp (ok, g) (sprintf RETURN_LINE (return_args w)) =
     bind (EndWork False) (\<lambda>_.
     bind (StartWork (wu_name w)) (\<lambda>_.
     bind (ProcessWork pp (wu_value w) (wu_method w) (if wu_isNumber w then 1 else 0) (wu_b1 w) (wu_curves w)
             (wu_b1Time w + wu_b2Time w)) (\<lambda>ok.
     bind (lift (expect_end ok (wu_name w))) (\<lambda>good. ret (ok, good)))))"
proof -
  have st: "starts 11 ''Return Work'' (sprintf RETURN_LINE vs)" "\<not> starts 11 ''Abandon Work'' (sprintf RETURN_LINE vs)" for vs
    by (simp_all add: RETURN_LINE_def message_simps starts_def)
  have "ProcessWorkMessage pp (sprintf RETURN_LINE (return_args w)) =
     bind (StartWork (wu_name w)) (\<lambda>_.
     bind (ProcessWork pp (wu_value w) (wu_method w) (if wu_isNumber w then 1 else 0) (wu_b1 w) (wu_curves w)
             (wu_b1Time w + wu_b2Time w)) (\<lambda>ok. ret (ok, wu_name w)))"
    unfolding ProcessWorkMessage_def returned_scanned [OF assms(1)]
    by (rule ext) (simp add: bind_def work_args_def return_args_def)
  then show ?thesis
    using assms(2) st by (simp add: handle_message_def bind_assoc)
qed

text \<open>The two messages of a unit without a factor, as one operation of the server.\<close>

definition returned_unit :: "(int \<Rightarrow> int) \<Rightarrow> unit_state \<Rightarrow> (receiver, unit) run" where
  "returned_unit pp w =
     bind (EndWork False) (\<lambda>_.
     bind (StartWork (wu_name w)) (\<lambda>_.
     bind (ProcessWork pp (wu_value w) (wu_method w) (if wu_isNumber w then 1 else 0) (wu_b1 w) (wu_curves w)
             (wu_b1Time w + wu_b2Time w)) (\<lambda>ok.
     if ok then bind (EndWork True) (\<lambda>_. ret ())
     else say ''ERROR: Did not understand message <%s>'' [VS (''End Return Work for '' @ wu_name w)])))"

definition END_LINE :: "unit_state \<Rightarrow> string" where
  "END_LINE w = sprintf ''End Return Work for %s'' [VS (wu_name w)]"

lemma END_LINE_text: "END_LINE w = ''End Return Work for '' @ wu_name w"
  by (simp add: END_LINE_def message_simps)

lemma handle_returned_unit:
  assumes "unit_ok 80 w" "g \<noteq> sprintf RETURN_LINE (return_args w)"
  shows "bind (handle_message pp (ok, g) (sprintf RETURN_LINE (return_args w)))
           (\<lambda>l. bind (handle_message pp l (END_LINE w)) (\<lambda>_. ret ())) = returned_unit pp w"
proof -
  have w: "unit_ok NAME_LENGTH w" "length (wu_name w) < 80"
    using assms(1) by (auto simp: unit_ok_def assignment_ok_def NAME_LENGTH_def)
  have good: "expect_end k (wu_name w) = Inr (if k then END_LINE w else ''not gonna match'')" for k
    using w(2) by (simp add: expect_end_def END_LINE_text)
  have unknown: "handle_message pp (False, ''not gonna match'') (END_LINE w) =
      bind (say ''ERROR: Did not understand message <%s>'' [VS (END_LINE w)]) (\<lambda>_. ret (False, ''not gonna match''))"
    by (simp add: handle_message_def END_LINE_text format_simps starts_def)
  have known: "handle_message pp (True, END_LINE w) (END_LINE w) = bind (EndWork True) (\<lambda>_. ret (True, END_LINE w))"
    by (simp add: handle_message_def)
  have lift: "bind (lift (Inr x)) f = f x" for x and f :: "string \<Rightarrow> (receiver, 'b) run"
    by (rule ext) (simp add: bind_def)
  have ans: "bind (say t vs) (\<lambda>_. ret ()) = say t vs" for t vs
    by (simp only: say_def bind_assoc bind_simps(1))
  have step: "bind (handle_message pp (k, if k then END_LINE w else ''not gonna match'') (END_LINE w)) (\<lambda>_. ret ()) =
      (if k then bind (EndWork True) (\<lambda>_. ret ())
       else say ''ERROR: Did not understand message <%s>'' [VS (''End Return Work for '' @ wu_name w)])" for k
    by (cases k) (simp_all only: if_True if_False known unknown bind_assoc bind_simps(1) ans, simp only: END_LINE_text ans)
  show ?thesis
    by (simp only: handle_returned [OF w(1) assms(2)] returned_unit_def bind_assoc good lift bind_simps(1) step)
qed

lemma say_open: "say f vs s = Inr (u, s') \<Longrightarrow> so_open (sock s') = so_open (sock s)"
  by (auto simp: say_def bind_eq_Inr on_sock_Inr Sendf_def Send_def split: if_splits)

section \<open>The answers\<close>

text \<open>What the next call of \<open>Receive\<close> returns, and the units that stay with the client.\<close>

fun next_answer :: "input list \<Rightarrow> string option \<times> input list" where
  "next_answer [] = (None, [])"
| "next_answer (Line m # rest) = (Some m, rest)"
| "next_answer (_ # rest) = (None, rest)"

fun kept :: "unit_state list \<Rightarrow> input list \<Rightarrow> unit_state list" where
  "kept [] inp = []"
| "kept (w # ws) inp =
     (if wu_curves w = 0 \<or> wu_name w = [] then kept ws inp
      else if fst (next_answer inp) = Some (''Accepted Work for '' @ wu_name w) then kept ws (snd (next_answer inp))
      else w # kept ws (snd (next_answer inp)))"

lemma tell_Inr: "tell f vs c = Inr (u, c') \<Longrightarrow> so_open c' = so_open c \<and> incoming c' = incoming c
    \<and> cs_version c' = cs_version c \<and> outgoing c' = (if so_open c then outgoing c @ [sprintf f vs] else outgoing c)"
  by (auto simp: tell_def bind_eq_Inr Sendf_def Send_def split: if_splits)

lemma Receive_answer: "so_open c \<Longrightarrow> Receive c = Inr (r, c') \<Longrightarrow> r = fst (next_answer (incoming c))
    \<and> incoming c' = snd (next_answer (incoming c)) \<and> so_open c' \<and> outgoing c' = outgoing c
    \<and> cs_version (c' :: client) = cs_version c"
  by (auto simp: Receive_def split: list.splits input.splits)

definition same_client :: "client \<Rightarrow> client \<Rightarrow> bool" where
  "same_client c c' \<longleftrightarrow> so_open c' = so_open c \<and> incoming c' = incoming c \<and> cs_version c' = cs_version c"

interpretation telling: effect same_client
  by unfold_locales (auto simp: same_client_def)

named_theorems tell_intros \<open>operations of the client that only send\<close>
lemmas [tell_intros] = telling.stays_intros

lemma tell_stays [tell_intros]: "stays same_client (tell f vs)"
  by (rule staysI) (auto simp: same_client_def dest!: tell_Inr)

lemma accepted_text: "sprintf ''Accepted Work for %s'' [VS n] = ''Accepted Work for '' @ n"
  by (simp add: message_simps)

definition return_3_sends :: "unit_state \<Rightarrow> (client, unit) run" where
  "return_3_sends w =
     bind (tell RETURN_LINE (return_args w)) (\<lambda>_.
     bind (if wu_factored w then
             bind (tell FACTOR_LINE (factor_args w)) (\<lambda>_.
             bind (tell DETAIL_LINE [VS (wu_name w), VS (wu_factor w), VS (wu_factorType w)]) (\<lambda>_.
             tell DETAIL_LINE [VS (wu_name w), VS (wu_cofactor w), VS (wu_cofactorType w)]))
           else ret ()) (\<lambda>_.
     tell ''End Return Work for %s'' [VS (wu_name w)]))"

lemma return_3_split: "return_3 w =
    bind (lift (strcpy (''Accepted Work for '' @ wu_name w) 200)) (\<lambda>g.
    bind (return_3_sends w) (\<lambda>_. bind Receive (\<lambda>r. ret (r = Some g))))"
  by (simp only: return_3_def return_3_sends_def bind_assoc accepted_text)

lemma return_3_lines:
  assumes "return_3 w c = Inr (b, c')" "so_open c" "\<not> wu_factored w"
  shows "outgoing c' = outgoing c @ [sprintf RETURN_LINE (return_args w), END_LINE w]"
proof -
  have sends: "return_3_sends w = bind (tell RETURN_LINE (return_args w))
      (\<lambda>_. tell ''End Return Work for %s'' [VS (wu_name w)])"
    using assms(3) by (simp only: return_3_sends_def if_False bind_simps(1))
  from assms(1) obtain u c1 c2 u2 r where "tell RETURN_LINE (return_args w) c = Inr (u, c1)"
    and "tell ''End Return Work for %s'' [VS (wu_name w)] c1 = Inr (u2, c2)" and "Receive c2 = Inr (r, c')"
    unfolding return_3_split sends by (elim bind_InrE) (simp only: lift_eq_Inr run_simps sum.inject prod.inject)
  from tell_Inr [OF this(1)] tell_Inr [OF this(2)] Receive_answer [OF _ this(3)] show ?thesis
    using assms(2) by (simp add: END_LINE_def)
qed

lemma return_3_answer:
  assumes "return_3 w c = Inr (b, c')" "so_open c"
  shows "b = (fst (next_answer (incoming c)) = Some (''Accepted Work for '' @ wu_name w)) \<and> so_open c'
    \<and> incoming c' = snd (next_answer (incoming c)) \<and> cs_version c' = cs_version c"
proof -
  from assms(1) obtain u c1 r where 1: "return_3_sends w c = Inr (u, c1)" and 2: "Receive c1 = Inr (r, c')"
    and 3: "b = (r = Some (''Accepted Work for '' @ wu_name w))"
    by (auto simp: return_3_split bind_eq_Inr strcpy_Inr)
  have "stays same_client (return_3_sends w)"
    unfolding return_3_sends_def by (intro tell_intros)
  from staysD [OF this 1] have "same_client c c1" .
  with Receive_answer [OF _ 2] assms(2) 3 show ?thesis by (auto simp: same_client_def)
qed

lemma return_units_kept:
  assumes "return_units us s = Inr (u, s')" "so_open (wk_conn s)" "version_3 (wk_conn s)"
  shows "wk_units s' = wk_units s @ kept us (incoming (wk_conn s))"
  using assms
proof (induction us arbitrary: s)
  case (Cons w ws)
  have v: "version_3 c = version_3 d" if "cs_version c = cs_version d" for c d
    using that by (simp add: version_3_def)
  from Cons.prems(1) obtain b c1 s1 where r: "ReturnWorkUnit w (wk_conn s) = Inr (b, c1)"
    and a: "(if b then ret () else AddWorkUnit w) (s\<lparr>wk_conn := c1\<rparr>) = Inr ((), s1)"
    and rest: "return_units ws s1 = Inr (u, s')"
    by (auto simp: bind_eq_Inr on_conn_def part_eq_Inr)
  have s1: "wk_conn s1 = c1" "wk_units s1 = (if b then wk_units s else wk_units s @ [w])"
    using a by (auto simp: AddWorkUnit_def split: if_splits)
  have c1: "so_open c1 \<and> cs_version c1 = cs_version (wk_conn s) \<and>
      (if wu_curves w = 0 \<or> wu_name w = [] then b \<and> incoming c1 = incoming (wk_conn s)
       else b = (fst (next_answer (incoming (wk_conn s))) = Some (''Accepted Work for '' @ wu_name w))
         \<and> incoming c1 = snd (next_answer (incoming (wk_conn s))))"
    using r Cons.prems(2,3)
    by (auto simp: ReturnWorkUnit_def bind_eq_Inr split: if_splits dest!: tell_Inr return_3_answer)
  show ?case
    using Cons.IH [OF rest] c1 v [of c1 "wk_conn s"] Cons.prems(3) by (auto simp: s1)
qed simp

end
