(* ===== verification/ClientProps.thy ===== *)
theory ClientProps
  imports Protocol SenderProps
begin

text \<open>
  The properties of the client and of what it exchanges with the server, each with a run that meets its
  hypotheses.
\<close>

section \<open>The save file\<close>

lemma show_f0_of_int: "show_f0 (of_int i) = show_int i"
  by (simp add: show_f0_def show_int_def)

lemma scan_f0_int: "ok_f0 x \<Longrightarrow> stops r \<Longrightarrow> scan_int (show_f0 x @ r) = Some (\<lfloor>x\<rfloor>, r)"
  by (metis ok_f0_def show_f0_of_int int_codec.get_put)

lemma scan_int_dbl: "stops r \<Longrightarrow> scan_dbl (show_int i @ r) = Some (of_int i, r)"
  by (metis ok_f0_def show_f0_of_int f0_codec.get_put floor_of_int)

lemma plain_scanned:
  assumes "unit_ok 200 w"
  shows "sscanf (sprintf PLAIN_LINE (plain_args w)) PLAIN_SCAN [200, VALUE_LENGTH, 20] = Inr (plain_args w)"
  by (rule sscanf_sprintf)
    (use assms in \<open>simp_all add: PLAIN_LINE_def PLAIN_SCAN_def plain_args_def message_simps unit_ok_def
       assignment_ok_def fits_def METHOD_LENGTH_def\<close>)

lemma plain_as_factored:
  assumes "unit_ok 200 w"
  shows "scan (fmt FACTORED_SCAN) (sprintf PLAIN_LINE (plain_args w)) =
     [VS (wu_name w), VS (wu_value w), VS (wu_method w), VI \<lfloor>wu_b1 w\<rfloor>, VD (of_int (wu_max w)),
      VD (of_int (wu_curves w)), VD (if wu_isNumber w then 1 else 0), VD (wu_b1Time w), VD (wu_b2Time w)]"
proof -
  have one: "scan_dbl (show_int 1 @ r) = Some (1, r)" "scan_dbl (show_int 0 @ r) = Some (0, r)" if "stops r" for r
    using scan_int_dbl [OF that, of 1] scan_int_dbl [OF that, of 0] by simp_all
  have end_: "scan_dbl [] = None" by (simp add: scan_dbl_def scan_sign_def scan_frac_def)
  show ?thesis
    using assms
    by (simp add: FACTORED_SCAN_def PLAIN_LINE_def plain_args_def format_simps sprintf_def unit_ok_def assignment_ok_def
        word_codec.get_dropWhile int_codec.get_dropWhile f0_codec.get_dropWhile word_codec.get_put
        get_skips scan_f0_int scan_int_dbl one f6_codec.get_put f6_codec.get_put_end end_ del: dropWhile.simps)
qed

lemma factored_scanned:
  assumes "unit_ok 200 w" "factor_ok w"
  shows "sscanf (sprintf FACTORED_LINE (factored_args w)) FACTORED_SCAN
     [200, VALUE_LENGTH, 20, VALUE_LENGTH, 20, VALUE_LENGTH, 20] = Inr (factored_args w)"
  by (rule sscanf_sprintf)
    (use assms in \<open>simp_all add: FACTORED_LINE_def FACTORED_SCAN_def factored_args_def message_simps unit_ok_def
       factor_ok_def assignment_ok_def fits_def METHOD_LENGTH_def\<close>)

text \<open>
  What comes back from a line of the save file. The times of step 2 of a factored unit change places.
\<close>

definition restored :: "unit_state \<Rightarrow> unit_state \<Rightarrow> bool" where
  "restored w w' \<longleftrightarrow> wu_name w' = wu_name w \<and> wu_value w' = wu_value w \<and> wu_method w' = wu_method w
     \<and> wu_b1 w' = wu_b1 w \<and> wu_max w' = wu_max w \<and> wu_curves w' = wu_curves w \<and> wu_factored w' = wu_factored w
     \<and> wu_b1Time w' = wu_b1Time w
     \<and> (if wu_factored w then
          wu_b2Time w' = wu_factorB2Time w \<and> wu_factorB2Time w' = wu_b2Time w
          \<and> wu_factorB1Time w' = wu_factorB1Time w \<and> wu_step w' = wu_step w \<and> wu_b2 w' = wu_b2 w
          \<and> wu_sigma w' = wu_sigma w \<and> wu_x0 w' = wu_x0 w \<and> wu_factor w' = wu_factor w
          \<and> wu_factorType w' = wu_factorType w \<and> wu_cofactor w' = wu_cofactor w
          \<and> wu_cofactorType w' = wu_cofactorType w
        else wu_b2Time w' = wu_b2Time w \<and> wu_isNumber w' = wu_isNumber w)"

lemma unit_Load_Save:
  assumes "unit_ok 200 w" "wu_factored w \<Longrightarrow> factor_ok w"
  shows "\<exists>w'. unit_Load (unit_Save w) w0 = Inr w' \<and> restored w w'"
proof (cases "wu_factored w")
  case True
  then show ?thesis
    using factored_scanned [OF assms(1)] assms(2)
    by (simp add: unit_Load_def unit_Save_def factored_args_def factored_fields_def restored_def)
next
  case False
  then have line: "unit_Save w = sprintf PLAIN_LINE (plain_args w)" by (simp add: unit_Save_def)
  have first: "sscanf (unit_Save w) FACTORED_SCAN [200, VALUE_LENGTH, 20, VALUE_LENGTH, 20, VALUE_LENGTH, 20] =
     Inr [VS (wu_name w), VS (wu_value w), VS (wu_method w), VI \<lfloor>wu_b1 w\<rfloor>, VD (of_int (wu_max w)),
      VD (of_int (wu_curves w)), VD (if wu_isNumber w then 1 else 0), VD (wu_b1Time w), VD (wu_b2Time w)]"
    using assms(1) unfolding line sscanf_def plain_as_factored [OF assms(1)]
    by (simp add: fits_def unit_ok_def assignment_ok_def METHOD_LENGTH_def)
  have second: "sscanf (unit_Save w) PLAIN_SCAN [200, VALUE_LENGTH, 20] = Inr (plain_args w)"
    unfolding line by (rule plain_scanned [OF assms(1)])
  show ?thesis
    using False by (simp add: unit_Load_def first second plain_args_def plain_fields_def factored_fields_def restored_def)
qed

text \<open>Printed messages have no white space but the blanks of the format.\<close>

lemma show_no_space: "c \<in> set (show_int i) \<Longrightarrow> \<not> is_space c"
  using dec_digits digit_not_space
  by (auto simp: show_int_def is_space_def code_def split: if_splits)

lemma shown_no_space:
  "c \<in> set (show_f0 x) \<Longrightarrow> \<not> is_space c" "c \<in> set (show_f6 x) \<Longrightarrow> \<not> is_space c"
  using dec_digits digit_not_space
  by (auto simp: show_f0_def show_f6_def pad6_def Let_def is_space_def code_def split: if_splits)

lemma print_blanks: "ok_args f vs \<Longrightarrow> separated f \<Longrightarrow> c \<in> set (print f vs) \<Longrightarrow> is_space c \<Longrightarrow> c = CHR '' ''"
  by (induction f vs rule: print.induct) (auto simp: ok_word_def dest: show_no_space shown_no_space)

text \<open>A line of text in a file: no line feed, no carriage return, and short enough.\<close>

definition line_ok :: "nat \<Rightarrow> string \<Rightarrow> bool" where
  "line_ok n l \<longleftrightarrow> length l \<le> n \<and> CHR 0x0A \<notin> set l \<and> CHR 0x0D \<notin> set l"

lemma line_okD: "line_ok n l \<Longrightarrow> length l \<le> n" "line_ok n l \<Longrightarrow> CHR 0x0A \<notin> set l"
  by (simp_all add: line_ok_def)

lemma file_lines_texts:
  assumes "\<forall>l \<in> set ls. line_ok n l"
  shows "file_lines n (concat (map (\<lambda>l. l @ [CHR 0x0A]) ls)) = map (\<lambda>l. l @ [CHR 0x0A]) ls"
  using assms
proof (induction ls)
  case (Cons l ls)
  let ?r = "concat (map (\<lambda>l. l @ [CHR 0x0A]) ls)"
  have "file_lines n (l @ CHR 0x0A # ?r) = (l @ [CHR 0x0A]) # file_lines n ?r"
    using fgets_line [of l n ?r] Cons.prems by (cases l) (auto simp: line_ok_def simp del: fgets.simps)
  with Cons show ?case by simp
qed simp

lemma strip_line: "line_ok n l \<Longrightarrow> StripCRLF (l @ [CHR 0x0A]) = l"
  by (cases l rule: rev_cases) (auto simp: StripCRLF_def line_ok_def)

lemma unit_line_ok:
  assumes "unit_ok 200 w" "wu_factored w \<Longrightarrow> factor_ok w" "length (unit_Save w) \<le> n"
  shows "line_ok n (unit_Save w)"
proof -
  have "ok_args (fmt FACTORED_LINE) (factored_args w)" if "wu_factored w"
    using assms(1) assms(2) [OF that]
    by (simp add: FACTORED_LINE_def factored_args_def format_simps unit_ok_def factor_ok_def assignment_ok_def)
  moreover have "ok_args (fmt PLAIN_LINE) (plain_args w)"
    using assms(1) by (simp add: PLAIN_LINE_def plain_args_def format_simps unit_ok_def assignment_ok_def)
  moreover have "separated (fmt FACTORED_LINE)" "separated (fmt PLAIN_LINE)"
    by (simp_all add: FACTORED_LINE_def PLAIN_LINE_def format_simps)
  ultimately have "c \<in> set (unit_Save w) \<Longrightarrow> is_space c \<Longrightarrow> c = CHR '' ''" for c
    by (auto simp: unit_Save_def sprintf_def split: if_splits dest: print_blanks)
  from this [of "CHR 0x0A"] this [of "CHR 0x0D"] assms(3) show ?thesis
    by (auto simp: line_ok_def is_space_def code_def)
qed

definition saveable :: "unit_state \<Rightarrow> bool" where
  "saveable w \<longleftrightarrow> unit_ok 200 w \<and> (wu_factored w \<longrightarrow> factor_ok w) \<and> CHR ''='' \<notin> set (wu_name w)
     \<and> length (unit_Save w) \<le> BUFFER_SIZE - 2"

lemma no_key_line:
  assumes "CHR ''='' \<notin> set n" "CHR '' '' \<notin> set p"
  shows "\<not> prefixed (p @ [CHR ''='']) (n @ CHR '' '' # r)"
proof
  assume "prefixed (p @ [CHR ''='']) (n @ CHR '' '' # r)"
  then obtain q where "n @ CHR '' '' # r = p @ CHR ''='' # q" by (auto simp: prefixed_iff)
  with assms show False by (auto simp: append_eq_append_conv2 Cons_eq_append_conv append_eq_Cons_conv)
qed

lemma unit_line_no_key:
  assumes "saveable w"
  shows "\<not> prefixed ''ServerName='' (unit_Save w)" "\<not> prefixed ''PortID='' (unit_Save w)"
    "\<not> prefixed ''ServerVersion='' (unit_Save w)"
proof -
  obtain r where "unit_Save w = wu_name w @ CHR '' '' # r"
    by (cases "wu_factored w")
      (simp_all add: unit_Save_def FACTORED_LINE_def PLAIN_LINE_def factored_args_def plain_args_def message_simps)
  moreover have "CHR ''='' \<notin> set (wu_name w)" using assms by (simp add: saveable_def)
  ultimately show "\<not> prefixed ''ServerName='' (unit_Save w)" "\<not> prefixed ''PortID='' (unit_Save w)"
    "\<not> prefixed ''ServerVersion='' (unit_Save w)"
    using no_key_line [of "wu_name w" "''ServerName''" r] no_key_line [of "wu_name w" "''PortID''" r]
      no_key_line [of "wu_name w" "''ServerVersion''" r] by simp_all
qed

lemma load_unit_line:
  assumes "saveable w" "unit_Load (unit_Save w) w0 = Inr v"
    "WorkUnit junk (wk_machine s) (wk_instance s) (wk_suffix s) (wk_exe s) (wk_k s) (wk_maxmem s) = Inr w0"
  shows "load_line junk (unit_Save w @ [LF]) q s = Inr (q, s\<lparr>wk_units := wk_units s @ [v]\<rparr>)"
proof -
  have strip: "StripCRLF (unit_Save w @ [LF]) = unit_Save w"
    using strip_line [OF unit_line_ok [of w "BUFFER_SIZE - 2"]] assms(1) by (simp add: saveable_def LF_def)
  show ?thesis
    unfolding load_line_def strip Let_def
    by (simp only: unit_line_no_key [OF assms(1)] assms(2,3) if_False new_unit_def bind_def asks_def lift_def
        and_then_simps prod.case AddWorkUnit_def modify_def ret_def)
qed

lemma load_unit_lines:
  assumes "\<forall>w \<in> set us. saveable w"
    "WorkUnit junk (wk_machine s) (wk_instance s) (wk_suffix s) (wk_exe s) (wk_k s) (wk_maxmem s) = Inr w0"
  shows "\<exists>vs. load_lines junk (map (\<lambda>w. unit_Save w @ [LF]) us) l s = Inr (l, s\<lparr>wk_units := wk_units s @ vs\<rparr>)
     \<and> list_all2 restored us vs"
  using assms
proof (induction us arbitrary: s)
  case Nil
  show ?case by (rule exI [where x = "[]"]) simp
next
  case (Cons w us)
  have w: "saveable w" using Cons.prems(1) by simp
  obtain v where v: "unit_Load (unit_Save w) w0 = Inr v" "restored w v"
    using unit_Load_Save [of w w0] w by (auto simp: saveable_def)
  define s1 where "s1 = s\<lparr>wk_units := wk_units s @ [v]\<rparr>"
  have one: "load_line junk (unit_Save w @ [LF]) l s = Inr (l, s1)"
    unfolding s1_def by (rule load_unit_line [OF w v(1) Cons.prems(2)])
  have "\<exists>vs. load_lines junk (map (\<lambda>w. unit_Save w @ [LF]) us) l s1 = Inr (l, s1\<lparr>wk_units := wk_units s1 @ vs\<rparr>)
      \<and> list_all2 restored us vs"
    by (rule Cons.IH) (use Cons.prems in \<open>simp_all add: s1_def\<close>)
  then obtain vs where rest: "load_lines junk (map (\<lambda>w. unit_Save w @ [LF]) us) l s1 =
      Inr (l, s1\<lparr>wk_units := wk_units s1 @ vs\<rparr>)" "list_all2 restored us vs"
    by (elim exE conjE) (rule that)
  have "s1\<lparr>wk_units := wk_units s1 @ vs\<rparr> = s\<lparr>wk_units := wk_units s @ v # vs\<rparr>" by (simp add: s1_def)
  with rest v(2) show ?case
    by (intro exI [where x = "v # vs"]) (simp add: bind_def one)
qed

lemma load_lines_append:
  "load_lines junk (xs @ ys) l = bind (load_lines junk xs l) (load_lines junk ys)"
proof (induction xs arbitrary: l)
  case (Cons x xs)
  then have "load_lines junk (xs @ ys) = (\<lambda>l. bind (load_lines junk xs l) (load_lines junk ys))" by auto
  then show ?case by (simp add: bind_assoc)
qed simp

lemma load_header:
  assumes "line_ok 199 (cs_server c)" "line_ok 19 (cs_version c)"
  shows "\<exists>q. load_lines junk (map (\<lambda>l. l @ [LF]) [''ServerName='' @ cs_server c, ''PortID='' @ show_int (cs_port c),
       ''ServerVersion='' @ cs_version c]) l0 s = Inr (q, s\<lparr>wk_conn := (wk_conn s)\<lparr>cs_version := cs_version c\<rparr>\<rparr>)
     \<and> fst q = Some (cs_server c)"
proof -
  have port: "CHR 0x0A \<notin> set (show_int (cs_port c))" "CHR 0x0D \<notin> set (show_int (cs_port c))"
    using show_no_space [of "CHR 0x0A"] show_no_space [of "CHR 0x0D"] by (auto simp: is_space_def code_def)
  have strip: "StripCRLF (''ServerName='' @ cs_server c @ [LF]) = ''ServerName='' @ cs_server c"
    "StripCRLF (''PortID='' @ show_int (cs_port c) @ [LF]) = ''PortID='' @ show_int (cs_port c)"
    "StripCRLF (''ServerVersion='' @ cs_version c @ [LF]) = ''ServerVersion='' @ cs_version c"
    using strip_line [of "length (''ServerName='' @ cs_server c)" "''ServerName='' @ cs_server c"]
      strip_line [of "length (''PortID='' @ show_int (cs_port c))" "''PortID='' @ show_int (cs_port c)"]
      strip_line [of "length (''ServerVersion='' @ cs_version c)" "''ServerVersion='' @ cs_version c"] assms port
    by (simp_all add: line_ok_def LF_def)
  show ?thesis
    using assms by (simp add: load_line_def strip [simplified] format_simps bind_def line_ok_def on_conn_def part_def
        strcpy_def)
qed

lemma port_line:
  assumes "\<bar>cs_port c\<bar> < 2 ^ 31" shows "line_ok (BUFFER_SIZE - 2) (''PortID='' @ show_int (cs_port c))"
proof -
  have "length (dec (nat \<bar>cs_port c\<bar>)) \<le> 10"
    by (rule dec_length) (use assms in auto)
  then have "length (show_int (cs_port c)) \<le> 11" by (auto simp: show_int_def)
  then show ?thesis
    using show_no_space [of "CHR 0x0A" "cs_port c"] show_no_space [of "CHR 0x0D" "cs_port c"]
    by (auto simp: line_ok_def is_space_def code_def BUFFER_SIZE_def)
qed

text \<open>A client with some work, to apply the theorems to.\<close>

definition demo_unit :: "string \<Rightarrow> int \<Rightarrow> bool \<Rightarrow> unit_state" where
  "demo_unit n curves did =
     \<lparr>wu_in = ''a.in'', wu_out = ''a.out'', wu_didCurve = did, wu_exe = ''ecm'', wu_machine = ''pc'', wu_instance = ''i1'',
      wu_suffix = ''A'', wu_name = n, wu_value = ''91'', wu_length = 2, wu_command = [], wu_method = ''ECM'',
      wu_b1 = 100, wu_b2 = 0, wu_k = 0, wu_maxmem = 0, wu_max = 3, wu_curves = curves, wu_isNumber = False,
      wu_factored = False, wu_factor = [], wu_factorType = [], wu_cofactor = [], wu_cofactorType = [], wu_step = 0,
      wu_b1Time = 7, wu_b2Time = 1 / 2, wu_factorB1Time = 0, wu_factorB2Time = 0, wu_sigma = 0, wu_x0 = 0\<rparr>"

definition demo_client :: "input list \<Rightarrow> client" where
  "demo_client inp =
     \<lparr>so_open = True, so_newline = True, incoming = inp, read_buf = [], outgoing = [], cs_server = ''srv'', cs_port = 8194,
      cs_email = ''b@x'', cs_user = ''bob'', cs_machine = ''pc'', cs_instance = ''i1'', cs_version = ''3.0.5'',
      cs_dials = []\<rparr>"

definition demo_job :: "unit_state list \<Rightarrow> input list \<Rightarrow> work_state" where
  "demo_job us inp =
     \<lparr>wk_suffix = ''A'', wk_save = ''w.save'', wk_percent = 100, wk_exe = ''ecm'', wk_gmp = ''7'', wk_email = ''b@x'',
      wk_user = ''bob'', wk_machine = ''pc'', wk_instance = ''i1'', wk_conn = demo_client inp, wk_k = 0, wk_maxmem = 0,
      wk_units = us, wk_dead = False, wk_files = \<lambda>f. None\<rparr>"

lemmas client_defs = demo_unit_def demo_client_def demo_job_def

lemma demo_unit_ok: "ok_word n \<Longrightarrow> length n < k \<Longrightarrow> unit_ok k (demo_unit n c d)"
  by (simp add: unit_ok_def assignment_ok_def demo_unit_def ok_word_def ok_f0_def ok_f6_def buffer_sizes is_space_def code_def)

lemma demo_saveable: "saveable (demo_unit ''C'' 3 d)"
proof -
  have "unit_ok 200 (demo_unit ''C'' 3 d)"
    by (rule demo_unit_ok) (simp_all add: ok_word_def is_space_def code_def)
  moreover have "length (unit_Save (demo_unit ''C'' 3 d)) \<le> BUFFER_SIZE - 2"
    by (simp add: unit_Save_def demo_unit_def PLAIN_LINE_def plain_args_def format_simps run_text)
  ultimately show ?thesis by (simp add: saveable_def) (simp add: demo_unit_def)
qed

lemma demo_WorkUnit: "\<exists>w0. WorkUnit (demo_unit [] 0 True) ''pc'' ''i1'' ''A'' ''ecm'' 0 0 = Inr w0"
  by (simp add: WorkUnit_def fits_def Let_def)

section \<open>Properties\<close>

text \<open>C9: What the client saves it loads again: after \<open>Work::Save\<close>, the constructor's \<open>Load\<close> has the same units in
  the same order and the same server version, except that the two times of step 2 of a unit with a
  factor have changed places.\<close>

theorem saved_work_is_loaded:
  assumes "work_Save True s = Inr (u, s1)" "wk_units s \<noteq> []" "\<forall>w \<in> set (wk_units s). saveable w"
    and "line_ok 199 (cs_server (wk_conn s))" "line_ok 19 (cs_version (wk_conn s))" "\<bar>cs_port (wk_conn s)\<bar> < 2 ^ 31"
    and "wk_files t = wk_files s1" "wk_save t = wk_save s1" "wk_units t = []"
    and "WorkUnit junk (wk_machine t) (wk_instance t) (wk_suffix t) (wk_exe t) (wk_k t) (wk_maxmem t) = Inr fresh"
  shows "\<exists>t'. work_Load junk t = Inr ((), t') \<and> list_all2 restored (wk_units s) (wk_units t')
     \<and> cs_version (wk_conn t') = cs_version (wk_conn s)"
proof -
  let ?c = "wk_conn s"
  let ?hd = "[''ServerName='' @ cs_server ?c, ''PortID='' @ show_int (cs_port ?c), ''ServerVersion='' @ cs_version ?c]"
  let ?ls = "?hd @ map unit_Save (wk_units s)"
  have saved: "wk_files t (wk_save t) = Some (save_text s)"
    using assms(1,2,7,8) by (auto simp: work_Save_def)
  have ends: "save_text s = concat (map (\<lambda>l. l @ [CHR 0x0A]) ?ls)"
    by (simp add: save_text_def save_header_def message_simps LF_def comp_def)
  have "\<forall>l \<in> set ?hd. line_ok (BUFFER_SIZE - 2) l"
    using assms(4,5) port_line [OF assms(6)] by (auto simp: line_ok_def BUFFER_SIZE_def)
  moreover have "\<forall>w \<in> set (wk_units s). line_ok (BUFFER_SIZE - 2) (unit_Save w)"
    using assms(3) by (auto simp: saveable_def intro: unit_line_ok)
  ultimately have ok: "\<forall>l \<in> set ?ls. line_ok (BUFFER_SIZE - 2) l" by auto
  let ?t = "t\<lparr>wk_dead := False\<rparr>"
  obtain q where h: "load_lines junk (map (\<lambda>l. l @ [LF]) ?hd) (None, 0) ?t =
      Inr (q, ?t\<lparr>wk_conn := (wk_conn ?t)\<lparr>cs_version := cs_version ?c\<rparr>\<rparr>)" "fst q = Some (cs_server ?c)"
    using load_header [OF assms(4,5), of junk "(None, 0)" ?t] by auto
  let ?t1 = "?t\<lparr>wk_conn := (wk_conn ?t)\<lparr>cs_version := cs_version ?c\<rparr>\<rparr>"
  obtain vs where us: "load_lines junk (map (\<lambda>w. unit_Save w @ [LF]) (wk_units s)) q ?t1 =
      Inr (q, ?t1\<lparr>wk_units := vs\<rparr>)" "list_all2 restored (wk_units s) vs"
    using load_unit_lines [of "wk_units s" junk ?t1 fresh q] assms(3,9,10) by auto
  have "load_lines junk (map (\<lambda>l. l @ [LF]) ?ls) (None, 0) ?t = Inr (q, ?t1\<lparr>wk_units := vs\<rparr>)"
    using us(1) by (simp only: map_append load_lines_append bind_def h(1) and_then_simps prod.case map_map comp_def)
  then have "load_lines junk (file_lines (BUFFER_SIZE - 2) (save_text s)) (None, 0) ?t = Inr (q, ?t1\<lparr>wk_units := vs\<rparr>)"
    unfolding ends file_lines_texts [OF ok] LF_def .
  then show ?thesis
    using us(2) h(2) saved by (simp add: work_Load_def bind_def other_server_def Socket_Open_def)
qed

theorem saved_work_is_loaded_witness:
  "\<exists>s1 t'. work_Save True (demo_job [demo_unit ''C'' 3 True] []) = Inr ((), s1)
     \<and> work_Load (demo_unit [] 0 True) (s1\<lparr>wk_units := []\<rparr>) = Inr ((), t')
     \<and> list_all2 restored [demo_unit ''C'' 3 True] (wk_units t')"
proof -
  let ?s = "demo_job [demo_unit ''C'' 3 True] []"
  let ?s1 = "?s\<lparr>wk_files := (wk_files ?s)(wk_save ?s := Some (save_text ?s))\<rparr>"
  have units: "wk_units ?s = [demo_unit ''C'' 3 True]" by (simp add: demo_job_def)
  have saved: "work_Save True ?s = Inr ((), ?s1)" by (simp add: work_Save_def units)
  obtain w0 where w0: "WorkUnit (demo_unit [] 0 True) ''pc'' ''i1'' ''A'' ''ecm'' 0 0 = Inr w0" using demo_WorkUnit by blast
  have "\<exists>t'. work_Load (demo_unit [] 0 True) (?s1\<lparr>wk_units := []\<rparr>) = Inr ((), t')
      \<and> list_all2 restored (wk_units ?s) (wk_units t') \<and> cs_version (wk_conn t') = cs_version (wk_conn ?s)"
    by (rule saved_work_is_loaded [OF saved, where fresh = w0])
      (use w0 demo_saveable in \<open>simp_all add: units, simp_all add: demo_job_def demo_client_def line_ok_def\<close>)
  with saved units show ?thesis by auto
qed

text \<open>C18: An assignment the server offers to a 3.x client is the assignment the client takes on.\<close>

theorem offered_work_is_understood:
  assumes "offer n v len f b k s = Inr (u, s')" "so_open (sock s)" "\<not> is_old (sock s)"
    and "assignment_ok 200 n v f b"
    and "so_open c" "version_3 c" "incoming c = map Line (drop (length (outgoing (sock s))) (outgoing (sock s'))) @ rest"
  shows "\<exists>c'. GetWorkUnitFromServer w c =
     Inr ((True, w\<lparr>wu_name := n, wu_value := v, wu_length := len, wu_method := f, wu_b1 := b, wu_max := k, wu_curves := 0\<rparr>), c')
     \<and> incoming c' = rest"
proof -
  let ?m = "sprintf ''Factoring Work for %s %s %d %s %.0lf %d %d''
     [VS n, VS v, VI len, VS f, VD b, VI k, VI (int (length v))]"
  have out: "outgoing (sock s') = outgoing (sock s) @ [?m]"
    using assms(1-3) by (auto simp: offer_def dest!: say_Inr)
  have start: "prefixed ''Factoring'' ?m"
    by (simp add: message_simps)
  from assms(7) have inp: "incoming c = Line ?m # rest" by (simp add: out)
  show ?thesis
    unfolding GetWorkUnit_line [OF assms(5,6) inp start offer_scanned [OF assms(4)]]
    by (intro exI [where x = "c\<lparr>incoming := rest, read_buf := ?m\<rparr>"]) simp
qed

theorem offered_work_is_understood_witness:
  "\<exists>s' c'. offer ''C'' ''91'' 2 ''ECM'' 100 5 (demo_sender 0 5000) = Inr ((), s')
     \<and> GetWorkUnitFromServer (demo_unit [] 0 True) (demo_client (map Line (outgoing (sock s')))) =
       Inr ((True, (demo_unit ''C'' 0 True)\<lparr>wu_max := 5\<rparr>), c')"
proof -
  have "\<exists>s'. offer ''C'' ''91'' 2 ''ECM'' 100 5 (demo_sender 0 5000) = Inr ((), s')"
    by (simp add: offer_def sender_defs say_def on_sock_def part_def Sendf_def Send_def bind_def SEND_SIZE_def is_old_def
        run_text format_simps)
  then obtain s' where s': "offer ''C'' ''91'' 2 ''ECM'' 100 5 (demo_sender 0 5000) = Inr ((), s')" ..
  have u: "(demo_unit [] 0 True)\<lparr>wu_name := ''C'', wu_value := ''91'', wu_length := 2, wu_method := ''ECM'', wu_b1 := 100,
      wu_max := 5, wu_curves := 0\<rparr> = (demo_unit ''C'' 0 True)\<lparr>wu_max := 5\<rparr>"
    by (simp add: demo_unit_def)
  have "\<exists>c'. GetWorkUnitFromServer (demo_unit [] 0 True) (demo_client (map Line (outgoing (sock s')))) =
      Inr ((True, (demo_unit ''C'' 0 True)\<lparr>wu_max := 5\<rparr>), c') \<and> incoming c' = []"
    unfolding u [symmetric]
    by (rule offered_work_is_understood [OF s'])
      (simp_all add: sender_defs is_old_def prefixed_def demo_client_def version_3_def code_def assignment_ok_def ok_word_def
        ok_f0_def is_space_def buffer_sizes)
  with s' show ?thesis by auto
qed

text \<open>C6: The two messages of a unit without a factor are, for the server, one operation on the unit's own
  values: start, add its curves, and either commit and accept it, or answer its end as not understood.\<close>

theorem returned_work_is_understood:
  assumes "return_3 w c = Inr (b, c')" "so_open c" "\<not> wu_factored w" "unit_ok 80 w"
  shows "\<exists>m1 m2. outgoing c' = outgoing c @ [m1, m2]
     \<and> (\<forall>pp ok g. g \<noteq> m1 \<longrightarrow>
          bind (handle_message pp (ok, g) m1) (\<lambda>l. bind (handle_message pp l m2) (\<lambda>_. ret ())) = returned_unit pp w)"
proof -
  have "outgoing c' = outgoing c @ [sprintf RETURN_LINE (return_args w), END_LINE w]"
    by (rule return_3_lines [OF assms(1-3)])
  with handle_returned_unit [OF assms(4)] show ?thesis by blast
qed

theorem returned_work_is_understood_witness:
  "\<exists>b c' m1 m2. return_3 (demo_unit ''C'' 3 True) (demo_client [Line ''Accepted Work for C'']) = Inr (b, c')
     \<and> outgoing c' = [m1, m2]
     \<and> bind (handle_message no_prp (True, ''xyz'') m1) (\<lambda>l. bind (handle_message no_prp l m2) (\<lambda>_. ret ()))
       = returned_unit no_prp (demo_unit ''C'' 3 True)"
proof -
  let ?w = "demo_unit ''C'' 3 True" and ?c = "demo_client [Line ''Accepted Work for C'']"
  have "\<exists>b c'. return_3 ?w ?c = Inr (b, c') \<and> hd (outgoing c') \<noteq> ''xyz''"
    by (simp add: return_3_def RETURN_LINE_def return_args_def demo_unit_def demo_client_def tell_def Sendf_def Send_def
        bind_def SEND_SIZE_def Receive_def strcpy_def run_text format_simps; blast)
  then obtain b c' where r: "return_3 ?w ?c = Inr (b, c')" "hd (outgoing c') \<noteq> ''xyz''" by (elim exE conjE) (rule that)
  have "unit_ok 80 ?w" by (rule demo_unit_ok) (simp_all add: ok_word_def is_space_def code_def)
  from returned_work_is_understood [OF r(1) _ _ this] obtain m1 m2 where
    m: "outgoing c' = [m1, m2]" "\<forall>pp ok g. g \<noteq> m1 \<longrightarrow>
          bind (handle_message pp (ok, g) m1) (\<lambda>l. bind (handle_message pp l m2) (\<lambda>_. ret ())) = returned_unit pp ?w"
    by (auto simp: demo_unit_def demo_client_def)
  show ?thesis
    using r m by (intro exI conjI) auto
qed

text \<open>The server takes the names of a 3.x client from its first message; the machine is not in it, and
  is set to the instance.\<close>

theorem client_is_identified:
  assumes "\<forall>x \<in> {email, inst, user}. ok_word x" "\<not> prefixed ''3.'' email"
    and "length email + length inst + length user \<le> 187"
  shows "ParseFirstMessage (sprintf client_FROM [VS email, VS inst, VS user, VS ECMNET_VERSION]) h =
     Inr (True, h\<lparr>hs_email := email, hs_instance := inst, hs_user := user, hs_version := ECMNET_VERSION,
                  hs_machine := inst\<rparr>)"
proof -
  let ?vs = "[VS email, VS inst, VS user, VS ECMNET_VERSION]"
  let ?m = "sprintf client_FROM ?vs"
  have m: "?m = ''FROM '' @ email @ '' '' @ inst @ '' '' @ user @ '' 3.0.5''"
    by (simp add: client_FROM_def message_simps ECMNET_VERSION_def)
  have scan: "sscanf ?m ''FROM %s %s %s %s'' [IDS, IDS, IDS, 20] = Inr ?vs"
    by (rule sscanf_sprintf) (use assms in \<open>simp_all add: client_FROM_def message_simps fits_def IDS_def ID_LENGTH_def
      ok_word_def ECMNET_VERSION_def\<close>)
  have three: "\<not> prefixed ''FROM 3.'' ?m"
    using assms(1,2) unfolding m by (cases email; cases "tl email") (auto simp: format_simps ok_word_def is_space_def code_def)
  have "prefixed ''FROM '' ?m" "length ?m \<le> 200"
    using assms(3) unfolding m by (simp_all add: format_simps)
  moreover have "inst \<noteq> []" using assms(1) by (auto simp: ok_word_def)
  ultimately show ?thesis
    using scan three by (simp add: ParseFirstMessage_def parse_from_def scan_into_def bind_def set_field_defs)
qed

theorem client_is_identified_witness:
  "\<exists>h. ParseFirstMessage ''FROM b@x i1 bob 3.0.5'' (demo_helper []) = Inr (True, h) \<and> hs_machine h = ''i1''"
proof -
  have m: "''FROM b@x i1 bob 3.0.5'' = sprintf client_FROM [VS ''b@x'', VS ''i1'', VS ''bob'', VS ECMNET_VERSION]"
    by (simp add: client_FROM_def message_simps ECMNET_VERSION_def)
  show ?thesis
    unfolding m by (subst client_is_identified) (simp_all add: ok_word_def is_space_def code_def format_simps)
qed

text \<open>C23: The client matches its units with the server's answers one by one: of the units it returns, it keeps,
  in their order, those for which the line it gets is not the acceptance of that unit; units without a
  curve are given up without an answer.\<close>

theorem units_are_matched_with_answers:
  assumes "return_units us s = Inr (u, s')" "so_open (wk_conn s)" "version_3 (wk_conn s)"
  shows "wk_units s' = wk_units s @ kept us (incoming (wk_conn s))"
  by (rule return_units_kept [OF assms])

theorem units_are_matched_with_answers_witness:
  "\<exists>s'. return_units [demo_unit ''C'' 3 True, demo_unit ''D'' 2 True]
       (demo_job [] [Line ''ERROR'', Line ''Accepted Work for D'']) = Inr ((), s')
     \<and> map wu_name (wk_units s') = [''C'']"
proof -
  let ?us = "[demo_unit ''C'' 3 True, demo_unit ''D'' 2 True]"
  let ?s = "demo_job [] [Line ''ERROR'', Line ''Accepted Work for D'']"
  have "\<exists>s'. return_units ?us ?s = Inr ((), s')"
    by (simp add: return_3_def RETURN_LINE_def return_args_def client_defs tell_def Sendf_def Send_def
        bind_def SEND_SIZE_def Receive_def strcpy_def run_text format_simps ReturnWorkUnit_def version_3_def on_conn_def
        part_def AddWorkUnit_def)
  then obtain s' where r: "return_units ?us ?s = Inr ((), s')" ..
  have "wk_units s' = wk_units ?s @ kept ?us (incoming (wk_conn ?s))"
    by (rule units_are_matched_with_answers [OF r]) (simp_all add: demo_job_def demo_client_def version_3_def code_def)
  with r show ?thesis by (simp add: client_defs)
qed

text \<open>A composite the server does not have is answered twice, once for the work and once for its end. The
  client takes the second answer for the next unit's: it keeps that unit too, whatever the server does with
  it.\<close>

theorem refusal_takes_the_next_answer:
  assumes "bind (EndWork False) (\<lambda>_. StartWork (wu_name w)) s = Inr (u, s1)"
    and "rc_comp s1 = Some c0" "\<not> co_found c0" "co_name c0 = wu_name w" "so_open (sock s1)"
    and "returned_unit pp w s = Inr (u2, s2)"
    and "\<forall>x \<in> {w, w'}. wu_curves x \<noteq> 0 \<and> wu_name x \<noteq> []"
    and "so_open (wk_conn t)" "version_3 (wk_conn t)"
    and "incoming (wk_conn t) = map Line (drop (length (outgoing (sock s1))) (outgoing (sock s2))) @ rest"
    and "return_units [w, w'] t = Inr (u3, t')"
  shows "wk_units t' = wk_units t @ [w, w']"
proof -
  from assms(1) obtain u0 s0 where 0: "EndWork False s = Inr (u0, s0)" "StartWork (wu_name w) s0 = Inr (u, s1)"
    by (auto simp: bind_eq_Inr)
  have "ProcessWork pp v f i b k d s1 = bind (say ''ERROR: Composite <%s> not found on server'' [VS (wu_name w)])
      (\<lambda>_. ret False) s1" for v f i b k d
    using assms(2-4) by (simp add: ProcessWork_def deref_def bind_def fails_def)
  with assms(6) 0 obtain u4 s3 where
    said: "say ''ERROR: Composite <%s> not found on server'' [VS (wu_name w)] s1 = Inr (u4, s3)"
      "say ''ERROR: Did not understand message <%s>'' [VS (''End Return Work for '' @ wu_name w)] s3 = Inr (u2, s2)"
    unfolding returned_unit_def by (auto simp only: bind_eq_Inr run_simps sum.inject prod.inject if_False if_True)
  define e1 where "e1 = sprintf ''ERROR: Composite <%s> not found on server'' [VS (wu_name w)]"
  define e2 where "e2 = sprintf ''ERROR: Did not understand message <%s>'' [VS (''End Return Work for '' @ wu_name w)]"
  have out: "outgoing (sock s2) = outgoing (sock s1) @ [e1, e2]"
    using say_Inr [OF said(1), folded e1_def] say_Inr [OF said(2), folded e2_def] say_open [OF said(1)] assms(5) by auto
  have "e1 \<noteq> ''Accepted Work for '' @ n" "e2 \<noteq> ''Accepted Work for '' @ n" for n
    by (simp_all add: e1_def e2_def message_simps)
  with assms(7) have "kept [w, w'] (incoming (wk_conn t)) = [w, w']"
    unfolding assms(10) out by simp
  with return_units_kept [OF assms(11,8,9)] show ?thesis by simp
qed

theorem refusal_takes_the_next_answer_witness:
  "\<exists>s2 t'. returned_unit no_prp (demo_unit ''D'' 3 True) (demo_receiver []) = Inr ((), s2)
     \<and> return_units [demo_unit ''D'' 3 True, demo_unit ''C'' 2 True]
         (demo_job [] (map Line (outgoing (sock s2)) @ [Line ''Accepted Work for C''])) = Inr ((), t')
     \<and> wk_units t' = [demo_unit ''D'' 3 True, demo_unit ''C'' 2 True]"
proof -
  let ?w = "demo_unit ''D'' 3 True" and ?w' = "demo_unit ''C'' 2 True"
  let ?t = "\<lambda>s2. demo_job [] (map Line (drop 0 (outgoing (sock s2))) @ [Line ''Accepted Work for C''])"
  have "\<exists>s1 s2 c0. bind (EndWork False) (\<lambda>_. StartWork ''D'') (demo_receiver []) = Inr ((), s1)
      \<and> returned_unit no_prp ?w (demo_receiver []) = Inr ((), s2) \<and> rc_comp s1 = Some c0 \<and> \<not> co_found c0
      \<and> co_name c0 = ''D'' \<and> so_open (sock s1) \<and> outgoing (sock s1) = []
      \<and> (\<exists>t'. return_units [?w, ?w'] (?t s2) = Inr ((), t'))"
    by (simp add: run_base run_text run_objects run_receiver demo_defs returned_unit_def return_3_def RETURN_LINE_def
        return_args_def client_defs tell_def format_simps ReturnWorkUnit_def version_3_def on_conn_def AddWorkUnit_def
        cong: lazy)
  then obtain s1 s2 c0 t' where r: "bind (EndWork False) (\<lambda>_. StartWork ''D'') (demo_receiver []) = Inr ((), s1)"
      "returned_unit no_prp ?w (demo_receiver []) = Inr ((), s2)" "rc_comp s1 = Some c0" "\<not> co_found c0"
      "co_name c0 = ''D''" "so_open (sock s1)" "outgoing (sock s1) = []" "return_units [?w, ?w'] (?t s2) = Inr ((), t')"
    by (elim exE conjE) (rule that)
  have "wk_units t' = wk_units (?t s2) @ [?w, ?w']"
    by (rule refusal_takes_the_next_answer [OF _ r(3,4) _ r(6,2) _ _ _ _ r(8)])
      (use r(1,5,7) in \<open>simp_all add: client_defs version_3_def code_def\<close>)
  with r(2,8) show ?thesis by (auto simp: demo_job_def)
qed

text \<open>When the unit that did the last curve has none left and the unit after it has, \<open>Work::DoCurve\<close> does
  nothing at all, and reports that as the amount of work by which \<open>DoWork\<close> recognizes an interrupt.\<close>

theorem second_unit_is_not_started:
  assumes "wk_units s = w1 # w2 # ws" "wu_didCurve w1" "\<not> CanDoAnotherCurve False w1" "CanDoAnotherCurve False w2"
  shows "work_DoCurve ecm writable s = Inr ((0, False), s\<lparr>wk_units := w1\<lparr>wu_didCurve := False\<rparr> # w2 # ws\<rparr>)
     \<and> work_CanDoAnotherCurve s"
proof -
  have "\<not> CanDoAnotherCurve False (w1\<lparr>wu_didCurve := False\<rparr>)"
    using assms(3) by (auto simp: CanDoAnotherCurve_def split: if_splits)
  then show ?thesis
    using assms by (simp add: work_DoCurve_def work_CanDoAnotherCurve_def bind_def)
qed

theorem second_unit_is_not_started_witness:
  "work_DoCurve (\<lambda>c i. None) True (demo_job [demo_unit ''C'' 3 True, demo_unit ''D'' 0 False] [])
     = Inr ((0, False), demo_job [demo_unit ''C'' 3 False, demo_unit ''D'' 0 False] [])"
proof -
  let ?s = "demo_job [demo_unit ''C'' 3 True, demo_unit ''D'' 0 False] []"
  have "wk_units ?s = [demo_unit ''C'' 3 True, demo_unit ''D'' 0 False]" by (simp add: demo_job_def)
  from second_unit_is_not_started [OF this, of "\<lambda>c i. None" True] show ?thesis
    by (simp add: client_defs CanDoAnotherCurve_def FM_PM1_def prefixed_def)
qed

end
