(* ===== verification/ClientLimits.thy ===== *)
theory ClientLimits
  imports ClientProps ReceiverEnds
begin

text \<open>
  How far the client goes: a unit never gets more curves than were asked for, and the loops over what a
  server sends end.
\<close>

section \<open>What a curve leaves as it was\<close>

definition same_task :: "unit_state \<Rightarrow> unit_state \<Rightarrow> bool" where
  "same_task w w' \<longleftrightarrow> wu_curves w' = wu_curves w \<and> wu_max w' = wu_max w \<and> wu_name w' = wu_name w
     \<and> wu_value w' = wu_value w \<and> wu_method w' = wu_method w"

lemma same_task_refl [simp]: "same_task w w"
  by (simp add: same_task_def)

lemma same_task_trans: "same_task a b \<Longrightarrow> same_task b c \<Longrightarrow> same_task a c"
  by (auto simp: same_task_def)

definition keeps :: "unit_state \<Rightarrow> halt + unit_state \<Rightarrow> bool" where
  "keeps w r \<longleftrightarrow> (\<forall>w'. r = Inr w' \<longrightarrow> same_task w w')"

named_theorems task_intros \<open>steps that do not change what the task is\<close>

lemma keeps_basic [task_intros]:
  "same_task w w1 \<Longrightarrow> keeps w (Inr w1)" "keeps w (Inl h)"
  "(\<And>x. keeps w (f x)) \<Longrightarrow> keeps w (and_then m f)"
  "keeps w r1 \<Longrightarrow> keeps w r2 \<Longrightarrow> keeps w (if b then r1 else r2)"
  "keeps w r1 \<Longrightarrow> (\<And>x. keeps w (g x)) \<Longrightarrow> keeps w (case z of None \<Rightarrow> r1 | Some x \<Rightarrow> g x)"
  by (auto simp: keeps_def split: option.splits)

lemma keeps_then: "keeps w m \<Longrightarrow> (\<And>w1. same_task w w1 \<Longrightarrow> keeps w (f w1)) \<Longrightarrow> keeps w (and_then m f)"
  by (cases m) (auto simp: keeps_def)

lemma keeps_trans: "same_task w w1 \<Longrightarrow> keeps w1 r \<Longrightarrow> keeps w r"
  by (auto simp: keeps_def intro: same_task_trans)

lemma same_task_updates [task_intros]:
  "same_task w v \<Longrightarrow> same_task w (v\<lparr>wu_factorType := t\<rparr>)" "same_task w v \<Longrightarrow> same_task w (v\<lparr>wu_factor := t\<rparr>)"
  "same_task w v \<Longrightarrow> same_task w (v\<lparr>wu_b1 := x\<rparr>)" "same_task w v \<Longrightarrow> same_task w (v\<lparr>wu_b2 := x\<rparr>)"
  "same_task w v \<Longrightarrow> same_task w (v\<lparr>wu_sigma := i\<rparr>)" "same_task w v \<Longrightarrow> same_task w (v\<lparr>wu_x0 := i\<rparr>)"
  "same_task w v \<Longrightarrow> same_task w (v\<lparr>wu_cofactor := t\<rparr>)" "same_task w v \<Longrightarrow> same_task w (v\<lparr>wu_cofactorType := t\<rparr>)"
  "same_task w v \<Longrightarrow> same_task w (v\<lparr>wu_command := t\<rparr>)"
  by (simp_all add: same_task_def)

lemma found_line_task: "keeps w (found_line p w)"
  unfolding found_line_def Let_def by (intro task_intros same_task_refl)

lemma using_line_task: "keeps w (using_line l p w)"
  unfolding using_line_def Let_def
proof (rule keeps_then, goal_cases)
  case 1
  show ?case by (intro task_intros same_task_refl)
next
  case (2 w1)
  then show ?case by (intro task_intros)
qed

lemma factor_line_task: "keeps w (factor_line l w)"
  unfolding factor_line_def Let_def
proof (rule keeps_then, goal_cases)
  case 1
  show ?case by (intro task_intros same_task_refl)
next
  case (2 w1)
  then show ?case
    by (intro task_intros keeps_trans [OF 2 found_line_task] keeps_trans [OF 2 using_line_task] 2)
qed

lemma factor_lines_task: "keeps w (factor_lines ls w)"
  by (induction ls arbitrary: w)
    (auto simp: keeps_basic(1) intro!: keeps_then factor_line_task intro: keeps_trans)

lemma ExtractFactor_task: "ExtractFactor out w = Inr w' \<Longrightarrow> same_task w w'"
  using factor_lines_task [of "w\<lparr>wu_sigma := 0, wu_x0 := 0, wu_b2 := 0, wu_factor := [], wu_cofactor := [],
    wu_factorType := [], wu_cofactorType := []\<rparr>" "file_lines (BUFFER_SIZE - 2) out"]
  by (auto simp: ExtractFactor_def keeps_def same_task_def)

lemma ParseCurveOutput_task: "ParseCurveOutput f w = Inr (d, w') \<Longrightarrow> same_task w w'"
  by (auto simp: ParseCurveOutput_def Let_def same_task_def dest!: ExtractFactor_task split: option.splits if_splits)

lemma SetUpCall_task: "SetUpCall w = Inr w' \<Longrightarrow> same_task w w'"
proof -
  have "keeps w (SetUpCall w)" unfolding SetUpCall_def Let_def by (intro task_intros same_task_refl)
  then show "SetUpCall w = Inr w' \<Longrightarrow> same_task w w'" by (simp add: keeps_def)
qed

definition within_max :: "unit_state \<Rightarrow> bool" where
  "within_max w \<longleftrightarrow> 0 \<le> wu_curves w \<and> wu_curves w \<le> wu_max w \<and> wu_max w < 2 ^ 31"

lemma DoCurve_within:
  assumes "DoCurve ecm wr False w = Inr (d, i, w')" "within_max w"
  shows "within_max w' \<and> wu_max w' = wu_max w \<and> wu_name w' = wu_name w
    \<and> wu_curves w' = wu_curves w + (if CanDoAnotherCurve False w \<and> \<not> i then 1 else 0)"
proof (cases "CanDoAnotherCurve False w")
  case False
  with assms show ?thesis by (auto simp: DoCurve_def)
next
  case True
  then have lt: "wu_curves w < wu_max w" by (auto simp: CanDoAnotherCurve_def split: if_splits)
  from assms(1) True obtain w1 fin w2 where "SetUpCall w = Inr w1"
    and "ParseCurveOutput (ecm (wu_command w1) (wu_value w1)) w1 = Inr (fin, w2)"
    and r: "(i, w') = (if \<not> fin then (True, w2) else (False, w2\<lparr>wu_curves := wrap32 (wu_curves w2 + 1)\<rparr>))"
    by (auto simp: DoCurve_def Let_def split: if_splits)
  then have "same_task w w2" by (blast intro: same_task_trans SetUpCall_task ParseCurveOutput_task)
  moreover have "wrap32 (wu_curves w + 1) = wu_curves w + 1"
    using lt assms(2) by (simp add: wrap32_def within_max_def)
  ultimately show ?thesis
    using r lt assms(2) True by (auto simp: same_task_def within_max_def split: if_splits)
qed

definition forgotten :: "unit_state \<Rightarrow> unit_state \<Rightarrow> bool" where
  "forgotten w w' \<longleftrightarrow> w' = w \<or> w' = w\<lparr>wu_didCurve := False\<rparr>"

lemma choose_unit_list:
  "choose_unit us i = (r, us') \<Longrightarrow> list_all2 forgotten us us' \<and> (\<forall>k. r = Some k \<longrightarrow> i \<le> k \<and> k < i + length us)"
proof (induction us arbitrary: i r us')
  case (Cons w ws)
  have refl: "list_all2 forgotten ws ws"
    by (rule list_all2_refl) (simp add: forgotten_def)
  have here: "forgotten w w" "forgotten w (w\<lparr>wu_didCurve := False\<rparr>)" by (simp_all add: forgotten_def)
  obtain r2 us2 where c: "choose_unit ws (i + 1) = (r2, us2)" by fastforce
  from Cons.IH [OF this] Cons.prems refl here c show ?case
    by (auto simp: Let_def split: if_splits)
qed simp

lemma work_DoCurve_run:
  assumes "choose_unit (wk_units s) 0 = (r, us)" "j = (case r of None \<Rightarrow> 0 | Some k \<Rightarrow> k)"
  shows "work_DoCurve ecm writable s =
    (if us = [] then Inl Undefined
     else if CanDoAnotherCurve False (us ! j) then
       and_then (DoCurve ecm writable False (us ! j)) (\<lambda>(d, i, w).
       and_then (work_Save writable (s\<lparr>wk_units := us[j := w]\<rparr>)) (\<lambda>(u, t). Inr ((d, i), t)))
     else Inr ((0, False), s\<lparr>wk_units := us\<rparr>))"
  unfolding work_DoCurve_def bind_def asks_def and_then_simps prod.case assms(1) Let_def assms(2) [symmetric]
  by (auto simp: modify_def lift_def and_then_def ret_def stop_def split: sum.splits prod.splits)

lemma work_Save_units: "work_Save wr s = Inr (u, t) \<Longrightarrow> wk_units t = wk_units s"
  by (auto simp: work_Save_def bind_eq_Inr split: if_splits)

lemma same_unit:
  assumes "forgotten w w'"
  shows "wu_curves w' = wu_curves w" "wu_max w' = wu_max w" "within_max w' = within_max w"
  using assms by (auto simp: within_max_def forgotten_def)

lemma work_DoCurve_limits:
  assumes "work_DoCurve ecm writable s = Inr ((d, i), s')" "\<forall>w \<in> set (wk_units s). within_max w"
  shows "(\<forall>w \<in> set (wk_units s'). within_max w) \<and> map wu_max (wk_units s') = map wu_max (wk_units s)
     \<and> (\<exists>k < length (wk_units s). \<exists>n \<in> {0, 1}.
          map wu_curves (wk_units s') = (map wu_curves (wk_units s))[k := wu_curves (wk_units s ! k) + n])"
proof -
  obtain r us where c: "choose_unit (wk_units s) 0 = (r, us)" by fastforce
  define j where "j = (case r of None \<Rightarrow> 0 | Some k \<Rightarrow> k)"
  from choose_unit_list [OF c] have l: "list_all2 forgotten (wk_units s) us"
    and k: "\<And>k. r = Some k \<Longrightarrow> k < length us"
    by (auto dest: list_all2_lengthD)
  have len: "length us = length (wk_units s)" using l by (simp add: list_all2_lengthD)
  have maps: "map wu_curves us = map wu_curves (wk_units s)" "map wu_max us = map wu_max (wk_units s)"
    using l by (auto simp: list_all2_conv_all_nth same_unit intro!: nth_equalityI)
  have in_us: "\<forall>w \<in> set us. within_max w"
    using l assms(2) same_unit(3) by (fastforce simp: list_all2_conv_all_nth in_set_conv_nth)
  note run = work_DoCurve_run [OF c j_def, of ecm writable]
  from assms(1) run have "us \<noteq> []" by (auto split: if_splits)
  then have j: "j < length us" using k by (cases r) (auto simp: j_def)
  show ?thesis
  proof (cases "CanDoAnotherCurve False (us ! j)")
    case False
    with assms(1) run \<open>us \<noteq> []\<close> have "wk_units s' = us" by auto
    moreover have "map wu_curves (wk_units s) = (map wu_curves (wk_units s))[j := wu_curves (wk_units s ! j) + 0]"
      using j len list_update_id [of "map wu_curves (wk_units s)" j] by simp
    ultimately show ?thesis
      using in_us maps j len by (intro conjI exI [where x = j] bexI [where x = 0]) simp_all
  next
    case True
    with assms(1) run \<open>us \<noteq> []\<close> obtain w where did: "DoCurve ecm writable False (us ! j) = Inr (d, i, w)"
      and u: "wk_units s' = us[j := w]"
      by (auto dest!: work_Save_units)
    have w: "within_max w" "wu_max w = wu_max (us ! j)" "\<exists>n \<in> {0, 1}. wu_curves w = wu_curves (us ! j) + n"
      using DoCurve_within [OF did] in_us j by (auto simp: nth_mem)
    have at_j: "wu_max (us ! j) = map wu_max (wk_units s) ! j" "wu_curves (us ! j) = wu_curves (wk_units s ! j)"
      using maps j len by (metis nth_map)+
    have "map wu_max (wk_units s') = map wu_max (wk_units s)"
      using u maps(2) w(2) at_j(1) by (simp add: map_update)
    moreover have "\<exists>n \<in> {0, 1}. map wu_curves (wk_units s') = (map wu_curves (wk_units s))[j := wu_curves (wk_units s ! j) + n]"
      using u maps(1) w(3) at_j(2) by (auto simp: map_update)
    moreover have "\<forall>w \<in> set (wk_units s'). within_max w"
      using u in_us w(1) by (auto dest!: set_update_subset_insert [THEN subsetD])
    ultimately show ?thesis using j len by auto
  qed
qed

lemma curves_within:
  "work_DoCurve ecm b s = Inr ((d, i), s') \<Longrightarrow> \<forall>w \<in> set (wk_units s). within_max w \<Longrightarrow> \<forall>w \<in> set (wk_units s'). within_max w"
  using work_DoCurve_limits by blast

text \<open>C24: A curve never takes a unit past the number of curves it was given; the list of units keeps its
  length and its limits, and at most one curve is counted.\<close>

theorem curves_stay_within_the_assignment:
  assumes "work_DoCurve ecm writable s = Inr ((d, i), s')" "\<forall>w \<in> set (wk_units s). within_max w"
  shows "(\<forall>w \<in> set (wk_units s'). within_max w) \<and> map wu_max (wk_units s') = map wu_max (wk_units s)
     \<and> (\<exists>k < length (wk_units s). \<exists>n \<in> {0, 1}.
          map wu_curves (wk_units s') = (map wu_curves (wk_units s))[k := wu_curves (wk_units s ! k) + n])"
  by (rule work_DoCurve_limits [OF assms])

theorem curves_stay_within_the_assignment_witness:
  "\<exists>s'. work_DoCurve (\<lambda>c i. Some ''Step 1 took 3ms Step 2 took 4ms'') True (demo_job [demo_unit ''C'' 2 False] [])
       = Inr ((100, False), s')
     \<and> map wu_curves (wk_units s') = [3] \<and> (\<forall>w \<in> set (wk_units s'). within_max w)"
proof -
  let ?ecm = "\<lambda>c i. Some ''Step 1 took 3ms Step 2 took 4ms''" and ?s = "demo_job [demo_unit ''C'' 2 False] []"
  have "\<exists>s'. work_DoCurve ?ecm True ?s = Inr ((100, False), s') \<and> map wu_curves (wk_units s') = [3]"
    by (simp add: work_DoCurve_def client_defs bind_def CanDoAnotherCurve_def DoCurve_def SetUpCall_def run_text
        format_simps FM_PM1_def FM_PP1_def strcpy_def ParseCurveOutput_def fgets_more step_time_def wrap32_def
        work_Save_def)
  then obtain s' where r: "work_DoCurve ?ecm True ?s = Inr ((100, False), s')" "map wu_curves (wk_units s') = [3]"
    by (elim exE conjE) (rule that)
  have "\<forall>w \<in> set (wk_units s'). within_max w"
    using curves_stay_within_the_assignment [OF r(1)] by (simp add: demo_job_def demo_unit_def within_max_def)
  with r show ?thesis by (intro exI conjI)
qed

section \<open>The loops end\<close>

lemma ends_client [end_intros]: "ends dial" "ends Close" "ends (set_server_version m)" "ends (tell f vs)"
proof -
  show "ends dial" by (auto simp: ends_def dial_def split: list.splits option.splits)
  show "ends Close" unfolding Close_def by (intro end_intros)
  show "ends (tell f vs)" unfolding tell_def by (intro end_intros)
  show "ends (set_server_version m)" unfolding set_server_version_def by (intro end_intros) (simp add: sscanf_def Let_def)
qed

lemma ends_client_Open [end_intros]: "ends (client_Open e u m i)"
  unfolding client_Open_def by (intro end_intros) simp

lemma not_Fuel [simp]: "strcpy v n \<noteq> Inl Fuel" "sscanf t f sizes \<noteq> Inl Fuel"
  "WorkUnit junk m i x e k mm \<noteq> Inl Fuel"
  by (simp_all add: strcpy_def sscanf_def WorkUnit_def Let_def)

lemma and_then_Fuel: "and_then m f = Inl Fuel \<longleftrightarrow> m = Inl Fuel \<or> (\<exists>x. m = Inr x \<and> f x = Inl Fuel)"
  by (cases m) auto

lemma ends_unit_step: "ends (unit_step w)"
proof -
  have "unit_from_line m w \<noteq> Inl Fuel" "old_unit_line m w \<noteq> Inl Fuel" for m
    unfolding unit_from_line_def old_unit_line_def Let_def by (simp_all add: and_then_Fuel)
  then show ?thesis unfolding unit_step_def by (intro end_intros)
qed

lemma unit_step_decreases: "unit_step w c = Inr (Inl w1, c') \<Longrightarrow> pending_lines c' < pending_lines c"
  by (auto simp: unit_step_def bind_eq_Inr split: option.splits if_splits dest!: Receive_Some)

lemma unit_step_more: "unit_step w c = Inr (r, c') \<Longrightarrow> pending_lines c' \<le> pending_lines c"
  by (auto simp: unit_step_def bind_eq_Inr split: option.splits if_splits dest!: Receive_more)

lemma ends_GetWorkUnit [end_intros]: "ends (GetWorkUnitFromServer w)"
proof -
  have "ends (bind (bind (asks pending_lines) (\<lambda>n. iterate (Suc n) unit_step x))
      (\<lambda>r. ret (case r of Inl w1 \<Rightarrow> checked_unit w1 | Inr res \<Rightarrow> res)))" for x
    by (intro ends_bind ends_iterate ends_unit_step ends_basic) (erule unit_step_decreases)
  then show ?thesis unfolding GetWorkUnitFromServer_def bind_assoc .
qed

text \<open>A new unit has no name, so an accepted unit has taken a line from the server.\<close>

lemma iterate_more_lines:
  assumes "\<And>x s r s'. body x s = Inr (r, s') \<Longrightarrow> \<mu> s' \<le> (\<mu> s :: nat)"
  shows "iterate n body x s = Inr (r, s') \<Longrightarrow> \<mu> s' \<le> \<mu> s"
proof (induction n arbitrary: x s)
  case (Suc n)
  then obtain z s1 where "body x s = Inr (z, s1)" "(case z of Inl x' \<Rightarrow> iterate n body x' | Inr y \<Rightarrow> ret y) s1 = Inr (r, s')"
    by (auto simp: bind_eq_Inr)
  with Suc.IH assms [of x s] show ?case by (cases z) fastforce+
qed simp

lemma unit_step_none: "unit_step w c = Inr (Inr (Inl w1), c') \<Longrightarrow> w1 = w \<or> pending_lines c' < pending_lines c"
  by (auto simp: unit_step_def bind_eq_Inr split: option.splits if_splits dest!: Receive_Some)

lemma unit_step_result: "unit_step w c = Inr (Inr (Inr (b, w1)), c') \<Longrightarrow> pending_lines c' < pending_lines c"
  by (auto simp: unit_step_def bind_eq_Inr split: option.splits if_splits dest!: Receive_Some)

lemma accepted_takes_a_line:
  assumes "GetWorkUnitFromServer w c = Inr ((True, w'), c')" "wu_name w = []"
  shows "pending_lines c' < pending_lines c"
proof -
  let ?w = "w\<lparr>wu_curves := 0, wu_max := 0, wu_b1 := 0, wu_length := 0\<rparr>"
  from assms(1) obtain r where it: "iterate (Suc (pending_lines c)) unit_step ?w c = Inr (r, c')"
    and r: "(True, w') = (case r of Inl w1 \<Rightarrow> checked_unit w1 | Inr res \<Rightarrow> res)"
    by (auto simp: GetWorkUnitFromServer_def bind_eq_Inr simp del: iterate.simps)
  from it obtain z c1 where z: "unit_step ?w c = Inr (z, c1)"
    "(case z of Inl x' \<Rightarrow> iterate (pending_lines c) unit_step x' | Inr y \<Rightarrow> ret y) c1 = Inr (r, c')"
    by (auto simp: bind_eq_Inr)
  show ?thesis
  proof (cases z)
    case (Inl w1)
    with z have "pending_lines c1 < pending_lines c" "pending_lines c' \<le> pending_lines c1"
      using unit_step_decreases iterate_more_lines [of unit_step pending_lines, OF unit_step_more] by auto
    then show ?thesis by simp
  next
    case (Inr y)
    with z(2) have y: "y = r" "c1 = c'" by simp_all
    show ?thesis
    proof (cases r)
      case (Inl w1)
      have "checked_unit ?w \<noteq> (True, w')" using assms(2) by (simp add: checked_unit_def Let_def)
      then show ?thesis using unit_step_none [of ?w c w1 c'] z(1) r Inr y Inl by auto
    next
      case (Inr res)
      then show ?thesis using unit_step_result [of ?w c _ _ c'] z(1) \<open>z = Inr y\<close> y by (cases res) auto
    qed
  qed
qed

lemma ends_conn [end_intros]: "ends m \<Longrightarrow> ends (on_conn m)"
  unfolding on_conn_def by (rule ends_part)

lemma ends_work_parts [end_intros]: "ends (AddWorkUnit w)" "ends (new_unit j)" "ends (work_Save b)" "ends open_server"
proof -
  show "ends (AddWorkUnit w)" unfolding AddWorkUnit_def by (intro end_intros)
  show "ends (new_unit j)" unfolding new_unit_def by (intro end_intros not_Fuel)
  show "ends (work_Save b)" unfolding work_Save_def by (intro end_intros) simp
  show "ends open_server" unfolding open_server_def by (intro end_intros)
qed

lemma new_unit_nameless: "new_unit j s = Inr (w, s') \<Longrightarrow> wu_name w = [] \<and> s' = s"
  by (auto simp: new_unit_def WorkUnit_def Let_def split: if_splits)

lemma get_step_decreases: "get_step j x s = Inr (Inl y, s') \<Longrightarrow> work_lines s' < work_lines s"
  by (auto simp: get_step_def bind_eq_Inr on_conn_def part_eq_Inr AddWorkUnit_def work_lines_def
      split: if_splits dest!: new_unit_nameless accepted_takes_a_line)

lemma ends_get_step: "ends (get_step j x)"
  unfolding get_step_def by (intro end_intros)

lemma ends_answers: "ends (greeting_step x)" "ends (answer_step x)"
  unfolding greeting_step_def answer_step_def by (intro end_intros)+

lemma answers_decrease:
  "greeting_step x s = Inr (Inl y, s') \<Longrightarrow> work_lines s' < work_lines s"
  "answer_step x s = Inr (Inl y, s') \<Longrightarrow> work_lines s' < work_lines s"
  by (auto simp: greeting_step_def answer_step_def bind_eq_Inr on_conn_def part_eq_Inr work_lines_def
      split: option.splits if_splits dest!: Receive_Some)

lemma ends_loops: "ends (bind (asks work_lines) (\<lambda>n. iterate (Suc n) (get_step j) ()))"
    "ends (bind (asks work_lines) (\<lambda>n. iterate (Suc n) greeting_step ()))"
    "ends (bind (asks work_lines) (\<lambda>n. iterate (Suc n) answer_step ()))"
  by (intro ends_iterate ends_get_step ends_answers; erule get_step_decreases answers_decrease)+

lemma ends_GetWork: "ends (work_GetWork j b)"
proof -
  have split: "bind (asks work_lines) (\<lambda>n. bind (iterate (Suc n) body ()) f) =
      bind (bind (asks work_lines) (\<lambda>n. iterate (Suc n) body ())) f" for body :: "unit \<Rightarrow> (work_state, unit + unit) run"
      and f :: "unit \<Rightarrow> (work_state, bool) run"
    by (simp only: bind_assoc)
  show ?thesis unfolding work_GetWork_def split by (intro end_intros ends_loops)
qed

lemma ends_return_units: "ends (return_units us)"
proof (induction us)
  case (Cons w us)
  have "ends (return_3 w)" "ends (return_2 w)"
    unfolding return_3_def return_2_def return_2_factor_def by (intro end_intros not_Fuel)+
  then have "ends (ReturnWorkUnit w)" unfolding ReturnWorkUnit_def by (intro end_intros)
  with Cons show ?case unfolding return_units.simps by (intro end_intros)
qed (simp add: ends_def)

lemma ends_ReturnWork: "ends work_ReturnWork"
  unfolding work_ReturnWork_def by (intro end_intros ends_loops ends_return_units)

text \<open>C30: Getting work and returning it always ends, or the program stops as the code does: every round of the
  loops takes a line from the server, and a unit that is accepted has taken one too.\<close>

theorem client_exchanges_end: "work_GetWork junk writable s \<noteq> Inl Fuel \<and> work_ReturnWork s \<noteq> Inl Fuel"
  using ends_GetWork ends_ReturnWork by (simp add: ends_def)

end
