(* ===== verification/ClientMainProps.thy ===== *)
theory ClientMainProps
  imports ClientMain ClientLimits
begin

text \<open>
  The properties of the client program as a whole.
\<close>

section \<open>The loop over curves ends\<close>

lemma iterate_enough_inv:
  assumes "\<And>x s x' s'. I s \<Longrightarrow> body x s = Inr (Inl x', s') \<Longrightarrow> I s' \<and> \<mu> s' < (\<mu> s :: nat)"
    and "\<And>x s. body x s \<noteq> Inl Fuel"
  shows "I s \<Longrightarrow> \<mu> s < n \<Longrightarrow> iterate n body x s \<noteq> Inl (Fuel :: halt)"
proof (induction n arbitrary: x s)
  case (Suc n)
  show ?case
  proof (simp, rule bind_ends)
    show "body x s \<noteq> Inl Fuel" by (rule assms(2))
    fix r s' assume r: "body x s = Inr (r, s')"
    then show "(case r of Inl x' \<Rightarrow> iterate n body x' | Inr y \<Rightarrow> ret y) s' \<noteq> Inl Fuel"
      using Suc assms(1) [of s x _ s'] by (cases r) fastforce+
  qed
qed simp

lemma prompt_Fuel [simp]: "prompt a ks \<noteq> Inl Fuel"
  by (induction ks) auto

lemma ends_SetQuitting [end_intros]: "ends (SetQuitting b)"
  unfolding SetQuitting_def by (intro end_intros prompt_Fuel) simp

named_theorems no_Fuel \<open>results that are not a lack of rounds\<close>

lemma and_then_no_Fuel [no_Fuel]:
  "m \<noteq> Inl Fuel \<Longrightarrow> (\<And>x. f x \<noteq> Inl Fuel) \<Longrightarrow> and_then m f \<noteq> Inl Fuel"
  "Inr y \<noteq> Inl Fuel" "Inl Undefined \<noteq> Inl Fuel" "Inl Exit \<noteq> Inl Fuel" "strcpy v n \<noteq> Inl Fuel" "to_int64 d \<noteq> Inl Fuel"
  "r1 \<noteq> Inl Fuel \<Longrightarrow> r2 \<noteq> Inl Fuel \<Longrightarrow> (if b then r1 else r2) \<noteq> Inl Fuel"
  "r3 \<noteq> Inl Fuel \<Longrightarrow> (\<And>x. g x \<noteq> Inl Fuel) \<Longrightarrow> (case z of None \<Rightarrow> r3 | Some x \<Rightarrow> g x) \<noteq> Inl Fuel"
  "(\<And>x y. h x y \<noteq> Inl Fuel) \<Longrightarrow> (case p of (x, y) \<Rightarrow> h x y) \<noteq> Inl Fuel"
  by (auto simp: and_then_Fuel to_int64_def split: option.splits prod.splits)

lemma curve_no_Fuel [no_Fuel]: "DoCurve ecm b off w \<noteq> Inl Fuel"
proof -
  have [no_Fuel]: "found_line q w \<noteq> Inl Fuel" "using_line l q w \<noteq> Inl Fuel" for l q w
    unfolding found_line_def using_line_def Let_def by (intro no_Fuel)+
  have "factor_line l w \<noteq> Inl Fuel" for l w
    unfolding factor_line_def Let_def by (intro no_Fuel)
  then have "factor_lines ls w \<noteq> Inl Fuel" for ls w
    by (induction ls arbitrary: w) (simp_all add: and_then_Fuel)
  then have "ParseCurveOutput out w \<noteq> Inl Fuel" for out w
    unfolding ParseCurveOutput_def ExtractFactor_def Let_def by (intro no_Fuel)
  moreover have "SetUpCall w \<noteq> Inl Fuel" for w
    unfolding SetUpCall_def Let_def by (intro no_Fuel)
  ultimately show ?thesis unfolding DoCurve_def Let_def by (intro no_Fuel)
qed

lemma ends_work_DoCurve [end_intros]: "ends (work_DoCurve ecm b)"
  unfolding work_DoCurve_def Let_def by (intro end_intros no_Fuel) simp

definition all_within :: "nat \<Rightarrow> client_main \<Rightarrow> bool" where
  "all_within i s \<longleftrightarrow> i < length (cm_works s) \<and> (\<forall>w \<in> set (wk_units (cm_works s ! i)). within_max w)"

lemma ends_on_work [end_intros]: "ends m \<Longrightarrow> ends (on_work i m)"
  unfolding on_work_def by (rule ends_part)

lemma ends_the_work [end_intros]: "ends (the_work i f)"
  unfolding the_work_def by (rule ends_basic)

lemma ends_work_step: "ends (work_step i one l)"
  unfolding work_step_def after_curve_def by (intro end_intros)

lemma sum_list_smaller: "j < length xs \<Longrightarrow> y < xs ! j \<Longrightarrow> sum_list (xs[j := y]) < sum_list (xs :: nat list)"
  by (induction xs arbitrary: j) (auto split: nat.splits simp: nth_Cons)

text \<open>A curve that was completed is counted.\<close>

lemma completed_curve_counts:
  assumes "work_DoCurve ecm b s = Inr ((d, False), s')" "d \<noteq> 0" "\<forall>w \<in> set (wk_units s). within_max w"
  shows "curves_to_go s' < curves_to_go s"
proof -
  obtain r us where c: "choose_unit (wk_units s) 0 = (r, us)" by fastforce
  define j where "j = (case r of None \<Rightarrow> 0 | Some k \<Rightarrow> k)"
  from choose_unit_list [OF c] have l: "list_all2 forgotten (wk_units s) us" by blast
  have "map (\<lambda>u. nat (wu_max u - wu_curves u)) us = map (\<lambda>u. nat (wu_max u - wu_curves u)) (wk_units s)"
    using l by (auto simp: list_all2_conv_all_nth same_unit intro!: nth_equalityI)
  then have left: "curves_to_go s = sum_list (map (\<lambda>u. nat (wu_max u - wu_curves u)) us)"
    by (simp add: curves_to_go_def)
  have in_us: "\<forall>w \<in> set us. within_max w"
    using l assms(3) same_unit(3) by (fastforce simp: list_all2_conv_all_nth in_set_conv_nth)
  note run = work_DoCurve_run [OF c j_def, of ecm b]
  from assms(1,2) run obtain w where can: "CanDoAnotherCurve False (us ! j)" "us \<noteq> []"
    and did: "DoCurve ecm b False (us ! j) = Inr (d, False, w)" and u: "wk_units s' = us[j := w]"
    by (auto split: if_splits dest!: work_Save_units)
  have j: "j < length us"
    using can(2) choose_unit_list [OF c] by (cases r) (auto simp: j_def dest: list_all2_lengthD)
  from DoCurve_within [OF did] in_us j can(1) have "wu_max w = wu_max (us ! j)" "wu_curves w = wu_curves (us ! j) + 1"
    by (auto simp: nth_mem)
  moreover have "wu_curves (us ! j) < wu_max (us ! j)"
    using can(1) by (auto simp: CanDoAnotherCurve_def split: if_splits)
  ultimately have "nat (wu_max w - wu_curves w) < nat (wu_max (us ! j) - wu_curves (us ! j))" by simp
  then have "sum_list (map (\<lambda>u. nat (wu_max u - wu_curves u)) (us[j := w])) <
      sum_list (map (\<lambda>u. nat (wu_max u - wu_curves u)) us)"
    using j by (simp add: map_update sum_list_smaller)
  then show ?thesis unfolding left by (simp add: curves_to_go_def u)
qed

lemma reread_same: "\<exists>a b. reread_lines ls s = s\<lparr>cm_stop := a, cm_asap := b\<rparr>"
proof (induction ls arbitrary: s)
  case Nil
  show ?case by (intro exI [where x = "cm_stop s"] exI [where x = "cm_asap s"]) simp
next
  case (Cons raw ls)
  define s1 where "s1 = (let line = StripCRLF raw in if prefixed ''debuglevel='' line then s
            else if prefixed ''stopoption='' line then s\<lparr>cm_stop := wrap32 (atol (drop 11 line))\<rparr>
            else if prefixed ''stopasapoption='' line then s\<lparr>cm_asap := wrap32 (atol (drop 15 line))\<rparr>
            else s)"
  have "\<exists>a b. s1 = s\<lparr>cm_stop := a, cm_asap := b\<rparr>"
    unfolding s1_def Let_def
    by (intro exI [where x = "cm_stop s1"] exI [where x = "cm_asap s1"]) (auto simp: s1_def Let_def)
  then obtain a b where s1: "s1 = s\<lparr>cm_stop := a, cm_asap := b\<rparr>" by (elim exE) (rule that)
  obtain a' b' where "reread_lines ls s1 = s1\<lparr>cm_stop := a', cm_asap := b'\<rparr>" using Cons.IH [of s1] by (elim exE) (rule that)
  moreover have "reread_lines (raw # ls) s = reread_lines ls s1"
    by (simp add: s1_def Let_def)
  ultimately show ?case by (intro exI [where x = a'] exI [where x = b']) (simp add: s1)
qed

lemma client_ReprocessINIFile_eq:
  "client_ReprocessINIFile s = (if cm_ini s = None then s else s\<lparr>cm_stop := SO_PROMPT, cm_asap := SO_PROMPT\<rparr>)"
proof (cases "cm_ini s")
  case (Some t)
  obtain a b where "reread_lines (file_lines 1998 t) s = s\<lparr>cm_stop := a, cm_asap := b\<rparr>" using reread_same by blast
  with Some show ?thesis by (simp add: client_ReprocessINIFile_def valid_stop_def)
qed (simp add: client_ReprocessINIFile_def)

lemma SetQuitting_Inr: "SetQuitting sig s = Inr (u, s') \<Longrightarrow> cm_terminating s' \<and> cm_works s' = cm_works s"
  by (auto simp: SetQuitting_def bind_eq_Inr client_ReprocessINIFile_eq split: if_splits)

lemma on_work_Inr: "on_work i m s = Inr (a, s') \<longleftrightarrow> (\<exists>x. m (cm_works s ! i) = Inr (a, x) \<and> s' = s\<lparr>cm_works := (cm_works s)[i := x]\<rparr>)"
  by (simp add: on_work_def part_eq_Inr)

lemma after_curve_Inl:
  "after_curve i one f d s = Inr (Inl l', s') \<Longrightarrow> d \<noteq> 0 \<and> \<not> cm_terminating s \<and> cm_works s' = cm_works s"
  by (auto simp: after_curve_def the_work_def client_ReprocessINIFile_eq count_curve_def split: if_splits)

lemma work_step_decreases:
  assumes "all_within i s" "work_step i one l s = Inr (Inl l', s')"
  shows "all_within i s' \<and> curves_to_go (cm_works s' ! i) < curves_to_go (cm_works s ! i)"
proof -
  let ?ecm = "cm_gmp s (cm_calls s)"
  let ?s0 = "s\<lparr>cm_calls := cm_calls s + 1\<rparr>"
  from assms(2) have "bind (on_work i (work_DoCurve ?ecm True)) (\<lambda>(workDone, interrupted).
      bind (if interrupted then SetQuitting True else ret ()) (\<lambda>_. after_curve i one (snd l) workDone)) ?s0 = Inr (Inl l', s')"
    by (simp add: work_step_def split: if_splits)
  then obtain d int x s1 u where did: "work_DoCurve ?ecm True (cm_works s ! i) = Inr ((d, int), x)"
    and q: "(if int then SetQuitting True else ret ()) (?s0\<lparr>cm_works := (cm_works s)[i := x]\<rparr>) = Inr (u, s1)"
    and af: "after_curve i one (snd l) d s1 = Inr (Inl l', s')"
    by (elim bind_InrE) (auto simp: on_work_Inr elim!: bind_InrE)
  from after_curve_Inl [OF af] have go: "d \<noteq> 0" "\<not> cm_terminating s1" and s': "cm_works s' = cm_works s1" by auto
  have "\<not> int" using q go(2) by (auto dest: SetQuitting_Inr split: if_splits)
  with q have "cm_works s1 = (cm_works s)[i := x]" by auto
  moreover have "i < length (cm_works s)" using assms(1) by (simp add: all_within_def)
  moreover have "\<forall>w \<in> set (wk_units x). within_max w"
    using curves_within [OF did] assms(1) by (simp add: all_within_def)
  moreover have "curves_to_go x < curves_to_go (cm_works s ! i)"
    using completed_curve_counts [of ?ecm True "cm_works s ! i" d x] did \<open>\<not> int\<close> go(1) assms(1) by (simp add: all_within_def)
  ultimately show ?thesis by (simp add: all_within_def s')
qed

text \<open>C31: Working for a server ends: as long as no unit has more curves than it was given, \<open>DoWork\<close> does at most
  the curves that are left.\<close>

theorem work_for_a_server_ends:
  assumes "i < length (cm_works s)" "\<forall>w \<in> set (wk_units (cm_works s ! i)). within_max w"
  shows "DoWork i one s \<noteq> Inl Fuel"
proof -
  have "iterate (Suc (curves_to_go (cm_works s ! i))) (work_step i one) (0, False) s \<noteq> Inl Fuel"
  proof (rule iterate_enough_inv [where I = "all_within i" and \<mu> = "\<lambda>s. curves_to_go (cm_works s ! i)"])
    show "all_within i s" using assms by (simp add: all_within_def)
    show "work_step i one l t \<noteq> Inl Fuel" for l t using ends_work_step by (simp add: ends_def)
  qed (rule work_step_decreases, assumption+, rule lessI)
  moreover have "ends (\<lambda>s. (case p of (workDone, found) \<Rightarrow>
      bind (asks (\<lambda>s. cm_terminating s \<and> \<not> cm_quitting s)) (\<lambda>stopping.
      bind (if stopping then SetQuitting False else ret ()) (\<lambda>_.
      bind (modify (\<lambda>s. s\<lparr>cm_factors := wrap32 (cm_factors s + (if found then 1 else 0))\<rparr>)) (\<lambda>_.
      ret (workDone > (0 :: double)))))) s)" for p
    by (intro end_intros)
  ultimately show ?thesis
    unfolding DoWork_def bind_simps(2) by (intro bind_ends) (simp_all only: ends_def not_False_eq_True)
qed

definition demo_main :: "work_state list \<Rightarrow> string \<Rightarrow> client_main" where
  "demo_main ws keys =
     \<lparr>cm_works = ws, cm_workTotals = map (\<lambda>w. 0) ws, cm_count = int (length ws), cm_email = ''b@x'', cm_user = ''bob'',
      cm_machine = ''pc'', cm_instance = ''i1'', cm_exe = ''ecm'', cm_quitting = False, cm_terminating = False,
      cm_frequency = 720, cm_errorTimeout = 20, cm_curves = 0, cm_factors = 0, cm_total = 0, cm_kvalue = 0, cm_maxmem = 0,
      cm_start = 9, cm_stop = 0, cm_asap = 0, cm_ini = Some ''stopoption=2'', cm_keys = keys, cm_calls = 0,
      cm_gmp = \<lambda>n c i. Some ''Step 2 took 4ms'', cm_clock = \<lambda>n. 0\<rparr>"

theorem work_for_a_server_ends_witness:
  "DoWork 0 False (demo_main [demo_job [demo_unit ''C'' 1 False] []] []) \<noteq> Inl Fuel"
  by (rule work_for_a_server_ends) (simp_all add: demo_main_def demo_job_def demo_unit_def within_max_def)

section \<open>What ends the client\<close>



text \<open>Rereading the configuration always resets the two stop options, so that the client asks what to do with
  its work when a curve is interrupted, whatever is configured; when nobody answers, it waits forever.\<close>

theorem configured_stop_option_is_ignored:
  assumes "cm_ini s = Some text" "\<not> (cm_quitting s \<and> cm_stop s \<noteq> SO_PROMPT)"
    and "foldl (\<lambda>n w. wrap32 (n + wrap32 (work_CurvesDone w + work_CurvesToDo w))) 0 (cm_works s) \<noteq> 0"
  shows "SetQuitting True s = and_then (prompt (\<lambda>n. n = SO_REPORT_QUIT \<or> n = SO_CONTINUE) (cm_keys s))
     (\<lambda>(n, ks). Inr ((), s\<lparr>cm_terminating := True, cm_stop := n, cm_keys := ks, cm_asap := SO_PROMPT, cm_quitting := True\<rparr>))"
proof -
  have "client_ReprocessINIFile (s\<lparr>cm_terminating := True\<rparr>) =
      s\<lparr>cm_terminating := True, cm_stop := SO_PROMPT, cm_asap := SO_PROMPT\<rparr>"
    using assms(1) by (simp add: client_ReprocessINIFile_eq)
  moreover have "(cm_quitting s \<and> cm_stop s \<noteq> SO_PROMPT) = False" using assms(2) by simp
  ultimately show ?thesis
    using assms(3)
    by (auto simp: SetQuitting_def bind_def lift_def and_then_def modify_def split: sum.splits prod.splits)
qed

theorem configured_stop_option_is_ignored_witness:
  "SetQuitting True (demo_main [demo_job [demo_unit ''C'' 1 False] []] []) = Inl Hang"
proof -
  let ?s = "demo_main [demo_job [demo_unit ''C'' 1 False] []] []"
  have "foldl (\<lambda>n w. wrap32 (n + wrap32 (work_CurvesDone w + work_CurvesToDo w))) 0 (cm_works ?s) \<noteq> 0"
    by (simp add: demo_main_def demo_job_def demo_unit_def work_CurvesDone_def work_CurvesToDo_def GetCurvesToDo_def wrap32_def)
  from configured_stop_option_is_ignored [OF _ _ this] show ?thesis
    by (simp add: demo_main_def)
qed

text \<open>The option \<open>-e\<close> ends the client: the address that follows it is taken for an option as well.\<close>

theorem email_option_ends_the_client:
  assumes "e \<notin> {''-debug'', ''-debuglevel'', ''-loglimit'', ''-errtimeout'', ''-id''}" "length e < 100"
  shows "ProcessCommandLine (''-e'' # e # as) s = Inl Exit"
  using assms by (simp add: cm_string_def strcpy_def)

theorem email_option_ends_the_client_witness:
  "ProcessCommandLine [''-e'', ''b@x''] (demo_main [] []) = Inl Exit"
  by (rule email_option_ends_the_client) simp_all

end
