(* ===== verification/SyncPeer.thy ===== *)
theory SyncPeer
  imports WorkReceiver
begin

text \<open>
  What the two ends of a synchronisation between servers have in common (\<open>src/source/IAmAMaster.cpp\<close>,
  \<open>src/source/IAmASlave.cpp\<close>): the object's members, reading the rows of a query one by one, the
  rows and messages of work, composites, factor events and details, and the loop that takes the
  messages of one master composite up to \<open>End Master Composite <name>\<close>.
\<close>

record peer = handler +
  pr_server :: string
  pr_password :: string
  pr_master :: "master option"
  pr_comp :: "composite option"
  pr_event :: "factor_event option"

definition keep_master :: "master option \<Rightarrow> (peer, unit) run" where
  "keep_master m = modify (\<lambda>s. s\<lparr>pr_master := m\<rparr>)"

definition keep_comp :: "composite option \<Rightarrow> (peer, unit) run" where
  "keep_comp c = modify (\<lambda>s. s\<lparr>pr_comp := c\<rparr>)"

definition keep_event :: "factor_event option \<Rightarrow> (peer, unit) run" where
  "keep_event e = modify (\<lambda>s. s\<lparr>pr_event := e\<rparr>)"

text \<open>\<open>m1 && m2\<close>, and \<open>Close\<close> of the connection.\<close>

definition and_also :: "(peer, bool) run \<Rightarrow> (peer, bool) run \<Rightarrow> (peer, bool) run" where
  "and_also m1 m2 = bind m1 (\<lambda>ok. if ok then m2 else ret False)"

definition close_connection :: "(peer, unit) run" where
  "close_connection = modify (\<lambda>s. s\<lparr>sock := (sock s)\<lparr>so_open := False, incoming := []\<rparr>\<rparr>)"

text \<open>
  The buffer a name is scanned into is the caller's, with the content of the last round until then.
\<close>

definition name_scanned :: "string option \<Rightarrow> sval list \<Rightarrow> string option" where
  "name_scanned old vs = (case vs of VS n # _ \<Rightarrow> Some n | _ \<Rightarrow> old)"

text \<open>A loop whose every round takes a line from the connection.\<close>

definition reading :: "('x \<Rightarrow> ('s handler_scheme, 'x + 'r) run) \<Rightarrow> 'x \<Rightarrow> ('s handler_scheme, 'r) run" where
  "reading body x = bind (asks lines_left) (\<lambda>n. iterate (Suc n) body x)"

section \<open>Rows of a query\<close>

text \<open>
  \<open>while (success && selectStatement->FetchRow(false)) ...\<close>: the body says whether to go on. A query
  that is not carried out has no rows.
\<close>

primrec each_row :: "('r \<Rightarrow> ('s handler_scheme, bool) run) \<Rightarrow> 'r list \<Rightarrow> ('s handler_scheme, bool) run" where
  "each_row body [] = bind (on_db (fetch ([] :: unit list))) (\<lambda>_. ret True)"
| "each_row body (r # rows) =
     bind (on_db (fetch (r # rows))) (\<lambda>x. case x of
         None \<Rightarrow> ret True
       | Some _ \<Rightarrow> bind (body r) (\<lambda>success. if success then each_row body rows else ret False))"

definition for_rows ::
    "sql_param list \<Rightarrow> (tables \<Rightarrow> 'r list) \<Rightarrow> ('r \<Rightarrow> ('s handler_scheme, bool) run) \<Rightarrow> ('s handler_scheme, bool) run" where
  "for_rows ps q body =
     bind (on_db (Open ps q)) (\<lambda>c. case c of None \<Rightarrow> ret True | Some rows \<Rightarrow> each_row body rows)"

text \<open>The columns the loops select; strings go through buffers.\<close>

definition comp_rows :: "string \<Rightarrow> tables \<Rightarrow> (string \<times> string \<times> int) list" where
  "comp_rows masterCompositeName t =
     map (\<lambda>r. (BindSelectedColumn (cp_name r) METHOD_LENGTH, BindSelectedColumn (cp_value r) VALUE_LENGTH, cp_len r))
       (filter (\<lambda>r. cp_master r = masterCompositeName) (comps t))"

definition short_ids :: "event_row \<Rightarrow> event_row" where
  "short_ids e = e\<lparr>ev_email := BindSelectedColumn (ev_email e) ID_LENGTH,
     ev_user := BindSelectedColumn (ev_user e) ID_LENGTH, ev_machine := BindSelectedColumn (ev_machine e) ID_LENGTH,
     ev_instance := BindSelectedColumn (ev_instance e) ID_LENGTH, ev_server := BindSelectedColumn (ev_server e) ID_LENGTH,
     ev_method := BindSelectedColumn (ev_method e) METHOD_LENGTH\<rparr>"

definition event_rows :: "string \<Rightarrow> string \<Rightarrow> tables \<Rightarrow> event_row list" where
  "event_rows masterCompositeName compositeName t =
     [short_ids e. c \<leftarrow> comps t, cp_master c = masterCompositeName \<and> cp_name c = compositeName,
                   e \<leftarrow> events t, ev_comp e = cp_name c]"

definition detail_rows :: "string \<Rightarrow> string \<Rightarrow> int \<Rightarrow> tables \<Rightarrow> (string \<times> int \<times> int) list" where
  "detail_rows masterCompositeName compositeName factorEvent t =
     [(BindSelectedColumn (dt_value d) VALUE_LENGTH, dt_len d, dt_prp d).
        c \<leftarrow> comps t, cp_master c = masterCompositeName \<and> cp_name c = compositeName,
        d \<leftarrow> details t, dt_comp d = cp_name c \<and> dt_event d = factorEvent]"

section \<open>Messages\<close>

definition WORK_FOR :: string where "WORK_FOR = ''Work for %s %s %.0lf %ld''"
definition COMPOSITE_FOR :: string where "COMPOSITE_FOR = ''Composite for %s %s %s %d''"
definition CFE_FOR :: string where
  "CFE_FOR = ''CFE for %s %s %ld %s %s %s %s %s %s %d %lf %lf %lf %lf %ld %ld''"
definition DETAIL_FOR :: string where "DETAIL_FOR = ''CFE Detail for %s %s %s %d %d''"
definition STATS_LINE :: string where "STATS_LINE = ''User Stats %s %.0lf %d %lf''"

definition event_vals :: "string \<Rightarrow> string \<Rightarrow> event_row \<Rightarrow> sval list" where
  "event_vals masterCompositeName compositeName e =
     [VS masterCompositeName, VS compositeName, VI (ev_date e), VS (ev_email e), VS (ev_user e), VS (ev_machine e),
      VS (ev_instance e), VS (ev_server e), VS (ev_method e), VI (ev_step e), VD (ev_b1 e), VD (ev_b1time e),
      VD (ev_b2 e), VD (ev_b2time e), VI (ev_sigma e), VI (ev_x0 e)]"

definition send_details :: "string \<Rightarrow> string \<Rightarrow> int \<Rightarrow> (peer, unit) run" where
  "send_details masterCompositeName compositeName factorEvent =
     bind (for_rows [PStr masterCompositeName NAME_LENGTH, PStr compositeName NAME_LENGTH, PInt factorEvent]
             (detail_rows masterCompositeName compositeName factorEvent)
             (\<lambda>(factorValue, decimalLength, prpTestResult).
                bind (say DETAIL_FOR [VS masterCompositeName, VS compositeName, VS factorValue,
                        VI decimalLength, VI prpTestResult]) (\<lambda>_. ret True)))
       (\<lambda>_. ret ())"

definition work_vals :: "sval list \<Rightarrow> (string \<times> string \<times> double \<times> int) option" where
  "work_vals vs = (case vs of
       [VS masterCompositeName, VS factorMethod, VD b1, VI curves] \<Rightarrow> Some (masterCompositeName, factorMethod, b1, curves)
     | _ \<Rightarrow> None)"

definition comp_vals :: "sval list \<Rightarrow> (string \<times> string \<times> string \<times> int) option" where
  "comp_vals vs = (case vs of
       [VS masterCompositeName, VS compositeName, VS compositeValue, VI decimalLength] \<Rightarrow>
         Some (masterCompositeName, compositeName, compositeValue, decimalLength)
     | _ \<Rightarrow> None)"

definition detail_vals :: "sval list \<Rightarrow> (string \<times> string \<times> int \<times> int) option" where
  "detail_vals vs = (case vs of
       [VS masterCompositeName, VS compositeName, VS factorValue, VI decimalLength, VI prpTestResult] \<Rightarrow>
         Some (compositeName, factorValue, decimalLength, prpTestResult)
     | _ \<Rightarrow> None)"

text \<open>The name of the composite, and the event the values make under its number.\<close>

definition event_of :: "bool \<Rightarrow> sval list \<Rightarrow> (string \<times> (int \<Rightarrow> factor_event)) option" where
  "event_of sentToMaster vs = (case vs of
       [VS masterCompositeName, VS compositeName, VI reportedDate, VS emailID, VS userID, VS machineID,
        VS instanceID, VS serverID, VS factorMethod, VI factorStep, VD b1, VD b1Time, VD b2, VD b2Time,
        VI sigma, VI x0] \<Rightarrow>
         Some (compositeName, \<lambda>n. SetSentToMaster sentToMaster
           (SetCurveDetail factorMethod factorStep b1 b1Time b2 b2Time sigma x0
             (SetIDs emailID userID machineID instanceID serverID
               (CompositeFactorEvent compositeName n reportedDate))))
     | _ \<Rightarrow> None)"

definition CFE_SIZES :: "nat list" where
  "CFE_SIZES = [NAME_LENGTH + 1, NAME_LENGTH + 1, IDS, IDS, IDS, IDS, IDS, METHOD_LENGTH + 1]"

text \<open>A factor event the other server reports, and a factor of the event reported last.\<close>

definition receive_event :: "bool \<Rightarrow> string \<Rightarrow> (peer, bool) run" where
  "receive_event sentToMaster theMessage =
     bind (lift (sscanf theMessage CFE_FOR CFE_SIZES)) (\<lambda>vs.
     case event_of sentToMaster vs of
       None \<Rightarrow> fails ''Sync Error: Could not parse <%s>'' [VS theMessage]
     | Some (compositeName, event) \<Rightarrow>
         bind (deref pr_comp) (\<lambda>c.
         if compositeName \<noteq> co_name c then fails ''Sync Error: Composite name did not match'' []
         else case NextFactorEvent c of (n, c1) \<Rightarrow>
           bind (keep_comp (Some c1)) (\<lambda>_. bind (keep_event (Some (event n))) (\<lambda>_. ret True))))"

definition receive_detail :: "string \<Rightarrow> (peer, bool) run" where
  "receive_detail theMessage =
     bind (lift (sscanf theMessage DETAIL_FOR [NAME_LENGTH + 1, NAME_LENGTH + 1, VALUE_LENGTH + 1])) (\<lambda>vs.
     case detail_vals vs of
       None \<Rightarrow> fails ''Sync Error: Could not parse <%s>'' [VS theMessage]
     | Some (compositeName, factorValue, decimalLength, prpTestResult) \<Rightarrow>
         bind (deref pr_comp) (\<lambda>c.
         if compositeName \<noteq> co_name c then fails ''Sync Error: Composite name did not match'' []
         else
         bind (deref pr_event) (\<lambda>e.
         bind (on_db (AddEventDetailWith factorValue decimalLength prpTestResult e)) (\<lambda>e1.
         bind (keep_event (Some e1)) (\<lambda>_.
         bind (deref pr_master) (\<lambda>m.
         bind (keep_master (Some (master_IncrementFactorCount m))) (\<lambda>_. ret True)))))))"

section \<open>The messages of one master composite\<close>

text \<open>\<open>sprintf\<close> into a buffer of 200 bytes.\<close>

definition name_text :: "string \<Rightarrow> string \<Rightarrow> halt + string" where
  "name_text f masterCompositeName = strcpy (sprintf f [VS masterCompositeName]) (NAME_LENGTH * 2)"

text \<open>The previous composite is written before the next one is looked at; whether that worked is lost.\<close>

definition next_composite :: "(string \<Rightarrow> (peer, bool) run) \<Rightarrow> string \<Rightarrow> (peer, bool) run" where
  "next_composite handleComposite theMessage =
     bind (asks pr_comp) (\<lambda>p.
     bind (case p of None \<Rightarrow> ret ()
           | Some c \<Rightarrow> bind (on_db (comp_FinalizeChanges c)) (\<lambda>_. keep_comp None)) (\<lambda>_.
     handleComposite theMessage))"

definition next_event :: "(string \<Rightarrow> (peer, bool) run) \<Rightarrow> string \<Rightarrow> (peer, bool) run" where
  "next_event handleEvent theMessage =
     bind (asks pr_event) (\<lambda>p.
     bind (case p of None \<Rightarrow> ret True
           | Some e \<Rightarrow> bind (on_db (event_FinalizeChanges e)) (\<lambda>ok. bind (keep_event None) (\<lambda>_. ret ok))) (\<lambda>success.
     if success then handleEvent theMessage else ret False))"

record handlers =
  on_work :: "string \<Rightarrow> (peer, bool) run"
  on_composite :: "string \<Rightarrow> (peer, bool) run"
  on_event :: "string \<Rightarrow> (peer, bool) run"
  on_detail :: "string \<Rightarrow> (peer, bool) run"

definition sync_message :: "handlers \<Rightarrow> string \<Rightarrow> string \<Rightarrow> (peer, bool) run" where
  "sync_message h masterCompositeName theMessage =
     bind (lift (name_text ''Work for %s'' masterCompositeName)) (\<lambda>workMessage.
     bind (lift (name_text ''Composite for %s'' masterCompositeName)) (\<lambda>compositeMessage.
     bind (lift (name_text ''CFE for %s'' masterCompositeName)) (\<lambda>cfeMessage.
     bind (lift (name_text ''CFE Detail for %s'' masterCompositeName)) (\<lambda>cfedMessage.
     if prefixed workMessage theMessage then on_work h theMessage
     else if prefixed compositeMessage theMessage then next_composite (on_composite h) theMessage
     else if prefixed cfeMessage theMessage then next_event (on_event h) theMessage
     else if prefixed cfedMessage theMessage then on_detail h theMessage
     else fails ''Sync Error: Message <%s> was not expected'' [VS theMessage]))))"

text \<open>
  The loop: the local variable is \<open>success\<close>, the result that and \<open>fatalError\<close>. After a failure the
  messages are skipped up to the end of the composite.
\<close>

definition sync_step :: "handlers \<Rightarrow> string \<Rightarrow> bool \<Rightarrow> (peer, bool + bool \<times> bool) run" where
  "sync_step h masterCompositeName success =
     bind listen (\<lambda>theMessage. case theMessage of
         None \<Rightarrow> ret (Inr (False, True))
       | Some m \<Rightarrow>
           bind (lift (name_text ''End Master Composite %s'' masterCompositeName)) (\<lambda>endMessage.
           if m = endMessage then ret (Inr (success, False))
           else if success then bind (sync_message h masterCompositeName m) (\<lambda>ok. ret (Inl ok))
           else ret (Inl False)))"

definition sync_messages :: "handlers \<Rightarrow> string \<Rightarrow> (peer, bool \<times> bool) run" where
  "sync_messages h masterCompositeName =
     reading (sync_step h masterCompositeName) True"

text \<open>The objects still open are written, the event first, and deleted.\<close>

definition finish_event :: "bool \<Rightarrow> (peer, bool) run" where
  "finish_event success =
     bind (asks pr_event) (\<lambda>p. case p of
         Some e \<Rightarrow> if success then on_db (event_FinalizeChanges e) else ret False
       | None \<Rightarrow> ret success)"

definition finish_composite :: "bool \<Rightarrow> (peer, bool) run" where
  "finish_composite success =
     bind (asks pr_comp) (\<lambda>p. case p of
         Some c \<Rightarrow> if success then bind (on_db (comp_FinalizeChanges c)) (\<lambda>(ok, c1). ret ok) else ret False
       | None \<Rightarrow> ret success)"

definition drop_objects :: "(peer, unit) run" where
  "drop_objects = bind (keep_event None) (\<lambda>_. keep_comp None)"

section \<open>User statistics\<close>

text \<open>
  The lines up to \<open>End User Stats\<close>, with \<open>success\<close> as the local variable. \<open>apply_stats\<close> is what the two ends
  do differently with the numbers of a user.
\<close>

definition stats_vals :: "sval list \<Rightarrow> (string \<times> double \<times> int \<times> double) option" where
  "stats_vals vs = (case vs of
       [VS userID, VD workDone, VI factorCount, VD timeSpent] \<Rightarrow> Some (userID, workDone, factorCount, timeSpent)
     | _ \<Rightarrow> None)"

definition stats_step :: "(double \<Rightarrow> int \<Rightarrow> double \<Rightarrow> stats \<Rightarrow> stats) \<Rightarrow> bool \<Rightarrow> (peer, bool + bool) run" where
  "stats_step apply_stats success =
     bind listen (\<lambda>theMessage. case theMessage of
         None \<Rightarrow> ret (Inr success)
       | Some m \<Rightarrow>
           if \<not> success \<or> m = ''End User Stats'' then ret (Inr success)
           else
           bind (lift (sscanf m ''User Stats %s %lf %d %lf'' [IDS])) (\<lambda>vs.
           case stats_vals vs of
             None \<Rightarrow> bind (fails ''Error parsing <%s>'' [VS m]) (\<lambda>_. ret (Inr False))
           | Some (userID, workDone, factorCount, timeSpent) \<Rightarrow>
               bind (on_db (UserStats userID)) (\<lambda>u.
               bind (on_db (user_FinalizeChanges (apply_stats workDone factorCount timeSpent u))) (\<lambda>(ok, u1).
               ret (Inl ok)))))"

definition receive_stats :: "(double \<Rightarrow> int \<Rightarrow> double \<Rightarrow> stats \<Rightarrow> stats) \<Rightarrow> (peer, bool) run" where
  "receive_stats apply_stats =
     bind listen (\<lambda>first.
     bind (if first = Some ''Start User Stats'' then reading (stats_step apply_stats) True else ret True) (\<lambda>success.
     if success then bind commit (\<lambda>_. bind (say ''User Stats Synced'' []) (\<lambda>_. ret True))
     else ret False))"

text \<open>The answer to the statistics sent decides about the transaction.\<close>

definition stats_answer :: "bool \<Rightarrow> (peer, bool) run" where
  "stats_answer success =
     bind (say ''End User Stats'' []) (\<lambda>_.
     bind listen (\<lambda>theMessage.
     let ok = (success \<and> theMessage = Some ''User Stats Synced'')
     in bind (if ok then commit else rollback) (\<lambda>_. ret ok)))"

end
