(* ===== verification/IAmASlave.thy ===== *)
theory IAmASlave
  imports SyncPeer
begin

text \<open>
  \<open>src/source/IAmASlave.cpp\<close> and \<open>SlaveSocket.cpp\<close>: a synchronisation, seen from the slave server. It connects to
  the master, reports the curves and factors since the last report, master composite by master
  composite, takes over what the master has on them, then the composites other servers changed, and
  exchanges the statistics of the users. The lines are those written to the connection; while the code
  buffers them, those still in the buffer when a database error stops a composite are not sent.

  \<open>pr_server\<close> and \<open>pr_password\<close> are the slave's name and the password of the master, \<open>hs_version\<close> of the
  connection is the version the master announces. \<open>clientID\<close> says whether the table of factor events
  has the column \<open>ClientID\<close> that one statement names: the script for MySQL creates it, the script for
  PostgreSQL names it \<open>InstanceID\<close>, as the other statements do.
\<close>

definition IAmASlave :: "session \<Rightarrow> string \<Rightarrow> string \<Rightarrow> peer" where
  "IAmASlave dbInterface serverID masterPassword =
     \<lparr>sess = dbInterface,
      sock = \<lparr>so_open = False, so_newline = True, incoming = [], read_buf = [], outgoing = [], hs_email = [],
              hs_machine = [], hs_instance = [], hs_user = [], hs_version = []\<rparr>,
      pr_server = serverID, pr_password = masterPassword, pr_master = None, pr_comp = None, pr_event = None\<rparr>"

section \<open>The connection\<close>

text \<open>\<open>dialled\<close> is what the master sends on the new connection, or \<open>None\<close> when there is none.\<close>

definition slave_Open :: "input list option \<Rightarrow> (peer, bool) run" where
  "slave_Open dialled =
     bind (asks (\<lambda>s. so_open (sock s))) (\<lambda>isOpen.
     if isOpen then ret True
     else case dialled of
         None \<Rightarrow> ret False
       | Some inp \<Rightarrow>
           bind (modify (\<lambda>s. s\<lparr>sock := (sock s)\<lparr>so_open := True, incoming := inp\<rparr>\<rparr>)) (\<lambda>_.
           bind (say ''SLAVE %s'' [VS ECMNET_VERSION]) (\<lambda>_.
           bind listen (\<lambda>readBuf. case readBuf of
               None \<Rightarrow> bind close_connection (\<lambda>_. ret False)
             | Some m \<Rightarrow>
                 if \<not> prefixed ''Connected to server'' m then bind close_connection (\<lambda>_. ret False)
                 else
                 bind (lift (sscanf m ''Connected to server version %s'' [20])) (\<lambda>vs.
                 bind (modify (\<lambda>s. s\<lparr>sock := (sock s)\<lparr>hs_version := (case vs of [VS v] \<Rightarrow> v | _ \<Rightarrow> ''2.x'')\<rparr>\<rparr>)) (\<lambda>_.
                 ret True))))))"

section \<open>Reporting\<close>

definition report_curves :: "string \<times> string \<times> double \<Rightarrow> tables \<Rightarrow> tables option" where
  "report_curves key = change (\<lambda>t. t\<lparr>works := update_by work_key key (\<lambda>r. r\<lparr>wd_unreported := 0\<rparr>) (works t)\<rparr>)"

definition unreported_rows :: "string \<Rightarrow> tables \<Rightarrow> (string \<times> double \<times> int) list" where
  "unreported_rows masterCompositeName t =
     map (\<lambda>r. (BindSelectedColumn (wd_method r) 20, wd_b1 r, wd_unreported r))
       (filter (\<lambda>r. wd_master r = masterCompositeName \<and> wd_unreported r > 0) (works t))"

definition SendWorkToMaster :: "string \<Rightarrow> (peer, bool) run" where
  "SendWorkToMaster masterCompositeName =
     for_rows [PStr masterCompositeName NAME_LENGTH] (unreported_rows masterCompositeName)
       (\<lambda>(factorMethod, b1, curvesToReport).
          bind (say WORK_FOR [VS masterCompositeName, VS factorMethod, VD b1, VI curvesToReport]) (\<lambda>_.
          on_db (Execute [PStr masterCompositeName NAME_LENGTH, PStr factorMethod 20, PDbl b1]
                   (report_curves (masterCompositeName, factorMethod, b1)))))"

definition event_sent :: "string \<times> int \<Rightarrow> tables \<Rightarrow> tables option" where
  "event_sent key = change (\<lambda>t. t\<lparr>events := update_by event_key key (\<lambda>r. r\<lparr>ev_to_master := 1\<rparr>) (events t)\<rparr>)"

text \<open>Without the column the query is refused, and the loop has no rows.\<close>

definition unsent_events :: "bool \<Rightarrow> string \<Rightarrow> string \<Rightarrow> tables \<Rightarrow> event_row list" where
  "unsent_events clientID masterCompositeName compositeName t =
     (if clientID then filter (\<lambda>e. ev_to_master e = 0) (event_rows masterCompositeName compositeName t) else [])"

text \<open>The rows are all sent; after a failed update no other is tried. The local variable is \<open>success\<close>.\<close>

primrec send_events :: "string \<Rightarrow> string \<Rightarrow> event_row list \<Rightarrow> bool \<Rightarrow> (peer, bool) run" where
  "send_events masterCompositeName compositeName [] success =
     bind (on_db (fetch ([] :: unit list))) (\<lambda>_. ret success)"
| "send_events masterCompositeName compositeName (e # rows) success =
     bind (on_db (fetch (e # rows))) (\<lambda>x. case x of
         None \<Rightarrow> ret success
       | Some _ \<Rightarrow>
           bind (say CFE_FOR (event_vals masterCompositeName compositeName e)) (\<lambda>_.
           bind (if success then on_db (Execute [PStr compositeName NAME_LENGTH, PInt (ev_no e)]
                                          (event_sent (compositeName, ev_no e)))
                 else ret False) (\<lambda>ok.
           bind (send_details masterCompositeName compositeName (ev_no e)) (\<lambda>_.
           send_events masterCompositeName compositeName rows ok))))"

definition SendCompositeFactorEventsToMaster :: "bool \<Rightarrow> string \<Rightarrow> string \<Rightarrow> (peer, bool) run" where
  "SendCompositeFactorEventsToMaster clientID masterCompositeName compositeName =
     bind (on_db (Open [PStr masterCompositeName NAME_LENGTH, PStr compositeName NAME_LENGTH]
             (unsent_events clientID masterCompositeName compositeName))) (\<lambda>c. case c of
         None \<Rightarrow> ret True
       | Some rows \<Rightarrow> if clientID then send_events masterCompositeName compositeName rows True else ret True)"

primrec send_composites :: "bool \<Rightarrow> string \<Rightarrow> (string \<times> string \<times> int) list \<Rightarrow> bool \<Rightarrow> (peer, bool) run" where
  "send_composites clientID masterCompositeName [] success = bind (on_db (fetch ([] :: unit list))) (\<lambda>_. ret success)"
| "send_composites clientID masterCompositeName (c # rows) success =
     bind (on_db (fetch (c # rows))) (\<lambda>x. case x of
         None \<Rightarrow> ret success
       | Some _ \<Rightarrow>
           (case c of (compositeName, compositeValue, decimalLength) \<Rightarrow>
           bind (say COMPOSITE_FOR [VS masterCompositeName, VS compositeName, VS compositeValue, VI decimalLength]) (\<lambda>_.
           bind (if success then SendCompositeFactorEventsToMaster clientID masterCompositeName compositeName
                 else ret False) (\<lambda>ok.
           send_composites clientID masterCompositeName rows ok))))"

definition SendCompositesToMaster :: "bool \<Rightarrow> string \<Rightarrow> (peer, bool) run" where
  "SendCompositesToMaster clientID masterCompositeName =
     bind (on_db (Open [PStr masterCompositeName NAME_LENGTH] (comp_rows masterCompositeName))) (\<lambda>c. case c of
         None \<Rightarrow> ret True
       | Some rows \<Rightarrow> send_composites clientID masterCompositeName rows True)"

section \<open>Taking over what the master has\<close>

text \<open>Deleting rows is refused while others refer to them (\<open>on delete restrict\<close>).\<close>

definition delete_details :: "string \<Rightarrow> tables \<Rightarrow> tables option" where
  "delete_details compositeName = change (\<lambda>t. t\<lparr>details := filter (\<lambda>d. dt_comp d \<noteq> compositeName) (details t)\<rparr>)"

definition delete_events :: "string \<Rightarrow> tables \<Rightarrow> tables option" where
  "delete_events compositeName t =
     (if compositeName \<in> dt_comp ` set (details t) then None
      else Some (t\<lparr>events := filter (\<lambda>e. ev_comp e \<noteq> compositeName) (events t)\<rparr>))"

definition delete_comps :: "string \<Rightarrow> tables \<Rightarrow> tables option" where
  "delete_comps masterCompositeName t =
     (if \<exists>c \<in> set (comps t). cp_master c = masterCompositeName \<and> cp_name c \<in> ev_comp ` set (events t) then None
      else Some (t\<lparr>comps := filter (\<lambda>c. cp_master c \<noteq> masterCompositeName) (comps t)\<rparr>))"

definition delete_works :: "string \<Rightarrow> tables \<Rightarrow> tables option" where
  "delete_works masterCompositeName =
     change (\<lambda>t. t\<lparr>works := filter (\<lambda>r. wd_master r \<noteq> masterCompositeName) (works t)\<rparr>)"

text \<open>The statement that deletes composites by the name of their master is given the name of a composite.\<close>

definition DeleteMasterCompositeDetails :: "(peer, bool) run" where
  "DeleteMasterCompositeDetails =
     bind (deref pr_master) (\<lambda>m.
     bind (for_rows [PStr (ms_name m) NAME_LENGTH]
             (\<lambda>t. map (\<lambda>r. BindSelectedColumn (cp_name r) NAME_LENGTH) (filter (\<lambda>r. cp_master r = ms_name m) (comps t)))
             (\<lambda>compositeName.
                bind (on_db (Execute [PStr compositeName NAME_LENGTH] (delete_details compositeName))) (\<lambda>ok1.
                bind (if ok1 then on_db (Execute [PStr compositeName NAME_LENGTH] (delete_events compositeName))
                      else ret False) (\<lambda>ok2.
                if ok2 then on_db (Execute [PStr compositeName NAME_LENGTH] (delete_comps compositeName))
                else ret False)))) (\<lambda>success.
     if success then on_db (Execute [PStr (ms_name m) NAME_LENGTH] (delete_works (ms_name m))) else ret False))"

definition HandleWorkFromMaster :: "string \<Rightarrow> (peer, bool) run" where
  "HandleWorkFromMaster theMessage =
     bind (lift (sscanf theMessage ''Work for %s %s %lf %d'' [NAME_LENGTH + 1, METHOD_LENGTH + 1])) (\<lambda>vs.
     case work_vals vs of
       None \<Rightarrow> fails ''Sync Error: Could not parse <%s>'' [VS theMessage]
     | Some (masterCompositeName, factorMethod, b1, masterCurves) \<Rightarrow>
         bind (deref pr_master) (\<lambda>m. on_db (InsertWorkDoneFromMaster factorMethod b1 masterCurves m)))"

definition HandleCompositeFromMaster :: "(int \<Rightarrow> int) \<Rightarrow> string \<Rightarrow> (peer, bool) run" where
  "HandleCompositeFromMaster pp theMessage =
     bind (lift (sscanf theMessage COMPOSITE_FOR [NAME_LENGTH + 1, NAME_LENGTH + 1, VALUE_LENGTH + 1])) (\<lambda>vs.
     case comp_vals vs of
       None \<Rightarrow> fails ''Sync Error: Could not parse <%s>'' [VS theMessage]
     | Some (masterCompositeName, compositeName, compositeValue, decimalLength) \<Rightarrow>
         bind (on_db (Composite compositeName True)) (\<lambda>c.
         bind (lift (SetValue pp compositeValue c)) (\<lambda>(same, c1).
         bind (keep_comp (Some c1)) (\<lambda>_.
         if \<not> same then fails ''Sync Error: Composite value for %s mismatch'' [VS compositeName]
         else case SetMasterCompositeName masterCompositeName c1 of (named, c2) \<Rightarrow>
           bind (keep_comp (Some c2)) (\<lambda>_.
           if \<not> named then fails ''Sync Error: Composite name for %s mismatch'' [VS compositeName]
           else if co_found c2 then ret True
           else bind (on_db (comp_FinalizeChanges c2)) (\<lambda>(ok, c3). bind (keep_comp (Some c3)) (\<lambda>_. ret True)))))))"

definition HandleCompositeFactorEventFromMaster :: "string \<Rightarrow> (peer, bool) run" where
  "HandleCompositeFactorEventFromMaster = receive_event True"

definition HandleCompositeFactorEventDetailFromMaster :: "string \<Rightarrow> (peer, bool) run" where
  "HandleCompositeFactorEventDetailFromMaster = receive_detail"

definition from_master :: "(int \<Rightarrow> int) \<Rightarrow> handlers" where
  "from_master pp = \<lparr>on_work = HandleWorkFromMaster, on_composite = HandleCompositeFromMaster pp,
     on_event = HandleCompositeFactorEventFromMaster, on_detail = HandleCompositeFactorEventDetailFromMaster\<rparr>"

text \<open>The object for the master composite, unless there is one; then its value, its row and its details.\<close>

definition master_at_hand :: "string \<Rightarrow> (peer, unit) run" where
  "master_at_hand masterCompositeName =
     bind (asks pr_master) (\<lambda>p. case p of
         Some m \<Rightarrow> ret ()
       | None \<Rightarrow>
           bind (on_db (MasterComposite masterCompositeName)) (\<lambda>m.
           bind (keep_master (Some m)) (\<lambda>_.
           bind (asks pr_server) (\<lambda>serverID. Lock serverID m))))"

definition prepare_master :: "(int \<Rightarrow> int) \<Rightarrow> string \<Rightarrow> string \<Rightarrow> int \<Rightarrow> (peer, bool) run" where
  "prepare_master pp masterCompositeName masterCompositeValue isActive =
     bind (master_at_hand masterCompositeName) (\<lambda>_.
     bind (deref pr_master) (\<lambda>m.
     bind (lift (master_SetValue pp masterCompositeValue m)) (\<lambda>(same, m1).
     bind (keep_master (Some m1)) (\<lambda>_.
     if \<not> same then fails ''Sync Error: Value for Master Composite %s did not match'' [VS masterCompositeName]
     else
     bind (if ms_found m1 then ret (True, m1) else on_db (master_FinalizeChanges m1)) (\<lambda>(ok, m2).
     bind (keep_master (Some m2)) (\<lambda>_.
     if \<not> ok then ret False
     else
     bind (keep_master (Some (SetActive (isActive > 0) m2))) (\<lambda>_.
     bind DeleteMasterCompositeDetails (\<lambda>deleted.
     if \<not> deleted then ret False
     else bind (deref pr_master) (\<lambda>m3. bind (keep_master (Some (ResetFactorCount m3))) (\<lambda>_. ret True))))))))))"

definition finish_master :: "bool \<Rightarrow> (peer, bool) run" where
  "finish_master success =
     (if \<not> success then ret False
      else
      bind (deref pr_master) (\<lambda>m.
      bind (asks (\<lambda>s. now (sess s))) (\<lambda>time.
      bind (keep_master (Some (SetLastUpdateTime time m))) (\<lambda>_.
      bind (finish_event True) (\<lambda>ok1.
      bind (finish_composite ok1) (\<lambda>ok2.
      bind (if ok2 then on_db (SendUpdatesToAllSlaves m) else ret False) (\<lambda>ok3.
      if ok3 then bind (on_db (master_FinalizeChanges (SetLastUpdateTime time m))) (\<lambda>(ok4, m4).
        bind (keep_master (Some m4)) (\<lambda>_. ret ok4))
      else ret False)))))))"

definition take_details :: "(int \<Rightarrow> int) \<Rightarrow> string \<Rightarrow> (peer, bool \<times> bool) run" where
  "take_details pp masterCompositeName =
     bind (say ''Master Composite %s Found'' [VS masterCompositeName]) (\<lambda>_.
     bind drop_objects (\<lambda>_.
     bind (sync_messages (from_master pp) masterCompositeName) (\<lambda>(success, fatalError).
     bind (finish_master success) (\<lambda>ok.
     bind drop_objects (\<lambda>_. ret (ok, fatalError))))))"

definition start_vals :: "sval list \<Rightarrow> (string \<times> string \<times> int \<times> int) option" where
  "start_vals vs = (case vs of
       [VS masterCompositeName, VS masterCompositeValue, VI isActive, VI len] \<Rightarrow>
         Some (masterCompositeName, masterCompositeValue, isActive, len)
     | _ \<Rightarrow> None)"

text \<open>The results are \<open>success\<close>, \<open>fatalError\<close> and the caller's buffer for the name.\<close>

definition HandleMasterCompositeFromMaster ::
    "(int \<Rightarrow> int) \<Rightarrow> string \<Rightarrow> string option \<Rightarrow> (peer, bool \<times> bool \<times> string option) run" where
  "HandleMasterCompositeFromMaster pp startMessage name =
     bind (lift (sscanf startMessage ''Begin Master Composite %s %s %d %d'' [NAME_LENGTH + 1, VALUE_LENGTH])) (\<lambda>vs.
     bind (case start_vals vs of
         None \<Rightarrow> bind (fails ''Sync Error: Could not parse <%s> from master'' [VS startMessage]) (\<lambda>_. ret (False, False))
       | Some (masterCompositeName, masterCompositeValue, isActive, len) \<Rightarrow>
           if len \<noteq> int (length masterCompositeValue) then
             bind (fails ''Sync Error: Composite length doesn't match, expected %d, got %d''
                     [VI len, VI (int (length masterCompositeValue))]) (\<lambda>_. ret (False, False))
           else
             bind (prepare_master pp masterCompositeName masterCompositeValue isActive) (\<lambda>prepared.
             if prepared then take_details pp masterCompositeName else ret (False, False)))
     (\<lambda>(success, fatalError). ret (success, fatalError, name_scanned name vs)))"

section \<open>One master composite, both ways\<close>

text \<open>
  The loop over the answers: what the master has comes in between. A composite that could not be taken
  over does not end the loop, and its failure is forgotten when the master then says OK.
\<close>

definition master_answer_step ::
    "(int \<Rightarrow> int) \<Rightarrow> string \<Rightarrow> string option \<Rightarrow> (peer, string option + bool \<times> bool) run" where
  "master_answer_step pp masterCompositeName name =
     bind listen (\<lambda>theMessage. case theMessage of
         None \<Rightarrow> ret (Inr (False, True))
       | Some m \<Rightarrow>
           bind (lift (name_text ''Begin Master Composite %s'' masterCompositeName)) (\<lambda>beginMessage.
           bind (lift (name_text ''Master Composite %s Error'' masterCompositeName)) (\<lambda>badMessage.
           bind (lift (name_text ''Master Composite %s OK'' masterCompositeName)) (\<lambda>goodMessage.
           if prefixed beginMessage m then
             bind (HandleMasterCompositeFromMaster pp m name) (\<lambda>(success, fatalError, name1).
             bind (if success then say ''Master Composite %s OK'' [VS (case name1 of None \<Rightarrow> [] | Some n \<Rightarrow> n)]
                   else ret ()) (\<lambda>_.
             ret (if fatalError then Inr (success, True) else Inl name1)))
           else if m = badMessage then ret (Inr (False, False))
           else if m = goodMessage then ret (Inr (True, False))
           else ret (Inl name)))))"

definition SendMasterCompositeToMaster :: "bool \<Rightarrow> (int \<Rightarrow> int) \<Rightarrow> string \<Rightarrow> string \<Rightarrow> (peer, bool \<times> bool) run" where
  "SendMasterCompositeToMaster clientID pp masterCompositeName masterCompositeValue =
     bind (say ''Begin Master Composite %s %s %d''
             [VS masterCompositeName, VS masterCompositeValue, VI (int (length masterCompositeValue))]) (\<lambda>_.
     bind listen (\<lambda>theMessage. case theMessage of
         None \<Rightarrow> ret (False, True)
       | Some reply \<Rightarrow>
           bind (lift (name_text ''Master Composite %s Found'' masterCompositeName)) (\<lambda>goodMessage.
           if reply \<noteq> goodMessage then ret (False, False)
           else
           bind (on_db (MasterComposite masterCompositeName)) (\<lambda>m.
           bind (keep_master (Some m)) (\<lambda>_.
           bind (asks pr_server) (\<lambda>serverID.
           bind (Lock serverID m) (\<lambda>_.
           bind (SendWorkToMaster masterCompositeName) (\<lambda>sent.
           bind (if sent then SendCompositesToMaster clientID masterCompositeName else ret False) (\<lambda>all_sent.
           bind (if \<not> all_sent then ret (False, True)
                 else bind (say ''End Master Composite %s'' [VS masterCompositeName]) (\<lambda>_.
                      reading (master_answer_step pp masterCompositeName) (Some masterCompositeName))) (\<lambda>(success, fatalError).
           bind (if success then
                   bind (deref pr_master) (\<lambda>m1.
                   bind (on_db (master_FinalizeChanges (SetSendUpdatesToMaster False m1))) (\<lambda>_. ret ()))
                 else ret ()) (\<lambda>_.
           bind (keep_master None) (\<lambda>_. ret (success, fatalError)))))))))))))"

definition reported_masters :: "tables \<Rightarrow> (string \<times> string) list" where
  "reported_masters t =
     map (\<lambda>r. (BindSelectedColumn (mc_name r) NAME_LENGTH, BindSelectedColumn (mc_value r) VALUE_LENGTH))
       (filter (\<lambda>r. mc_to_master r = 1) (masters t))"

definition SYNC_FATAL :: string where
  "SYNC_FATAL = ''Fatal Sync Error: Terminated because a fatal error occured on the slave.  Read the slave logs to diagnose''"

definition SendUpdatesToMaster ::
    "bool \<Rightarrow> (int \<Rightarrow> int) \<Rightarrow> ((string \<times> string) list \<Rightarrow> (string \<times> string) list) \<Rightarrow> (peer, bool) run" where
  "SendUpdatesToMaster clientID pp order =
     bind (say ''Start Master Composites'' []) (\<lambda>_.
     bind (for_rows [] (\<lambda>t. order (reported_masters t)) (\<lambda>(masterCompositeName, masterCompositeValue).
             bind (SendMasterCompositeToMaster clientID pp masterCompositeName masterCompositeValue) (\<lambda>(success, fatalError).
             bind (if success then commit else rollback) (\<lambda>_. ret (\<not> fatalError))))) (\<lambda>notFatal.
     bind rollback (\<lambda>_.
     bind (if notFatal then ret True else fails SYNC_FATAL []) (\<lambda>success.
     bind (say ''No More Master Composites'' []) (\<lambda>_. ret success)))))"

section \<open>Composites other servers changed\<close>

definition changes_step :: "(int \<Rightarrow> int) \<Rightarrow> string option \<Rightarrow> (peer, string option + bool) run" where
  "changes_step pp name =
     bind listen (\<lambda>theMessage. case theMessage of
         None \<Rightarrow> ret (Inr True)
       | Some m \<Rightarrow>
           if m = ''No More Master Composites'' then ret (Inr False)
           else if prefixed ''Begin Master Composite '' m then
             bind rollback (\<lambda>_.
             bind (HandleMasterCompositeFromMaster pp m name) (\<lambda>(success, fatalError, name1).
             bind (if success then commit else rollback) (\<lambda>_.
             case name1 of
               None \<Rightarrow> stop Undefined
             | Some masterCompositeName \<Rightarrow>
                 bind (say (if success then ''Master Composite %s OK'' else ''Master Composite %s Error'')
                         [VS masterCompositeName]) (\<lambda>_.
                 bind (keep_master None) (\<lambda>_.
                 ret (if fatalError then Inr True else Inl name1))))))
           else
             bind (say ''Sync Error: Expected 'Begin Master Composite', but got <%s>'' [VS m]) (\<lambda>_.
             ret (Inl name)))"

definition GetUpdatesFromMaster :: "(int \<Rightarrow> int) \<Rightarrow> (peer, bool) run" where
  "GetUpdatesFromMaster pp =
     bind listen (\<lambda>theMessage.
     if theMessage \<noteq> None \<and> theMessage \<noteq> Some ''Start Master Composites'' then ret False
     else
     bind (keep_master None) (\<lambda>_.
     bind (reading (changes_step pp) None) (\<lambda>fatalError.
     if fatalError then fails SYNC_FATAL [] else ret True)))"

section \<open>User statistics\<close>

definition user_reported :: "string \<Rightarrow> tables \<Rightarrow> tables option" where
  "user_reported userID = change (\<lambda>t. t\<lparr>users := update_by us_id userID
     (\<lambda>r. r\<lparr>us_work := 0, us_factors := 0, us_time := 0\<rparr>) (users t)\<rparr>)"

definition unreported_users :: "tables \<Rightarrow> (string \<times> double \<times> int \<times> double) list" where
  "unreported_users t =
     map (\<lambda>r. (BindSelectedColumn (us_id r) ID_LENGTH, us_work r, us_factors r, us_time r))
       (filter (\<lambda>r. us_work r > 0) (users t))"

definition SendUserStatsToMaster ::
    "((string \<times> double \<times> int \<times> double) list \<Rightarrow> (string \<times> double \<times> int \<times> double) list) \<Rightarrow> (peer, bool) run" where
  "SendUserStatsToMaster order =
     bind (say ''Start User Stats'' []) (\<lambda>_.
     bind (for_rows [] (\<lambda>t. order (unreported_users t)) (\<lambda>(userID, workToSend, factorsToSend, timeSpent).
             bind (say STATS_LINE [VS userID, VD workToSend, VI factorsToSend, VD timeSpent]) (\<lambda>_.
             on_db (Execute [PStr userID ID_LENGTH] (user_reported userID))))) (\<lambda>success.
     stats_answer success))"

definition GetUserStatsFromMaster :: "(peer, bool) run" where
  "GetUserStatsFromMaster = receive_stats (\<lambda>workDone factorCount timeSpent u. SetTotals workDone timeSpent factorCount u)"

section \<open>The synchronisation\<close>

record slave_order =
  by_master :: "(string \<times> string) list \<Rightarrow> (string \<times> string) list"
  by_userID :: "(string \<times> double \<times> int \<times> double) list \<Rightarrow> (string \<times> double \<times> int \<times> double) list"

definition SyncWithMaster :: "bool \<Rightarrow> (int \<Rightarrow> int) \<Rightarrow> slave_order \<Rightarrow> input list option \<Rightarrow> bool \<Rightarrow> (peer, unit) run" where
  "SyncWithMaster clientID pp order dialled dbConnected =
     bind (slave_Open dialled) (\<lambda>opened.
     if \<not> opened then ret ()
     else if \<not> dbConnected then close_connection
     else
     bind (asks (\<lambda>s. [VS (pr_server s), VS (pr_password s)])) (\<lambda>names.
     bind (say ''Start Sync %s %s'' names) (\<lambda>_.
     bind (and_also (SendUpdatesToMaster clientID pp (by_master order))
          (and_also (GetUpdatesFromMaster pp)
          (and_also (SendUserStatsToMaster (by_userID order))
             GetUserStatsFromMaster))) (\<lambda>_.
     bind rollback (\<lambda>_. close_connection)))))"

end
