(* ===== verification/IAmAMaster.thy ===== *)
theory IAmAMaster
  imports SyncPeer
begin

text \<open>
  \<open>src/source/IAmAMaster.cpp\<close>: a synchronisation, seen from the master server. The slave announces
  itself with its password; then come its new work and factors (each master composite answered with
  everything the master has on it), the master composites other servers have changed, and the
  statistics of the users both ways. \<open>order by\<close> is a parameter.
\<close>

definition IAmAMaster :: "session \<Rightarrow> helper \<Rightarrow> string \<Rightarrow> string \<Rightarrow> halt + peer" where
  "IAmAMaster dbInterface theSocket serverID expectedPassword =
     and_then (strcpy serverID IDS) (\<lambda>server.
     and_then (strcpy expectedPassword 100) (\<lambda>password.
     Inr \<lparr>sess = dbInterface, sock = theSocket, pr_server = server, pr_password = password,
          pr_master = None, pr_comp = None, pr_event = None\<rparr>))"

section \<open>Populating MasterCompositeSlaveSync\<close>

definition sync_rows :: "string \<Rightarrow> string \<Rightarrow> tables \<Rightarrow> int" where
  "sync_rows masterCompositeName slaveID t = count_rows (\<lambda>r. sync_key r = (masterCompositeName, slaveID)) (syncs t)"

definition PopulateMasterSlaveSync :: "string \<Rightarrow> (peer, bool) run" where
  "PopulateMasterSlaveSync slaveID =
     for_rows [] (\<lambda>t. map (\<lambda>r. BindSelectedColumn (mc_name r) NAME_LENGTH) (masters t)) (\<lambda>masterCompositeName.
       let params = [PStr masterCompositeName NAME_LENGTH, PStr slaveID ID_LENGTH] in
       bind (on_db (FetchRow params (\<lambda>t. [sync_rows masterCompositeName slaveID t]))) (\<lambda>row. case row of
           None \<Rightarrow> ret False
         | Some rows \<Rightarrow>
             if rows = 0
             then on_db (Execute params
                    (insert_sync \<lparr>ss_master = masterCompositeName, ss_slave = slaveID, ss_send = 1\<rparr>))
             else ret True))"

section \<open>Sending a master composite\<close>

definition SendWorkToSlave :: "string \<Rightarrow> (peer, unit) run" where
  "SendWorkToSlave masterCompositeName =
     bind (for_rows [PStr masterCompositeName NAME_LENGTH]
             (\<lambda>t. map (\<lambda>r. (BindSelectedColumn (wd_method r) (METHOD_LENGTH + 1), wd_b1 r, wd_local r))
                    (filter (\<lambda>r. wd_master r = masterCompositeName) (works t)))
             (\<lambda>(factorMethod, b1, localCurves).
                bind (say WORK_FOR [VS masterCompositeName, VS factorMethod, VD b1, VI localCurves]) (\<lambda>_. ret True)))
       (\<lambda>_. ret ())"

definition SendCompositeFactorEventsToSlave :: "string \<Rightarrow> string \<Rightarrow> (peer, unit) run" where
  "SendCompositeFactorEventsToSlave masterCompositeName compositeName =
     bind (for_rows [PStr masterCompositeName NAME_LENGTH, PStr compositeName NAME_LENGTH]
             (event_rows masterCompositeName compositeName)
             (\<lambda>e. bind (say CFE_FOR (event_vals masterCompositeName compositeName e)) (\<lambda>_.
                  bind (send_details masterCompositeName compositeName (ev_no e)) (\<lambda>_. ret True))))
       (\<lambda>_. ret ())"

text \<open>The name of the composite is read into a buffer for the name of a method.\<close>

definition SendCompositesToSlave :: "string \<Rightarrow> (peer, unit) run" where
  "SendCompositesToSlave masterCompositeName =
     bind (for_rows [PStr masterCompositeName NAME_LENGTH] (comp_rows masterCompositeName)
             (\<lambda>(compositeName, compositeValue, decimalLength).
                bind (say COMPOSITE_FOR [VS masterCompositeName, VS compositeName, VS compositeValue, VI decimalLength]) (\<lambda>_.
                bind (SendCompositeFactorEventsToSlave masterCompositeName compositeName) (\<lambda>_. ret True))))
       (\<lambda>_. ret ())"

text \<open>Waiting for the verdict of the other end: the result is \<open>success\<close> and \<open>fatalError\<close>.\<close>

definition verdict_step :: "string \<Rightarrow> string \<Rightarrow> unit \<Rightarrow> (peer, unit + bool \<times> bool) run" where
  "verdict_step masterCompositeName slaveID u =
     bind listen (\<lambda>theMessage. case theMessage of
         None \<Rightarrow> ret (Inr (False, True))
       | Some m \<Rightarrow>
           bind (lift (name_text ''Master Composite %s OK'' masterCompositeName)) (\<lambda>goodMessage.
           bind (lift (name_text ''Master Composite %s Error'' masterCompositeName)) (\<lambda>badMessage.
           if m = badMessage then ret (Inr (False, False))
           else if m = goodMessage then
             bind (deref pr_master) (\<lambda>mc. bind (on_db (SentUpdateToSlave slaveID mc)) (\<lambda>ok. ret (Inr (ok, False))))
           else ret (Inl ()))))"

definition SendMasterCompositeToSlave :: "string \<Rightarrow> string \<Rightarrow> (peer, bool \<times> bool) run" where
  "SendMasterCompositeToSlave masterCompositeName slaveID =
     bind (deref pr_master) (\<lambda>m.
     bind (say ''Begin Master Composite %s %s %d %d''
             [VS masterCompositeName, VS (ms_value m), VI (flag (ms_active m)), VI (int (length (ms_value m)))]) (\<lambda>_.
     bind listen (\<lambda>theMessage. case theMessage of
         None \<Rightarrow> ret (False, True)
       | Some reply \<Rightarrow>
           bind (lift (name_text ''Master Composite %s Found'' masterCompositeName)) (\<lambda>goodMessage.
           if reply \<noteq> goodMessage then ret (False, False)
           else
           bind (SendWorkToSlave masterCompositeName) (\<lambda>_.
           bind (SendCompositesToSlave masterCompositeName) (\<lambda>_.
           bind (say ''End Master Composite %s'' [VS masterCompositeName]) (\<lambda>_.
           reading (verdict_step masterCompositeName slaveID) ())))))))"

section \<open>Updates from the slave\<close>

definition HandleWorkFromSlave :: "string \<Rightarrow> (peer, bool) run" where
  "HandleWorkFromSlave theMessage =
     bind (lift (sscanf theMessage ''Work for %s %s %lf %d'' [NAME_LENGTH + 1, METHOD_LENGTH + 1])) (\<lambda>vs.
     case work_vals vs of
       None \<Rightarrow> fails ''Sync Error: Could parse <%s>'' [VS theMessage]
     | Some (masterCompositeName, factorMethod, b1, slaveCurves) \<Rightarrow>
         bind (deref pr_master) (\<lambda>m. on_db (AddWorkDone factorMethod b1 slaveCurves m)))"

definition HandleCompositeFromSlave :: "(int \<Rightarrow> int) \<Rightarrow> string \<Rightarrow> (peer, bool) run" where
  "HandleCompositeFromSlave pp theMessage =
     bind (lift (sscanf theMessage COMPOSITE_FOR [NAME_LENGTH + 1, NAME_LENGTH + 1, VALUE_LENGTH + 1])) (\<lambda>vs.
     case comp_vals vs of
       None \<Rightarrow> fails ''Sync Error: Could not parse <%s>'' [VS theMessage]
     | Some (masterCompositeName, compositeName, compositeValue, decimalLength) \<Rightarrow>
         bind (on_db (Composite compositeName False)) (\<lambda>c.
         bind (keep_comp (Some c)) (\<lambda>_.
         if \<not> co_found c then fails ''Sync Error: Composite %s not found on master'' [VS compositeName]
         else case SetMasterCompositeName masterCompositeName c of (named, c1) \<Rightarrow>
           bind (keep_comp (Some c1)) (\<lambda>_.
           if \<not> named then fails ''Sync Error: Composite value for %s mismatch'' [VS compositeName]
           else
           bind (lift (SetValue pp compositeValue c1)) (\<lambda>(same, c2).
           bind (keep_comp (Some c2)) (\<lambda>_.
           if \<not> same then fails ''Sync Error: Composite value for %s mismatch'' [VS compositeName]
           else ret True))))))"

definition HandleCompositeFactorEventFromSlave :: "string \<Rightarrow> (peer, bool) run" where
  "HandleCompositeFactorEventFromSlave = receive_event False"

definition HandleCompositeFactorEventDetailFromSlave :: "string \<Rightarrow> (peer, bool) run" where
  "HandleCompositeFactorEventDetailFromSlave = receive_detail"

definition from_slave :: "(int \<Rightarrow> int) \<Rightarrow> handlers" where
  "from_slave pp = \<lparr>on_work = HandleWorkFromSlave, on_composite = HandleCompositeFromSlave pp,
     on_event = HandleCompositeFactorEventFromSlave, on_detail = HandleCompositeFactorEventDetailFromSlave\<rparr>"

definition SyncMasterCompositeFromSlave :: "(int \<Rightarrow> int) \<Rightarrow> string \<Rightarrow> (peer, bool \<times> bool) run" where
  "SyncMasterCompositeFromSlave pp masterCompositeName =
     bind (say ''Master Composite %s Found'' [VS masterCompositeName]) (\<lambda>_.
     bind drop_objects (\<lambda>_.
     bind (sync_messages (from_slave pp) masterCompositeName) (\<lambda>(success, fatalError).
     bind (finish_event success) (\<lambda>ok1.
     bind (finish_composite ok1) (\<lambda>ok2.
     bind drop_objects (\<lambda>_. ret (ok2, fatalError)))))))"

definition begin_vals :: "sval list \<Rightarrow> (string \<times> string \<times> int) option" where
  "begin_vals vs = (case vs of
       [VS masterCompositeName, VS masterCompositeValue, VI len] \<Rightarrow> Some (masterCompositeName, masterCompositeValue, len)
     | _ \<Rightarrow> None)"

definition find_master :: "(int \<Rightarrow> int) \<Rightarrow> string \<Rightarrow> string \<Rightarrow> (peer, bool) run" where
  "find_master pp masterCompositeName masterCompositeValue =
     bind (on_db (MasterComposite masterCompositeName)) (\<lambda>m.
     if \<not> ms_found m then
       bind (fails ''Sync Error: Master Composite %s was not found'' [VS masterCompositeName]) (\<lambda>ok.
       bind (keep_master None) (\<lambda>_. ret ok))
     else
     bind (lift (master_SetValue pp masterCompositeValue m)) (\<lambda>(same, m1).
     if \<not> same then
       bind (fails ''Sync Error: Value for Master Composite %s did not match'' [VS masterCompositeName]) (\<lambda>ok.
       bind (keep_master None) (\<lambda>_. ret ok))
     else
     bind (asks pr_server) (\<lambda>serverID.
     bind (Lock serverID m1) (\<lambda>_.
     bind (keep_master (Some m1)) (\<lambda>_. ret True)))))"

definition StartMasterCompositeSync :: "(int \<Rightarrow> int) \<Rightarrow> string \<Rightarrow> string option \<Rightarrow> (peer, bool \<times> string option) run" where
  "StartMasterCompositeSync pp theMessage name =
     bind rollback (\<lambda>_.
     bind (lift (sscanf theMessage ''Begin Master Composite %s %s %d'' [NAME_LENGTH + 1, VALUE_LENGTH + 1])) (\<lambda>vs.
     bind (case begin_vals vs of
         None \<Rightarrow> fails ''Sync Error: Could not parse <%s> from slave'' [VS theMessage]
       | Some (masterCompositeName, masterCompositeValue, len) \<Rightarrow>
           if len \<noteq> int (length masterCompositeValue)
           then fails ''Sync Error: Composite length doesn't match, expected %d, got %d''
                  [VI len, VI (int (length masterCompositeValue))]
           else find_master pp masterCompositeName masterCompositeValue)
     (\<lambda>ok. ret (ok, name_scanned name vs))))"

definition EndMasterCompositeSync :: "bool \<Rightarrow> (peer, bool) run" where
  "EndMasterCompositeSync success =
     bind (if success then
             bind (deref pr_master) (\<lambda>m.
             bind (asks (\<lambda>s. now (sess s))) (\<lambda>time.
             let m1 = SetLastUpdateTime time (SetSendUpdatesToMaster True m) in
             bind (on_db (SendUpdatesToAllSlaves m1)) (\<lambda>flagged.
             if flagged then bind (on_db (master_FinalizeChanges m1)) (\<lambda>(ok, m2). ret ok) else ret False)))
           else ret False) (\<lambda>ok.
     bind (keep_master None) (\<lambda>_.
     bind (if ok then commit else rollback) (\<lambda>_. ret ok)))"

text \<open>One master composite of the slave, answered with what the master has.\<close>

definition sync_middle :: "(int \<Rightarrow> int) \<Rightarrow> string \<Rightarrow> bool \<Rightarrow> string option \<Rightarrow> (peer, bool \<times> bool) run" where
  "sync_middle pp slaveID started name = (case name of
       Some masterCompositeName \<Rightarrow>
         if started then
           bind (SyncMasterCompositeFromSlave pp masterCompositeName) (\<lambda>(success, fatalError).
           if success then SendMasterCompositeToSlave masterCompositeName slaveID else ret (False, fatalError))
         else ret (False, False)
     | None \<Rightarrow> ret (False, False))"

definition sync_composite :: "(int \<Rightarrow> int) \<Rightarrow> string \<Rightarrow> string \<Rightarrow> string option \<Rightarrow> (peer, bool \<times> string option) run" where
  "sync_composite pp slaveID theMessage name =
     bind (StartMasterCompositeSync pp theMessage name) (\<lambda>(started, name1).
     bind (sync_middle pp slaveID started name1) (\<lambda>(success, fatalError).
     bind (EndMasterCompositeSync success) (\<lambda>ok.
     case name1 of
       None \<Rightarrow> stop Undefined
     | Some masterCompositeName \<Rightarrow>
         bind (say (if ok then ''Master Composite %s OK'' else ''Master Composite %s Error'') [VS masterCompositeName])
           (\<lambda>_. ret (fatalError, name1)))))"

text \<open>The loop: its local variable is the buffer for the name, its result says whether it was fatal.\<close>

definition updates_step :: "(int \<Rightarrow> int) \<Rightarrow> string \<Rightarrow> string option \<Rightarrow> (peer, string option + bool) run" where
  "updates_step pp slaveID name =
     bind listen (\<lambda>theMessage. case theMessage of
         None \<Rightarrow> ret (Inr True)
       | Some m \<Rightarrow>
           if m = ''No More Master Composites'' then ret (Inr False)
           else if prefixed ''Begin Master Composite '' m then
             bind (sync_composite pp slaveID m name) (\<lambda>(fatalError, name1).
             ret (if fatalError then Inr True else Inl name1))
           else
             bind (say ''Sync Error: Expected 'Begin Master Composite', but got <%s>'' [VS m]) (\<lambda>_.
             ret (Inl name)))"

text \<open>Without a first message the comparison that follows dereferences NULL.\<close>

definition GetUpdatesFromSlave :: "(int \<Rightarrow> int) \<Rightarrow> string \<Rightarrow> (peer, bool) run" where
  "GetUpdatesFromSlave pp slaveID =
     bind listen (\<lambda>theMessage. case theMessage of
         None \<Rightarrow> stop Undefined
       | Some m \<Rightarrow>
           if m \<noteq> ''Start Master Composites'' then ret False
           else
           bind (keep_master None) (\<lambda>_.
           bind (reading (updates_step pp slaveID) None) (\<lambda>fatalError.
           if fatalError then
             fails ''Fatal Sync Error: Terminated because a fatal error occured on the master.  Read the master logs to diagnose'' []
           else ret True)))"

section \<open>Updates for the slave\<close>

definition changed_masters :: "string \<Rightarrow> tables \<Rightarrow> string list" where
  "changed_masters slaveID t =
     [BindSelectedColumn (mc_name r) NAME_LENGTH. r \<leftarrow> masters t,
        y \<leftarrow> syncs t, ss_master y = mc_name r \<and> ss_send y = 1 \<and> ss_slave y = slaveID]"

text \<open>The loop over the master composites ends with the first failure; its results are \<open>success\<close>, \<open>fatalError\<close>.\<close>

primrec send_masters :: "string \<Rightarrow> string list \<Rightarrow> (peer, bool \<times> bool) run" where
  "send_masters slaveID [] = bind (on_db (fetch ([] :: unit list))) (\<lambda>_. ret (True, False))"
| "send_masters slaveID (masterCompositeName # rows) =
     bind (on_db (fetch (masterCompositeName # rows))) (\<lambda>x. case x of
         None \<Rightarrow> ret (True, False)
       | Some _ \<Rightarrow>
           bind (on_db (MasterComposite masterCompositeName)) (\<lambda>m.
           bind (keep_master (Some m)) (\<lambda>_.
           bind (asks pr_server) (\<lambda>serverID.
           bind (Lock serverID m) (\<lambda>_.
           bind (SendMasterCompositeToSlave masterCompositeName slaveID) (\<lambda>(success, fatalError).
           bind (if success then commit else rollback) (\<lambda>_.
           bind (keep_master None) (\<lambda>_.
           if success \<and> \<not> fatalError then send_masters slaveID rows else ret (success, fatalError)))))))))"

definition SendUpdatesToSlave :: "(string list \<Rightarrow> string list) \<Rightarrow> string \<Rightarrow> (peer, bool) run" where
  "SendUpdatesToSlave order slaveID =
     bind (say ''Start Master Composites'' []) (\<lambda>_.
     bind (on_db (Open [PStr slaveID ID_LENGTH] (\<lambda>t. order (changed_masters slaveID t)))) (\<lambda>c.
     bind (case c of None \<Rightarrow> ret (True, False) | Some rows \<Rightarrow> send_masters slaveID rows) (\<lambda>(success, fatalError).
     bind rollback (\<lambda>_.
     bind (if fatalError then
             fails ''Fatal Sync Error: Terminated because a fatal error occured on the master.  Read the master logs to diagnose'' []
           else ret success) (\<lambda>ok.
     bind (say ''No More Master Composites'' []) (\<lambda>_. ret ok))))))"

section \<open>User statistics\<close>

definition GetUserStatsFromSlave :: "(peer, bool) run" where
  "GetUserStatsFromSlave = receive_stats (\<lambda>workDone factorCount timeSpent u.
     IncrementTimeSpent timeSpent (AddFactors factorCount (AddWork workDone u)))"

definition totals_of_users :: "tables \<Rightarrow> (string \<times> double \<times> int \<times> double) list" where
  "totals_of_users t =
     map (\<lambda>r. (BindSelectedColumn (us_id r) ID_LENGTH, us_total_work r, us_total_factors r, us_total_time r))
       (filter (\<lambda>r. us_total_work r > 0) (users t))"

definition SendUserStatsToSlave ::
    "((string \<times> double \<times> int \<times> double) list \<Rightarrow> (string \<times> double \<times> int \<times> double) list) \<Rightarrow> (peer, bool) run" where
  "SendUserStatsToSlave order =
     bind (say ''Start User Stats'' []) (\<lambda>_.
     bind (for_rows [] (\<lambda>t. order (totals_of_users t)) (\<lambda>(userID, workToSend, factorsToSend, timeSpent).
             bind (say STATS_LINE [VS userID, VD workToSend, VI factorsToSend, VD timeSpent]) (\<lambda>_. ret True))) (\<lambda>success.
     stats_answer success))"

section \<open>The synchronisation\<close>

record sync_order =
  by_name :: "string list \<Rightarrow> string list"
  by_user :: "(string \<times> double \<times> int \<times> double) list \<Rightarrow> (string \<times> double \<times> int \<times> double) list"

definition sync_vals :: "sval list \<Rightarrow> (string \<times> string) option" where
  "sync_vals vs = (case vs of [VS slaveID, VS password] \<Rightarrow> Some (slaveID, password) | _ \<Rightarrow> None)"

definition SyncWithSlave :: "(int \<Rightarrow> int) \<Rightarrow> sync_order \<Rightarrow> string \<Rightarrow> (peer, unit) run" where
  "SyncWithSlave pp order theMessage =
     bind (lift (sscanf theMessage ''Start Sync %s %s'' [IDS, IDS])) (\<lambda>vs.
     bind (asks pr_password) (\<lambda>expected. case sync_vals vs of
         None \<Rightarrow> say ''Sync Error: START SYNC not formatted correctly.'' []
       | Some (slaveID, password) \<Rightarrow>
           if password \<noteq> expected then say ''Sync Error: unable to sync because the wrong password sent.'' []
           else
           bind (and_also (PopulateMasterSlaveSync slaveID)
                (and_also (GetUpdatesFromSlave pp slaveID)
                (and_also (SendUpdatesToSlave (by_name order) slaveID)
                (and_also GetUserStatsFromSlave
                   (SendUserStatsToSlave (by_user order)))))) (\<lambda>_.
           bind rollback (\<lambda>_. close_connection))))"

end
