(* ===== verification/PeerLemmas.thy ===== *)
theory PeerLemmas
  imports SyncPeer WorkTotals ReceiverEnds
begin

text \<open>
  What the operations shared by the two ends of a synchronisation keep: the schema, the totals of the
  master composites, the transaction; and that their loops end.
\<close>

section \<open>Rows\<close>

lemma each_row_stays:
  assumes "effect R" "\<And>rs. stays R (on_db (fetch (rs :: unit list)))" "\<And>rs. stays R (on_db (fetch (rs :: 'r list)))"
    "\<And>r. stays R (body r)"
  shows "stays R (each_row body (rows :: 'r list))"
proof (induction rows)
  case Nil
  then show ?case by (auto intro!: effect.stays_intros [OF assms(1)] assms(2))
next
  case (Cons r rows)
  then show ?case by (auto intro!: effect.stays_intros [OF assms(1)] assms(3,4))
qed

lemma for_rows_stays:
  assumes "effect R" "\<And>rs. stays R (on_db (fetch (rs :: unit list)))" "\<And>rs. stays R (on_db (fetch (rs :: 'r list)))"
    "\<And>ps q. stays R (on_db (Open ps (q :: tables \<Rightarrow> 'r list)))" "\<And>r. stays R (body r)"
  shows "stays R (for_rows ps (q :: tables \<Rightarrow> 'r list) body)"
  unfolding for_rows_def
  by (intro effect.stays_intros [OF assms(1)] each_row_stays [OF assms(1)] assms(2-5))

lemma reading_stays: "effect R \<Longrightarrow> (\<And>x. stays R (body x)) \<Longrightarrow> stays R (reading body x)"
  unfolding reading_def by (intro effect.stays_intros) auto

section \<open>Relations the operations of a peer respect\<close>

text \<open>
  A relation between states that tolerates: work inside the transaction that leaves work and masters
  alone, talking on the connection, replacing the composite and the event at hand, and counting a
  factor. The operations both servers share then respect it.
\<close>

locale peer_effect = effect R for R :: "peer \<Rightarrow> peer \<Rightarrow> bool" +
  assumes db_step: "tx_step (sess s) x \<Longrightarrow> same_work (sess s) x \<Longrightarrow> R s (s\<lparr>sess := x\<rparr>)"
    and sock_step: "pending_lines h \<le> pending_lines (sock s) \<Longrightarrow> so_open h = so_open (sock s) \<Longrightarrow> R s (s\<lparr>sock := h\<rparr>)"
    and comp_step: "R s (s\<lparr>pr_comp := c\<rparr>)"
    and event_step: "R s (s\<lparr>pr_event := e\<rparr>)"
    and count_step: "pr_master s = Some m \<Longrightarrow> R s (s\<lparr>pr_master := Some (master_IncrementFactorCount m)\<rparr>)"
begin

lemma db: "stays tx_step m \<Longrightarrow> stays same_work m \<Longrightarrow> stays R (on_db m)"
  by (auto simp: stays_def on_db_Inr intro: db_step)

lemma talk: "stays R listen" "stays R (say f vs)" "stays R (fails f vs)"
proof -
  show "stays R listen"
    by (auto simp: stays_def listen_def on_sock_Inr Receive_def pending_lines_def intro!: sock_step local.refl
        split: if_splits list.splits input.splits)
  show s: "stays R (say f vs)" for f vs
    by (auto simp: stays_def say_def bind_eq_Inr on_sock_Inr Sendf_def Send_def pending_lines_def intro!: sock_step local.refl
        split: if_splits)
  show "stays R (fails f vs)" unfolding fails_def by (intro stays_bind s stays_ret)
qed

lemma members: "stays R (deref f)" "stays R (keep_comp c)" "stays R (keep_event e)" "stays R drop_objects"
  "stays R (Lock i mm)"
proof -
  show k: "stays R (keep_comp c)" "stays R (keep_event e)" for c e
    by (auto simp: stays_def keep_comp_def keep_event_def intro: comp_step event_step)
  show "stays R (deref f)" unfolding deref_def by (intro stays_intros)
  show "stays R drop_objects" unfolding drop_objects_def by (intro stays_intros k)
  show "stays R (Lock i mm)" unfolding Lock_def by (intro stays_intros)
qed

lemma count: "stays R (bind (deref pr_master) (\<lambda>m. bind (keep_master (Some (master_IncrementFactorCount m))) f))"
  if "\<And>u. stays R (f u)"
proof (rule staysI)
  fix s a s' assume "bind (deref pr_master) (\<lambda>m. bind (keep_master (Some (master_IncrementFactorCount m))) f) s = Inr (a, s')"
  then obtain m where m: "pr_master s = Some m"
    and f: "f () (s\<lparr>pr_master := Some (master_IncrementFactorCount m)\<rparr>) = Inr (a, s')"
    by (auto simp: keep_master_def deref_Inr bind_eq_Inr)
  show "R s s'" by (rule trans [OF count_step [OF m] staysD [OF that f]])
qed

lemma rows: "(\<And>r. stays R (body r)) \<Longrightarrow> stays R (each_row body rs)"
  "(\<And>r. stays R (body r)) \<Longrightarrow> stays R (for_rows ps q body)"
  by (intro each_row_stays for_rows_stays db tx_intros same_intros effect_axioms; blast)+

lemma loop: "(\<And>x. stays R (body x)) \<Longrightarrow> stays R (reading body x)"
  by (intro reading_stays effect_axioms)

lemmas ops = stays_intros talk members count rows loop db tx_intros tx_comp tx_event tx_master tx_user same_intros wf_intros

lemma same_detail: "stays same_work (AddEventDetailWith v l p e)"
  unfolding AddEventDetailWith_def Let_def by (intro same_intros)

lemma send_details: "stays R (send_details n c e)"
  unfolding send_details_def by (intro ops)

lemma receive: "stays R (receive_event b m)" "stays R (receive_detail m)"
  unfolding receive_event_def receive_detail_def by (intro ops same_detail)+

lemma finish: "stays R (finish_event b)" "stays R (finish_composite b)"
  unfolding finish_event_def finish_composite_def by (intro ops)+

lemma sync_messages:
  assumes "\<And>m. stays R (on_work h m)" "\<And>m. stays R (on_composite h m)" "\<And>m. stays R (on_event h m)"
    "\<And>m. stays R (on_detail h m)"
  shows "stays R (sync_messages h n)"
  unfolding sync_messages_def sync_step_def sync_message_def next_composite_def next_event_def
  by (intro ops assms)

end

text \<open>Relations that also tolerate taking back the transaction, and a new master composite at hand.\<close>

locale peer_turn = peer_effect +
  assumes rollback_step: "R s (s\<lparr>sess := Rollback (sess s)\<rparr>)"
    and master_step: "R s (s\<lparr>pr_master := mm\<rparr>)"
begin

lemma turn: "stays R rollback" "stays R (keep_master m)"
  by (auto simp: stays_def rollback_def keep_master_def intro: rollback_step master_step)

end

text \<open>Relations that tolerate the end of a transaction either way.\<close>

locale peer_request = peer_turn +
  assumes commit_step: "R s (s\<lparr>sess := Commit (sess s)\<rparr>)"
begin

lemma request: "stays R commit" "stays R rollback" "stays R (keep_master m)"
  using turn by (auto simp: stays_def commit_def intro: commit_step)

lemma stats: "stays R (receive_stats f)" "stays R (stats_answer b)"
  unfolding receive_stats_def stats_step_def stats_answer_def Let_def by (intro ops request)+

end

section \<open>Lines left\<close>

definition shrinks :: "'s handler_scheme \<Rightarrow> 's handler_scheme \<Rightarrow> bool" where
  "shrinks s s' \<longleftrightarrow> lines_left s' \<le> lines_left s"

interpretation shrink: peer_request shrinks
  by unfold_locales (auto simp: shrinks_def lines_left_def)

text \<open>A loop that starts every round by taking a line ends.\<close>

lemma ends_reading:
  assumes "\<And>x. body x = bind listen (\<lambda>r. case r of None \<Rightarrow> ret (Inr (g x)) | Some m \<Rightarrow> h x m)"
    "\<And>x m. ends (h x m)" "\<And>x m. stays shrinks (h x m)"
  shows "ends (reading body x)"
  unfolding reading_def
proof (rule ends_iterate)
  show "ends (body x)" for x
    unfolding assms(1) by (intro end_intros assms(2))
  fix x s x' s' assume "body x s = Inr (Inl x', s')"
  then obtain m s1 where "listen s = Inr (Some m, s1)" "h x m s1 = Inr (Inl x', s')"
    unfolding assms(1) by (auto simp: bind_eq_Inr split: option.splits)
  with listen_Inr [of s "Some m" s1] staysD [OF assms(3)] show "lines_left s' < lines_left s"
    unfolding shrinks_def by (metis le_less_trans option.distinct(1))
qed

lemma ends_rows [end_intros]: "(\<And>r. ends (body r)) \<Longrightarrow> ends (each_row body rows)"
  "(\<And>r. ends (body r)) \<Longrightarrow> ends (for_rows ps q body)"
proof -
  show e: "ends (each_row body rows)" if "\<And>r. ends (body r)" for rows
    using that by (induction rows) (auto intro!: end_intros)
  show "ends (for_rows ps q body)" if "\<And>r. ends (body r)"
    unfolding for_rows_def by (intro end_intros e that)
qed

lemma ends_keep [end_intros]: "ends (keep_master m)" "ends (keep_comp c)" "ends (keep_event e)"
  "ends (AddEventDetailWith v l p x)"
  unfolding keep_master_def keep_comp_def keep_event_def AddEventDetailWith_def Let_def
  by (intro end_intros; simp)+

lemma name_text_ends [simp]: "name_text f n \<noteq> Inl Fuel"
  by (simp add: name_text_def)

end
