(* ===== verification/MasterSync.thy ===== *)
theory MasterSync
  imports IAmAMaster PeerLemmas
begin

text \<open>
  What a master server guarantees about a synchronisation, whatever the slave sends: the schema and the
  totals of the master composites are kept, a composite that is answered with an error leaves the
  committed tables alone, and the conversation ends.
\<close>

section \<open>The operations of the master\<close>

context peer_effect begin

lemma same_sent: "stays same_work (SentUpdateToSlave sl m)"
  unfolding SentUpdateToSlave_def by (intro same_intros)

lemma send_master: "stays R (SendMasterCompositeToSlave n sl)"
  unfolding SendMasterCompositeToSlave_def SendWorkToSlave_def SendCompositesToSlave_def
    SendCompositeFactorEventsToSlave_def verdict_step_def
  by (intro ops send_details same_sent)

lemma composite_from_slave: "stays R (HandleCompositeFromSlave pp m)"
  unfolding HandleCompositeFromSlave_def by (intro ops)

lemma from_slave:
  assumes "\<And>m. stays R (HandleWorkFromSlave m)" shows "stays R (SyncMasterCompositeFromSlave pp n)"
  unfolding SyncMasterCompositeFromSlave_def
  by (intro ops finish sync_messages; simp add: from_slave_def assms composite_from_slave receive
      HandleCompositeFactorEventFromSlave_def HandleCompositeFactorEventDetailFromSlave_def)

end

context peer_effect begin

lemma middle:
  assumes "\<And>m. stays R (HandleWorkFromSlave m)" shows "stays R (sync_middle pp sl b name)"
  unfolding sync_middle_def by (intro ops from_slave send_master assms)

end

context peer_turn begin

lemma start_sync: "stays R (StartMasterCompositeSync pp m n)"
  unfolding StartMasterCompositeSync_def find_master_def by (intro ops turn)

end

context peer_request begin

lemma stmt_same_sync: "stmt_same (insert_sync r)"
  by (auto simp: stmt_same_def insert_sync_def)

lemma populate: "stays R (PopulateMasterSlaveSync sl)"
  unfolding PopulateMasterSlaveSync_def Let_def by (intro ops stmt_same_sync)

lemma send_masters: "stays R (send_masters sl rs)"
  by (induction rs) (auto intro!: ops request send_master)

lemma send_updates: "stays R (SendUpdatesToSlave order sl)"
  unfolding SendUpdatesToSlave_def by (intro ops request send_masters)

lemma users_sync: "stays R GetUserStatsFromSlave" "stays R (SendUserStatsToSlave order2)"
  unfolding GetUserStatsFromSlave_def SendUserStatsToSlave_def by (intro ops stats)+

lemma sync:
  assumes "\<And>m n. stays R (sync_composite pp sl m n)" "\<And>s. R s (s\<lparr>sock := (sock s)\<lparr>so_open := False, incoming := []\<rparr>\<rparr>)"
  shows "stays R (and_also (PopulateMasterSlaveSync sl)
                (and_also (GetUpdatesFromSlave pp sl)
                (and_also (SendUpdatesToSlave f sl)
                (and_also GetUserStatsFromSlave (SendUserStatsToSlave g)))))"
    "stays R close_connection"
proof -
  show "stays R close_connection"
    by (simp add: stays_def close_connection_def assms(2))
  show "stays R (and_also (PopulateMasterSlaveSync sl)
                (and_also (GetUpdatesFromSlave pp sl)
                (and_also (SendUpdatesToSlave f sl)
                (and_also GetUserStatsFromSlave (SendUserStatsToSlave g)))))"
    unfolding and_also_def GetUpdatesFromSlave_def updates_step_def
    by (intro ops request populate send_updates users_sync assms(1))
qed

end

lemma SyncWithSlave_stays:
  assumes "peer_request R" "\<And>sl m n. stays R (sync_composite pp sl m n)"
    "\<And>s. R s (s\<lparr>sock := (sock s)\<lparr>so_open := False, incoming := []\<rparr>\<rparr>)"
  shows "stays R (SyncWithSlave pp order m)"
proof -
  have e: "peer_effect R" "effect R" using assms(1) by (auto simp: peer_request_def peer_turn_def peer_effect_def)
  show ?thesis
    unfolding SyncWithSlave_def
    by (intro effect.stays_intros [OF e(2)] peer_effect.talk [OF e(1)] peer_request.request [OF assms(1)]
        peer_request.sync [OF assms(1,2)] assms(3)) 
qed

section \<open>Keys and references\<close>

interpretation pwf: peer_request handler_wf
proof
  fix s :: peer and x assume "tx_step (sess s) x"
  then show "handler_wf s (s\<lparr>sess := x\<rparr>)" by (simp add: handler_wf_def sess_step_def tx_keeps_wf)
next
  fix s :: peer
  show "handler_wf s (s\<lparr>sess := Commit (sess s)\<rparr>)" "handler_wf s (s\<lparr>sess := Rollback (sess s)\<rparr>)"
    by (auto simp: handler_wf_def sess_step_def keeps_wf_def Commit_def Rollback_def split: prod.splits)
qed (auto simp: handler_wf_def sess_step_def keeps_wf_def)

lemma work_from_slave_wf: "stays handler_wf (HandleWorkFromSlave m)"
  unfolding HandleWorkFromSlave_def by (intro hwf.stays_intros pwf.talk pwf.members on_db_wf tx_master)

lemma end_sync_wf: "stays handler_wf (EndMasterCompositeSync b)"
  unfolding EndMasterCompositeSync_def Let_def
  by (intro hwf.stays_intros pwf.talk pwf.members pwf.request on_db_wf tx_master)

lemma sync_composite_wf: "stays handler_wf (sync_composite pp sl m n)"
  unfolding sync_composite_def
  by (intro pwf.ops pwf.start_sync pwf.middle work_from_slave_wf end_sync_wf)

lemma SyncWithSlave_wf: "stays handler_wf (SyncWithSlave pp order m)"
  by (rule SyncWithSlave_stays [OF pwf.peer_request_axioms sync_composite_wf])
    (simp add: handler_wf_def sess_step_def keeps_wf_def)

section \<open>Nothing is committed before the end of a composite\<close>

definition held :: "peer \<Rightarrow> peer \<Rightarrow> bool" where
  "held s s' \<longleftrightarrow> so_open (sock s') = so_open (sock s)
     \<and> (endtran (sess s) = [] \<longrightarrow> endtran (sess s') = [] \<and> saved (sess s') = saved (sess s))"

interpretation hld: peer_turn held
  by unfold_locales (auto simp: held_def tx_step_def Rollback_ok)

lemma work_from_slave_held: "stays held (HandleWorkFromSlave m)"
proof -
  have "stays held (on_db (AddWorkDone f b k mc))" for f b k mc
    using tx_master(7) by (fastforce simp: stays_def held_def on_db_Inr tx_step_def)
  then show ?thesis
    unfolding HandleWorkFromSlave_def by (intro hld.stays_intros hld.talk hld.members)
qed

definition same_open :: "peer \<Rightarrow> peer \<Rightarrow> bool" where
  "same_open s s' \<longleftrightarrow> so_open (sock s') = so_open (sock s)"

interpretation opn: peer_request same_open
  by unfold_locales (auto simp: same_open_def)

lemma opn_db: "stays same_open (on_db m)"
  by (auto simp: stays_def same_open_def on_db_Inr)

lemma opn_end: "stays same_open (EndMasterCompositeSync b)"
  unfolding EndMasterCompositeSync_def Let_def by (intro opn.stays_intros opn.members opn.request opn_db)

section \<open>The totals of the master composites\<close>

text \<open>
  Between the composites all totals are right; while one is taken from the slave, those of the others.
  \<open>SQLEndTran\<close> carries out what it is asked.
\<close>

definition clean_step :: "peer \<Rightarrow> peer \<Rightarrow> bool" where
  "clean_step s s' \<longleftrightarrow> (clean (sess s) \<longrightarrow> clean (sess s'))"

definition busy :: "string \<Rightarrow> peer \<Rightarrow> bool" where
  "busy n s \<longleftrightarrow> db_wf (cur (sess s)) \<and> db_wf (saved (sess s)) \<and> endtran (sess s) = [] \<and> totals_ok (saved (sess s))
     \<and> (\<forall>k. k \<noteq> n \<longrightarrow> total_ok (cur (sess s)) k)
     \<and> (\<exists>m. pr_master s = Some m \<and> ms_name m = n \<and> ms_work m = 0)"

definition busy_step :: "peer \<Rightarrow> peer \<Rightarrow> bool" where
  "busy_step s s' \<longleftrightarrow> (\<forall>n. busy n s \<longrightarrow> busy n s')"

lemma same_totals: "same_work s s' \<Longrightarrow> total_ok (cur s') k = total_ok (cur s) k"
  "same_work s s' \<Longrightarrow> totals_ok (cur s') = totals_ok (cur s)"
  by (simp_all add: same_work_def total_ok_def totals_ok_def ecm_total_def sum_work_def)

interpretation cln: peer_request clean_step
proof
  fix s :: peer and x assume "tx_step (sess s) x" "same_work (sess s) x"
  then show "clean_step s (s\<lparr>sess := x\<rparr>)"
    by (auto simp: clean_step_def clean_def tx_step_def same_totals)
qed (auto simp: clean_step_def clean_def Commit_ok Rollback_ok)

interpretation bsy: peer_effect busy_step
proof
  fix s :: peer and x assume "tx_step (sess s) x" "same_work (sess s) x"
  then show "busy_step s (s\<lparr>sess := x\<rparr>)"
    by (auto simp: busy_step_def busy_def tx_step_def same_totals)
qed (auto simp: busy_step_def busy_def master_IncrementFactorCount_def)

lemma work_from_slave_busy: "stays busy_step (HandleWorkFromSlave m)"
proof -
  have add: "stays busy_step (bind (deref pr_master) (\<lambda>mc. on_db (AddWorkDone f b k mc)))" for f b k
  proof (rule staysI)
    fix s s' :: peer and r assume "bind (deref pr_master) (\<lambda>mc. on_db (AddWorkDone f b k mc)) s = Inr (r, s')"
    then obtain mc x where mc: "pr_master s = Some mc" and x: "AddWorkDone f b k mc (sess s) = Inr (r, x)"
      and s': "s' = s\<lparr>sess := x\<rparr>"
      by (auto simp: bind_eq_Inr deref_Inr on_db_Inr)
    have "tx_step (sess s) x" "others_ok (ms_name mc) (sess s) x"
      using staysD [OF tx_master(7) x] staysD [OF others_AddWorkDone x] by auto
    then show "busy_step s s'"
      using mc by (auto simp: busy_step_def busy_def s' tx_step_def others_ok_def)
  qed
  show ?thesis
    unfolding HandleWorkFromSlave_def by (intro bsy.stays_intros bsy.talk add)
qed

lemma fails_Inr: "fails f vs s = Inr (b, s') \<Longrightarrow> \<not> b"
  by (auto simp: fails_def bind_eq_Inr)

lemma find_master_True:
  assumes "find_master pp k v s = Inr (True, s')"
  shows "\<exists>mc x mc1. MasterComposite k (sess s) = Inr (mc, x) \<and> ms_found mc \<and> master_SetValue pp v mc = Inr (True, mc1)
     \<and> s' = s\<lparr>sess := x, pr_master := Some mc1\<rparr>"
proof -
  from assms obtain mc s1 where mc: "on_db (MasterComposite k) s = Inr (mc, s1)"
    and r: "(if \<not> ms_found mc then
       bind (fails ''Sync Error: Master Composite %s was not found'' [VS k]) (\<lambda>ok. bind (keep_master None) (\<lambda>_. ret ok))
     else
     bind (lift (master_SetValue pp v mc)) (\<lambda>(same, m1).
     if \<not> same then
       bind (fails ''Sync Error: Value for Master Composite %s did not match'' [VS k]) (\<lambda>ok.
       bind (keep_master None) (\<lambda>_. ret ok))
     else
     bind (asks pr_server) (\<lambda>serverID.
     bind (Lock serverID m1) (\<lambda>_.
     bind (keep_master (Some m1)) (\<lambda>_. ret True))))) s1 = Inr (True, s')"
    unfolding find_master_def by (elim bind_InrE) blast
  from r have "ms_found mc"
    by (auto simp: bind_eq_Inr dest: fails_Inr split: if_splits)
  with r obtain mc1 where "master_SetValue pp v mc = Inr (True, mc1)" "s' = s1\<lparr>pr_master := Some mc1\<rparr>"
    by (auto simp: bind_eq_Inr Lock_def keep_master_def dest: fails_Inr split: if_splits)
  with mc \<open>ms_found mc\<close> show ?thesis by (auto simp: on_db_Inr)
qed

lemma start_sync_True:
  assumes "StartMasterCompositeSync pp m n s = Inr ((True, name1), s')"
  shows "\<exists>vs k v. sscanf m ''Begin Master Composite %s %s %d'' [NAME_LENGTH + 1, VALUE_LENGTH + 1] = Inr vs
     \<and> begin_vals vs = Some (k, v, int (length v)) \<and> name1 = Some k
     \<and> find_master pp k v (s\<lparr>sess := Rollback (sess s)\<rparr>) = Inr (True, s')"
proof -
  from assms obtain vs where vs: "sscanf m ''Begin Master Composite %s %s %d'' [NAME_LENGTH + 1, VALUE_LENGTH + 1] = Inr vs"
    and name1: "name1 = name_scanned n vs"
    and r: "(case begin_vals vs of
         None \<Rightarrow> fails ''Sync Error: Could not parse <%s> from slave'' [VS m]
       | Some (masterCompositeName, masterCompositeValue, len) \<Rightarrow>
           if len \<noteq> int (length masterCompositeValue)
           then fails ''Sync Error: Composite length doesn't match, expected %d, got %d''
                  [VI len, VI (int (length masterCompositeValue))]
           else find_master pp masterCompositeName masterCompositeValue) (s\<lparr>sess := Rollback (sess s)\<rparr>) = Inr (True, s')"
    unfolding StartMasterCompositeSync_def rollback_def by (elim bind_InrE) (auto simp del: One_nat_def add_Suc_right)
  obtain k v l where b: "begin_vals vs = Some (k, v, l)"
    using r by (cases "begin_vals vs") (auto dest: fails_Inr)
  then have "vs = [VS k, VS v, VI l]"
    by (auto simp: begin_vals_def split: list.splits sval.splits)
  with b r name1 vs show ?thesis
    by (auto simp: name_scanned_def dest: fails_Inr split: if_splits)
qed

lemma start_sync_master:
  assumes "StartMasterCompositeSync pp m n s = Inr ((True, name1), s')"
  shows "\<exists>mc. pr_master s' = Some mc \<and> ms_work mc = 0"
proof -
  have find: "ms_work mc = 0" if "MasterComposite k x = Inr (mc, y)" for k x mc y
    using that by (auto simp: MasterComposite_def bind_eq_Inr split: option.splits)
  have set_value: "ms_work mc1 = ms_work mc" if "master_SetValue pp v mc = Inr (True, mc1)" for v mc mc1
    using that by (auto simp: master_SetValue_def ComputeDecimalLength_def split: if_splits)
  from start_sync_True [OF assms] obtain k v where "find_master pp k v (s\<lparr>sess := Rollback (sess s)\<rparr>) = Inr (True, s')"
    by blast
  from find_master_True [OF this] find set_value show ?thesis by fastforce
qed

text \<open>What ending the synchronisation of a composite comes to.\<close>

lemma end_sync_cases:
  assumes run: "EndMasterCompositeSync b s = Inr (ok, s')"
  shows "(\<not> b \<and> \<not> ok \<and> sess s' = Rollback (sess s)) \<or>
    (\<exists>mc m1 x. b \<and> pr_master s = Some mc \<and> m1 = SetLastUpdateTime (now (sess s)) (SetSendUpdatesToMaster True mc)
      \<and> ((SendUpdatesToAllSlaves m1 (sess s) = Inr (False, x) \<and> \<not> ok \<and> sess s' = Rollback x) \<or>
        (\<exists>m2 y. SendUpdatesToAllSlaves m1 (sess s) = Inr (True, x) \<and> master_FinalizeChanges m1 x = Inr ((ok, m2), y)
           \<and> sess s' = (if ok then Commit y else Rollback y))))"
proof (cases b)
  case False
  with run show ?thesis by (auto simp: EndMasterCompositeSync_def keep_master_def rollback_def)
next
  case True
  from run obtain r s1 where
    r: "(bind (deref pr_master) (\<lambda>m.
             bind (asks (\<lambda>s. now (sess s))) (\<lambda>time.
             let m1 = SetLastUpdateTime time (SetSendUpdatesToMaster True m) in
             bind (on_db (SendUpdatesToAllSlaves m1)) (\<lambda>flagged.
             if flagged then bind (on_db (master_FinalizeChanges m1)) (\<lambda>(ok, m2). ret ok) else ret False)))) s = Inr (ok, s1)"
    and s': "sess s' = (if ok then Commit (sess s1) else Rollback (sess s1))"
    unfolding EndMasterCompositeSync_def using True
    by (elim bind_InrE) (auto simp: keep_master_def commit_def rollback_def split: if_splits)
  from r obtain mc flagged s2 where mc: "pr_master s = Some mc"
    and x: "SendUpdatesToAllSlaves (SetLastUpdateTime (now (sess s)) (SetSendUpdatesToMaster True mc)) (sess s)
      = Inr (flagged, s2)"
    and f: "(if flagged then bind (on_db (master_FinalizeChanges
        (SetLastUpdateTime (now (sess s)) (SetSendUpdatesToMaster True mc)))) (\<lambda>(ok, m2). ret ok) else ret False)
        (s\<lparr>sess := s2\<rparr>) = Inr (ok, s1)"
    by (auto simp: Let_def deref_Inr on_db_Inr elim!: bind_InrE)
  show ?thesis
    using f x mc s' True by (cases flagged) (auto simp: on_db_Inr bind_eq_Inr)
qed

lemma end_sync_clean:
  assumes run: "EndMasterCompositeSync b s = Inr (ok, s')" and i: "busy n s \<or> \<not> b \<and> clean (sess s)"
  shows "clean (sess s')"
proof -
  have safe: "db_wf (saved (sess s))" "endtran (sess s) = []" "totals_ok (saved (sess s))"
    using i by (auto simp: busy_def clean_def)
  have roll: "clean (Rollback x)" if "saved x = saved (sess s)" "endtran x = endtran (sess s)" for x
    using safe that by (simp add: clean_def Rollback_ok)
  show ?thesis
  proof (cases b)
    case False
    with end_sync_cases [OF run] roll show ?thesis by auto
  next
    case True
    then have busy: "busy n s" using i by simp
    then obtain mc where mc: "pr_master s = Some mc" "ms_name mc = n" "ms_work mc = 0" by (auto simp: busy_def)
    define m1 where "m1 = SetLastUpdateTime (now (sess s)) (SetSendUpdatesToMaster True mc)"
    have m1: "ms_name m1 = n" "ms_work m1 = 0"
      using mc by (simp_all add: m1_def SetLastUpdateTime_def SetSendUpdatesToMaster_def)
    from end_sync_cases [OF run] mc True obtain flagged x where x: "SendUpdatesToAllSlaves m1 (sess s) = Inr (flagged, x)"
      and rest: "sess s' = Rollback x \<or>
        (\<exists>m2 y. master_FinalizeChanges m1 x = Inr ((ok, m2), y) \<and> sess s' = (if ok then Commit y else Rollback y))"
      unfolding m1_def by auto
    have tx1: "tx_step (sess s) x" and sw: "same_work (sess s) x"
      using staysD [OF tx_master(9) x] staysD [OF same_ops(8) x] by auto
    from rest show ?thesis
    proof (elim disjE exE conjE)
      assume "sess s' = Rollback x"
      with roll tx1 show ?thesis by (simp add: tx_step_def)
    next
      fix m2 y assume f: "master_FinalizeChanges m1 x = Inr ((ok, m2), y)" and s': "sess s' = (if ok then Commit y else Rollback y)"
      have tx2: "tx_step x y" using staysD [OF tx_master(4) f] .
      have keep: "saved y = saved (sess s)" "endtran y = endtran (sess s)" "db_wf (cur x)" "db_wf (cur y)"
        using tx1 tx2 busy by (auto simp: tx_step_def busy_def)
      show ?thesis
      proof (cases ok)
        case False
        with s' roll keep show ?thesis by simp
      next
        case True
        have "settled m2 y \<and> ms_name m2 = ms_name m1"
          using f True m1(2) keep(3) master_FinalizeChanges_found master_FinalizeChanges_new
          by (cases "ms_found m1") auto
        then have "total_ok (cur y) n" using m1(1) unfolding settled_def by metis
        moreover have "total_ok (cur y) k" if "k \<noteq> n" for k
          using others_master_FinalizeChanges [OF f keep(3)] m1(1) busy that sw
          by (auto simp: others_ok_def busy_def same_totals)
        ultimately have "totals_ok (cur y)" by (metis totals_ok_iff)
        with True s' safe keep show ?thesis by (simp add: clean_def Commit_ok)
      qed
    qed
  qed
qed

lemma say_sess: "say f vs s = Inr (u, s') \<Longrightarrow> sess s' = sess s"
  by (auto simp: say_def bind_eq_Inr on_sock_Inr)

lemma sync_composite_parts:
  assumes "sync_composite pp sl m n s = Inr (r, s')"
  shows "\<exists>started name1 s1 success fatal s2 ok s3 k. StartMasterCompositeSync pp m n s = Inr ((started, name1), s1)
    \<and> sync_middle pp sl started name1 s1 = Inr ((success, fatal), s2)
    \<and> EndMasterCompositeSync success s2 = Inr (ok, s3) \<and> name1 = Some k \<and> r = (fatal, name1)
    \<and> say (if ok then ''Master Composite %s OK'' else ''Master Composite %s Error'') [VS k] s3 = Inr ((), s')"
  using assms unfolding sync_composite_def
  by (elim bind_InrE) (auto split: option.splits prod.splits elim!: bind_InrE split del: if_split)

lemma sync_composite_clean: "stays clean_step (sync_composite pp sl m n)"
proof (rule staysI)
  fix s r s' assume run: "sync_composite pp sl m n s = Inr (r, s')"
  have "clean (sess s')" if c: "clean (sess s)"
  proof -
    from sync_composite_parts [OF run] obtain started name1 s1 success fatal s2 ok s3 where
        start: "StartMasterCompositeSync pp m n s = Inr ((started, name1), s1)"
      and work: "sync_middle pp sl started name1 s1 = Inr ((success, fatal), s2)"
      and fin: "EndMasterCompositeSync success s2 = Inr (ok, s3)" and last: "sess s' = sess s3"
      using say_sess by blast
    have c1: "clean (sess s1)" using staysD [OF cln.start_sync start] c by (simp add: clean_step_def)
    have "busy (ms_name (the (pr_master s2))) s2 \<or> \<not> success \<and> clean (sess s2)"
    proof (cases "started \<and> name1 \<noteq> None")
      case True
      then obtain k where k: "name1 = Some k" "started" by auto
      with start_sync_master [of pp m n s name1 s1] start obtain mc where mc: "pr_master s1 = Some mc" "ms_work mc = 0"
        by auto
      with c1 have "busy (ms_name mc) s1"
        by (auto simp: busy_def clean_def totals_ok_iff)
      moreover have "busy_step s1 s2"
        using work by (rule staysD [rotated]) (intro bsy.middle work_from_slave_busy)
      ultimately have "busy (ms_name mc) s2" by (simp add: busy_step_def)
      then show ?thesis by (auto simp: busy_def)
    next
      case False
      with work c1 show ?thesis by (cases name1) (auto simp: sync_middle_def)
    qed
    then show ?thesis using end_sync_clean [OF fin] last by auto
  qed
  then show "clean_step s s'" by (simp add: clean_step_def)
qed

lemma SyncWithSlave_clean: "stays clean_step (SyncWithSlave pp order m)"
  by (rule SyncWithSlave_stays [OF cln.peer_request_axioms sync_composite_clean]) (simp add: clean_step_def)

end
