(* ===== verification/MasterEnds.thy ===== *)
theory MasterEnds
  imports MasterSync
begin

text \<open>
  Every synchronisation ends on the master's side: each round of its loops takes a line from the slave.
\<close>

section \<open>Only lines already sent are waited for\<close>

lemma work_from_slave_shrinks: "stays shrinks (HandleWorkFromSlave m)"
  unfolding HandleWorkFromSlave_def
  by (intro shrink.stays_intros shrink.talk shrink.members) (auto simp: stays_def shrinks_def on_db_Inr lines_left_def)

lemma end_sync_shrinks: "stays shrinks (EndMasterCompositeSync b)"
proof -
  have db: "stays shrinks (on_db m)" for m :: "'a db"
    by (auto simp: stays_def shrinks_def on_db_Inr lines_left_def)
  show ?thesis
    unfolding EndMasterCompositeSync_def Let_def
    by (intro shrink.stays_intros shrink.talk shrink.members shrink.request db)
qed

lemma sync_composite_shrinks: "stays shrinks (sync_composite pp sl m n)"
  unfolding sync_composite_def
  by (intro shrink.ops shrink.start_sync shrink.middle work_from_slave_shrinks end_sync_shrinks)

text \<open>Operations shared by the two ends.\<close>

lemma ends_shared [end_intros]: "ends (send_details n c e)" "ends (receive_event b m)" "ends (receive_detail m)"
  "ends drop_objects" "ends (finish_event b)" "ends (finish_composite b)"
  unfolding send_details_def receive_event_def receive_detail_def drop_objects_def finish_event_def finish_composite_def
  by (intro end_intros; simp)+

lemma ends_sync_messages:
  assumes "\<And>m. ends (on_work h m)" "\<And>m. ends (on_composite h m)" "\<And>m. ends (on_event h m)" "\<And>m. ends (on_detail h m)"
    "\<And>m. stays shrinks (on_work h m)" "\<And>m. stays shrinks (on_composite h m)" "\<And>m. stays shrinks (on_event h m)"
    "\<And>m. stays shrinks (on_detail h m)"
  shows "ends (sync_messages h n)"
  unfolding sync_messages_def
proof (rule ends_reading, unfold sync_step_def, rule HOL.refl)
  show "ends (bind (lift (name_text ''End Master Composite %s'' n)) (\<lambda>endMessage.
           if m = endMessage then ret (Inr (x, False))
           else if x then bind (sync_message h n m) (\<lambda>ok. ret (Inl ok)) else ret (Inl False)))" for m x
    unfolding sync_message_def next_composite_def next_event_def by (intro end_intros assms; simp)
  show "stays shrinks (bind (lift (name_text ''End Master Composite %s'' n)) (\<lambda>endMessage.
           if m = endMessage then ret (Inr (x, False))
           else if x then bind (sync_message h n m) (\<lambda>ok. ret (Inl ok)) else ret (Inl False)))" for m x
    unfolding sync_message_def next_composite_def next_event_def by (intro shrink.ops assms)
qed

lemma ends_peer_stats [end_intros]: "ends (receive_stats f)" "ends (stats_answer b)"
proof -
  have "ends (reading (stats_step f) True)"
  proof (rule ends_reading, unfold stats_step_def, rule HOL.refl, goal_cases)
    case 1 then show ?case by (intro end_intros; simp)
  next
    case 2 then show ?case by (intro shrink.ops)
  qed
  then show "ends (receive_stats f)" unfolding receive_stats_def by (intro end_intros)
  show "ends (stats_answer b)" unfolding stats_answer_def Let_def by (intro end_intros)
qed

section \<open>Every synchronisation ends\<close>

lemma master_SetValue_ends [simp]: "master_SetValue pp v m \<noteq> Inl Fuel"
  using eval_str_ends [of pp v]
  by (cases "eval_str pp v") (auto simp: master_SetValue_def ComputeDecimalLength_def split: prod.splits)

lemma ends_from_slave: "ends (HandleWorkFromSlave m)" "ends (HandleCompositeFromSlave pp m)"
  unfolding HandleWorkFromSlave_def HandleCompositeFromSlave_def by (intro end_intros; simp)+

lemma ends_SentUpdateToSlave [end_intros]: "ends (SentUpdateToSlave sl m)"
  unfolding SentUpdateToSlave_def by (intro end_intros)

lemma ends_verdict: "ends (reading (verdict_step n sl) ())"
proof (rule ends_reading, unfold verdict_step_def, rule HOL.refl, goal_cases)
  case 1 then show ?case by (intro end_intros; simp)
next
  case 2 then show ?case by (intro shrink.ops shrink.same_sent)
qed

lemma ends_SendMaster: "ends (SendMasterCompositeToSlave n sl)"
  unfolding SendMasterCompositeToSlave_def SendWorkToSlave_def SendCompositesToSlave_def SendCompositeFactorEventsToSlave_def
  by (intro end_intros ends_verdict; simp)

lemma ends_sync_composite: "ends (sync_composite pp sl m n)"
proof -
  have msgs: "ends (sync_messages (from_slave pp) k)" for k
    by (rule ends_sync_messages)
      (simp_all add: from_slave_def ends_from_slave end_intros work_from_slave_shrinks shrink.composite_from_slave
        shrink.receive HandleCompositeFactorEventFromSlave_def HandleCompositeFactorEventDetailFromSlave_def)
  have mid: "ends (sync_middle pp sl b k)" for b k
    unfolding sync_middle_def SyncMasterCompositeFromSlave_def by (intro end_intros msgs ends_SendMaster)
  have start: "ends (StartMasterCompositeSync pp m n)"
    unfolding StartMasterCompositeSync_def find_master_def by (intro end_intros; simp)
  have fin: "ends (EndMasterCompositeSync b)" for b
    unfolding EndMasterCompositeSync_def Let_def by (intro end_intros)
  show ?thesis
    unfolding sync_composite_def by (intro end_intros start mid fin) simp
qed

lemma ends_SyncWithSlave: "ends (SyncWithSlave pp order m)"
proof -
  have upd: "ends (reading (updates_step pp sl) None)" for sl
  proof (rule ends_reading, unfold updates_step_def, rule HOL.refl, goal_cases)
    case 1 then show ?case by (intro end_intros ends_sync_composite)
  next
    case 2 then show ?case by (intro shrink.ops sync_composite_shrinks)
  qed
  have masters: "ends (send_masters sl rs)" for sl rs
    by (induction rs) (auto intro!: end_intros ends_SendMaster)
  have close: "ends close_connection" unfolding close_connection_def by (intro end_intros)
  show ?thesis
    unfolding SyncWithSlave_def and_also_def PopulateMasterSlaveSync_def GetUpdatesFromSlave_def SendUpdatesToSlave_def
      GetUserStatsFromSlave_def SendUserStatsToSlave_def Let_def
    by (intro end_intros upd masters close; simp)
qed

end
