(* ===== verification/SlaveSync.thy ===== *)
theory SlaveSync
  imports IAmASlave MasterEnds
begin

text \<open>
  What a slave server guarantees about a synchronisation, whatever the master sends: the schema is
  kept and the conversation ends.
\<close>

section \<open>Keys and references\<close>

lemma wf_slave_stmts [wf_intros]:
  "wf_stmt (report_curves k1)" "wf_stmt (event_sent k2)" "wf_stmt (user_reported u)"
  "wf_stmt (delete_details n)" "wf_stmt (delete_events n)" "wf_stmt (delete_comps n)" "wf_stmt (delete_works n)"
proof -
  show "wf_stmt (report_curves k1)"
    by (auto simp: wf_stmt_def report_curves_def change_def db_wf_defs map_update_by image_update_by work_key_def)
  show "wf_stmt (event_sent k2)"
    by (auto simp: wf_stmt_def event_sent_def change_def db_wf_defs map_update_by image_update_by event_key_def)
  show "wf_stmt (user_reported u)"
    by (auto simp: wf_stmt_def user_reported_def change_def db_wf_defs map_update_by)
  show "wf_stmt (delete_details n)"
    by (auto simp: wf_stmt_def delete_details_def change_def db_wf_defs distinct_map_filterI)
  show "wf_stmt (delete_events n)"
    unfolding wf_stmt_def
  proof (intro allI impI)
    fix t t' assume wf: "db_wf t" and d: "delete_events n t = Some t'"
    then have t': "t' = t\<lparr>events := filter (\<lambda>e. ev_comp e \<noteq> n) (events t)\<rparr>" and n: "n \<notin> dt_comp ` set (details t)"
      by (auto simp: delete_events_def split: if_splits)
    have "(dt_comp x, dt_event x) \<in> event_key ` {e \<in> set (events t). ev_comp e \<noteq> n}" if x: "x \<in> set (details t)" for x
    proof -
      have "(dt_comp x, dt_event x) \<in> event_key ` set (events t)" using wf x by (auto simp: db_wf_defs)
      then obtain e where e: "e \<in> set (events t)" "(dt_comp x, dt_event x) = event_key e" by blast
      then have "ev_comp e = dt_comp x" by (simp add: event_key_def)
      with n x have "ev_comp e \<noteq> n" by (metis imageI)
      with e show ?thesis by simp
    qed
    with wf show "db_wf t'" by (auto simp: t' db_wf_defs distinct_map_filterI)
  qed
  show "wf_stmt (delete_comps n)"
    unfolding wf_stmt_def
  proof (intro allI impI)
    fix t t' assume wf: "db_wf t" and d: "delete_comps n t = Some t'"
    then have t': "t' = t\<lparr>comps := filter (\<lambda>c. cp_master c \<noteq> n) (comps t)\<rparr>"
      and n: "\<And>c. c \<in> set (comps t) \<Longrightarrow> cp_master c = n \<Longrightarrow> cp_name c \<notin> ev_comp ` set (events t)"
      by (auto simp: delete_comps_def split: if_splits)
    have "ev_comp e \<in> cp_name ` {c \<in> set (comps t). cp_master c \<noteq> n}" if e: "e \<in> set (events t)" for e
    proof -
      have "ev_comp e \<in> cp_name ` set (comps t)" using wf e by (auto simp: db_wf_defs)
      then obtain c where "c \<in> set (comps t)" "ev_comp e = cp_name c" by blast
      with n e show ?thesis by force
    qed
    with wf show "db_wf t'" by (auto simp: t' db_wf_defs distinct_map_filterI)
  qed
  show "wf_stmt (delete_works n)"
    by (auto simp: wf_stmt_def delete_works_def change_def db_wf_defs distinct_map_filterI)
qed

section \<open>The operations of the slave\<close>

text \<open>Relations that tolerate any work on the session, and the opening and closing of the connection.\<close>

locale peer_session = peer_request +
  assumes any_step: "tx_step (sess s) x \<Longrightarrow> R s (s\<lparr>sess := x\<rparr>)"
begin

lemma any: "stays tx_step m \<Longrightarrow> stays R (on_db m)"
  by (auto simp: stays_def on_db_Inr intro: any_step)

lemmas all_ops = stays_intros talk members count rows loop any tx_intros tx_comp tx_event tx_master tx_user wf_intros request

lemma report: "stays R (SendWorkToMaster n)" "stays R (SendCompositesToMaster k n)"
proof -
  show "stays R (SendWorkToMaster n)" unfolding SendWorkToMaster_def by (intro all_ops)
  have e: "stays R (send_events n c es b)" for c es b
    by (induction es arbitrary: b) (auto intro!: all_ops send_details)
  have "stays R (send_composites k n cs b)" for cs b
  proof (induction cs arbitrary: b)
    case (Cons c cs)
    then show ?case
      by (cases c) (auto simp: SendCompositeFactorEventsToMaster_def intro!: all_ops e)
  qed (auto intro!: all_ops)
  then show "stays R (SendCompositesToMaster k n)"
    unfolding SendCompositesToMaster_def by (intro all_ops)
qed

lemma take_over: "stays R (HandleMasterCompositeFromMaster pp m n)"
proof -
  have del: "stays R DeleteMasterCompositeDetails"
    unfolding DeleteMasterCompositeDetails_def by (intro all_ops)
  have prep: "stays R (prepare_master pp k v i)" for k v i
    unfolding prepare_master_def master_at_hand_def by (intro all_ops del)
  have h: "stays R (HandleWorkFromMaster l)" "stays R (HandleCompositeFromMaster pp l)" for l
    unfolding HandleWorkFromMaster_def HandleCompositeFromMaster_def by (intro all_ops)+
  have fin: "stays R (finish_master b)" for b
    unfolding finish_master_def by (intro all_ops finish)
  have "stays R (take_details pp k)" for k
    unfolding take_details_def
    by (intro stays_intros talk members fin sync_messages; simp add: from_master_def h receive
        HandleCompositeFactorEventFromMaster_def HandleCompositeFactorEventDetailFromMaster_def)
  then show ?thesis
    unfolding HandleMasterCompositeFromMaster_def by (intro stays_intros talk prep)
qed

lemma report_master: "stays R (SendMasterCompositeToMaster k pp n v)"
  unfolding SendMasterCompositeToMaster_def master_answer_step_def by (intro stays_intros talk members request report take_over loop any tx_master)

lemma slave_parts: "stays R (SendUpdatesToMaster k pp f)" "stays R (GetUpdatesFromMaster pp)"
  "stays R (SendUserStatsToMaster g)" "stays R GetUserStatsFromMaster"
  unfolding SendUpdatesToMaster_def GetUpdatesFromMaster_def changes_step_def SendUserStatsToMaster_def GetUserStatsFromMaster_def
  by (intro all_ops report_master take_over stats)+

lemma slave_sync:
  assumes conn: "\<And>s v. R s (s\<lparr>sock := (sock s)\<lparr>hs_version := v\<rparr>\<rparr>)" "\<And>s. R s (s\<lparr>sock := (sock s)\<lparr>so_open := False, incoming := []\<rparr>\<rparr>)"
    and inp: "\<And>s i. R s (s\<lparr>sock := (sock s)\<lparr>so_open := True, incoming := i\<rparr>\<rparr>)"
  shows "stays R (SyncWithMaster k pp f d b)"
proof -
  have m: "stays R close_connection" "\<And>v. stays R (modify (\<lambda>s. s\<lparr>sock := (sock s)\<lparr>hs_version := v\<rparr>\<rparr>))"
    "\<And>i. stays R (modify (\<lambda>s. s\<lparr>sock := (sock s)\<lparr>so_open := True, incoming := i\<rparr>\<rparr>))"
    by (simp_all add: stays_def close_connection_def conn inp)
  show ?thesis
    unfolding SyncWithMaster_def slave_Open_def and_also_def
    by (intro stays_intros talk request slave_parts m)
qed

end

interpretation swf: peer_session handler_wf
  by unfold_locales (simp add: handler_wf_def sess_step_def tx_keeps_wf)

lemma SyncWithMaster_wf: "stays handler_wf (SyncWithMaster k pp f d b)"
  by (rule swf.slave_sync) (simp_all add: handler_wf_def sess_step_def keeps_wf_def)

interpretation sshrink: peer_session shrinks
  by unfold_locales (simp add: shrinks_def lines_left_def)

section \<open>Every synchronisation ends\<close>

lemma ends_HandleMaster: "ends (HandleMasterCompositeFromMaster pp m n)"
proof -
  have h: "ends (HandleWorkFromMaster l)" "ends (HandleCompositeFromMaster pp l)" for l
    unfolding HandleWorkFromMaster_def HandleCompositeFromMaster_def InsertWorkDoneFromMaster_def by (intro end_intros; simp)+
  have hs: "stays shrinks (HandleWorkFromMaster l)" "stays shrinks (HandleCompositeFromMaster pp l)" for l
    unfolding HandleWorkFromMaster_def HandleCompositeFromMaster_def by (intro sshrink.all_ops)+
  have msgs: "ends (sync_messages (from_master pp) k)" for k
    by (rule ends_sync_messages)
      (simp_all add: from_master_def h hs end_intros shrink.receive
        HandleCompositeFactorEventFromMaster_def HandleCompositeFactorEventDetailFromMaster_def)
  have del: "ends DeleteMasterCompositeDetails"
    unfolding DeleteMasterCompositeDetails_def by (intro end_intros)
  have prep: "ends (prepare_master pp k v i)" for k v i
    unfolding prepare_master_def master_at_hand_def by (intro end_intros del; simp)
  have fin: "ends (finish_master b)" for b
    unfolding finish_master_def by (intro end_intros)
  show ?thesis
    unfolding HandleMasterCompositeFromMaster_def take_details_def by (intro end_intros prep msgs fin) simp
qed

lemma ends_slave_report: "ends (SendWorkToMaster n)" "ends (SendCompositesToMaster k n)"
proof -
  show "ends (SendWorkToMaster n)" unfolding SendWorkToMaster_def by (intro end_intros)
  have e: "ends (send_events n c es b)" for c es b
    by (induction es arbitrary: b) (auto intro!: end_intros)
  have "ends (send_composites k n cs b)" for cs b
  proof (induction cs arbitrary: b)
    case (Cons c cs)
    then show ?case by (cases c) (auto simp: SendCompositeFactorEventsToMaster_def intro!: end_intros e)
  qed (auto intro!: end_intros)
  then show "ends (SendCompositesToMaster k n)" unfolding SendCompositesToMaster_def by (intro end_intros)
qed

lemma ends_SyncWithMaster: "ends (SyncWithMaster k pp f d b)"
proof -
  have answers: "ends (reading (master_answer_step pp n) x)" for n x
  proof (rule ends_reading, unfold master_answer_step_def, rule HOL.refl, goal_cases)
    case 1 then show ?case by (intro end_intros ends_HandleMaster; simp)
  next
    case 2 then show ?case by (intro sshrink.all_ops sshrink.take_over)
  qed
  have changes: "ends (reading (changes_step pp) x)" for x
  proof (rule ends_reading, unfold changes_step_def, rule HOL.refl, goal_cases)
    case 1 then show ?case by (intro end_intros ends_HandleMaster; simp)
  next
    case 2 then show ?case by (intro sshrink.all_ops sshrink.take_over)
  qed
  have one: "ends (SendMasterCompositeToMaster k pp n v)" for n v
    unfolding SendMasterCompositeToMaster_def by (intro end_intros ends_slave_report answers; simp)
  have close: "ends close_connection" unfolding close_connection_def by (intro end_intros)
  show ?thesis
    unfolding SyncWithMaster_def slave_Open_def and_also_def SendUpdatesToMaster_def GetUpdatesFromMaster_def
      SendUserStatsToMaster_def GetUserStatsFromMaster_def
    by (intro end_intros one changes close; simp)
qed

end
