(* ===== verification/MasterDemo.thy ===== *)
theory MasterDemo
  imports IAmAMaster EvalGrammar Demo
begin

text \<open>A small master server, the slave \<open>S\<close> that synchronises with it, and what comes of that.\<close>

definition demo_sync_tables :: tables where
  "demo_sync_tables = demo_tables\<lparr>
      syncs := [\<lparr>ss_master = ''91'', ss_slave = ''S'', ss_send = 0\<rparr>],
      masters := [\<lparr>mc_name = ''91'', mc_value = ''91'', mc_active = 1, mc_fully = 0, mc_factors = 0,
                  mc_recurse = 0, mc_len = 2, mc_work = 200, mc_updated = 0, mc_to_master = 0\<rparr>],
      works := [\<lparr>wd_master = ''91'', wd_method = ''ECM'', wd_b1 = 100, wd_unreported = 2, wd_local = 2\<rparr>],
      comps := [\<lparr>cp_name = ''91'', cp_value = ''91'', cp_master = ''91'', cp_events = 0, cp_len = 2,
                cp_difficulty = 800, cp_sent = 0\<rparr>]\<rparr>"

definition demo_peer :: "string list \<Rightarrow> peer" where
  "demo_peer ms = \<lparr>sess = demo_session\<lparr>cur := demo_sync_tables, saved := demo_sync_tables\<rparr>,
     sock = demo_helper (map Line ms), pr_server = ''srv'', pr_password = ''pw'',
     pr_master = None, pr_comp = None, pr_event = None\<rparr>"

definition demo_orders :: sync_order where
  "demo_orders = \<lparr>by_name = \<lambda>x. x, by_user = \<lambda>x. x\<rparr>"

lemma eval_91: "eval_str no_prp ''91'' = Inr (2, Some 0)"
proof -
  have "dec 91 = ''91''" by (simp add: dec_less dec_more digit_chars)
  then show ?thesis using eval_dec [of no_prp 91] by (simp add: no_prp_def)
qed

lemmas run_peer = keep_master_def keep_comp_def keep_event_def drop_objects_def for_rows_def reading_def comp_rows_def
  short_ids_def event_rows_def detail_rows_def WORK_FOR_def COMPOSITE_FOR_def CFE_FOR_def DETAIL_FOR_def STATS_LINE_def
  send_details_def work_vals_def comp_vals_def detail_vals_def name_text_def sync_message_def next_composite_def
  next_event_def sync_step_def sync_messages_def finish_event_def finish_composite_def stats_vals_def stats_step_def
  receive_stats_def stats_answer_def master_SetValue_def ComputeDecimalLength_def SetMasterCompositeName_def
  SentUpdateToSlave_def eval_91 sync_key_def IDS_def fails_def deref_def Lock_def

lemmas run_master = sync_rows_def PopulateMasterSlaveSync_def SendWorkToSlave_def SendCompositesToSlave_def
  SendCompositeFactorEventsToSlave_def verdict_step_def SendMasterCompositeToSlave_def HandleWorkFromSlave_def
  HandleCompositeFromSlave_def from_slave_def SyncMasterCompositeFromSlave_def begin_vals_def name_scanned_def
  find_master_def StartMasterCompositeSync_def EndMasterCompositeSync_def sync_middle_def sync_composite_def
  updates_step_def GetUpdatesFromSlave_def changed_masters_def SendUpdatesToSlave_def GetUserStatsFromSlave_def
  totals_of_users_def SendUserStatsToSlave_def sync_vals_def and_also_def close_connection_def SyncWithSlave_def

lemmas demo_sync_defs = demo_peer_def demo_sync_tables_def demo_tables_def demo_session_def demo_helper_def demo_orders_def

definition demo_lines :: "string list" where
  "demo_lines = [''Start Master Composites'', ''Begin Master Composite 91 91 2'', ''Work for 91 ECM 100 5'',
     ''End Master Composite 91'', ''Master Composite 91 Found'', ''Master Composite 91 OK'',
     ''No More Master Composites'', ''Master Composite 91 Found'', ''Master Composite 91 OK'',
     ''Start User Stats'', ''End User Stats'', ''User Stats Synced'']"

lemma demo_begin:
  "\<exists>s'. StartMasterCompositeSync no_prp ''Begin Master Composite 91 91 2'' None (demo_peer []) = Inr ((True, Some ''91''), s')"
  by (simp add: run_base run_text run_objects run_peer run_master demo_sync_defs cong: lazy)

lemma demo_synchronised:
  "\<exists>s'. SyncWithSlave no_prp demo_orders ''Start Sync S pw'' (demo_peer demo_lines) = Inr ((), s')
     \<and> map wd_local (works (saved (sess s'))) = [7] \<and> map mc_work (masters (saved (sess s'))) = [700]
     \<and> map ss_send (syncs (saved (sess s'))) = [0]"
  by (simp add: run_base run_text run_objects run_peer run_master demo_lines_def demo_sync_defs Let_def cong: lazy)

lemma demo_rejected:
  "\<exists>s'. sync_composite no_prp ''S'' ''Begin Master Composite 91 91 2'' None
       (demo_peer [''Work for 91 ECM 100 5'', ''Hello'', ''End Master Composite 91'']) = Inr ((False, Some ''91''), s')
     \<and> last (outgoing (sock s')) = ''Master Composite 91 Error''"
  by (simp add: run_base run_text run_objects run_peer run_master demo_sync_defs Let_def cong: lazy)

end
