(* ===== verification/MasterProps.thy ===== *)
theory MasterProps
  imports MasterEnds MasterDemo
begin

text \<open>
  The properties of a synchronisation on the master's side, each with a run of a small server that
  meets its hypotheses.
\<close>

text \<open>C12: A synchronisation with a slave, whatever the slave sends and whichever statements fail, keeps the keys and
  references of the committed tables, and the total of every master composite in them stays the sum of its ECM
  curves times B1.\<close>

theorem synchronised_totals_are_kept:
  assumes "SyncWithSlave pp order m s = Inr (u, s')"
    and "db_wf (cur (sess s))" "db_wf (saved (sess s))" "endtran (sess s) = []"
    and "totals_ok (cur (sess s))" "totals_ok (saved (sess s))"
  shows "db_wf (saved (sess s')) \<and> totals_ok (saved (sess s'))"
  using staysD [OF SyncWithSlave_clean assms(1)] assms(2-6) by (simp add: clean_step_def clean_def)

lemma demo_sync_ok: "db_wf demo_sync_tables" "totals_ok demo_sync_tables"
  by (simp_all add: demo_sync_tables_def demo_tables_def db_wf_defs event_key_def sync_key_def work_key_def detail_key_def
      totals_ok_def ecm_total_def sum_work_def FM_ECM_def)

lemma demo_peer_ok: "cur (sess (demo_peer ms)) = demo_sync_tables" "saved (sess (demo_peer ms)) = demo_sync_tables"
  "endtran (sess (demo_peer ms)) = []" "so_open (sock (demo_peer ms))"
  by (simp_all add: demo_peer_def demo_session_def demo_helper_def)

theorem synchronised_totals_are_kept_witness:
  "\<exists>s'. SyncWithSlave no_prp demo_orders ''Start Sync S pw'' (demo_peer demo_lines) = Inr ((), s')
     \<and> map wd_local (works (saved (sess s'))) = [7] \<and> map mc_work (masters (saved (sess s'))) = [700]
     \<and> totals_ok (saved (sess s'))"
proof -
  obtain s' where r: "SyncWithSlave no_prp demo_orders ''Start Sync S pw'' (demo_peer demo_lines) = Inr ((), s')"
    "map wd_local (works (saved (sess s'))) = [7]" "map mc_work (masters (saved (sess s'))) = [700]"
    using demo_synchronised by (elim exE conjE) (rule that)
  have "totals_ok (saved (sess s'))"
    using synchronised_totals_are_kept [OF r(1)] by (simp add: demo_peer_ok demo_sync_ok)
  with r show ?thesis by (intro exI conjI)
qed

text \<open>C13: The slave gets one answer for each master composite it sends: OK, and then what it sent is committed, or Error,
  and then the committed tables are what they were and the transaction is taken back.\<close>

theorem rejected_composite_is_not_committed:
  assumes run: "sync_composite pp slaveID m name s = Inr (r, s')"
    and e: "endtran (sess s) = []" and op: "so_open (sock s)"
  shows "\<exists>k. (last (outgoing (sock s')) = sprintf ''Master Composite %s OK'' [VS k] \<and> saved (sess s') = cur (sess s'))
     \<or> (last (outgoing (sock s')) = sprintf ''Master Composite %s Error'' [VS k]
          \<and> saved (sess s') = saved (sess s) \<and> cur (sess s') = saved (sess s))"
proof -
  from sync_composite_parts [OF run] obtain started name1 s1 success fatal s2 ok s3 k where
      start: "StartMasterCompositeSync pp m name s = Inr ((started, name1), s1)"
    and work: "sync_middle pp slaveID started name1 s1 = Inr ((success, fatal), s2)"
    and fin: "EndMasterCompositeSync success s2 = Inr (ok, s3)"
    and reply: "say (if ok then ''Master Composite %s OK'' else ''Master Composite %s Error'') [VS k] s3 = Inr ((), s')"
    by blast
  have "held s s2"
    using staysD [OF hld.start_sync start] staysD [OF hld.middle [OF work_from_slave_held] work] by (rule hld.trans)
  then have s2: "endtran (sess s2) = []" "saved (sess s2) = saved (sess s)" "so_open (sock s2)"
    using e op by (simp_all add: held_def)
  have "so_open (sock s3)"
    using staysD [OF opn_end fin] s2(3) by (simp add: same_open_def)
  then have "last (outgoing (sock s')) = sprintf (if ok then ''Master Composite %s OK'' else ''Master Composite %s Error'') [VS k]"
    and "sess s' = sess s3"
    using say_Inr [OF reply] by auto
  moreover have "if ok then saved (sess s3) = cur (sess s3)
      else saved (sess s3) = saved (sess s) \<and> cur (sess s3) = saved (sess s)"
    using end_sync_cases [OF fin] s2(1,2)
    by (auto simp: Rollback_ok Commit_ok tx_step_def dest!: staysD [OF tx_master(9)] staysD [OF tx_master(4)])
  ultimately show ?thesis by (cases ok) auto
qed

theorem rejected_composite_is_not_committed_witness:
  "\<exists>r s'. sync_composite no_prp ''S'' ''Begin Master Composite 91 91 2'' None
       (demo_peer [''Work for 91 ECM 100 5'', ''Hello'', ''End Master Composite 91'']) = Inr (r, s')
     \<and> last (outgoing (sock s')) = ''Master Composite 91 Error'' \<and> saved (sess s') = demo_sync_tables"
proof -
  obtain r s' where r: "sync_composite no_prp ''S'' ''Begin Master Composite 91 91 2'' None
       (demo_peer [''Work for 91 ECM 100 5'', ''Hello'', ''End Master Composite 91'']) = Inr (r, s')"
    and l: "last (outgoing (sock s')) = ''Master Composite 91 Error''"
    using demo_rejected by (elim exE conjE) (rule that)
  have ok: "sprintf ''Master Composite %s OK'' [VS k] \<noteq> ''Master Composite 91 Error''" for k
  proof
    assume "sprintf ''Master Composite %s OK'' [VS k] = ''Master Composite 91 Error''"
    then have "last (sprintf ''Master Composite %s OK'' [VS k]) = CHR ''r''" by simp
    then show False by (simp add: sprintf_def prefixed_def)
  qed
  have "saved (sess s') = demo_sync_tables"
    using rejected_composite_is_not_committed [OF r] l ok by (metis demo_peer_ok(2-4))
  with r l show ?thesis by (intro exI conjI)
qed

text \<open>C34: The master only takes updates for a master composite whose name is its value, digit by digit: the value is
  compared with the name of the row, not with the value in it.\<close>

theorem only_composites_named_by_their_value_are_synced:
  assumes "StartMasterCompositeSync pp m name s = Inr ((True, name'), s')"
  shows "\<exists>k. name' = Some k \<and> k \<in> mc_name ` set (masters (cur (Rollback (sess s))))
     \<and> sscanf m ''Begin Master Composite %s %s %d'' [NAME_LENGTH + 1, VALUE_LENGTH + 1]
         = Inr [VS k, VS k, VI (int (length k))]"
proof -
  from start_sync_True [OF assms] obtain vs k v where
      vs: "sscanf m ''Begin Master Composite %s %s %d'' [NAME_LENGTH + 1, VALUE_LENGTH + 1] = Inr vs"
      "begin_vals vs = Some (k, v, int (length v))" "name' = Some k"
    and f: "find_master pp k v (s\<lparr>sess := Rollback (sess s)\<rparr>) = Inr (True, s')"
    by blast
  from find_master_True [OF f] obtain mc x mc1 where mc: "MasterComposite k (Rollback (sess s)) = Inr (mc, x)" "ms_found mc"
    "master_SetValue pp v mc = Inr (True, mc1)" by auto
  have n: "ms_name mc = k" "ms_found mc \<longrightarrow> k \<in> mc_name ` set (masters (cur (Rollback (sess s))))"
    using mc(1) by (auto simp: MasterComposite_def bind_eq_Inr filter_eq_Cons_iff dest!: FetchRow_Inr split: option.splits)
  then have "k = v" using mc(2,3) by (auto simp: master_SetValue_def split: if_splits)
  moreover have "vs = [VS k, VS v, VI (int (length v))]"
    using vs(2) by (auto simp: begin_vals_def split: list.splits sval.splits)
  ultimately show ?thesis using vs n mc(2) by auto
qed

theorem only_composites_named_by_their_value_are_synced_witness:
  "\<exists>s'. StartMasterCompositeSync no_prp ''Begin Master Composite 91 91 2'' None (demo_peer []) = Inr ((True, Some ''91''), s')
     \<and> ''91'' \<in> mc_name ` set (masters (cur (Rollback (sess (demo_peer [])))))"
proof -
  obtain s' where r: "StartMasterCompositeSync no_prp ''Begin Master Composite 91 91 2'' None (demo_peer []) = Inr ((True, Some ''91''), s')"
    using demo_begin by (elim exE) (rule that)
  from only_composites_named_by_their_value_are_synced [OF r] r show ?thesis by auto
qed

end
