(* ===== verification/SlaveProps.thy ===== *)
theory SlaveProps
  imports SlaveSync MasterProps Protocol
begin

text \<open>
  The properties of a synchronisation on the slave's side, and of the two ends together: what goes from
  the one to the other, and that both conversations end.
\<close>

section \<open>From one server to the other\<close>








section \<open>Reporting work\<close>

lemma each_row_ok:
  assumes "each_row body rows s = Inr (ok, s')" "odbc (sess s) = []"
    and step: "\<And>r s b s1. r \<in> set rows \<Longrightarrow> odbc (sess s) = [] \<Longrightarrow> P s \<Longrightarrow> body r s = Inr (b, s1) \<Longrightarrow>
      b \<and> odbc (sess s1) = [] \<and> P s1 \<and> s1 = f r s"
    and "P s"
  shows "ok \<and> s' = fold f rows s \<and> P s'"
  using assms
proof (induction rows arbitrary: s)
  case Nil
  have "on_db (fetch ([] :: unit list)) s = Inr (None, s)"
    using Nil.prems(2) by (simp add: on_db_def part_def fetch_def)
  with Nil.prems show ?case by (simp add: bind_def)
next
  case (Cons r rows)
  have "on_db (fetch (r # rows)) s = Inr (Some (r, rows), s)"
    using Cons.prems(2) by (simp add: on_db_def part_def fetch_def)
  with Cons.prems(1) obtain b s1 where b: "body r s = Inr (b, s1)"
    and rest: "(if b then each_row body rows else ret False) s1 = Inr (ok, s')"
    by (auto simp: bind_def split: sum.splits)
  have c: "b" "odbc (sess s1) = []" "P s1" "s1 = f r s"
    using Cons.prems(3) [OF _ Cons.prems(2,4) b] by auto
  with rest have "each_row body rows s1 = Inr (ok, s')" by simp
  then have "ok \<and> s' = fold f rows s1 \<and> P s'"
    by (rule Cons.IH [OF _ c(2) _ c(3)]) (rule Cons.prems(3), simp_all)
  with c(4) show ?case by auto
qed

definition report_line :: "string \<Rightarrow> string \<times> double \<times> int \<Rightarrow> string" where
  "report_line n x = (case x of (f, b, k) \<Rightarrow> sprintf WORK_FOR [VS n, VS f, VD b, VI k])"

definition report_row :: "string \<Rightarrow> string \<times> double \<times> int \<Rightarrow> peer \<Rightarrow> peer" where
  "report_row n x s = (case x of (f, b, k) \<Rightarrow>
     s\<lparr>sess := (sess s)\<lparr>cur := (cur (sess s))\<lparr>works := update_by work_key (n, f, b) (\<lambda>r. r\<lparr>wd_unreported := 0\<rparr>)
        (works (cur (sess s)))\<rparr>\<rparr>, sock := (sock s)\<lparr>outgoing := outgoing (sock s) @ [report_line n x]\<rparr>\<rparr>)"

lemma report_row_step:
  assumes "odbc (sess s) = []" "so_open (sock s)"
    "(bind (say WORK_FOR [VS n, VS f, VD b, VI k]) (\<lambda>_. on_db (Execute ps (report_curves (n, f, b))))) s = Inr (ok, s1)"
  shows "ok \<and> odbc (sess s1) = [] \<and> so_open (sock s1) \<and> s1 = report_row n (f, b, k) s"
  using assms
  by (auto simp: bind_eq_Inr say_def on_sock_Inr on_db_Inr Sendf_def Send_def Execute_ok report_curves_def change_def
      report_row_def report_line_def split: if_splits)

lemma fold_report:
  "outgoing (sock (fold (report_row n) xs s)) = outgoing (sock s) @ map (report_line n) xs"
  "works (cur (sess (fold (report_row n) xs s))) =
     fold (\<lambda>(f, b, k). update_by work_key (n, f, b) (\<lambda>r. r\<lparr>wd_unreported := 0\<rparr>)) xs (works (cur (sess s)))"
  by (induction xs arbitrary: s) (auto simp: report_row_def split: prod.splits)

lemma fold_zero:
  "fold (\<lambda>(f, b, k). update_by work_key (n, f, b) (\<lambda>r. r\<lparr>wd_unreported := 0\<rparr>)) xs rs =
     map (\<lambda>r. if work_key r \<in> (\<lambda>(f, b, k). (n, f, b)) ` set xs then r\<lparr>wd_unreported := 0\<rparr> else r) rs"
proof (induction xs arbitrary: rs)
  case (Cons x xs)
  obtain f b k where x: "x = (f, b, k)" by (cases x) auto
  have eq: "fold (\<lambda>(f, b, k). update_by work_key (n, f, b) (\<lambda>r. r\<lparr>wd_unreported := 0\<rparr>)) (x # xs) rs =
      fold (\<lambda>(f, b, k). update_by work_key (n, f, b) (\<lambda>r. r\<lparr>wd_unreported := 0\<rparr>)) xs
        (update_by work_key (n, f, b) (\<lambda>r. r\<lparr>wd_unreported := 0\<rparr>) rs)"
    by (simp add: x)
  show ?case by (subst eq, subst Cons.IH) (auto simp: x update_by_def work_key_def)
qed simp

lemma Open_ok: "odbc s = [] \<Longrightarrow> Open ps q s = and_then (check_params ps) (\<lambda>_. Inr (Some (q (cur s)), s))"
  by (cases s) (simp add: Open_def)

lemma SendWorkToMaster_ok:
  assumes run: "SendWorkToMaster n s = Inr (ok, s')" and d: "odbc (sess s) = []" and op: "so_open (sock s)"
  shows "ok \<and> s' = fold (report_row n) (unreported_rows n (cur (sess s))) s"
proof -
  let ?body = "\<lambda>(factorMethod, b1, curvesToReport).
          bind (say WORK_FOR [VS n, VS factorMethod, VD b1, VI curvesToReport]) (\<lambda>_.
          on_db (Execute [PStr n NAME_LENGTH, PStr factorMethod 20, PDbl b1] (report_curves (n, factorMethod, b1))))"
  from run d have r: "each_row ?body (unreported_rows n (cur (sess s))) s = Inr (ok, s')"
    by (auto simp: SendWorkToMaster_def for_rows_def bind_eq_Inr on_db_Inr Open_ok)
  have step: "b \<and> odbc (sess s1) = [] \<and> so_open (sock s1) \<and> s1 = report_row n x t"
    if "odbc (sess t) = []" "so_open (sock t)" "?body x t = Inr (b, s1)" for x t b s1
    using that report_row_step [OF that(1,2)] by (cases x) (simp only: prod.case, blast)
  have "ok \<and> s' = fold (report_row n) (unreported_rows n (cur (sess s))) s \<and> so_open (sock s')"
    by (rule each_row_ok [where P = "\<lambda>t. so_open (sock t)", OF r d _ op]) (rule step)
  then show ?thesis by simp
qed

text \<open>C15: A slave reports exactly the curves it has not reported yet: one line for each row of the master composite with
  curves since the last report, in order, and these counts, and nothing else, are set to zero in the same transaction.\<close>

theorem unreported_work_is_reported:
  assumes run: "SendWorkToMaster n s = Inr (ok, s')" and d: "odbc (sess s) = []" and op: "so_open (sock s)"
    and wf: "distinct (map work_key (works (cur (sess s))))"
    and short: "\<forall>r \<in> set (works (cur (sess s))). length (wd_method r) \<le> 18"
  shows "ok \<and> outgoing (sock s') = outgoing (sock s) @
       map (\<lambda>r. sprintf WORK_FOR [VS n, VS (wd_method r), VD (wd_b1 r), VI (wd_unreported r)])
         (filter (\<lambda>r. wd_master r = n \<and> wd_unreported r > 0) (works (cur (sess s))))
     \<and> works (cur (sess s')) = map (\<lambda>r. if wd_master r = n \<and> wd_unreported r > 0 then r\<lparr>wd_unreported := 0\<rparr> else r)
         (works (cur (sess s)))"
proof -
  let ?w = "works (cur (sess s))"
  let ?p = "\<lambda>r. wd_master r = n \<and> wd_unreported r > 0"
  have rows: "unreported_rows n (cur (sess s)) = map (\<lambda>r. (wd_method r, wd_b1 r, wd_unreported r)) (filter ?p ?w)"
    using short by (auto simp: unreported_rows_def)
  have key: "work_key r \<in> (\<lambda>(f, b, k). (n, f, b)) ` set (unreported_rows n (cur (sess s))) \<longleftrightarrow> ?p r" if "r \<in> set ?w" for r
  proof
    assume "work_key r \<in> (\<lambda>(f, b, k). (n, f, b)) ` set (unreported_rows n (cur (sess s)))"
    then obtain r' where "r' \<in> set ?w" "?p r'" "work_key r' = work_key r"
      by (auto simp: rows work_key_def)
    with wf that show "?p r" by (metis inj_on_eq_iff distinct_map)
  next
    assume "?p r"
    with that have "(wd_method r, wd_b1 r, wd_unreported r) \<in> set (unreported_rows n (cur (sess s)))"
      by (simp add: rows)
    then show "work_key r \<in> (\<lambda>(f, b, k). (n, f, b)) ` set (unreported_rows n (cur (sess s)))"
      using \<open>?p r\<close> by (simp add: rev_image_eqI work_key_def)
  qed
  show ?thesis
    using SendWorkToMaster_ok [OF run d op] key
    by (auto simp: fold_report fold_zero rows report_line_def o_def)
qed

theorem unreported_work_is_reported_witness:
  "\<exists>s'. SendWorkToMaster ''91'' (demo_peer []) = Inr (True, s') \<and> outgoing (sock s') = [''Work for 91 ECM 100 2'']
     \<and> map wd_unreported (works (cur (sess s'))) = [0] \<and> map wd_local (works (cur (sess s'))) = [2]"
proof -
  obtain s' where r: "SendWorkToMaster ''91'' (demo_peer []) = Inr (True, s')"
    by (simp add: SendWorkToMaster_def unreported_rows_def report_curves_def run_base run_text run_objects run_peer
        demo_sync_defs cong: lazy)
  have w: "works (cur (sess (demo_peer []))) =
      [\<lparr>wd_master = ''91'', wd_method = ''ECM'', wd_b1 = 100, wd_unreported = 2, wd_local = 2\<rparr>]"
    by (simp add: demo_sync_defs)
  have d: "odbc (sess (demo_peer [])) = []" "outgoing (sock (demo_peer [])) = []"
    by (simp_all add: demo_sync_defs)
  have t: "sprintf WORK_FOR [VS ''91'', VS ''ECM'', VD 100, VI 2] = ''Work for 91 ECM 100 2''"
    by (simp add: WORK_FOR_def run_text)
  from unreported_work_is_reported [OF r d(1) demo_peer_ok(4)] r show ?thesis
    by (simp add: w d t)
qed

text \<open>With the table the script for PostgreSQL creates, the query for the factor events since the last report is
  refused, and the slave takes that for a composite without factors: it reports success and sends nothing.\<close>

theorem slave_reports_no_factors:
  assumes "SendCompositeFactorEventsToMaster False n c s = Inr (ok, s')"
  shows "ok \<and> sock s' = sock s \<and> cur (sess s') = cur (sess s)"
  using assms
  by (auto simp: SendCompositeFactorEventsToMaster_def bind_eq_Inr on_db_Inr split: option.splits dest!: Open_Inr)

theorem slave_reports_no_factors_witness:
  "\<exists>s'. SendCompositeFactorEventsToMaster False ''91'' ''91'' (demo_peer []) = Inr (True, s') \<and> outgoing (sock s') = []"
proof -
  obtain s' where r: "SendCompositeFactorEventsToMaster False ''91'' ''91'' (demo_peer []) = Inr (True, s')"
    by (simp add: SendCompositeFactorEventsToMaster_def run_base run_text demo_sync_defs cong: lazy)
  with slave_reports_no_factors [OF r] show ?thesis by (simp add: demo_sync_defs)
qed

section \<open>A master composite the slave does not have\<close>

text \<open>The object of a row that was just inserted, whose flag for the master has no value.\<close>

definition flagless :: "peer \<Rightarrow> bool" where
  "flagless s \<longleftrightarrow> (\<exists>m. pr_master s = Some m \<and> ms_send m = None \<and> ms_found m)"

definition flagless_step :: "peer \<Rightarrow> peer \<Rightarrow> bool" where
  "flagless_step s s' \<longleftrightarrow> (flagless s \<longrightarrow> flagless s')"

interpretation flg: peer_effect flagless_step
  by unfold_locales (auto simp: flagless_step_def flagless_def master_IncrementFactorCount_def)

lemma flagless_db: "stays flagless_step (on_db m)"
  by (auto simp: stays_def flagless_step_def flagless_def on_db_Inr)

lemma flagless_handlers: "stays flagless_step (HandleWorkFromMaster m)" "stays flagless_step (HandleCompositeFromMaster pp m)"
  unfolding HandleWorkFromMaster_def HandleCompositeFromMaster_def
  by (intro flg.stays_intros flg.talk flg.members flagless_db)+

lemma FinalizeChanges_flagless:
  assumes "master_FinalizeChanges m s = Inr ((ok, m'), s')" "ms_send m = None" "ms_found m" shows "\<not> ok"
  using assms
  by (auto simp: master_FinalizeChanges_def bind_eq_Inr master_Update_def Let_def split: if_splits option.splits)

lemma finish_flagless:
  assumes "finish_master b s = Inr (ok, s')" "flagless s" shows "\<not> ok"
proof (cases b)
  case True
  from assms obtain m where m: "pr_master s = Some m" "ms_send m = None" "ms_found m" by (auto simp: flagless_def)
  have no: "\<not> ok4" if "master_FinalizeChanges (SetLastUpdateTime t m) x = Inr ((ok4, m4), y)" for t x ok4 m4 y
    using FinalizeChanges_flagless [OF that] m by (simp add: SetLastUpdateTime_def)
  from assms(1) True m(1) show ?thesis
    by (auto simp: finish_master_def deref_Inr bind_eq_Inr on_db_Inr split: if_splits dest: no)
qed (use assms in \<open>simp add: finish_master_def\<close>)

lemma take_details_flagless:
  assumes "take_details pp k s = Inr ((ok, fatal), s')" "flagless s" shows "\<not> ok"
proof -
  have msgs: "stays flagless_step (bind (say ''Master Composite %s Found'' [VS k]) (\<lambda>_. bind drop_objects (\<lambda>_.
      sync_messages (from_master pp) k)))"
    by (intro flg.stays_intros flg.talk flg.members flg.sync_messages)
      (simp_all add: from_master_def flagless_handlers flg.receive HandleCompositeFactorEventFromMaster_def
        HandleCompositeFactorEventDetailFromMaster_def)
  from assms(1) obtain success f s1 ok1 s2 where
      m: "bind (say ''Master Composite %s Found'' [VS k]) (\<lambda>_. bind drop_objects (\<lambda>_.
        sync_messages (from_master pp) k)) s = Inr ((success, f), s1)"
    and fin: "finish_master success s1 = Inr (ok1, s2)" and ok: "ok = ok1"
    unfolding take_details_def by (elim bind_InrE) (force simp: bind_eq_Inr)
  have "flagless s1" using staysD [OF msgs m] assms(2) by (simp add: flagless_step_def)
  from finish_flagless [OF fin this] ok show ?thesis by simp
qed

lemma prepare_flagless:
  assumes run: "prepare_master pp k v i s = Inr (True, s')" and no: "pr_master s = None"
    and new: "k \<notin> mc_name ` set (masters (cur (sess s)))"
  shows "flagless s'"
proof -
  have fresh: "\<not> ms_found m \<and> ms_send m = None" if "MasterComposite k (sess s) = Inr (m, x)" for m x
    using that new by (auto simp: MasterComposite_def bind_eq_Inr filter_eq_Cons_iff image_iff split: option.splits
        dest!: FetchRow_Inr)
  have kept_new: "\<not> ms_found m1 \<and> ms_send m1 = None"
    if "master_SetValue pp v m = Inr (b, m1)" "\<not> ms_found m \<and> ms_send m = None" for m b m1
    using that by (auto simp: master_SetValue_def ComputeDecimalLength_def split: if_splits)
  have insert: "ms_found m2 \<and> ms_send m2 = None"
    if f: "master_FinalizeChanges m1 x = Inr ((True, m2), y)" and m1: "\<not> ms_found m1 \<and> ms_send m1 = None" for m1 x m2 y
  proof -
    from f m1 have "master_Insert m1 x = Inr ((True, m2), y)"
      by (auto simp: master_FinalizeChanges_def split: if_splits)
    then have "m2 = m1\<lparr>ms_found := True\<rparr>" by (auto simp: master_Insert_def elim!: bind_InrE)
    with m1 show ?thesis by simp
  qed
  have del: "stays flagless_step DeleteMasterCompositeDetails"
    unfolding DeleteMasterCompositeDetails_def
    by (intro flg.stays_intros flg.members for_rows_stays flg.effect_axioms flagless_db)
  from run obtain m s1 s1' where hand: "master_at_hand k s = Inr ((), s1)" and m': "deref pr_master s1 = Inr (m, s1')"
    and rest': "bind (lift (master_SetValue pp v m)) (\<lambda>(same, m1).
     bind (keep_master (Some m1)) (\<lambda>_.
     if \<not> same then fails ''Sync Error: Value for Master Composite %s did not match'' [VS k]
     else
     bind (if ms_found m1 then ret (True, m1) else on_db (master_FinalizeChanges m1)) (\<lambda>(ok, m2).
     bind (keep_master (Some m2)) (\<lambda>_.
     if \<not> ok then ret False
     else
     bind (keep_master (Some (SetActive (i > 0) m2))) (\<lambda>_.
     bind DeleteMasterCompositeDetails (\<lambda>deleted.
     if \<not> deleted then ret False
     else bind (deref pr_master) (\<lambda>m3. bind (keep_master (Some (ResetFactorCount m3))) (\<lambda>_. ret True)))))))) s1' = Inr (True, s')"
    unfolding prepare_master_def by - (erule bind_InrE, erule bind_InrE, simp)
  from m' have m: "pr_master s1 = Some m" and same_state: "s1' = s1" by (simp_all add: deref_Inr)
  note rest = rest' [unfolded same_state]
  from hand m no have "\<exists>x. MasterComposite k (sess s) = Inr (m, x)"
    by (auto simp: master_at_hand_def bind_eq_Inr on_db_Inr keep_master_def Lock_def split: if_splits)
  with fresh have m0: "\<not> ms_found m \<and> ms_send m = None" by blast
  from rest obtain same m1 where v: "master_SetValue pp v m = Inr (same, m1)"
    and rest1: "(if \<not> same then fails ''Sync Error: Value for Master Composite %s did not match'' [VS k]
     else
     bind (if ms_found m1 then ret (True, m1) else on_db (master_FinalizeChanges m1)) (\<lambda>(ok, m2).
     bind (keep_master (Some m2)) (\<lambda>_.
     if \<not> ok then ret False
     else
     bind (keep_master (Some (SetActive (i > 0) m2))) (\<lambda>_.
     bind DeleteMasterCompositeDetails (\<lambda>deleted.
     if \<not> deleted then ret False
     else bind (deref pr_master) (\<lambda>m3. bind (keep_master (Some (ResetFactorCount m3))) (\<lambda>_. ret True)))))))
       (s1\<lparr>pr_master := Some m1\<rparr>) = Inr (True, s')"
    by (elim bind_InrE) (auto simp: keep_master_def)
  note m1 = kept_new [OF v m0]
  have "same" using rest1 by (auto dest: fails_Inr split: if_splits)
  with rest1 m1 have "bind (on_db (master_FinalizeChanges m1)) (\<lambda>(ok, m2).
     bind (keep_master (Some m2)) (\<lambda>_.
     if \<not> ok then ret False
     else
     bind (keep_master (Some (SetActive (i > 0) m2))) (\<lambda>_.
     bind DeleteMasterCompositeDetails (\<lambda>deleted.
     if \<not> deleted then ret False
     else bind (deref pr_master) (\<lambda>m3. bind (keep_master (Some (ResetFactorCount m3))) (\<lambda>_. ret True))))))
       (s1\<lparr>pr_master := Some m1\<rparr>) = Inr (True, s')" by (simp split del: if_split)
  then obtain ok m2 x where f': "master_FinalizeChanges m1 (sess s1) = Inr ((ok, m2), x)"
    and rest2: "(if \<not> ok then ret False
     else
     bind (keep_master (Some (SetActive (i > 0) m2))) (\<lambda>_.
     bind DeleteMasterCompositeDetails (\<lambda>deleted.
     if \<not> deleted then ret False
     else bind (deref pr_master) (\<lambda>m3. bind (keep_master (Some (ResetFactorCount m3))) (\<lambda>_. ret True)))))
       (s1\<lparr>sess := x, pr_master := Some m2\<rparr>) = Inr (True, s')"
    by - (erule bind_InrE, auto simp: on_db_Inr keep_master_def bind_def split del: if_split)
  have ok using rest2 by (simp split: if_splits)
  with f' have f: "master_FinalizeChanges m1 (sess s1) = Inr ((True, m2), x)" by simp
  from rest2 \<open>ok\<close> obtain deleted s2 where
      d': "DeleteMasterCompositeDetails (s1\<lparr>sess := x, pr_master := Some (SetActive (i > 0) m2)\<rparr>) = Inr (deleted, s2)"
    and rest3: "(if \<not> deleted then ret False
     else bind (deref pr_master) (\<lambda>m3. bind (keep_master (Some (ResetFactorCount m3))) (\<lambda>_. ret True))) s2 = Inr (True, s')"
    by (simp add: keep_master_def split del: if_split) (erule bind_InrE, simp)
  have deleted using rest3 by (simp split: if_splits)
  with d' rest3 have d: "DeleteMasterCompositeDetails (s1\<lparr>sess := x, pr_master := Some (SetActive (i > 0) m2)\<rparr>) = Inr (True, s2)"
    and r: "bind (deref pr_master) (\<lambda>m3. bind (keep_master (Some (ResetFactorCount m3))) (\<lambda>_. ret True)) s2 = Inr (True, s')"
    by simp_all
  have "flagless (s1\<lparr>sess := x, pr_master := Some (SetActive (i > 0) m2)\<rparr>)"
    using insert [OF f m1] by (simp add: flagless_def SetActive_def)
  then have "flagless s2" using staysD [OF del d] by (simp add: flagless_step_def)
  with r show ?thesis
    by (auto simp: flagless_def deref_Inr keep_master_def bind_eq_Inr ResetFactorCount_def)
qed

lemmas run_slave = prepare_master_def master_at_hand_def take_details_def finish_master_def start_vals_def
  HandleMasterCompositeFromMaster_def from_master_def DeleteMasterCompositeDetails_def delete_details_def delete_events_def
  delete_comps_def delete_works_def SetActive_def ResetFactorCount_def master_Insert_def insert_master_def
  pk_insert_def

lemma demo_new_master:
  "\<exists>r s'. HandleMasterCompositeFromMaster no_prp ''Begin Master Composite N 91 1 2'' None (demo_peer []) = Inr (r, s')
     \<and> map mc_name (masters (cur (sess s'))) = [''91'', ''N'']"
  by (simp add: run_base run_text run_objects run_peer run_slave demo_sync_defs Let_def cong: lazy) blast

text \<open>A slave never takes over a master composite it does not have yet: the row is inserted, but at the end the
  object is written with a flag that was never set, which has no defined value; whatever comes back, it is not
  success.\<close>

theorem new_master_composite_is_not_taken_over:
  assumes run: "HandleMasterCompositeFromMaster pp m name s = Inr ((ok, fatal, name'), s')"
    and scan: "sscanf m ''Begin Master Composite %s %s %d %d'' [NAME_LENGTH + 1, VALUE_LENGTH] = Inr [VS k, VS v, VI i, VI l]"
    and no: "pr_master s = None" and new: "k \<notin> mc_name ` set (masters (cur (sess s)))"
  shows "\<not> ok"
proof -
  have v: "start_vals [VS k, VS v, VI i, VI l] = Some (k, v, i, l)" by (simp add: start_vals_def)
  from run obtain s1 where r: "(if l \<noteq> int (length v) then
             bind (fails ''Sync Error: Composite length doesn't match, expected %d, got %d''
                     [VI l, VI (int (length v))]) (\<lambda>_. ret (False, False))
           else
             bind (prepare_master pp k v i) (\<lambda>prepared.
             if prepared then take_details pp k else ret (False, False))) s = Inr ((ok, fatal), s1)"
    unfolding HandleMasterCompositeFromMaster_def scan by (elim bind_InrE) (auto simp: v)
  show ?thesis
  proof (cases "l \<noteq> int (length v)")
    case True
    with r show ?thesis by (auto simp: bind_eq_Inr)
  next
    case False
    with r obtain prepared s2 where p: "prepare_master pp k v i s = Inr (prepared, s2)"
      and t: "(if prepared then take_details pp k else ret (False, False)) s2 = Inr ((ok, fatal), s1)"
      by (auto elim: bind_InrE)
    show ?thesis
    proof (cases prepared)
      case True
      then have "flagless s2" using p True by (simp add: prepare_flagless [OF _ no new])
      moreover have "take_details pp k s2 = Inr ((ok, fatal), s1)" using t True by simp
      ultimately show ?thesis by (rule take_details_flagless [rotated])
    qed (use t in simp)
  qed
qed

theorem new_master_composite_is_not_taken_over_witness:
  "\<exists>r s'. HandleMasterCompositeFromMaster no_prp ''Begin Master Composite N 91 1 2'' None (demo_peer []) = Inr (r, s')
     \<and> \<not> fst r \<and> map mc_name (masters (cur (sess s'))) = [''91'', ''N'']"
proof -
  obtain ok fatal n s' where run: "HandleMasterCompositeFromMaster no_prp ''Begin Master Composite N 91 1 2'' None (demo_peer [])
       = Inr ((ok, fatal, n), s')" and t: "map mc_name (masters (cur (sess s'))) = [''91'', ''N'']"
    using demo_new_master by (metis prod_cases3)
  have scan: "sscanf ''Begin Master Composite N 91 1 2'' ''Begin Master Composite %s %s %d %d'' [NAME_LENGTH + 1, VALUE_LENGTH]
      = Inr [VS ''N'', VS ''91'', VI 1, VI 2]"
    by (simp add: run_text)
  have s: "pr_master (demo_peer []) = None" "''N'' \<notin> mc_name ` set (masters (cur (sess (demo_peer []))))"
    by (simp_all add: demo_sync_defs)
  from new_master_composite_is_not_taken_over [OF run scan s] run t show ?thesis by auto
qed

text \<open>C33: Both sides of a synchronisation end: every round of their loops takes a line the other side has sent, or ends the
  loop.\<close>

theorem synchronisations_end:
  "SyncWithSlave pp order m s \<noteq> Inl Fuel \<and> SyncWithMaster clientID pp order' dialled dbConnected s \<noteq> Inl Fuel"
  using ends_SyncWithSlave ends_SyncWithMaster by (simp add: ends_def)

end
