(* ===== verification/Mail.thy ===== *)
theory Mail
  imports Handler TextFiles
begin

text \<open>
  \<open>src/source/Mail.cpp\<close> and \<open>MailSocket.cpp\<close>: the mail that tells the finder of a factor about it. The
  state is the connection to the SMTP server; \<open>outgoing\<close> are the texts sent with the line ends they
  were sent with, \<open>ml_dials\<close> what the next attempts to connect meet, as for a client. \<open>strftime\<close> of the
  current time is a parameter.
\<close>

unbundle bit_operations_syntax

section \<open>Base 64\<close>

definition base64 :: string where
  "base64 = ''ABCDEFGHIJKLMNOPQRSTUVWXYZabcdefghijklmnopqrstuvwxyz0123456789+/''"

definition array4 :: "nat \<Rightarrow> nat \<Rightarrow> nat \<Rightarrow> nat list" where
  "array4 a b c =
     [drop_bit 2 (a AND 0xFC), push_bit 4 (a AND 0x03) + drop_bit 4 (b AND 0xF0),
      push_bit 2 (b AND 0x0F) + drop_bit 6 (c AND 0xC0), c AND 0x3F]"

fun encode_bytes :: "nat list \<Rightarrow> string" where
  "encode_bytes [] = []"
| "encode_bytes [a] = map ((!) base64) (take 2 (array4 a 0 0)) @ ''==''"
| "encode_bytes [a, b] = map ((!) base64) (take 3 (array4 a b 0)) @ ''=''"
| "encode_bytes (a # b # c # bytes) = map ((!) base64) (array4 a b c) @ encode_bytes bytes"

definition encodeBase64 :: "string \<Rightarrow> string" where
  "encodeBase64 inString = encode_bytes (map code inString)"

section \<open>The connection\<close>

record mail = socket +
  ml_from :: string
  ml_password :: string
  ml_dests :: "string list"
  ml_enabled :: bool
  ml_auth :: bool
  ml_verify :: bool
  ml_dials :: "input list option list"

definition mail_Open :: "(mail, bool) run" where
  "mail_Open =
     bind (asks so_open) (\<lambda>isOpen.
     if isOpen then ret True
     else bind (asks ml_dials) (\<lambda>dials. case dials of
         [] \<Rightarrow> ret False
       | None # rest \<Rightarrow> bind (modify (\<lambda>s. s\<lparr>ml_dials := rest\<rparr>)) (\<lambda>_. ret False)
       | Some inp # rest \<Rightarrow>
           bind (modify (\<lambda>s. s\<lparr>ml_dials := rest, so_open := True, incoming := inp\<rparr>)) (\<lambda>_. ret True)))"

definition mail_Close :: "(mail, unit) run" where
  "mail_Close = modify (\<lambda>s. s\<lparr>so_open := False, incoming := []\<rparr>)"

definition CRLF :: string where "CRLF = [CHR 0x0D, CHR 0x0A]"

definition line_end :: "mail \<Rightarrow> string" where
  "line_end s = (if so_newline s then CRLF else [])"

text \<open>\<open>Send\<close> of a mail connection, which never buffers.\<close>

definition mail_Send :: "string \<Rightarrow> sval list \<Rightarrow> (mail, unit) run" where
  "mail_Send f vs s =
     (let text = sprintf f vs @ line_end s
      in if SEND_SIZE \<le> length text then Inl Undefined
         else Inr ((), if so_open s then s\<lparr>outgoing := outgoing s @ [text]\<rparr> else s))"

definition Mail :: "string \<Rightarrow> string \<Rightarrow> string list \<Rightarrow> input list option list \<Rightarrow> halt + mail" where
  "Mail fromEmailID fromPassword destIDs dials =
     and_then (strcpy fromEmailID 100) (\<lambda>from.
     and_then (strcpy fromPassword 100) (\<lambda>password.
     let s = \<lparr>so_open = False, so_newline = True, incoming = [], read_buf = [], outgoing = [], ml_from = from,
              ml_password = password, ml_dests = filter (\<lambda>d. d \<noteq> from) destIDs, ml_enabled = False, ml_auth = False,
              ml_verify = False, ml_dials = dials\<rparr>
     in and_then (mail_Open s) (\<lambda>(opened, s1).
        if opened then and_then (mail_Close s1) (\<lambda>(_, s2). Inr (s2\<lparr>ml_enabled := True\<rparr>))
        else Inr s1)))"

section \<open>Answers of the SMTP server\<close>

text \<open>
  Answers of several lines are read up to the last one, and what the server can do is taken from any
  line; the code of the answer is the number the last line starts with, 0 without one.
\<close>

definition note_abilities :: "string \<Rightarrow> mail \<Rightarrow> mail" where
  "note_abilities d s = s\<lparr>ml_auth := ml_auth s \<or> strstr d ''ESMTP'' \<noteq> None, ml_verify := ml_verify s \<or> strstr d ''VRFY'' \<noteq> None\<rparr>"

definition line_step :: "unit \<Rightarrow> (mail, unit + int) run" where
  "line_step u =
     bind Receive (\<lambda>data. case data of
         None \<Rightarrow> ret (Inr 0)
       | Some d \<Rightarrow>
           bind (modify (note_abilities d)) (\<lambda>_.
           ret (if length d < 3 \<or> (3 < length d \<and> d ! 3 = CHR ''-'') then Inl () else Inr (atol d mod 2 ^ 32))))"

definition GetLine :: "(mail, int) run" where
  "GetLine = bind (asks pending_lines) (\<lambda>n. iterate (Suc n) line_step ())"

text \<open>A command is accepted with the code it expects or with 252.\<close>

definition SendCommand :: "string \<Rightarrow> sval list \<Rightarrow> int \<Rightarrow> (mail, bool) run" where
  "SendCommand f vs expectedRC =
     bind (mail_Send f vs) (\<lambda>_. bind GetLine (\<lambda>gotRC. ret (gotRC = expectedRC \<or> gotRC = 252)))"

text \<open>Commands in order, up to the first that is not accepted.\<close>

primrec SendCommands :: "(string \<times> sval list \<times> int) list \<Rightarrow> (mail, bool) run" where
  "SendCommands [] = ret True"
| "SendCommands (c # cs) =
     (case c of (f, vs, expectedRC) \<Rightarrow>
        bind (SendCommand f vs expectedRC) (\<lambda>ok. if ok then SendCommands cs else ret False))"

text \<open>
  The abilities are looked at again after the answer to \<open>EHLO\<close>, which is where a server names them.
\<close>

definition authenticate :: "string \<Rightarrow> string \<Rightarrow> (mail, bool) run" where
  "authenticate encodedEmailID encodedPassword =
     bind (asks (\<lambda>s. (ml_verify s, ml_from s))) (\<lambda>(verify, from).
     if verify then SendCommands [(''%s %s'', [VS ''VRFY'', VS from], 250)]
     else SendCommands [(''%s'', [VS ''AUTH LOGIN''], 334), (''%s'', [VS encodedEmailID], 334),
            (''%s'', [VS encodedPassword], 235)])"

definition recipients :: "string \<Rightarrow> mail \<Rightarrow> string list" where
  "recipients toEmailID s =
     toEmailID # (if ml_from s \<noteq> toEmailID then [ml_from s] else []) @ filter (\<lambda>d. d \<noteq> toEmailID) (ml_dests s)"

definition envelope :: "string \<Rightarrow> mail \<Rightarrow> (string \<times> sval list \<times> int) list" where
  "envelope toEmailID s =
     (''%s %s'', [VS ''MAIL From:'', VS (ml_from s)], 250)
       # map (\<lambda>r. (''%s %s'', [VS ''RCPT To:'', VS r], 250)) (recipients toEmailID s)
       @ [(''%s'', [VS ''DATA''], 354)]"

definition PrepareMessage :: "string \<Rightarrow> (mail, bool) run" where
  "PrepareMessage toEmailID =
     bind (asks (\<lambda>s. s)) (\<lambda>s.
     bind (if \<not> ml_auth s then SendCommands [(''%s %s'', [VS ''HELO'', VS ''home.com''], 250)]
           else
           bind (lift (strcpy (encodeBase64 (ml_from s)) 100)) (\<lambda>encodedEmailID.
           bind (lift (strcpy (encodeBase64 (ml_password s)) 100)) (\<lambda>encodedPassword.
           bind (SendCommands [(''%s %s'', [VS ''EHLO'', VS ''localhost''], 250)]) (\<lambda>ok.
           if ok then authenticate encodedEmailID encodedPassword else ret False)))) (\<lambda>greeted.
     if greeted then SendCommands (envelope toEmailID s) else ret False))"

section \<open>A message\<close>

primrec send_to :: "string list \<Rightarrow> (mail, unit) run" where
  "send_to [] = ret ()"
| "send_to (r # rs) = bind (mail_Send ''To: %s'' [VS r]) (\<lambda>_. send_to rs)"

definition SendHeader :: "string \<Rightarrow> string \<Rightarrow> string \<Rightarrow> (mail, unit) run" where
  "SendHeader toEmailID theSubject theDate =
     bind (asks (\<lambda>s. s)) (\<lambda>s.
     bind (mail_Send ''Subject: %s'' [VS theSubject]) (\<lambda>_.
     bind (mail_Send ''From: %s'' [VS (ml_from s)]) (\<lambda>_.
     bind (mail_Send ''To: %s'' [VS (ml_from s)]) (\<lambda>_.
     bind (if toEmailID \<noteq> ml_from s then mail_Send ''To: %s'' [VS toEmailID] else ret ()) (\<lambda>_.
     bind (send_to (ml_dests s)) (\<lambda>_.
     mail_Send ''Date: %s'' [VS theDate]))))))"

definition NewMessage :: "string \<Rightarrow> string \<Rightarrow> string \<Rightarrow> (mail, bool) run" where
  "NewMessage toEmailID theSubject theDate =
     bind (asks ml_enabled) (\<lambda>enabled.
     if \<not> enabled then ret False
     else
     bind mail_Open (\<lambda>opened.
     if \<not> opened then ret False
     else
     bind GetLine (\<lambda>rc.
     if rc \<noteq> 220 then bind mail_Close (\<lambda>_. ret False)
     else
     bind (PrepareMessage toEmailID) (\<lambda>prepared.
     if \<not> prepared then bind mail_Close (\<lambda>_. ret False)
     else bind (SendHeader toEmailID theSubject theDate) (\<lambda>_. ret True)))))"

text \<open>
  The new lines before the text go to the buffer that the text is then formatted into: they are not
  sent.
\<close>

definition AppendLine :: "nat \<Rightarrow> string \<Rightarrow> sval list \<Rightarrow> (mail, unit) run" where
  "AppendLine newLines f vs =
     bind (lift (strcpy (sprintf f vs) 2000)) (\<lambda>theLine. mail_Send ''%s  '' [VS theLine])"

definition SendMessage :: "(mail, bool) run" where
  "SendMessage =
     bind (asks so_open) (\<lambda>isOpen.
     if \<not> isOpen then ret False
     else
     bind (mail_Send ''.'' []) (\<lambda>_.
     bind GetLine (\<lambda>rc.
     if rc \<noteq> 250 then bind mail_Close (\<lambda>_. ret False)
     else
     bind (mail_Send ''QUIT'' []) (\<lambda>_.
     bind GetLine (\<lambda>_. bind mail_Close (\<lambda>_. ret True))))))"

end
