(* ===== verification/ServerJobs.thy ===== *)
theory ServerJobs
  imports Mail CompositeObj WorkReceiver ServerConfig
begin

text \<open>
  What the server does on its own, every few minutes, over a database connection of its own
  (\<open>src/source/ecmserver.cpp\<close>): dropping work that was handed out long ago, turning composite factors
  into composites to be factored, and telling the finders of factors by mail
  (\<open>Mail::NotifyUserAboutFactor\<close>).
\<close>

section \<open>Pending work\<close>

definition end_transaction :: "bool \<Rightarrow> unit db" where
  "end_transaction success = modify (if success then Commit else Rollback)"

definition ExpirePendingWork :: "globals \<Rightarrow> unit db" where
  "ExpirePendingWork g =
     bind (asks now) (\<lambda>time.
     let dateAssigned = time - wrap32 (60 * 60 * g_expire g)
     in bind (Execute [PBig dateAssigned] (delete_pending (\<lambda>p. pw_date p < dateAssigned))) end_transaction)"

section \<open>Composite factors\<close>

definition PRPTEST_AS_COMPOSITE :: int where "PRPTEST_AS_COMPOSITE = 0"
definition PRPTEST_AS_PRP :: int where "PRPTEST_AS_PRP = 1"
definition PRPTEST_AS_PRIME :: int where "PRPTEST_AS_PRIME = 2"

text \<open>The rows of the query: a detail that is a composite not recursed yet, and what it belongs to.\<close>

record recurse_row =
  rr_master :: string
  rr_comp :: string
  rr_event :: int
  rr_seq :: int
  rr_index :: int
  rr_value :: string

definition recursable :: "tables \<Rightarrow> recurse_row list" where
  "recursable t =
     [\<lparr>rr_master = BindSelectedColumn (mc_name m) NAME_LENGTH, rr_comp = BindSelectedColumn (dt_comp d) NAME_LENGTH,
       rr_event = dt_event d, rr_seq = dt_seq d, rr_index = mc_recurse m,
       rr_value = BindSelectedColumn (dt_value d) VALUE_LENGTH\<rparr>.
        m \<leftarrow> masters t, c \<leftarrow> comps t, cp_master c = mc_name m, e \<leftarrow> events t, ev_comp e = cp_name c,
        d \<leftarrow> details t, dt_prp d = PRPTEST_AS_COMPOSITE \<and> dt_recursed d = 0 \<and> dt_comp d = cp_name c
          \<and> dt_event d = ev_no e]"

definition set_recurse_index :: "string \<Rightarrow> int \<Rightarrow> tables \<Rightarrow> tables option" where
  "set_recurse_index masterCompositeName recurseIndex = change (\<lambda>t. t\<lparr>masters :=
     update_by mc_name masterCompositeName (\<lambda>r. r\<lparr>mc_recurse := recurseIndex\<rparr>) (masters t)\<rparr>)"

definition set_recursed :: "string \<times> int \<times> int \<Rightarrow> tables \<Rightarrow> tables option" where
  "set_recursed key = change (\<lambda>t. t\<lparr>details := update_by detail_key key (\<lambda>d. d\<lparr>dt_recursed := 1\<rparr>) (details t)\<rparr>)"

text \<open>The first free name \<open><master>_R<n>\<close>; its composite is an object without a row.\<close>

definition recurse_name :: "string \<Rightarrow> int \<Rightarrow> string" where
  "recurse_name masterCompositeName recurseIndex = sprintf ''%s_R%d'' [VS masterCompositeName, VI recurseIndex]"

definition name_step :: "string \<Rightarrow> int \<Rightarrow> (session, int + int \<times> composite) run" where
  "name_step masterCompositeName recurseIndex =
     (if 2 ^ 31 - 1 \<le> recurseIndex then stop Undefined
      else
      bind (lift (strcpy (recurse_name masterCompositeName (recurseIndex + 1)) (NAME_LENGTH + 1))) (\<lambda>recurseName.
      bind (Composite recurseName False) (\<lambda>theComposite.
      ret (if co_found theComposite then Inl (recurseIndex + 1) else Inr (recurseIndex + 1, theComposite)))))"

definition free_name :: "string \<Rightarrow> int \<Rightarrow> (int \<times> composite) db" where
  "free_name masterCompositeName recurseIndex =
     bind (asks (\<lambda>s. length (comps (cur s)))) (\<lambda>n. iterate (Suc n) (name_step masterCompositeName) recurseIndex)"

definition recurse_factor :: "(int \<Rightarrow> int) \<Rightarrow> recurse_row \<Rightarrow> unit db" where
  "recurse_factor pp r =
     bind (free_name (rr_master r) (rr_index r)) (\<lambda>(recurseIndex, theComposite).
     bind (Execute [PInt recurseIndex, PStr (rr_master r) NAME_LENGTH] (set_recurse_index (rr_master r) recurseIndex)) (\<lambda>ok1.
     bind (if ok1 then Execute [PStr (rr_comp r) NAME_LENGTH, PInt (rr_event r), PInt (rr_seq r)]
                         (set_recursed (rr_comp r, rr_event r, rr_seq r))
           else ret False) (\<lambda>ok2.
     bind (if ok2 then
             bind (lift (SetValue pp (rr_value r) (snd (SetMasterCompositeName (rr_master r) theComposite)))) (\<lambda>(_, c).
             bind (comp_FinalizeChanges c) (\<lambda>(ok, _). ret ok))
           else ret False) end_transaction)))"

primrec recurse_rows :: "(int \<Rightarrow> int) \<Rightarrow> recurse_row list \<Rightarrow> unit db" where
  "recurse_rows pp [] = bind (fetch ([] :: unit list)) (\<lambda>_. ret ())"
| "recurse_rows pp (r # rows) =
     bind (fetch (r # rows)) (\<lambda>x. case x of
         None \<Rightarrow> ret ()
       | Some _ \<Rightarrow> bind (recurse_factor pp r) (\<lambda>_. recurse_rows pp rows))"

definition RecurseFactors :: "(int \<Rightarrow> int) \<Rightarrow> unit db" where
  "RecurseFactors pp =
     bind (Open [PInt PRPTEST_AS_COMPOSITE] recursable) (\<lambda>c. case c of
         None \<Rightarrow> ret ()
       | Some rows \<Rightarrow> recurse_rows pp rows)"

section \<open>Mail about factors\<close>

record mailing =
  ma_db :: session
  ma_mail :: mail

definition in_db :: "'a db \<Rightarrow> (mailing, 'a) run" where
  "in_db = part ma_db (\<lambda>x s. s\<lparr>ma_db := x\<rparr>)"

definition in_mail :: "(mail, 'a) run \<Rightarrow> (mailing, 'a) run" where
  "in_mail = part ma_mail (\<lambda>x s. s\<lparr>ma_mail := x\<rparr>)"

text \<open>The columns of a factor that reach the mail, in the order of the factors of the event.\<close>

record mailed_factor =
  mf_value :: string
  mf_length :: int
  mf_method :: string
  mf_prp :: int

definition mailed_factors :: "(detail_row list \<Rightarrow> detail_row list) \<Rightarrow> string \<Rightarrow> int \<Rightarrow> tables \<Rightarrow> mailed_factor list" where
  "mailed_factors by_sequence compositeName factorEvent t =
     [\<lparr>mf_value = BindSelectedColumn (dt_value d) VALUE_LENGTH, mf_length = dt_len d,
       mf_method = BindSelectedColumn (ev_method e) 20, mf_prp = dt_prp d\<rparr>.
        d \<leftarrow> by_sequence (details t), dt_comp d = compositeName \<and> dt_event d = factorEvent,
        e \<leftarrow> events t, event_key e = (compositeName, factorEvent)]"

definition mailed_type :: "int \<Rightarrow> string" where
  "mailed_type prpTestResult =
     (if prpTestResult = PRPTEST_AS_COMPOSITE then ''composite''
      else if prpTestResult = PRPTEST_AS_PRP then ''prp''
      else if prpTestResult = PRPTEST_AS_PRIME then ''prime'' else ''unknown'')"

definition set_newline :: "bool \<Rightarrow> (mail, unit) run" where
  "set_newline b = modify (\<lambda>s. s\<lparr>so_newline := b\<rparr>)"

definition first_factor :: "string \<Rightarrow> string \<Rightarrow> bool \<Rightarrow> mailed_factor \<Rightarrow> (mail, unit) run" where
  "first_factor compositeName compositeValue duplicate x =
     bind (set_newline False) (\<lambda>_.
     bind (AppendLine 0 ''A factor was found for %s using GMP-ECM using factor method %s''
             [VS compositeName, VS (mf_method x)]) (\<lambda>_.
     bind (if duplicate then
             AppendLine 0 ''The finder listed below has already reported this factor, so you will not get credit for it.'' []
           else ret ()) (\<lambda>_.
     bind (set_newline True) (\<lambda>_.
     bind (AppendLine 2 ''   Candidate number: %s'' [VS compositeValue]) (\<lambda>_.
     bind (AppendLine 0 ''   Factor: %s'' [VS (mf_value x)]) (\<lambda>_.
     bind (AppendLine 0 ''   Factor Type: %s'' [VS (mailed_type (mf_prp x))]) (\<lambda>_.
     AppendLine 0 ''   Factor Length: %d'' [VI (mf_length x)])))))))"

text \<open>
  After the lines on a co-factor the code prints \<open>sigma\<close>, an \<open>int64_t\<close>, with \<open>%.0lf\<close>, which has no
  defined meaning.
\<close>

definition co_factor :: "mailed_factor \<Rightarrow> (mail, unit) run" where
  "co_factor x =
     bind (AppendLine 0 ''   Co-Factor: %s'' [VS (mf_value x)]) (\<lambda>_.
     bind (AppendLine 0 ''   Co-Factor Type: %s'' [VS (mailed_type (mf_prp x))]) (\<lambda>_.
     bind (AppendLine 0 ''   Co-Factor Length: %d'' [VI (mf_length x)]) (\<lambda>_.
     stop Undefined)))"

definition subject_of :: "string \<Rightarrow> mailed_factor \<Rightarrow> string" where
  "subject_of compositeName x =
     sprintf ''%s%d factor of %s found by ECMNet!''
       [VS (if mf_prp x = PRPTEST_AS_COMPOSITE then ''C'' else ''P''), VI (mf_length x), VS compositeName]"

primrec notify_rows ::
    "string \<Rightarrow> string \<Rightarrow> string \<Rightarrow> bool \<Rightarrow> string \<Rightarrow> mailed_factor list \<Rightarrow> bool \<Rightarrow> (mailing, bool) run" where
  "notify_rows compositeName compositeValue finderEmailID duplicate theDate [] first =
     bind (in_db (fetch ([] :: unit list))) (\<lambda>_. ret True)"
| "notify_rows compositeName compositeValue finderEmailID duplicate theDate (x # rows) first =
     bind (in_db (fetch (x # rows))) (\<lambda>c. case c of
         None \<Rightarrow> ret True
       | Some _ \<Rightarrow>
           bind (if first then in_mail (NewMessage finderEmailID (subject_of compositeName x) theDate) else ret True) (\<lambda>success.
           if \<not> success then ret False
           else
           bind (in_mail (if first then first_factor compositeName compositeValue duplicate x else co_factor x)) (\<lambda>_.
           notify_rows compositeName compositeValue finderEmailID duplicate theDate rows False)))"

definition NotifyUserAboutFactor ::
    "(detail_row list \<Rightarrow> detail_row list) \<Rightarrow> (int \<Rightarrow> string) \<Rightarrow> string \<Rightarrow> string \<Rightarrow> int \<Rightarrow> string \<Rightarrow> bool \<Rightarrow> (mailing, bool) run" where
  "NotifyUserAboutFactor by_sequence strftime compositeName compositeValue factorEvent finderEmailID duplicate =
     bind (in_db (Open [PStr compositeName NAME_LENGTH, PInt factorEvent] (mailed_factors by_sequence compositeName factorEvent))) (\<lambda>c.
     bind (asks (\<lambda>s. strftime (now (ma_db s)))) (\<lambda>theDate.
     bind (case c of None \<Rightarrow> ret True
           | Some rows \<Rightarrow> notify_rows compositeName compositeValue finderEmailID duplicate theDate rows True) (\<lambda>success.
     bind (if success then bind (in_mail SendMessage) (\<lambda>_. ret ()) else ret ()) (\<lambda>_.
     ret success))))"

record unmailed =
  um_comp :: string
  um_value :: string
  um_event :: int
  um_email :: string
  um_duplicate :: int

definition unmailed_events :: "(event_row list \<Rightarrow> event_row list) \<Rightarrow> tables \<Rightarrow> unmailed list" where
  "unmailed_events by_event t =
     [\<lparr>um_comp = BindSelectedColumn (ev_comp e) NAME_LENGTH, um_value = BindSelectedColumn (cp_value c) VALUE_LENGTH,
       um_event = ev_no e, um_email = BindSelectedColumn (ev_email e) ID_LENGTH, um_duplicate = ev_duplicate e\<rparr>.
        e \<leftarrow> by_event (events t), ev_emailed e = 0, c \<leftarrow> comps t, cp_name c = ev_comp e]"

definition set_emailed :: "string \<times> int \<Rightarrow> tables \<Rightarrow> tables option" where
  "set_emailed key = change (\<lambda>t. t\<lparr>events := update_by event_key key (\<lambda>e. e\<lparr>ev_emailed := 1\<rparr>) (events t)\<rparr>)"

record mail_order =
  by_event :: "event_row list \<Rightarrow> event_row list"
  by_sequence :: "detail_row list \<Rightarrow> detail_row list"

primrec send_emails :: "mail_order \<Rightarrow> (int \<Rightarrow> string) \<Rightarrow> unmailed list \<Rightarrow> (mailing, unit) run" where
  "send_emails order strftime [] = bind (in_db (fetch ([] :: unit list))) (\<lambda>_. ret ())"
| "send_emails order strftime (u # rows) =
     bind (in_db (fetch (u # rows))) (\<lambda>c. case c of
         None \<Rightarrow> ret ()
       | Some _ \<Rightarrow>
           bind (NotifyUserAboutFactor (by_sequence order) strftime (um_comp u) (um_value u) (um_event u) (um_email u)
                   (um_duplicate u \<noteq> 0)) (\<lambda>success.
           bind (if success then
                   in_db (bind (Execute [PStr (um_comp u) NAME_LENGTH, PInt (um_event u)] (set_emailed (um_comp u, um_event u))) end_transaction)
                 else ret ()) (\<lambda>_.
           send_emails order strftime rows)))"

definition SendEmail :: "mail_order \<Rightarrow> (int \<Rightarrow> string) \<Rightarrow> (mailing, unit) run" where
  "SendEmail order strftime =
     bind (in_db (Open [] (unmailed_events (by_event order)))) (\<lambda>c. case c of
         None \<Rightarrow> ret ()
       | Some rows \<Rightarrow> send_emails order strftime rows)"

end
