(* ===== verification/HtmlPages.thy ===== *)
theory HtmlPages
  imports SyncPeer ServerConfig TextFiles ServerJobs
begin

text \<open>
  \<open>src/source/HTMLGenerator.cpp\<close>: the pages the server shows to a browser. Sorting is a parameter, as is
  \<open>strftime\<close> of a time. A text over the size of the buffer it is formatted into is a buffer overrun, as
  in every \<open>Send\<close>.
\<close>

record html =
  hg_title :: string
  hg_project :: string
  hg_minB1 :: double
  hg_b1 :: "b1_t list"
  hg_strftime :: "int \<Rightarrow> string"

section \<open>Numbers and values\<close>

text \<open>Division of C, \<open>%.02d\<close> and \<open>%9.2f\<close>.\<close>

definition cdiv :: "int \<Rightarrow> int \<Rightarrow> int" where
  "cdiv a b = (if a < 0 then - ((- a) div b) else a div b)"

definition show_02 :: "int \<Rightarrow> string" where
  "show_02 n = (if n < 0 then [CHR ''-''] else []) @ (if \<bar>n\<bar> < 10 then [CHR ''0''] else []) @ dec (nat \<bar>n\<bar>)"

definition show_9_2 :: "double \<Rightarrow> string" where
  "show_9_2 x =
     (let q = nat \<bar>round_even (x * 100)\<bar>;
          s = (if x < 0 then [CHR ''-''] else []) @ dec (q div 100) @ CHR ''.'' # show_02 (int (q mod 100))
      in replicate (9 - length s) (CHR '' '') @ s)"

fun determine_B1 :: "double \<Rightarrow> double \<Rightarrow> b1_t list \<Rightarrow> double" where
  "determine_B1 minB1 totalWorkDone [] = 0"
| "determine_B1 minB1 totalWorkDone (b # bs) =
     (if totalWorkDone > bl_sum b \<or> minB1 > bl_b1 b then determine_B1 minB1 totalWorkDone bs else bl_b1 b)"

definition SPLIT_LENGTH :: nat where "SPLIT_LENGTH = 80"

function split_lines :: "string \<Rightarrow> string" where
  "split_lines s =
     (if SPLIT_LENGTH < length s then take SPLIT_LENGTH s @ ''<br>'' @ split_lines (drop SPLIT_LENGTH s) else s)"
  by auto
termination by (relation "measure length") (auto simp: SPLIT_LENGTH_def)

declare split_lines.simps [simp del]

definition SplitAcrossLines :: "string \<Rightarrow> halt + string" where
  "SplitAcrossLines s = strcpy (split_lines s) (VALUE_LENGTH + 1000)"

section \<open>Rows\<close>

text \<open>\<open>while (FetchRow(false)) ...\<close>, and \<open>if (!FetchRow(false)) ... else do ... while (FetchRow(false))\<close>.\<close>

primrec rest_rows :: "('r \<Rightarrow> ('s handler_scheme, unit) run) \<Rightarrow> 'r list \<Rightarrow> ('s handler_scheme, unit) run" where
  "rest_rows body [] = bind (on_db (fetch ([] :: unit list))) (\<lambda>_. ret ())"
| "rest_rows body (r # rows) =
     bind (on_db (fetch (r # rows))) (\<lambda>x. case x of
         None \<Rightarrow> ret ()
       | Some _ \<Rightarrow> bind (body r) (\<lambda>_. rest_rows body rows))"

definition while_rows ::
    "sql_param list \<Rightarrow> (tables \<Rightarrow> 'r list) \<Rightarrow> ('r \<Rightarrow> ('s handler_scheme, unit) run) \<Rightarrow> ('s handler_scheme, unit) run" where
  "while_rows ps q body =
     bind (on_db (Open ps q)) (\<lambda>c. case c of None \<Rightarrow> ret () | Some rows \<Rightarrow> rest_rows body rows)"

definition do_rows ::
    "sql_param list \<Rightarrow> (tables \<Rightarrow> 'r list) \<Rightarrow> ('s handler_scheme, unit) run \<Rightarrow> ('s handler_scheme, unit) run \<Rightarrow>
     ('r \<Rightarrow> ('s handler_scheme, unit) run) \<Rightarrow> ('s handler_scheme, unit) run \<Rightarrow> ('s handler_scheme, unit) run" where
  "do_rows ps q nothing head body foot =
     bind (on_db (Open ps q)) (\<lambda>c. case c of
         None \<Rightarrow> nothing
       | Some rows \<Rightarrow> bind (on_db (fetch rows)) (\<lambda>x. case x of
             None \<Rightarrow> nothing
           | Some (r, rs) \<Rightarrow> bind head (\<lambda>_. bind (body r) (\<lambda>_. bind (rest_rows body rs) (\<lambda>_. foot)))))"

primrec says :: "string list \<Rightarrow> ('s handler_scheme, unit) run" where
  "says [] = ret ()"
| "says (l # ls) = bind (say l []) (\<lambda>_. says ls)"

definition FRAME :: string where "FRAME = ''<table frame=box align=center border=1>''"

section \<open>Composites and the work done on them\<close>

record b1temp =
  bt_b1 :: double
  bt_ecm :: int
  bt_pp1 :: int
  bt_pm1 :: int

definition set_curves :: "string \<Rightarrow> int \<Rightarrow> b1temp \<Rightarrow> b1temp" where
  "set_curves factorMethod curveCount x =
     (if factorMethod = FM_PM1 then x\<lparr>bt_pm1 := curveCount\<rparr>
      else if factorMethod = FM_PP1 then x\<lparr>bt_pp1 := curveCount\<rparr>
      else if factorMethod = FM_ECM then x\<lparr>bt_ecm := curveCount\<rparr> else x)"

fun add_b1 :: "string \<times> double \<times> int \<Rightarrow> b1temp list \<Rightarrow> b1temp list" where
  "add_b1 (f, b1, k) [] = [set_curves f k \<lparr>bt_b1 = b1, bt_ecm = 0, bt_pp1 = 0, bt_pm1 = 0\<rparr>]"
| "add_b1 (f, b1, k) (x # xs) = (if bt_b1 x = b1 then set_curves f k x # xs else x # add_b1 (f, b1, k) xs)"

primrec gather :: "(string \<times> double \<times> int) list \<Rightarrow> b1temp list \<Rightarrow> ('s handler_scheme, b1temp list) run" where
  "gather [] xs = bind (on_db (fetch ([] :: unit list))) (\<lambda>_. ret xs)"
| "gather (r # rows) xs =
     bind (on_db (fetch (r # rows))) (\<lambda>x. case x of None \<Rightarrow> ret xs | Some _ \<Rightarrow> gather rows (add_b1 r xs))"

primrec show_b1s :: "b1temp list \<Rightarrow> ('s handler_scheme, unit) run" where
  "show_b1s [] = ret ()"
| "show_b1s (x # xs) =
     bind (say ''<tr><td align=right>%.0lf<td align=right>%d<td align=right>%d<td align=right>%d</tr>''
             [VD (bt_b1 x), VI (bt_ecm x), VI (bt_pp1 x), VI (bt_pm1 x)]) (\<lambda>_. show_b1s xs)"

definition work_rows_of :: "string \<Rightarrow> tables \<Rightarrow> (string \<times> double \<times> int) list" where
  "work_rows_of masterCompositeName t =
     map (\<lambda>r. (BindSelectedColumn (wd_method r) METHOD_LENGTH, wd_b1 r, wd_local r))
       (filter (\<lambda>r. wd_master r = masterCompositeName) (works t))"

definition CompositeWorkDone ::
    "((string \<times> double \<times> int) list \<Rightarrow> (string \<times> double \<times> int) list) \<Rightarrow> string \<Rightarrow> ('s handler_scheme, unit) run" where
  "CompositeWorkDone order masterCompositeName =
     bind (on_db (Open [PStr masterCompositeName NAME_LENGTH] (\<lambda>t. order (work_rows_of masterCompositeName t)))) (\<lambda>c.
     bind (case c of None \<Rightarrow> ret [] | Some rows \<Rightarrow> gather rows []) (\<lambda>xs.
     bind (if xs = [] then says [FRAME, ''<tr><td><b>No factoring work has been done for this candidate</tr>'']
           else bind (says [FRAME, ''<tr><td><b>B1<td><b>ECM Curves<td><b>P_1 Tests<td><b>P-1 Tests</tr>'']) (\<lambda>_. show_b1s xs)) (\<lambda>_.
     say ''</table>'' [])))"

record html_order =
  ord_info :: "(string \<times> string \<times> string \<times> double \<times> int) list \<Rightarrow> (string \<times> string \<times> string \<times> double \<times> int) list"
  ord_work :: "(string \<times> double \<times> int) list \<Rightarrow> (string \<times> double \<times> int) list"
  ord_masters :: "master_row list \<Rightarrow> master_row list"
  ord_factors :: "(event_row \<times> detail_row) list \<Rightarrow> (event_row \<times> detail_row) list"
  ord_users :: "user_row list \<Rightarrow> user_row list"
  ord_pending :: "pending_row list \<Rightarrow> pending_row list"

definition unfactored_rows :: "tables \<Rightarrow> (string \<times> string \<times> string \<times> double \<times> int) list" where
  "unfactored_rows t =
     [(BindSelectedColumn (mc_name m) NAME_LENGTH, BindSelectedColumn (cp_name c) NAME_LENGTH,
       BindSelectedColumn (cp_value c) VALUE_LENGTH, mc_work m, cp_len c).
        m \<leftarrow> masters t, mc_active m = 1, c \<leftarrow> comps t, cp_events c = 0 \<and> mc_name m = cp_master c]"

definition INFO_HEAD :: string where
  "INFO_HEAD = ''<tr><td><b>Name<td><b>Length<td><b>Current ECM B1<td><b>Number</tr>''"

definition INFO_ROW :: string where
  "INFO_ROW = ''<tr><td>%s<td align=right>%d<td align=right>%.0lf<td>%s</tr>''"

definition NBSP_FRAME :: string where "NBSP_FRAME = ''<p>&nbsp;<table frame=box align=center border=1>''"

definition info_row :: "html \<Rightarrow> html_order \<Rightarrow> bool \<Rightarrow> string \<times> string \<times> string \<times> double \<times> int \<Rightarrow> ('s handler_scheme, unit) run" where
  "info_row h order showDetails x = (case x of (masterCompositeName, compositeName, compositeValue, workDone, decimalLength) \<Rightarrow>
     bind (lift (SplitAcrossLines compositeValue)) (\<lambda>output.
     let vs = [VS compositeName, VI decimalLength, VD (determine_B1 (hg_minB1 h) workDone (hg_b1 h)), VS output]
     in if showDetails then
          bind (says [NBSP_FRAME, INFO_HEAD]) (\<lambda>_.
          bind (say INFO_ROW vs) (\<lambda>_.
          bind (say ''</table>'' []) (\<lambda>_.
          CompositeWorkDone (ord_work order) masterCompositeName)))
        else say INFO_ROW vs))"

definition CompositeInfo :: "html \<Rightarrow> html_order \<Rightarrow> bool \<Rightarrow> ('s handler_scheme, unit) run" where
  "CompositeInfo h order showDetails =
     bind (say (if showDetails then ''<html><head><title>ECMNet %s Composite Details - %s</title>''
                else ''<html><head><title>ECMNet %s Composite Summary - %s</title>'') [VS ECMNET_VERSION, VS (hg_title h)]) (\<lambda>_.
     bind (say ''<p align=center><b><font size=6>%s</font></b></p></head>'' [VS (hg_project h)]) (\<lambda>_.
     bind (if showDetails then ret () else says [NBSP_FRAME, INFO_HEAD]) (\<lambda>_.
     bind (while_rows [] (\<lambda>t. ord_info order (unfactored_rows t)) (info_row h order showDetails)) (\<lambda>_.
     bind (if showDetails then ret () else say ''</table>'' []) (\<lambda>_.
     say ''</body></html>'' [])))))"

section \<open>Master composites and their factors\<close>

definition shown_factors :: "string \<Rightarrow> tables \<Rightarrow> (event_row \<times> detail_row) list" where
  "shown_factors masterCompositeName t =
     [(e, d). c \<leftarrow> comps t, cp_master c = masterCompositeName, e \<leftarrow> events t, ev_comp e = cp_name c,
        d \<leftarrow> details t, dt_comp d = cp_name c \<and> dt_event d = ev_no e
          \<and> \<not> (\<exists>cmp \<in> set (comps t). cp_value cmp = dt_value d \<and> cp_events cmp > 0)]"

definition shown_type :: "int \<Rightarrow> string" where
  "shown_type prpTestResult =
     (if prpTestResult = PRPTEST_AS_COMPOSITE then ''Composite''
      else if prpTestResult = PRPTEST_AS_PRP then ''PRP''
      else if prpTestResult = PRPTEST_AS_PRIME then ''Prime'' else ''Unknown'')"

definition FACTOR_HEAD :: string where
  "FACTOR_HEAD = ''<tr><td>Factor Type<td>User<td>Machine<td>Instance<td>Method<td>B1<td>B2<td>Sigma/x0<td>Digits<td>Date Found<td>Time Used<td>Factor</tr>''"

definition factor_row :: "html \<Rightarrow> event_row \<times> detail_row \<Rightarrow> ('s handler_scheme, unit) run" where
  "factor_row h x = (case x of (e, d) \<Rightarrow>
     bind (lift (SplitAcrossLines (BindSelectedColumn (dt_value d) VALUE_LENGTH))) (\<lambda>output.
     say ''<tr><td>%s<td>%s<td>%s<td>%s<td>%s<td>%.0lf<td>%.0lf<td>%ld<td>%d<td>%s<td>%.0lf seconds<td class=l>%s</tr>''
       [VS (shown_type (dt_prp d)), VS (BindSelectedColumn (ev_user e) ID_LENGTH),
        VS (BindSelectedColumn (ev_machine e) ID_LENGTH), VS (BindSelectedColumn (ev_instance e) ID_LENGTH),
        VS (BindSelectedColumn (ev_method e) METHOD_LENGTH), VD (ev_b1 e), VD (ev_b2 e),
        VI (if BindSelectedColumn (ev_method e) METHOD_LENGTH \<noteq> FM_ECM then ev_x0 e else ev_sigma e),
        VI (dt_len d), VS (hg_strftime h (ev_date e)), VD (ev_b1time e + ev_b2time e), VS output]))"

definition MasterFactorDetail :: "html \<Rightarrow> html_order \<Rightarrow> string \<Rightarrow> ('s handler_scheme, unit) run" where
  "MasterFactorDetail h order masterCompositeName =
     do_rows [PStr masterCompositeName NAME_LENGTH] (\<lambda>t. ord_factors order (shown_factors masterCompositeName t))
       (ret ()) (says [FRAME, FACTOR_HEAD]) (factor_row h) (say ''</table>'' [])"

definition row_class :: "master_row \<Rightarrow> string" where
  "row_class r = (if mc_fully r \<noteq> 0 then ''b'' else if mc_active r \<noteq> 0 then ''g'' else ''r'')"

definition SUMMARY_STYLE :: string where
  \<open>SUMMARY_STYLE = ''<style type="Text/css">.b{background-color:aqua}.g{background-color:lime}.r{background-color:red}.l{text-align: left}td{text-align: center}''\<close>

definition summary_row :: "html \<Rightarrow> html_order \<Rightarrow> bool \<Rightarrow> master_row \<Rightarrow> ('s handler_scheme, unit) run" where
  "summary_row h order mastersWithFactors r =
     (let masterCompositeName = BindSelectedColumn (mc_name r) NAME_LENGTH in
     bind (lift (SplitAcrossLines (BindSelectedColumn (mc_value r) VALUE_LENGTH))) (\<lambda>output.
     bind (if mastersWithFactors then
             bind (say NBSP_FRAME []) (\<lambda>_.
             say ''<tr class=%s><td><b>Name<td><b>Length<td><b>Factors<td><b>Current ECM B1<td><b>Number</tr>'' [VS (row_class r)])
           else ret ()) (\<lambda>_.
     bind (say ''<tr class=%s><td>%s<td>%d<td>%d<td>%.0lf<td>%s</tr>''
             [VS (row_class r), VS masterCompositeName, VI (mc_len r), VI (mc_factors r),
              VD (determine_B1 (hg_minB1 h) (mc_work r) (hg_b1 h)), VS output]) (\<lambda>_.
     bind (if mastersWithFactors then say ''</table>'' [] else ret ()) (\<lambda>_.
     if mastersWithFactors \<and> mc_factors r > 0 then MasterFactorDetail h order masterCompositeName else ret ())))))"

definition MasterSummary :: "html \<Rightarrow> html_order \<Rightarrow> bool \<Rightarrow> ('s handler_scheme, unit) run" where
  "MasterSummary h order mastersWithFactors =
     bind (say (if mastersWithFactors then ''<html><head><title>ECMNet %s Factor Summary - %s</title>''
                else ''<html><head><title>ECMNet %s Master Composite Summary - %s</title>'') [VS ECMNET_VERSION, VS (hg_title h)]) (\<lambda>_.
     bind (say ''<p align=center><b><font size=6>%s</font></b></p>'' [VS (hg_project h)]) (\<lambda>_.
     bind (says [SUMMARY_STYLE, ''</style></head>'' @ [LF]]) (\<lambda>_.
     do_rows [PInt (if mastersWithFactors then 0 else - 1)]
       (\<lambda>t. ord_masters order (filter (\<lambda>r. mc_factors r > (if mastersWithFactors then 0 else - 1)) (masters t)))
       (says [FRAME, ''<tr><th align=center>Factor Summary</tr>'', ''<tr align=center><td>No factors found</tr>'', ''</table>''])
       (bind (says [''<p><table frame=box align=center border=1><tr><td><b>Color legend:'',
                    ''<td class=b><b>factored<td class=g><b>active<TD class=r><b>inactive</table>'']) (\<lambda>_.
        if mastersWithFactors then ret ()
        else says [NBSP_FRAME, ''<tr><td><b>Name<td><b>Length<td><b>Factors<td><b>Current ECM B1<td><b>Number</tr>'']))
       (summary_row h order mastersWithFactors)
       (bind (if mastersWithFactors then ret () else say ''</table>'' []) (\<lambda>_. say ''</body></html>'' [])))))"

section \<open>Users and pending work\<close>

definition time_parts :: "double \<Rightarrow> int \<times> int \<times> int \<times> int" where
  "time_parts time =
     (let seconds = trunc time; days = cdiv seconds (24 * 60 * 60); seconds1 = seconds - days * 24 * 60 * 60;
          hours = cdiv seconds1 (60 * 60); seconds2 = seconds1 - hours * 60 * 60; minutes = cdiv seconds2 60
      in (days, hours, minutes, seconds2 - minutes * 60))"

definition user_line :: "user_row \<Rightarrow> ('s handler_scheme, unit) run" where
  "user_line r =
     (case time_parts (us_total_time r) of (days, hours, minutes, seconds) \<Rightarrow>
      let vs = [VS (BindSelectedColumn (us_id r) 201), VS (show_9_2 (us_total_work r / 1000000)), VI (us_total_factors r)];
          clock = [VI hours, VS (show_02 minutes), VS (show_02 seconds)]
      in if days = 0
         then say ''<tr><td>%s<td align=right>%s<td align=right>%d<td align=right>%ld:%s:%s</tr>'' (vs @ clock)
         else say ''<tr><td>%s<td align=right>%s<td align=right>%d<td align=right>%ld days %ld:%s:%s</tr>'' (vs @ VI days # clock))"

definition html_UserStats :: "html \<Rightarrow> html_order \<Rightarrow> ('s handler_scheme, unit) run" where
  "html_UserStats h order =
     bind (say ''<html><head><title>ECMNet %s User Statistics- %s</title>'' [VS ECMNET_VERSION, VS (hg_title h)]) (\<lambda>_.
     do_rows [] (\<lambda>t. ord_users order (users t))
       (says [FRAME, ''<tr><th align=center>User Stats</tr>'', ''<tr align=center><td>No user stats found</tr>'', ''</table>''])
       (says [FRAME, ''<tr><th>User<th>Total Work<th>Factors Found<th>Total Time</tr>''])
       user_line
       (say ''</table>'' []))"

definition pending_line :: "html \<Rightarrow> pending_row \<Rightarrow> ('s handler_scheme, unit) run" where
  "pending_line h r =
     bind (asks (\<lambda>s. now (sess s))) (\<lambda>time.
     let seconds = wrap32 (time - pw_date r); hours = cdiv seconds 3600; minutes = cdiv (seconds - hours * 3600) 60
     in say ''<tr><td>%s<td>%s<td>%s<td>%s<td>%s<td align=right>%.0lf<td align=right>%d<td align=center>%s<td>%d:%s</tr>''
          [VS (BindSelectedColumn (pw_user r) ID_LENGTH), VS (BindSelectedColumn (pw_machine r) ID_LENGTH),
           VS (BindSelectedColumn (pw_instance r) ID_LENGTH), VS (BindSelectedColumn (pw_comp r) NAME_LENGTH),
           VS (BindSelectedColumn (pw_method r) METHOD_LENGTH), VD (pw_b1 r), VI (pw_curves r),
           VS (hg_strftime h (pw_date r)), VI hours, VS (show_02 minutes)])"

definition html_PendingWork :: "html \<Rightarrow> html_order \<Rightarrow> ('s handler_scheme, unit) run" where
  "html_PendingWork h order =
     bind (say ''<html><head><title>ECMNet %s Pending Work - %s</title>'' [VS ECMNET_VERSION, VS (hg_title h)]) (\<lambda>_.
     do_rows [] (\<lambda>t. ord_pending order (pendings t))
       (says [FRAME, ''<tr><th align=center>Pending Work</tr>'', ''<tr align=center><td>No pending work found</tr>'', ''</table>''])
       (says [FRAME, ''<tr><th>User<th>Machine<th>Instance<th>Composite<th>Factor Method<th>B1<th>Curves<th>Date Assigned<th>Age</tr>''])
       (pending_line h)
       (say ''</table>'' []))"

section \<open>A request for a page\<close>

definition front_page :: "html \<Rightarrow> string \<Rightarrow> ('s handler_scheme, unit) run" where
  \<open>front_page h thePage =
     bind (say ''<html><head><title>ECMNet - %s</title>'' [VS (hg_title h)]) (\<lambda>_.
     bind (say ''<p align=center><b><font size=6>%s</font></b></p>'' [VS (hg_project h)]) (\<lambda>_.
     if thePage = [] then
       says [''<A Href="user_stats.html">User Stats</A><CR>'' @ [LF], ''<A Href="pending_work.html">Pending Work</A><CR>'' @ [LF],
             ''<A Href="factor_summary.html">Factor Summary</A><CR>'' @ [LF], ''<A Href="composite_work.html">Composites</A><CR>'' @ [LF],
             ''<A Href="composite_summary.html"</A>Composite Summary<CR>'' @ [LF]]
     else
       bind (say ''<br><br><br><p align=center><b><font size=4 color=#FF0000>Page %s does not exist on this server.</font></b></p>'' [VS thePage])
         (\<lambda>_. say ''<p align=center><b><font size=4 color=#FF0000>Better luck next time!</font></b></p>'' [])))\<close>

definition html_Send :: "html \<Rightarrow> html_order \<Rightarrow> string \<Rightarrow> ('s handler_scheme, unit) run" where
  "html_Send h order thePage =
     bind (says [''HTTP/1.1 200 OK'', ''Connection: close'', [LF]]) (\<lambda>_.
     bind (if thePage = ''user_stats.html'' then html_UserStats h order
           else if thePage = ''pending_work.html'' then html_PendingWork h order
           else if thePage = ''master_summary.html'' then MasterSummary h order False
           else if thePage = ''factor_summary.html'' then MasterSummary h order True
           else if thePage = ''composite_work.html'' then CompositeInfo h order True
           else if thePage = ''composite_summary.html'' then CompositeInfo h order False
           else front_page h thePage) (\<lambda>_.
     say [LF] []))"

end
