(* ===== verification/RequestThread.thy ===== *)
theory RequestThread
  imports AdminThread WorkSender IAmAMaster HtmlPages
begin

text \<open>
  \<open>src/source/HelperThread.cpp\<close>: one request to the server from its first message on. The code looks
  for the kind of the request in the buffer of the connection, which the next messages are received
  into: after one request has been handled, the tests that follow see the last message received.
\<close>

text \<open>What the code leaves to its surroundings while a request is handled.\<close>

record outside =
  ou_prp :: "int \<Rightarrow> int"
  ou_rounds :: nat
  ou_candidates :: ordering
  ou_sync :: sync_order
  ou_pages :: html_order
  ou_strftime :: "int \<Rightarrow> string"
  ou_connected :: bool
  ou_old :: old_fields
  ou_word :: string
  ou_int :: int

section \<open>The objects a request is handed to\<close>

definition sender_of :: "helper_thread \<Rightarrow> sender" where
  "sender_of s =
     (let g = ht_globals s in
      \<lparr>sess = sess s, sock = sock s, ws_minB1 = g_minB1 g, ws_maxB1 = g_maxB1 g, ws_pm1 = g_pm1 g, ws_pp1 = g_pp1 g,
       ws_b1 = g_b1 g, ws_strategies = g_strategies g, ws_total = ht_total s, ws_rand = ht_rand s\<rparr>)"

definition with_sender :: "(sender, 'a) run \<Rightarrow> (helper_thread, 'a) run" where
  "with_sender = part sender_of (\<lambda>x s. s\<lparr>sess := sess x, sock := sock x, ht_total := ws_total x, ht_rand := ws_rand x,
     ht_globals := (ht_globals s)\<lparr>g_strategies := ws_strategies x\<rparr>\<rparr>)"

definition receiver_of :: "int \<Rightarrow> helper_thread \<Rightarrow> receiver" where
  "receiver_of junk s =
     WorkReceiver (sess s) (sock s) (g_server (ht_globals s)) (g_recurse (ht_globals s)) junk"

definition with_receiver :: "int \<Rightarrow> (receiver, 'a) run \<Rightarrow> (helper_thread, 'a) run" where
  "with_receiver junk = part (receiver_of junk) (\<lambda>x s. s\<lparr>sess := sess x, sock := sock x\<rparr>)"

definition with_master :: "(peer, 'a) run \<Rightarrow> (helper_thread, 'a) run" where
  "with_master m s =
     and_then (IAmAMaster (sess s) (sock s) (g_server (ht_globals s)) (g_masterPassword (ht_globals s))) (\<lambda>p.
     and_then (m p) (\<lambda>(a, x). Inr (a, s\<lparr>sess := sess x, sock := sock x\<rparr>)))"

section \<open>Pages\<close>

text \<open>
  The name of the page; without a blank after \<open>GET /\<close> none is scanned and the buffer read later was never
  written. The rest of the request is read up to its \<open>Connection\<close> line. The name of the project is
  never set.
\<close>

definition page_name :: "string \<Rightarrow> halt + string" where
  "page_name theMessage =
     (if strstr theMessage ''.htm'' \<noteq> None \<or> strstr theMessage ''.ico'' \<noteq> None then
        and_then (sscanf theMessage ''GET /%s '' [200]) (\<lambda>vs. case vs of VS p # _ \<Rightarrow> Inr p | _ \<Rightarrow> Inl Undefined)
      else Inr [])"

definition skip_step :: "unit \<Rightarrow> (helper_thread, unit + unit) run" where
  "skip_step u = bind listen (\<lambda>theMessage. case theMessage of
       None \<Rightarrow> ret (Inr ())
     | Some m \<Rightarrow> ret (if prefixed ''Connection'' m then Inr () else Inl ()))"

definition SendHTML :: "outside \<Rightarrow> string \<Rightarrow> (helper_thread, unit) run" where
  "SendHTML ou theMessage =
     bind (lift (page_name theMessage)) (\<lambda>thePage.
     bind (asks lines_left) (\<lambda>n.
     bind (iterate (Suc n) skip_step ()) (\<lambda>_.
     bind (asks ht_globals) (\<lambda>g.
     html_Send \<lparr>hg_title = g_title g, hg_project = [], hg_minB1 = g_minB1 g, hg_b1 = g_b1 g, hg_strftime = ou_strftime ou\<rparr>
       (ou_pages ou) thePage))))"

section \<open>A request\<close>

text \<open>A test of the buffer, and what is done when it holds.\<close>

definition on_request :: "string \<Rightarrow> (string \<Rightarrow> (helper_thread, unit) run) \<Rightarrow> (helper_thread, unit) run" where
  "on_request p m = bind (asks (\<lambda>s. read_buf (sock s))) (\<lambda>theMessage. if prefixed p theMessage then m theMessage else ret ())"

definition greet_client :: "(helper_thread, unit) run" where
  "greet_client =
     bind (asks (\<lambda>s. is_old (sock s))) (\<lambda>old.
     if old then
       bind (SendFile ''Greeting.txt'') (\<lambda>_.
       bind (says [''Consider upgrading to v3.x'',
                   ''You can d/l the latest version from http://home.roadrunner.com/mrodenkirch/ecmnet.html'', ''OK'']) (\<lambda>_.
       bind listen (\<lambda>_. ret ())))
     else
       bind (say ''Start Greeting'' []) (\<lambda>_. bind (SendFile ''Greeting.txt'') (\<lambda>_. say ''End Greeting'' [])))"

definition serve_work :: "outside \<Rightarrow> string \<Rightarrow> (helper_thread, unit) run" where
  "serve_work ou theMessage =
     bind (lift (strcpy theMessage 500)) (\<lambda>tempMessage.
     bind (with_sender (GetWork (ou_rounds ou) (ou_candidates ou) tempMessage)) (\<lambda>_. greet_client))"

definition dispatch :: "outside \<Rightarrow> (helper_thread, unit) run" where
  "dispatch ou =
     bind (on_request ''ADMIN_ACTIVE '' (\<lambda>m. ChangeStatus (drop 13 m) True)) (\<lambda>_.
     bind (on_request ''ADMIN_INACTIVE '' (\<lambda>m. ChangeStatus (drop 15 m) False)) (\<lambda>_.
     bind (on_request ''ADMIN_COMPOSITE '' (\<lambda>m. AddComposites (ou_prp ou) (drop 16 m))) (\<lambda>_.
     bind (on_request ''ADMIN_CURVES '' (\<lambda>m. AddCurves (drop 13 m))) (\<lambda>_.
     bind (on_request ''GETWORK'' (serve_work ou)) (\<lambda>_.
     bind (on_request ''RETURNWORK'' (\<lambda>m. bind (lift (strcpy m 500)) (\<lambda>_.
             with_receiver (ou_int ou) (ProcessMessageOld (ou_prp ou) (ou_old ou))))) (\<lambda>_.
     bind (on_request ''Start Return'' (\<lambda>m. with_receiver (ou_int ou) (ProcessMessage (ou_prp ou) (ou_word ou)))) (\<lambda>_.
     on_request ''Start Sync'' (\<lambda>m. bind (lift (strcpy m 500)) (\<lambda>tempMessage.
       with_master (SyncWithSlave (ou_prp ou) (ou_sync ou) tempMessage))))))))))"

definition HandleRequest :: "outside \<Rightarrow> (helper_thread, unit) run" where
  "HandleRequest ou =
     bind listen (\<lambda>theMessage. case theMessage of
         None \<Rightarrow> ret ()
       | Some m \<Rightarrow>
           if prefixed ''GET '' m then (if ou_connected ou then SendHTML ou m else ret ())
           else
           bind (on_sock (ParseFirstMessage m)) (\<lambda>parsed.
           if \<not> parsed then ret ()
           else if \<not> ou_connected ou then ret ()
           else
           bind (asks (\<lambda>s. is_old (sock s))) (\<lambda>old.
           bind (if old then ret () else say ''Connected to server version %s'' [VS ECMNET_VERSION]) (\<lambda>_.
           bind listen (\<lambda>request. if request = None then ret () else dispatch ou)))))"

text \<open>The thread's resources: an open transaction goes with the connection to the database.\<close>

definition ReleaseResources :: "(helper_thread, unit) run" where
  "ReleaseResources = modify (\<lambda>s. s\<lparr>sess := (sess s)\<lparr>cur := saved (sess s)\<rparr>,
     sock := (sock s)\<lparr>so_open := False, incoming := []\<rparr>\<rparr>)"

definition HelperThread :: "outside \<Rightarrow> (helper_thread, unit) run" where
  "HelperThread ou = bind (HandleRequest ou) (\<lambda>_. ReleaseResources)"

end
