(* ===== verification/RequestProps.thy ===== *)
theory RequestProps
  imports RequestThread AdminProps ReceiverProps MasterProps
begin

text \<open>
  The properties of a request as a whole: the pages change nothing, and every request leaves the
  books of the server right, whatever the client sends.
\<close>

section \<open>Operations that only read the tables\<close>

definition only_reads :: "'s handler_scheme \<Rightarrow> 's handler_scheme \<Rightarrow> bool" where
  "only_reads s s' \<longleftrightarrow> cur (sess s') = cur (sess s) \<and> saved (sess s') = saved (sess s)
     \<and> endtran (sess s') = endtran (sess s) \<and> now (sess s') = now (sess s)"

interpretation rds: effect only_reads
  by unfold_locales (auto simp: only_reads_def)

named_theorems read_intros \<open>operations that only read the tables\<close>
lemmas [read_intros] = rds.stays_intros

lemma reads_queries [read_intros]:
  "stays only_reads (on_db (Open ps q))" "stays only_reads (on_db (fetch rows))" "stays only_reads (on_db (FetchRow ps q))"
  by (auto simp: stays_def only_reads_def on_db_Inr dest!: Open_Inr fetch_Inr FetchRow_Inr)

lemma reads_sock [read_intros]: "stays only_reads (on_sock m)" "stays only_reads (say f vs)" "stays only_reads listen"
  by (auto simp: stays_def only_reads_def on_sock_Inr listen_def dest!: say_Inr)

lemma reads_says [read_intros]: "stays only_reads (says ls)"
  by (induction ls) (simp_all only: says.simps, (intro read_intros | assumption)+)

lemma reads_rows [read_intros]:
  assumes "\<And>r. stays only_reads (body r)"
  shows "stays only_reads (rest_rows body rows)" "stays only_reads (while_rows ps q body)"
    "stays only_reads m1 \<Longrightarrow> stays only_reads m2 \<Longrightarrow> stays only_reads m3 \<Longrightarrow> stays only_reads (do_rows ps q m1 m2 body m3)"
proof -
  show rest: "stays only_reads (rest_rows body rows)" for rows
    by (induction rows) (simp_all only: rest_rows.simps, (intro read_intros assms | assumption)+)
  show "stays only_reads (while_rows ps q body)"
    unfolding while_rows_def by (intro read_intros rest)
  show "stays only_reads m1 \<Longrightarrow> stays only_reads m2 \<Longrightarrow> stays only_reads m3 \<Longrightarrow> stays only_reads (do_rows ps q m1 m2 body m3)"
    unfolding do_rows_def by (intro read_intros rest assms)
qed

lemma reads_gather [read_intros]: "stays only_reads (gather rows xs)"
  by (induction rows arbitrary: xs) (auto simp only: gather.simps intro!: read_intros split: prod.splits)

lemma reads_show_b1s [read_intros]: "stays only_reads (show_b1s ys)"
  by (induction ys) (auto simp only: show_b1s.simps intro!: read_intros split: prod.splits)

lemma reads_CompositeWorkDone [read_intros]: "stays only_reads (CompositeWorkDone order n)"
  unfolding CompositeWorkDone_def by (intro read_intros)

lemma reads_lines [read_intros]:
  "stays only_reads (info_row h order b x)" "stays only_reads (factor_row h y)" "stays only_reads (user_line u)"
  "stays only_reads (pending_line h p)"
  unfolding info_row_def factor_row_def user_line_def pending_line_def Let_def by (intro read_intros)+

lemma reads_MasterFactorDetail [read_intros]: "stays only_reads (MasterFactorDetail h order n)"
  unfolding MasterFactorDetail_def by (intro read_intros)

lemma reads_summary_row [read_intros]: "stays only_reads (summary_row h order b r)"
  unfolding summary_row_def Let_def by (intro read_intros)

lemma reads_html: "stays only_reads (html_Send h order p)"
  unfolding html_Send_def CompositeInfo_def MasterSummary_def html_UserStats_def html_PendingWork_def front_page_def
  by (intro read_intros)

lemma reads_SendHTML: "stays only_reads (SendHTML ou m)"
  unfolding SendHTML_def skip_step_def by (intro read_intros reads_html)

section \<open>Books that are right\<close>

text \<open>
  \<open>clean\<close>: both the committed tables and those of the transaction are well-formed, and the total of
  every master composite is the sum of its ECM curves times B1.
\<close>

definition tidy :: "'s handler_scheme \<Rightarrow> 's handler_scheme \<Rightarrow> bool" where
  "tidy s s' \<longleftrightarrow> (clean (sess s) \<longrightarrow> clean (sess s'))"

interpretation tdy: effect tidy
  by unfold_locales (auto simp: tidy_def)

named_theorems tidy_intros \<open>operations that keep the books right\<close>
lemmas [tidy_intros] = tdy.stays_intros

lemma tidy_reads: "stays only_reads m \<Longrightarrow> stays tidy m"
  by (fastforce simp: stays_def only_reads_def tidy_def clean_def)

lemma tidy_io [tidy_intros]: "stays tidy (on_sock m)" "stays tidy (say f vs)" "stays tidy listen" "stays tidy (says ls)"
  "stays tidy (on_db (Open ps q))" "stays tidy (on_db (fetch rows))" "stays tidy (on_db (FetchRow ps q))"
  by (rule tidy_reads, intro read_intros)+

lemma tidy_end [tidy_intros]: "stays tidy commit" "stays tidy rollback"
  by (auto simp: stays_def tidy_def clean_def commit_def rollback_def Commit_ok Rollback_ok)

lemma tidy_same: "stays tx_step m \<Longrightarrow> stays same_work m \<Longrightarrow> stays tidy (on_db m)"
  unfolding stays_def tidy_def clean_def on_db_Inr by (fastforce simp: tx_step_def same_totals)

lemma tidy_modify: "(\<And>s. sess (g s) = sess s) \<Longrightarrow> stays tidy (modify g)"
  by (simp add: stays_def tidy_def)

lemma tidy_objects [tidy_intros]: "stays tidy (on_db (Composite n v))" "stays tidy (on_db (MasterComposite n))"
  by (rule tidy_same; intro tx_intros same_intros)+

text \<open>An update of the master's row that succeeds, and one of which only the end is looked at.\<close>

lemma master_books:
  assumes run: "master_FinalizeChanges m s = Inr ((True, m'), s')" and m: "ms_work m = 0"
    and wf: "db_wf (cur s)" and ok: "\<And>k. k \<noteq> ms_name m \<Longrightarrow> total_ok (cur s) k"
  shows "totals_ok (cur s')"
proof -
  have "settled m' s'" "ms_name m' = ms_name m"
    using master_FinalizeChanges_found [OF run m] master_FinalizeChanges_new [OF run m _ wf] by blast+
  then have "total_ok (cur s') (ms_name m)" by (simp add: settled_def)
  moreover have "total_ok (cur s') k" if "k \<noteq> ms_name m" for k
    using others_master_FinalizeChanges [OF run wf] ok [OF that] that by (simp add: others_ok_def)
  ultimately show ?thesis unfolding totals_ok_iff by metis
qed

lemma tidy_decided:
  assumes tx: "stays tx_step m" and good: "\<And>s a s'. m s = Inr (a, s') \<Longrightarrow> Q a \<Longrightarrow> clean s \<Longrightarrow> totals_ok (cur s')"
    and f: "\<And>a. Q a \<Longrightarrow> stays tidy (f a)" "\<And>a. \<not> Q a \<Longrightarrow> \<exists>g. f a = bind rollback g \<and> (\<forall>u. stays tidy (g u))"
  shows "stays tidy (bind (on_db m) f)"
proof (rule staysI)
  fix s b s' assume "bind (on_db m) f s = Inr (b, s')"
  then obtain a x where a: "m (sess s) = Inr (a, x)" and r: "f a (s\<lparr>sess := x\<rparr>) = Inr (b, s')"
    by (auto simp: bind_eq_Inr on_db_Inr)
  have x: "tx_step (sess s) x" by (rule staysD [OF tx a])
  show "tidy s s'"
  proof (cases "Q a")
    case True
    with x good [OF a] have "clean (sess s) \<Longrightarrow> clean x" by (auto simp: clean_def tx_step_def)
    with staysD [OF f(1) [OF True] r] show ?thesis by (simp add: tidy_def)
  next
    case False
    from f(2) [OF this] obtain g where g: "f a = bind rollback g" "\<And>u. stays tidy (g u)" by blast
    with r have "g () (s\<lparr>sess := Rollback x\<rparr>) = Inr (b, s')" by (simp add: rollback_def)
    moreover have "clean (sess s) \<Longrightarrow> clean (Rollback x)" using x by (auto simp: clean_def tx_step_def Rollback_ok)
    ultimately show ?thesis using staysD [OF g(2)] by (fastforce simp: tidy_def)
  qed
qed

section \<open>The administrator\<close>

lemma tidy_admin [tidy_intros]: "stays tidy (put_read_buf m)" "stays tidy (VerifyAdminPassword p)"
  "stays tidy m1 \<Longrightarrow> stays tidy (on_master_server m1)" "stays tidy (name_and_value l)"
proof -
  show p: "stays tidy (put_read_buf m)" for m unfolding put_read_buf_def by (rule tidy_modify) simp
  show "stays tidy (VerifyAdminPassword p)" "stays tidy m1 \<Longrightarrow> stays tidy (on_master_server m1)" "stays tidy (name_and_value l)"
    unfolding VerifyAdminPassword_def on_master_server_def name_and_value_def by (intro tidy_intros p | assumption)+
qed

lemma ecm_total_masters: "works t' = works t \<Longrightarrow> map mc_name (masters t') = map mc_name (masters t) \<Longrightarrow>
    map mc_work (masters t') = map mc_work (masters t) \<Longrightarrow> totals_ok t' = totals_ok t"
proof -
  assume w: "works t' = works t" and n: "map mc_name (masters t') = map mc_name (masters t)"
    and k: "map mc_work (masters t') = map mc_work (masters t)"
  have "totals_ok t \<longleftrightarrow> (\<forall>x \<in> set (zip (map mc_name (masters t)) (map mc_work (masters t))). snd x = ecm_total (fst x) t)" for t
    by (auto simp: totals_ok_def zip_map_map zip_same_conv_map)
  then show ?thesis by (simp add: n k ecm_total_cong [OF w])
qed

lemma tidy_set_active [tidy_intros]: "stays tidy (on_db (Execute ps (set_active_swapped n b)))"
proof -
  have t: "totals_ok t' = totals_ok t" if "set_active_swapped n b t = Some t'" for t t'
    using that
    by (intro ecm_total_masters) (auto simp: set_active_swapped_def change_def map_update_by split: option.splits list.splits)
  show ?thesis
  proof (rule staysI)
    fix s :: "'a handler_scheme" and ok s'
    assume "on_db (Execute ps (set_active_swapped n b)) s = Inr (ok, s')"
    then obtain x where x: "Execute ps (set_active_swapped n b) (sess s) = Inr (ok, x)" "s' = s\<lparr>sess := x\<rparr>"
      by (auto simp: on_db_Inr)
    have "tx_step (sess s) x" by (rule staysD [OF tx_Execute [OF wf_set_active] x(1)])
    moreover have "totals_ok (cur x) = totals_ok (cur (sess s))"
      using x(1) by (cases ok) (auto dest!: Execute_True Execute_False t)
    ultimately show "tidy s s'" by (auto simp: tidy_def clean_def tx_step_def x(2))
  qed
qed

lemma tidy_ChangeStatus [tidy_intros]: "stays tidy (ChangeStatus m b)"
  unfolding ChangeStatus_def by (intro tidy_intros)

lemma curves_books: "record_curves f b k m s = Inr (True, s') \<Longrightarrow> ms_work m = 0 \<Longrightarrow> clean s \<Longrightarrow> totals_ok (cur s')"
  by (rule curves_totals [of f b k m s]) (auto simp: clean_def)

lemma tidy_add_curves [tidy_intros]: "stays tidy (add_curves_line n f k b)"
proof -
  have r: "stays tidy (bind (on_db (record_curves f b j m)) (\<lambda>success. if success then commit else rollback))"
    if "ms_work m = 0" for j m
    by (rule tidy_decided [where Q = "\<lambda>ok. ok"])
      (use that in \<open>auto intro: tx_intros tidy_intros dest: curves_books intro!: exI [where x = ret] simp: fun_eq_iff bind_def
        and_then_def split: sum.splits\<close>)
  show ?thesis
    unfolding add_curves_line_def
    by (intro tidy_intros tdy.stays_bind_result [OF tidy_objects(2)] r) (auto simp: on_db_Inr dest: MasterComposite_work)
qed

lemma tidy_AddCurves [tidy_intros]: "stays tidy (AddCurves p)"
  unfolding AddCurves_def curves_step_def by (intro tidy_intros)

text \<open>Two statements in a row, the second only when the first succeeds, are one decision.\<close>

lemma on_db_and:
  "bind (on_db m1) (\<lambda>(ok1, x). bind (if ok1 then on_db (m2 x) else ret y) f)
     = bind (on_db (bind m1 (\<lambda>(ok1, x). if ok1 then m2 x else ret y))) f"
  by (rule ext) (auto simp: on_db_def part_def bind_def and_then_def split: sum.splits prod.splits)

lemma composite_books:
  assumes "bind (master_FinalizeChanges m) (\<lambda>(ok1, x). if ok1 then comp_FinalizeChanges c else ret (False, c)) s
      = Inr (r, s')" and "fst r" "ms_work m = 0" "clean s"
  shows "totals_ok (cur s')"
proof -
  from assms(1,2) obtain m1 s1 where f: "master_FinalizeChanges m s = Inr ((True, m1), s1)"
    and c: "comp_FinalizeChanges c s1 = Inr (r, s')"
    by (auto simp: bind_eq_Inr split: if_splits)
  have "totals_ok (cur s1)"
    using assms(4) by (intro master_books [OF f assms(3)]) (auto simp: clean_def totals_ok_iff)
  with staysD [OF same_ops(4) c] show ?thesis by (simp add: same_totals)
qed

lemma tidy_add_composite [tidy_intros]: "stays tidy (add_composite pp n v c)"
proof -
  have r: "stays tidy (bind (on_db (bind (master_FinalizeChanges m) (\<lambda>(ok1, x). if ok1 then comp_FinalizeChanges c2 else ret (False, c2))))
      (\<lambda>(ok2, _). if ok2 then bind commit (\<lambda>_. ret True)
                  else bind rollback (\<lambda>_. bind (say t vs) (\<lambda>_. ret False))))" if "ms_work m = 0" for m c2 t vs
  proof (rule tidy_decided [where Q = fst])
    show "stays tx_step (bind (master_FinalizeChanges m) (\<lambda>(ok1, x). if ok1 then comp_FinalizeChanges c2 else ret (False, c2)))"
      by (intro tx_intros tx_master tx_comp)
    show "totals_ok (cur s')" if "bind (master_FinalizeChanges m) (\<lambda>(ok1, x). if ok1 then comp_FinalizeChanges c2 else ret (False, c2)) s
        = Inr (a, s')" "fst a" "clean s" for s a s'
      using composite_books [OF that(1,2) \<open>ms_work m = 0\<close> that(3)] .
  next
    fix a :: "bool \<times> composite" assume "fst a"
    then show "stays tidy (case a of (ok2, _) \<Rightarrow> if ok2 then bind commit (\<lambda>_. ret True)
        else bind rollback (\<lambda>_. bind (say t vs) (\<lambda>_. ret False)))" by (intro tidy_intros)
  next
    fix a :: "bool \<times> composite" assume "\<not> fst a"
    then show "\<exists>g. (case a of (ok2, _) \<Rightarrow> if ok2 then bind commit (\<lambda>_. ret True)
        else bind rollback (\<lambda>_. bind (say t vs) (\<lambda>_. ret False))) = bind rollback g \<and> (\<forall>u. stays tidy (g u))"
      by (intro exI [where x = "\<lambda>_. bind (say t vs) (\<lambda>_. ret False)"] conjI allI) (auto intro: tidy_intros split: prod.splits)
  qed
  have pair: "stays tidy (case p of (x, y) \<Rightarrow> f x y)" if "\<And>x y. p = (x, y) \<Longrightarrow> stays tidy (f x y)"
    for p :: "bool \<times> 'x" and f :: "bool \<Rightarrow> 'x \<Rightarrow> (helper_thread, bool) run"
    using that by (cases p) simp
  have w: "ms_work m1 = ms_work m" if "master_SetValue pp v m = Inr (b, m1)" for m b m1
    using that by (auto simp: master_SetValue_def ComputeDecimalLength_def and_then_eq_Inr split: if_splits option.splits)
  show ?thesis
    unfolding add_composite_def Let_def on_db_and
    by (intro r tdy.stays_bind_result [OF tidy_objects(2)] tdy.stays_bind_result [OF tdy.stays_lift] pair tidy_intros)
      (auto simp: on_db_Inr dest!: MasterComposite_work w)
qed

lemma tidy_AddComposites [tidy_intros]: "stays tidy (AddComposites pp p)"
  unfolding AddComposites_def composites_step_def add_line_def by (intro tidy_intros)

section \<open>Returned work\<close>

text \<open>Between two units of work, and from within one to its end.\<close>

definition between :: "receiver \<Rightarrow> receiver \<Rightarrow> bool" where
  "between s s' \<longleftrightarrow> (receiver_inv s \<and> rc_master s = None \<longrightarrow> receiver_inv s' \<and> rc_master s' = None)"

interpretation btw: effect between
  by unfold_locales (auto simp: between_def)

definition closes :: "receiver \<Rightarrow> receiver \<Rightarrow> bool" where
  "closes s s' \<longleftrightarrow> (receiver_inv s \<longrightarrow> receiver_inv s' \<and> rc_master s' = None)"

lemma closes_bind: "stays inv_step m \<Longrightarrow> (\<And>a. stays closes (f a)) \<Longrightarrow> stays closes (bind m f)"
  unfolding stays_def closes_def inv_step_def by (blast elim: bind_InrE)

lemma closes_prod: "(\<And>x y. stays closes (f x y)) \<Longrightarrow> stays closes (case p of (x, y) \<Rightarrow> f x y)"
  by (cases p) simp

lemma closes_end: "stays closes (bind (EndWork b) (\<lambda>r. ret (g r)))"
  by (rule staysI) (auto simp: closes_def bind_eq_Inr dest: EndWork_clears inv_keep [OF EndWork_inv])

lemma between_unit: "(\<And>u. stays closes (f u)) \<Longrightarrow> stays between (bind (StartWork n) f)"
  unfolding stays_def closes_def between_def by (blast elim: bind_InrE dest: StartWork_inv)

lemma between_io: "stays between (say f vs)" "stays between listen"
  by (auto simp: stays_def between_def receiver_inv_def dest!: say_Inr listen_Inr)

lemma ProcessMessageOld_between: "stays between (ProcessMessageOld pp junk)"
proof -
  have e: "stays between (old_factor_event pp l)" for l
    unfolding old_factor_event_def
    by (intro between_unit closes_prod closes_end closes_bind inv_intros)
  have steps: "stays between (old_result_step l)" "stays between (old_factor_step l)" for l
    unfolding old_result_step_def old_factor_step_def by (intro btw.stays_intros between_io)+
  show ?thesis
    unfolding ProcessMessageOld_def
    by (intro btw.stays_intros between_io between_unit closes_bind closes_end ProcessWork_inv e steps)
qed

lemma tidy_with_receiver [tidy_intros]:
  "stays tidy (with_receiver j (ProcessMessageOld pp old))" "stays tidy (with_receiver j (ProcessMessage pp w))"
proof -
  have r: "receiver_inv (receiver_of j s) \<and> rc_master (receiver_of j s) = None" if "clean (sess s)" for s
    using clean_receiver(1) [of "receiver_of j s"] that by (simp add: receiver_of_def WorkReceiver_def)
  show "stays tidy (with_receiver j (ProcessMessageOld pp old))"
    using staysD [OF ProcessMessageOld_between] r
    by (fastforce simp: stays_def tidy_def with_receiver_def part_eq_Inr between_def clean_receiver(2))
  show "stays tidy (with_receiver j (ProcessMessage pp w))"
    using ProcessMessage_inv r by (fastforce simp: stays_def tidy_def with_receiver_def part_eq_Inr)
qed

section \<open>Work handed out, and synchronisation\<close>

lemma tidy_statement [tidy_intros]: "wf_stmt f \<Longrightarrow> stmt_same f \<Longrightarrow> stays tidy (on_db (Execute ps f))"
  by (intro tidy_same tx_intros same_intros)

lemma tidy_refused [tidy_intros]: "stays tidy (on_db (Execute_text sql ps (\<lambda>t. None)))"
proof (rule tidy_same)
  have e: "execute (\<lambda>t. None) s = (b, x) \<Longrightarrow> tx_step s x \<and> same_work s x" for s b x
    using staysD [OF tx_Execute [OF wf_delete_pending(2)], of "[]" s b x]
      staysD [OF same_Execute [OF stmt_same_intros(9)], of "[]" s b x]
    by (simp add: Execute_def check_params_def)
  show "stays tx_step (Execute_text sql ps (\<lambda>t. None))" "stays same_work (Execute_text sql ps (\<lambda>t. None))"
    using e by (auto simp: stays_def Execute_text_def and_then_def split: sum.splits)
qed

lemma last_sent_stmts [tidy_intros]: "wf_stmt (set_last_sent n t)" "stmt_same (set_last_sent n t)"
  by (auto simp: wf_stmt_def stmt_same_def set_last_sent_def change_def db_wf_defs map_update_by image_update_by)

lemma tidy_random [tidy_intros]: "stays tidy random"
  unfolding random_def by (auto intro!: tidy_intros tidy_modify split: list.splits simp del: run_simps)

lemma tidy_SendWork [tidy_intros]: "stays tidy (SendWork c)"
proof -
  have q: "stays tidy (on_db (GetCurvesDone n f b))" for n f b
    by (rule tidy_same; unfold GetCurvesDone_def; intro tx_intros same_intros)
  have o: "stays tidy (other_work n m i)" for n m i
    by (induction n arbitrary: i) (simp_all only: other_work.simps, unfold curves_left_def Let_def, (intro tidy_intros q | assumption)+)
  show ?thesis
    unfolding SendWork_def choose_work_def GetECMIndexAndCurves_def SendWorkUnit_def offer_def
    by (intro tidy_intros o)
qed

lemma tidy_GetWork [tidy_intros]: "stays tidy (GetWork n order m)"
proof -
  have t: "stays tidy (try_candidate k st b a c)" for k st b a c
    unfolding try_candidate_def by (intro tidy_intros tidy_modify) (simp add: add_sent_def)
  have r: "stays tidy (read_candidates k st b a rows j)" for k st b a rows j
    by (induction rows arbitrary: j) (simp_all only: read_candidates.simps, (intro tidy_intros t | assumption)+)
  show ?thesis
    unfolding GetWork_def SendUsingStrategy_def strategy_pass_def by (intro tidy_intros r)
qed

lemma tidy_with_sender [tidy_intros]: "stays tidy m \<Longrightarrow> stays tidy (with_sender m)"
  by (fastforce simp: stays_def tidy_def with_sender_def part_eq_Inr sender_of_def Let_def)

lemma tidy_with_master [tidy_intros]: "stays tidy (with_master (SyncWithSlave pp order m))"
proof (rule staysI)
  fix s :: helper_thread and u s'
  assume "with_master (SyncWithSlave pp order m) s = Inr (u, s')"
  then obtain p x where p: "IAmAMaster (sess s) (sock s) (g_server (ht_globals s)) (g_masterPassword (ht_globals s)) = Inr p"
    and x: "SyncWithSlave pp order m p = Inr (u, x)" and s': "sess s' = sess x"
    by (auto simp: with_master_def and_then_eq_Inr)
  have "sess p = sess s" using p by (auto simp: IAmAMaster_def and_then_eq_Inr strcpy_Inr)
  with staysD [OF SyncWithSlave_clean x] s' show "tidy s s'" by (simp add: tidy_def clean_step_def)
qed

section \<open>A request\<close>

lemma tidy_files [tidy_intros]: "stays tidy (SendFile f)"
proof -
  have "stays tidy (send_lines ls)" for ls :: "string list"
    by (induction ls) (simp_all only: send_lines.simps, (intro tidy_intros | assumption)+)
  then show ?thesis unfolding SendFile_def by (intro tidy_intros)
qed

lemma tidy_HandleRequest: "stays tidy (HandleRequest ou)"
  unfolding HandleRequest_def dispatch_def on_request_def serve_work_def greet_client_def
  by (intro tidy_intros tidy_reads [OF reads_SendHTML])

text \<open>Whatever a client, a slave, a browser or the administrator sends in a request, and whichever statements the
  database refuses on the way: when the request is over, the committed tables keep the schema's keys and references,
  the total of every master composite is the sum of its ECM curves times B1, and nothing is left uncommitted.\<close>

theorem requests_keep_the_books:
  assumes "HelperThread ou s = Inr (u, s')" and "clean (sess s)"
  shows "clean (sess s') \<and> cur (sess s') = saved (sess s')"
proof -
  from assms(1) obtain s1 where h: "HandleRequest ou s = Inr ((), s1)"
    and s': "sess s' = (sess s1)\<lparr>cur := saved (sess s1)\<rparr>"
    by (auto simp: HelperThread_def ReleaseResources_def bind_eq_Inr)
  have "clean (sess s1)" using staysD [OF tidy_HandleRequest h] assms(2) by (simp add: tidy_def)
  then show ?thesis by (simp add: s' clean_def)
qed

definition demo_outside :: outside where
  "demo_outside = \<lparr>ou_prp = no_prp, ou_rounds = 9, ou_candidates = (\<lambda>_ cs. cs), ou_sync = demo_orders,
     ou_pages = \<lparr>ord_info = id, ord_work = id, ord_masters = id, ord_factors = id, ord_users = id, ord_pending = id\<rparr>,
     ou_strftime = (\<lambda>t. ''day''), ou_connected = True,
     ou_old = \<lparr>of_name = [], of_value = [], of_method = [], of_is_number = False, of_b1 = 0, of_curves = 0,
       of_factor = [], of_factor_type = [], of_cofactor = [], of_cofactor_type = [], of_sigma = 0\<rparr>,
     ou_word = [], ou_int = 0\<rparr>"

lemma demo_thread_clean: "clean (sess (demo_thread inp))"
  by (simp add: clean_def demo_thread_def demo_defs db_wf_defs totals_ok_def ecm_total_def sum_work_def
      work_key_def sync_key_def FM_ECM_def)

lemmas run_request = demo_outside_def HelperThread_def HandleRequest_def ReleaseResources_def dispatch_def on_request_def
  ParseFirstMessage_def parse_from_def scan_into_def IDS_def ECMNET_VERSION_def
  demo_orders_def set_field_defs

lemma demo_request: "\<exists>s'. HelperThread demo_outside (demo_thread (map Line
      [''FROM 3.0.5 b@x pc i1 bob'', ''ADMIN_CURVES pw'', ''C ECM 3 100'', ''No more curves''])) = Inr ((), s')
    \<and> map mc_work (masters (saved (sess s'))) = [500]"
  by (simp add: run_base run_text run_objects run_admin run_request demo_defs flag_def wrap32_def cong: lazy)

theorem requests_keep_the_books_witness:
  "\<exists>s'. HelperThread demo_outside (demo_thread (map Line
      [''FROM 3.0.5 b@x pc i1 bob'', ''ADMIN_CURVES pw'', ''C ECM 3 100'', ''No more curves''])) = Inr ((), s')
     \<and> map mc_work (masters (saved (sess s'))) = [500] \<and> clean (sess s')"
proof -
  obtain s' where r: "HelperThread demo_outside (demo_thread (map Line
      [''FROM 3.0.5 b@x pc i1 bob'', ''ADMIN_CURVES pw'', ''C ECM 3 100'', ''No more curves''])) = Inr ((), s')"
    "map mc_work (masters (saved (sess s'))) = [500]"
    using demo_request by (elim exE conjE) (rule that)
  have "clean (sess s')" using requests_keep_the_books [OF r(1) demo_thread_clean] by (rule conjunct1)
  with r show ?thesis by (intro exI conjI)
qed

end
