(* ===== verification/HtmlProps.thy ===== *)
theory HtmlProps
  imports RequestProps SenderProps
begin

text \<open>The properties of the pages: they change nothing, and what they show.\<close>

section \<open>Pages only read\<close>

text \<open>C20: A request for a page, whichever page it is and whatever the database answers, leaves the tables as they are,
  the committed ones and those of the transaction, and starts no transaction that would have to end.\<close>

theorem pages_change_nothing:
  assumes "SendHTML ou m s = Inr (u, s')"
  shows "cur (sess s') = cur (sess s) \<and> saved (sess s') = saved (sess s) \<and> endtran (sess s') = endtran (sess s)"
  using staysD [OF reads_SendHTML assms] by (simp add: only_reads_def)

theorem pages_change_nothing_witness:
  "\<exists>s'. SendHTML demo_outside ''GET / HTTP/1.1'' (demo_thread []) = Inr ((), s')
     \<and> saved (sess s') = demo_tables"
proof -
  have s: "strstr ''GET / HTTP/1.1'' ''.htm'' = None" "strstr ''GET / HTTP/1.1'' ''.ico'' = None"
    by (simp_all add: prefixed_def)
  obtain s' where r: "SendHTML demo_outside ''GET / HTTP/1.1'' (demo_thread []) = Inr ((), s')"
    by (simp add: s SendHTML_def page_name_def skip_step_def html_Send_def front_page_def LF_def run_base run_text run_admin
        run_request demo_defs cong: lazy)
  have "saved (sess s') = saved (sess (demo_thread []))"
    using pages_change_nothing [OF r] by blast
  with r show ?thesis by (intro exI conjI) (simp_all add: demo_thread_def demo_defs)
qed

section \<open>Long numbers\<close>

lemma length_split_lines: "length (split_lines s) = length s + 4 * ((length s - 1) div 80)"
proof (induction s rule: split_lines.induct)
  case (1 s)
  show ?case
  proof (cases "SPLIT_LENGTH < length s")
    case True
    then have "(length s - 1) div 80 = Suc ((length s - 80 - 1) div 80)"
      by (subst le_div_geq) (auto simp: SPLIT_LENGTH_def)
    with True 1 show ?thesis by (subst split_lines.simps) (simp add: SPLIT_LENGTH_def)
  qed (subst split_lines.simps, simp add: SPLIT_LENGTH_def)
qed

text \<open>The buffer a value is broken into lines in has 1000 bytes more than the longest value the server accepts,
  but the line breaks take four bytes each: every value of 48572 digits or more overflows it, shorter ones fit.\<close>

theorem long_values_overflow_the_page:
  "SplitAcrossLines s = Inl Undefined \<longleftrightarrow> 48572 \<le> length s"
proof -
  have "51000 \<le> length s + 4 * ((length s - 1) div 80) \<longleftrightarrow> 48572 \<le> length s"
  proof
    assume "48572 \<le> length s"
    then have "48571 div 80 \<le> (length s - 1) div 80" by (intro div_le_mono) simp
    with \<open>48572 \<le> length s\<close> show "51000 \<le> length s + 4 * ((length s - 1) div 80)" by simp
  next
    assume *: "51000 \<le> length s + 4 * ((length s - 1) div 80)"
    show "48572 \<le> length s"
    proof (rule ccontr)
      assume "\<not> 48572 \<le> length s"
      then have "length s \<le> 48571" by simp
      moreover from this have "(length s - 1) div 80 \<le> 48570 div 80" by (intro div_le_mono) simp
      ultimately show False using * by simp
    qed
  qed
  then show ?thesis
    by (auto simp: SplitAcrossLines_def strcpy_def length_split_lines VALUE_LENGTH_def not_less)
qed

section \<open>The level shown\<close>

text \<open>C21: The level of B1 a page shows for a composite is the level the server hands out ECM work of for it, unless
  the work done is exactly that of the levels up to some level: then the page still shows that level.\<close>

theorem shown_level_is_worked_on:
  assumes "ecm_level minB1 maxB1 totalWorkDone bs i = Inr (Some (j, k))"
    and "\<forall>b \<in> set bs. bl_sum b \<noteq> totalWorkDone"
  shows "determine_B1 minB1 totalWorkDone bs = bl_b1 (bs ! (j - i)) \<and> i \<le> j"
  using assms
proof (induction minB1 maxB1 totalWorkDone bs i rule: ecm_level.induct)
  case (2 minB1 maxB1 totalWorkDone b bs i)
  show ?case
  proof (cases "bl_b1 b < minB1 \<or> bl_sum b < totalWorkDone")
    case True
    with 2 have "determine_B1 minB1 totalWorkDone bs = bl_b1 (bs ! (j - (i + 1))) \<and> i + 1 \<le> j"
      by (auto split: if_splits)
    moreover from this have "j - i = Suc (j - (i + 1))" by linarith
    ultimately show ?thesis using True by auto
  next
    case False
    with 2 have "totalWorkDone < bl_sum b" by auto
    with 2 False show ?thesis by (auto split: if_splits simp: and_then_eq_Inr)
  qed
qed simp

theorem shown_level_is_worked_on_witness:
  "ecm_level 0 1000 150 [\<lparr>bl_b1 = 50, bl_expected = 100, bl_sum = 100, bl_ecm = 2, bl_pp1 = 0, bl_pm1 = 0\<rparr>,
       \<lparr>bl_b1 = 200, bl_expected = 600, bl_sum = 700, bl_ecm = 3, bl_pp1 = 0, bl_pm1 = 0\<rparr>] 0 = Inr (Some (1, 2))
   \<and> determine_B1 0 150 [\<lparr>bl_b1 = 50, bl_expected = 100, bl_sum = 100, bl_ecm = 2, bl_pp1 = 0, bl_pm1 = 0\<rparr>,
       \<lparr>bl_b1 = 200, bl_expected = 600, bl_sum = 700, bl_ecm = 3, bl_pp1 = 0, bl_pm1 = 0\<rparr>] = 200"
proof -
  have f: "\<lfloor>11 / 4 :: rat\<rfloor> = 2" by (rule floor_unique) simp_all
  have r: "ecm_level 0 1000 150 [\<lparr>bl_b1 = 50, bl_expected = 100, bl_sum = 100, bl_ecm = 2, bl_pp1 = 0, bl_pm1 = 0\<rparr>,
       \<lparr>bl_b1 = 200, bl_expected = 600, bl_sum = 700, bl_ecm = 3, bl_pp1 = 0, bl_pm1 = 0\<rparr>] 0 = Inr (Some (1, 2))"
    using f by (simp add: to_int32_def trunc_def)
  show ?thesis using shown_level_is_worked_on [OF r] r by simp
qed

section \<open>Times\<close>

text \<open>The days, hours, minutes and seconds shown for a time that is not negative are those of the time, the
  fraction of a second dropped, with hours below 24 and minutes and seconds below 60.\<close>

theorem shown_time_is_exact:
  assumes "0 \<le> time" and "time_parts time = (d, h, m, s)"
  shows "86400 * d + 3600 * h + 60 * m + s = \<lfloor>time\<rfloor> \<and> 0 \<le> d \<and> 0 \<le> h \<and> h < 24 \<and> 0 \<le> m \<and> m < 60 \<and> 0 \<le> s \<and> s < 60"
proof -
  let ?n = "\<lfloor>time\<rfloor>"
  let ?r = "?n mod 86400" and ?q = "?n mod 86400 mod 3600"
  have n: "0 \<le> ?n" "trunc time = ?n" using assms(1) by (simp_all add: trunc_def)
  have q: "0 \<le> ?r" "0 \<le> ?q" by simp_all
  have c: "cdiv ?n (24 * 60 * 60) = ?n div 86400" "cdiv ?r (60 * 60) = ?r div 3600" "cdiv ?q 60 = ?q div 60"
    using n(1) q by (simp_all add: cdiv_def not_less del: pos_mod_sign)
  have rest: "?n - ?n div 86400 * 24 * 60 * 60 = ?r" "?r - ?r div 3600 * 60 * 60 = ?q" "?q - ?q div 60 * 60 = ?q mod 60"
    by (simp_all add: minus_div_mult_eq_mod [symmetric])
  have "time_parts time = (?n div 86400, ?r div 3600, ?q div 60, ?q mod 60)"
    by (simp only: time_parts_def Let_def n(2) rest c)
  then have vals: "d = ?n div 86400" "h = ?r div 3600" "m = ?q div 60" "s = ?q mod 60"
    using assms(2) by simp_all
  have eqs: "86400 * (?n div 86400) + ?r = ?n" "3600 * (?r div 3600) + ?q = ?r" "60 * (?q div 60) + ?q mod 60 = ?q"
    by (rule mult_div_mod_eq)+
  have "x div 3600 < 24" if "x < 86400" for x :: int using that by presburger
  then have h: "h < 24" unfolding vals by simp
  have "x div 60 < 60" if "x < 3600" for x :: int using that by presburger
  then have m: "m < 60" unfolding vals by simp
  have "86400 * d + 3600 * h + 60 * m + s = ?n" unfolding vals using eqs by linarith
  moreover have "0 \<le> d" "0 \<le> h" "0 \<le> m" "0 \<le> s" "s < 60" unfolding vals using n(1) q by (simp_all add: pos_imp_zdiv_nonneg_iff)
  ultimately show ?thesis using h m by blast
qed

theorem shown_time_is_exact_witness: "time_parts (90061 + 1 / 2) = (1, 1, 1, 1) \<and> 86400 * 1 + 3600 * 1 + 60 * 1 + 1 = \<lfloor>90061 + 1 / 2 :: rat\<rfloor>"
proof -
  have f: "\<lfloor>180123 / 2 :: rat\<rfloor> = 90061" by (rule floor_unique) simp_all
  have t: "time_parts (90061 + 1 / 2) = (1, 1, 1, 1)" by (simp add: f time_parts_def Let_def trunc_def cdiv_def)
  show ?thesis using shown_time_is_exact [OF _ t] t by simp
qed

end
