(* ===== verification/ServerMain.thy ===== *)
theory ServerMain
  imports RequestThread ServerJobs IAmASlave
begin

text \<open>
  The server as a whole (\<open>main\<close> of \<open>src/source/ecmserver.cpp\<close>, \<open>ServerThread.cpp\<close>,
  \<open>HelperThread::StartThread\<close>): it starts from its configuration files, one thread accepts connections
  and starts a thread for each, and the main thread does its jobs once a second until it is told to
  quit and no client is left. What happens outside - connections, the clock, the answers of the
  database, signals - are the events of a step relation; a request is one step, taken when its thread
  ends: its transactions follow those of the threads that ended before it.
\<close>

section \<open>Starting\<close>

definition MAX_CLIENTS :: int where "MAX_CLIENTS = 20"

text \<open>The command line: \<open>(showUsage, upgrading)\<close>.\<close>

definition server_arguments :: "string list \<Rightarrow> bool \<times> bool" where
  "server_arguments args =
     (list_ex (\<lambda>a. \<not> prefixed ''-u'' a \<and> \<not> prefixed ''-d'' a) args, list_ex (prefixed ''-u'') args)"

text \<open>
  The state of the process: \<open>sv_tables\<close> are the committed tables, \<open>sv_threads\<close> what the clients of the
  running threads send, \<open>sv_clients\<close> and \<open>sv_quitting\<close> the shared counters. \<open>sv_slave\<close> is set when the
  server reports to a master.
\<close>

record server =
  sv_tables :: tables
  sv_globals :: globals
  sv_files :: "string \<Rightarrow> string option"
  sv_total :: double
  sv_threads :: "input list list"
  sv_clients :: int
  sv_quitting :: int
  sv_counter :: int
  sv_slave :: bool
  sv_mail :: "mail option"

definition start_server ::
    "int \<Rightarrow> string list \<Rightarrow> bool \<Rightarrow> input list option list \<Rightarrow> (string \<Rightarrow> string option) \<Rightarrow> tables \<Rightarrow> halt + server option" where
  "start_server junk args dbConnected dials files t =
     and_then (ProcessINIFile (files ''ecmserver.ini'') (main_globals junk)) (\<lambda>g1.
     and_then (ProcessB1File (files ''ecmserver.b1'') g1) (\<lambda>g2.
     if fst (server_arguments args) then Inl Exit
     else if \<not> dbConnected then Inl Exit
     else
     and_then (ValidateConfiguration g2) (\<lambda>v. case v of
         None \<Rightarrow> Inr None
       | Some (g, upstream, smtp) \<Rightarrow>
           and_then (case smtp of None \<Rightarrow> Inr None
                     | Some _ \<Rightarrow> and_then (Mail (g_email g) (g_emailPassword g) (g_dest g) dials) (\<lambda>m. Inr (Some m))) (\<lambda>mailer.
           if snd (server_arguments args) then Inl Exit
           else Inr (Some \<lparr>sv_tables = t, sv_globals = g, sv_files = files, sv_total = 0, sv_threads = [], sv_clients = 0,
                      sv_quitting = 0, sv_counter = 0, sv_slave = (upstream \<noteq> None), sv_mail = mailer\<rparr>)))))"

section \<open>Connections\<close>

text \<open>A new connection of the database on the committed tables, with the answers it will give.\<close>

definition db_session :: "tables \<Rightarrow> sqlret list \<Rightarrow> sqlret list \<Rightarrow> int \<Rightarrow> session" where
  "db_session t answers endings time = \<lparr>cur = t, saved = t, odbc = answers, endtran = endings, now = time\<rparr>"

text \<open>
  What the thread of \<open>ServerThread\<close> does with a new connection: nothing is accepted once the server is
  quitting; a connection too many is told so, any other gets a thread.
\<close>

datatype accepted = Leave | Refused string | Started

definition accept_client :: "input list \<Rightarrow> server \<Rightarrow> accepted \<times> server" where
  "accept_client inp sv =
     (if sv_quitting sv > 0 then (Leave, sv)
      else if sv_clients sv \<ge> MAX_CLIENTS then (Refused ''ERROR: Server cannot handle more connections'', sv)
      else (Started, sv\<lparr>sv_threads := sv_threads sv @ [inp], sv_clients := sv_clients sv + 1\<rparr>))"

definition new_thread :: "sqlret list \<Rightarrow> sqlret list \<Rightarrow> int \<Rightarrow> nat list \<Rightarrow> input list \<Rightarrow> server \<Rightarrow> helper_thread" where
  "new_thread answers endings time rands inp sv =
     \<lparr>sess = db_session (sv_tables sv) answers endings time,
      sock = \<lparr>so_open = True, so_newline = True, incoming = inp, read_buf = [], outgoing = [], hs_email = [],
              hs_machine = [], hs_instance = [], hs_user = [], hs_version = []\<rparr>,
      ht_globals = sv_globals sv, ht_total = sv_total sv, ht_rand = rands, ht_files = sv_files sv\<rparr>"

text \<open>A thread that runs to its end: what it leaves in the shared state.\<close>

definition end_thread :: "nat \<Rightarrow> helper_thread \<Rightarrow> server \<Rightarrow> server" where
  "end_thread i h sv =
     sv\<lparr>sv_tables := saved (sess h), sv_total := ht_total h,
        sv_globals := (sv_globals sv)\<lparr>g_strategies := g_strategies (ht_globals h)\<rparr>,
        sv_threads := take i (sv_threads sv) @ drop (Suc i) (sv_threads sv), sv_clients := sv_clients sv - 1\<rparr>"

definition run_thread ::
    "outside \<Rightarrow> sqlret list \<Rightarrow> sqlret list \<Rightarrow> int \<Rightarrow> nat list \<Rightarrow> nat \<Rightarrow> server \<Rightarrow> halt + server" where
  "run_thread ou answers endings time rands i sv =
     and_then (HelperThread ou (new_thread answers endings time rands (sv_threads sv ! i) sv))
       (\<lambda>(_, h). Inr (end_thread i h sv))"

section \<open>The main loop\<close>

text \<open>
  One second of the main loop. The connection to the database is made for each job and dropped after
  it, with whatever was not committed. \<open>nextSync\<close> stays zero, so that a slave synchronises every
  second (unless its clock is before \<open>g_UpstreamFrequency\<close> hours after 1970).
\<close>

record tick =
  tk_answers :: "sqlret list"
  tk_ends :: "sqlret list"
  tk_connected :: bool
  tk_time :: int
  tk_dialled :: "input list option"
  tk_prp :: "int \<Rightarrow> int"
  tk_mail :: mail_order
  tk_slave :: slave_order
  tk_clientID :: bool
  tk_strftime :: "int \<Rightarrow> string"

definition tick_session :: "tick \<Rightarrow> server \<Rightarrow> session" where
  "tick_session tk sv = db_session (sv_tables sv) (tk_answers tk) (tk_ends tk) (tk_time tk)"

definition reread_files :: "tick \<Rightarrow> server \<Rightarrow> halt + server" where
  "reread_files tk sv =
     and_then (ReprocessINIFile (sv_files sv ''ecmserver.ini'') (sv_globals sv)) (\<lambda>g.
     let sv1 = sv\<lparr>sv_globals := g\<rparr>
     in if g_recurse g \<and> \<not> g_slave g then
          and_then (RecurseFactors (tk_prp tk) (tick_session tk sv1)) (\<lambda>(_, x). Inr (sv1\<lparr>sv_tables := saved x\<rparr>))
        else Inr sv1)"

definition mail_factors :: "tick \<Rightarrow> server \<Rightarrow> halt + server" where
  "mail_factors tk sv =
     and_then (case sv_mail sv of
         None \<Rightarrow> Inr (tick_session tk sv, None)
       | Some m \<Rightarrow>
           if g_slave (sv_globals sv) then Inr (tick_session tk sv, Some m)
           else and_then (SendEmail (tk_mail tk) (tk_strftime tk) \<lparr>ma_db = tick_session tk sv, ma_mail = m\<rparr>)
                  (\<lambda>(_, x). Inr (ma_db x, Some (ma_mail x)))) (\<lambda>(x, m).
     and_then (ExpirePendingWork (sv_globals sv) x) (\<lambda>(_, y).
     Inr (sv\<lparr>sv_tables := saved y, sv_mail := m\<rparr>)))"

definition report_upstream :: "tick \<Rightarrow> server \<Rightarrow> halt + server" where
  "report_upstream tk sv =
     (let g = sv_globals sv in
      if sv_slave sv \<and> wrap32 (g_upstream g * 3600) < tk_time tk then
        and_then (SyncWithMaster (tk_clientID tk) (tk_prp tk) (tk_slave tk) (tk_dialled tk) (tk_connected tk)
                    (IAmASlave (tick_session tk sv) (g_server g) (g_slavePassword g)))
          (\<lambda>(_, p). Inr (sv\<lparr>sv_tables := saved (sess p)\<rparr>))
      else Inr sv)"

definition run_tick :: "tick \<Rightarrow> server \<Rightarrow> halt + server" where
  "run_tick tk sv =
     (let counter = sv_counter sv + 1; sv1 = sv\<lparr>sv_counter := counter\<rparr> in
      and_then (if counter mod 256 = 0 then reread_files tk sv1 else Inr sv1) (\<lambda>sv2.
      and_then (if counter mod 1024 = 0 then mail_factors tk sv2 else Inr sv2) (\<lambda>sv3.
      report_upstream tk sv3)))"

definition may_stop :: "server \<Rightarrow> bool" where
  "may_stop sv \<longleftrightarrow> sv_quitting sv \<noteq> 0 \<and> sv_clients sv = 0"

section \<open>Signals\<close>

text \<open>
  On Windows the control handler sets the flag that ends the main loop. On other systems
  \<open>SetQuitting\<close> increments it, gives the signal its default action back and raises it again, which
  ends the process at once: the loop never sees the flag.
\<close>

definition control_handler :: "server \<Rightarrow> server" where
  "control_handler sv = sv\<lparr>sv_quitting := 1\<rparr>"

definition SetQuitting_server :: "server \<Rightarrow> halt + server" where
  "SetQuitting_server sv = (if sv_quitting sv = 5 then Inr sv else Inl Exit)"

section \<open>The process\<close>

inductive server_step :: "server \<Rightarrow> server \<Rightarrow> bool" where
  connection: "accept_client inp sv = (a, sv') \<Longrightarrow> server_step sv sv'"
| request: "i < length (sv_threads sv) \<Longrightarrow> run_thread ou answers [] time rands i sv = Inr sv' \<Longrightarrow> server_step sv sv'"
| second: "\<not> may_stop sv \<Longrightarrow> tk_ends tk = [] \<Longrightarrow> run_tick tk sv = Inr sv' \<Longrightarrow> server_step sv sv'"
| control: "server_step sv (control_handler sv)"
| interrupt: "SetQuitting_server sv = Inr sv' \<Longrightarrow> server_step sv sv'"

inductive server_reaches :: "server \<Rightarrow> server \<Rightarrow> bool" where
  start: "server_reaches sv sv"
| more: "server_reaches sv sv1 \<Longrightarrow> server_step sv1 sv2 \<Longrightarrow> server_reaches sv sv2"

inductive_simps server_step_iff: "server_step sv sv'"
inductive_cases server_stepE: "server_step sv sv'"

end
