(* ===== verification/MailProps.thy ===== *)
theory MailProps
  imports ServerJobs ReceiverProps
begin

text \<open>The properties of the mail about factors: what is encoded, to whom it goes, and when none can be sent.\<close>

section \<open>Base 64\<close>

text \<open>A decoder after RFC 4648, to compare with: four digits give three bytes, the padding one or two fewer.\<close>

fun find_digit :: "char \<Rightarrow> string \<Rightarrow> nat" where
  "find_digit c [] = 0"
| "find_digit c (d # ds) = (if c = d then 0 else Suc (find_digit c ds))"

definition digit64 :: "char \<Rightarrow> nat" where
  "digit64 c = find_digit c base64"

fun decode64 :: "string \<Rightarrow> nat list" where
  "decode64 (a # b # c # d # cs) =
     (if d = CHR ''='' then
        (digit64 a * 4 + digit64 b div 16) # (if c = CHR ''='' then [] else [digit64 b mod 16 * 16 + digit64 c div 4])
      else
        (digit64 a * 4 + digit64 b div 16) # (digit64 b mod 16 * 16 + digit64 c div 4)
          # (digit64 c mod 4 * 64 + digit64 d) # decode64 cs)"
| "decode64 cs = []"

lemma find_digit_nth: "distinct cs \<Longrightarrow> n < length cs \<Longrightarrow> find_digit (cs ! n) cs = n"
proof (induction cs arbitrary: n)
  case (Cons c cs)
  then show ?case by (cases n) auto
qed simp

lemma base64_digits: "length base64 = 64" "distinct base64" "CHR ''='' \<notin> set base64"
  by (simp_all add: base64_def)

lemma digit64_nth: "n < 64 \<Longrightarrow> digit64 (base64 ! n) = n"
  by (simp add: digit64_def find_digit_nth base64_digits)

lemma no_padding: "n < 64 \<Longrightarrow> base64 ! n \<noteq> CHR ''=''"
  using base64_digits by (metis nth_mem)

lemma and_low: "(a :: nat) AND 0x03 = a mod 4" "a AND 0x0F = a mod 16" "a AND 0x3F = a mod 64"
  using take_bit_eq_mask [of 2 a] take_bit_eq_mask [of 4 a] take_bit_eq_mask [of 6 a]
  by (simp_all add: take_bit_eq_mod mask_eq_exp_minus_1)

lemma byte_parts: "(a :: nat) < 256 \<Longrightarrow> a div 4 < 64" "a < 256 \<Longrightarrow> a div 16 < 16" "a < 256 \<Longrightarrow> a div 64 < 4"
  by (rule less_mult_imp_div_less; simp)+

lemma array4_digits:
  assumes "a < 256" "b < 256" "c < 256"
  shows "array4 a b c = [a div 4, a mod 4 * 16 + b div 16, b mod 16 * 4 + c div 64, c mod 64]"
proof -
  have d: "drop_bit 2 (0xFC :: nat) = 0x3F" "drop_bit 4 (0xF0 :: nat) = 0x0F" "drop_bit 6 (0xC0 :: nat) = 0x03"
    by (simp_all add: drop_bit_eq_div)
  have "drop_bit 2 (a AND 0xFC) = a div 4" "drop_bit 4 (b AND 0xF0) = b div 16" "drop_bit 6 (c AND 0xC0) = c div 64"
    unfolding drop_bit_and d and_low using byte_parts [of a] byte_parts [of b] byte_parts [of c] assms
    by (simp_all add: drop_bit_eq_div)
  then show ?thesis by (simp only: array4_def and_low) (simp add: push_bit_eq_mult)
qed

lemma digits_small:
  assumes "(a :: nat) < 256" "b < 256"
  shows "a mod 4 * 16 + b div 16 < 64" "b mod 16 * 4 + a div 64 < 64" "a div 4 < 64" "a mod 64 < 64"
proof -
  have "a mod 4 < 4" "b mod 16 < 16" by simp_all
  then show "a mod 4 * 16 + b div 16 < 64" "b mod 16 * 4 + a div 64 < 64" "a div 4 < 64" "a mod 64 < 64"
    using byte_parts [of a] byte_parts [of b] assms by linarith+
qed

lemma joined:
  assumes "(b :: nat) < 256" "(c :: nat) < 256"
  shows "a div 4 * 4 + (a mod 4 * 16 + b div 16) div 16 = (a :: nat)"
    "(a mod 4 * 16 + b div 16) mod 16 * 16 + (b mod 16 * 4 + c div 64) div 4 = b"
    "(b mod 16 * 4 + c div 64) mod 4 * 64 + c mod 64 = c"
proof -
  have p: "b div 16 < 16" "c div 64 < 4" using byte_parts assms by blast+
  have "(x * 16 + b div 16) div 16 = x" "(x * 16 + b div 16) mod 16 = b div 16"
    "(x * 4 + c div 64) div 4 = x" "(x * 4 + c div 64) mod 4 = c div 64" for x :: nat
    using p by (simp_all add: div_add1_eq)
  then show "a div 4 * 4 + (a mod 4 * 16 + b div 16) div 16 = a"
    "(a mod 4 * 16 + b div 16) mod 16 * 16 + (b mod 16 * 4 + c div 64) div 4 = b"
    "(b mod 16 * 4 + c div 64) mod 4 * 64 + c mod 64 = c"
    by (simp_all only: div_mult_mod_eq)
qed

lemma decode_bytes: "\<forall>b \<in> set bs. b < 256 \<Longrightarrow> decode64 (encode_bytes bs) = bs"
proof (induction bs rule: encode_bytes.induct)
  case (2 a)
  then show ?case
    using digits_small [of a 0] joined(1) [of 0 0 a] by (simp add: array4_digits digit64_nth no_padding)
next
  case (3 a b)
  then show ?case
    using digits_small [of a b] digits_small [of 0 b] joined(1,2) [of b 0 a]
    by (simp add: array4_digits digit64_nth no_padding)
next
  case (4 a b c bs)
  then show ?case
    using digits_small [of a b] digits_small [of c b] joined(1,2) [of b c a] joined(3) [of b c]
    by (simp add: array4_digits digit64_nth no_padding)
qed simp

lemma length_encode_bytes: "length (encode_bytes bs) = 4 * ((length bs + 2) div 3)"
proof (induction bs rule: encode_bytes.induct)
  case (4 a b c bs)
  have "length (array4 a b c) = 4" by (simp add: array4_def)
  moreover have "(length (a # b # c # bs) + 2) div 3 = Suc ((length bs + 2) div 3)" by simp
  ultimately show ?case using 4 by simp
qed (simp_all add: array4_def)

text \<open>C10: A base 64 decoder gets back every byte of what \<open>encodeBase64\<close> encodes, bytes above 127 included, and the
  encoded text has four characters for each three bytes begun.\<close>

theorem encoded_text_is_decoded:
  "decode64 (encodeBase64 s) = map code s \<and> length (encodeBase64 s) = 4 * ((length s + 2) div 3)"
proof -
  have "\<forall>b \<in> set (map code s). b < 256" by (auto simp: code_def)
  then show ?thesis by (simp add: encodeBase64_def decode_bytes length_encode_bytes)
qed

section \<open>Commands\<close>

text \<open>What stays the same while commands are sent and answered, and what is sent.\<close>

definition mail_kept :: "mail \<Rightarrow> mail \<Rightarrow> bool" where
  "mail_kept s s' \<longleftrightarrow> so_open s' = so_open s \<and> so_newline s' = so_newline s \<and> ml_from s' = ml_from s \<and> ml_dests s' = ml_dests s
     \<and> (\<exists>texts. outgoing s' = outgoing s @ texts)"

interpretation kept: effect mail_kept
  by unfold_locales (auto simp: mail_kept_def)

named_theorems kept_intros \<open>operations that only talk to the SMTP server\<close>
lemmas [kept_intros] = kept.stays_intros

definition sends :: "string list \<Rightarrow> mail \<Rightarrow> mail \<Rightarrow> bool" where
  "sends texts s s' \<longleftrightarrow> mail_kept s s' \<and> (so_open s \<longrightarrow> outgoing s' = outgoing s @ map (\<lambda>t. t @ line_end s) texts)"

lemma sends_append: "sends xs s s' \<Longrightarrow> sends ys s' s'' \<Longrightarrow> sends (xs @ ys) s s''"
  unfolding sends_def by (auto simp: line_end_def mail_kept_def)

lemma GetLine_sends: "GetLine s = Inr (rc, s') \<Longrightarrow> sends [] s s'"
proof -
  have step: "stays (\<lambda>s s'. so_open s' = so_open s \<and> so_newline s' = so_newline s \<and> ml_from s' = ml_from s
      \<and> ml_dests s' = ml_dests s \<and> outgoing s' = outgoing s) (line_step u)" (is "stays ?R _") for u
  proof -
    have r: "stays ?R Receive"
      by (rule staysI) (auto simp: Receive_def split: if_splits list.splits input.splits)
    have e: "effect ?R" by unfold_locales auto
    have n: "stays ?R (modify (note_abilities d))" for d by (simp add: stays_def note_abilities_def)
    show ?thesis unfolding line_step_def by (intro effect.stays_intros [OF e] r n)
  qed
  have e: "effect (\<lambda>s s'. so_open s' = so_open s \<and> so_newline s' = so_newline s \<and> ml_from s' = ml_from s
      \<and> ml_dests s' = ml_dests s \<and> outgoing s' = outgoing s)" by unfold_locales auto
  assume "GetLine s = Inr (rc, s')"
  then show ?thesis
    using staysD [OF effect.stays_iterate [OF e step]]
    by (auto simp: GetLine_def bind_eq_Inr sends_def mail_kept_def simp del: iterate.simps)
qed

lemma mail_Send_sends: "mail_Send f vs s = Inr (u, s') \<Longrightarrow> sends [sprintf f vs] s s'"
  by (auto simp: mail_Send_def Let_def sends_def mail_kept_def split: if_splits)

lemma SendCommand_sends: "SendCommand f vs rc s = Inr (ok, s') \<Longrightarrow> sends [sprintf f vs] s s'"
  using sends_append [OF mail_Send_sends GetLine_sends] by (fastforce simp: SendCommand_def bind_eq_Inr)

lemma SendCommands_True: "SendCommands cs s = Inr (True, s') \<Longrightarrow> sends (map (\<lambda>(f, vs, rc). sprintf f vs) cs) s s'"
proof (induction cs arbitrary: s)
  case Nil
  then show ?case by (simp add: sends_def mail_kept_def)
next
  case (Cons c cs)
  obtain f vs rc where c: "c = (f, vs, rc)" by (cases c) auto
  from Cons.prems obtain s1 where "SendCommand f vs rc s = Inr (True, s1)" "SendCommands cs s1 = Inr (True, s')"
    by (auto simp: c bind_eq_Inr split: if_splits)
  then show ?case using sends_append [OF SendCommand_sends Cons.IH] by (fastforce simp: c)
qed

lemma kept_SendCommands [kept_intros]: "stays mail_kept (SendCommands cs)"
proof (induction cs)
  case (Cons c cs)
  have "stays mail_kept (SendCommand f vs rc)" for f vs rc
    by (rule staysI) (auto dest!: SendCommand_sends simp: sends_def)
  with Cons show ?case by (auto simp del: run_simps intro!: kept_intros split: prod.splits)
qed (simp only: SendCommands.simps kept_intros)

text \<open>C11: When the server has accepted the start of a message, it was given the sender, then every recipient once -
  the finder, the server's own address and the configured ones - and then the start of the text.\<close>

theorem mail_goes_to_every_recipient:
  assumes "PrepareMessage to s = Inr (True, s')" and "so_open s"
    and "distinct (ml_dests s)" and "ml_from s \<notin> set (ml_dests s)"
  shows "\<exists>greeting rs. outgoing s' = outgoing s @ greeting @ [''MAIL From: '' @ ml_from s @ line_end s]
       @ map (\<lambda>r. ''RCPT To: '' @ r @ line_end s) rs @ [''DATA'' @ line_end s]
     \<and> distinct rs \<and> set rs = {to, ml_from s} \<union> set (ml_dests s)"
proof -
  from assms(1) obtain s1 where g: "mail_kept s s1" and e: "SendCommands (envelope to s) s1 = Inr (True, s')"
  proof -
    have greet: "stays mail_kept (if \<not> ml_auth s then SendCommands [(''%s %s'', [VS ''HELO'', VS ''home.com''], 250)]
           else
           bind (lift (strcpy (encodeBase64 (ml_from s)) 100)) (\<lambda>encodedEmailID.
           bind (lift (strcpy (encodeBase64 (ml_password s)) 100)) (\<lambda>encodedPassword.
           bind (SendCommands [(''%s %s'', [VS ''EHLO'', VS ''localhost''], 250)]) (\<lambda>ok.
           if ok then authenticate encodedEmailID encodedPassword else ret False))))"
      unfolding authenticate_def by (intro kept_intros)
    show thesis
      using assms(1) staysD [OF greet] that unfolding PrepareMessage_def
      by (elim bind_InrE) (auto split: if_splits simp del: SendCommands.simps)
  qed
  obtain texts where t: "outgoing s1 = outgoing s @ texts" using g by (auto simp: mail_kept_def)
  have l: "line_end s1 = line_end s" "so_open s1" using g assms(2) by (simp_all add: mail_kept_def line_end_def)
  have "map (\<lambda>(f, vs, rc). sprintf f vs) (envelope to s)
      = (''MAIL From: '' @ ml_from s) # map (\<lambda>r. ''RCPT To: '' @ r) (recipients to s) @ [''DATA'']"
    by (simp add: envelope_def sprintf_def prefixed_def)
  then have "outgoing s' = outgoing s @ texts @ [''MAIL From: '' @ ml_from s @ line_end s]
       @ map (\<lambda>r. ''RCPT To: '' @ r @ line_end s) (recipients to s) @ [''DATA'' @ line_end s]"
    using SendCommands_True [OF e] l by (simp add: sends_def t)
  moreover have "distinct (recipients to s)" "set (recipients to s) = {to, ml_from s} \<union> set (ml_dests s)"
    using assms(3,4) by (auto simp: recipients_def)
  ultimately show ?thesis by blast
qed

definition demo_mail :: "input list \<Rightarrow> mail" where
  "demo_mail inp = \<lparr>so_open = True, so_newline = True, incoming = inp, read_buf = [], outgoing = [], ml_from = ''s@x'',
     ml_password = ''pw'', ml_dests = [''d@x''], ml_enabled = True, ml_auth = False, ml_verify = False, ml_dials = []\<rparr>"

lemmas run_mail = demo_mail_def PrepareMessage_def SendCommand_def GetLine_def line_step_def note_abilities_def
  mail_Send_def line_end_def CRLF_def envelope_def recipients_def atol_def

theorem mail_goes_to_every_recipient_witness:
  "\<exists>s' greeting rs. PrepareMessage ''b@x'' (demo_mail (map Line [''250 hi'', ''250 ok'', ''250 ok'', ''250 ok'', ''250 ok'', ''354 go'']))
       = Inr (True, s') \<and> outgoing s' = greeting @ [''MAIL From: '' @ ''s@x'' @ CRLF]
         @ map (\<lambda>r. ''RCPT To: '' @ r @ CRLF) rs @ [''DATA'' @ CRLF]
       \<and> distinct rs \<and> set rs = {''b@x'', ''s@x'', ''d@x''}"
proof -
  let ?s = "demo_mail (map Line [''250 hi'', ''250 ok'', ''250 ok'', ''250 ok'', ''250 ok'', ''354 go''])"
  obtain s' where r: "PrepareMessage ''b@x'' ?s = Inr (True, s')"
    by (simp add: run_mail run_base run_text Let_def cong: lazy)
  have "so_open ?s" "distinct (ml_dests ?s)" "ml_from ?s \<notin> set (ml_dests ?s)" by (simp_all add: demo_mail_def)
  from mail_goes_to_every_recipient [OF r this] obtain greeting rs where
    "outgoing s' = outgoing ?s @ greeting @ [''MAIL From: '' @ ml_from ?s @ line_end ?s]
       @ map (\<lambda>r. ''RCPT To: '' @ r @ line_end ?s) rs @ [''DATA'' @ line_end ?s]"
    "distinct rs" "set rs = {''b@x'', ml_from ?s} \<union> set (ml_dests ?s)"
    by blast
  with r show ?thesis by (intro exI [of _ s'] exI [of _ greeting] exI [of _ rs] conjI) (simp_all add: demo_mail_def line_end_def insert_commute)
qed

section \<open>Mail about a factor and its co-factor\<close>

text \<open>A mail about a factor event with a factor and a co-factor is never sent: the line on the second one prints
  two integers as doubles, which has no defined meaning. Only when the message could not be started does the
  function return, and then it reports a failure.\<close>

theorem mail_with_a_cofactor_is_undefined:
  assumes "mailed_factors by_seq name ev (cur (ma_db s)) = x # y # rows" and "odbc (ma_db s) = []"
    and "NotifyUserAboutFactor by_seq strft name v ev finder dup s = Inr (b, s')"
  shows "\<not> b"
proof -
  have f: "bind (in_db (fetch (r # rs))) g t = g (Some (r, rs)) t" if "odbc (ma_db t) = []"
    for r :: mailed_factor and rs t and g :: "(mailed_factor \<times> mailed_factor list) option \<Rightarrow> (mailing, bool) run"
    using that by (cases t; cases "ma_db t") (auto simp: bind_def in_db_def part_def fetch_def)
  have m: "ma_db t' = ma_db t" if "in_mail m t = Inr (z, t')" for m :: "(mail, 'z) run" and t t' z
    using that by (auto simp: in_mail_def part_eq_Inr)
  have co: "in_mail (co_factor y) t \<noteq> Inr q" for t q
    unfolding co_factor_def in_mail_def part_def
    by (auto simp: and_then_eq_Inr bind_eq_Inr)
  have two: "\<not> b" if r: "notify_rows name v finder dup d (x # y # rows) True t = Inr (b, t')" and o: "odbc (ma_db t) = []" for d t t' b
  proof -
    from r have "bind (in_mail (NewMessage finder (subject_of name x) d)) (\<lambda>success. if \<not> success then ret False
           else bind (in_mail (first_factor name v dup x)) (\<lambda>_. notify_rows name v finder dup d (y # rows) False)) t = Inr (b, t')"
      by (simp add: f [OF o] cong del: if_weak_cong)
    then obtain success t1 where n: "in_mail (NewMessage finder (subject_of name x) d) t = Inr (success, t1)"
      and rest: "(if \<not> success then ret False
           else bind (in_mail (first_factor name v dup x)) (\<lambda>_. notify_rows name v finder dup d (y # rows) False)) t1 = Inr (b, t')"
      by (elim bind_InrE) blast
    show "\<not> b"
    proof (cases success)
      case True
      with rest obtain u t2 where u: "in_mail (first_factor name v dup x) t1 = Inr (u, t2)"
        and y: "notify_rows name v finder dup d (y # rows) False t2 = Inr (b, t')"
        by (simp only: if_True if_False not_True_eq_False) (erule bind_InrE)
      have "odbc (ma_db t2) = []" using m [OF n] m [OF u] o by simp
      with y show ?thesis
        by (auto simp: f co elim!: bind_InrE split: if_splits)
    qed (use rest in simp)
  qed
  from assms(3) obtain c s1 success s2 where c: "in_db (Open [PStr name NAME_LENGTH, PInt ev] (mailed_factors by_seq name ev)) s = Inr (c, s1)"
    and n: "(case c of None \<Rightarrow> ret True
           | Some rows \<Rightarrow> notify_rows name v finder dup (strft (now (ma_db s1))) rows True) s1 = Inr (success, s2)"
    and b: "b = success"
    unfolding NotifyUserAboutFactor_def by (auto elim!: bind_InrE simp: asks_def)
  from c assms(1,2) have "c = Some (x # y # rows)" "odbc (ma_db s1) = []"
    by (auto simp: in_db_def part_eq_Inr Open_def and_then_eq_Inr)
  with n two b show ?thesis by simp
qed

definition demo_event_tables :: tables where
  "demo_event_tables = demo_tables\<lparr>
     events := [\<lparr>ev_comp = ''C'', ev_no = 1, ev_date = 0, ev_email = ''b@x'', ev_user = ''bob'', ev_machine = ''pc'',
       ev_instance = ''i1'', ev_server = ''srv'', ev_to_master = 0, ev_emailed = 0, ev_duplicate = 0, ev_method = ''ECM'',
       ev_step = 1, ev_b1 = 100, ev_b1time = 0, ev_b2 = 0, ev_b2time = 0, ev_sigma = 7, ev_x0 = 0\<rparr>],
     details := [\<lparr>dt_comp = ''C'', dt_event = 1, dt_seq = 1, dt_value = ''7'', dt_len = 1, dt_prp = 2, dt_recursed = 0\<rparr>,
       \<lparr>dt_comp = ''C'', dt_event = 1, dt_seq = 2, dt_value = ''13'', dt_len = 2, dt_prp = 2, dt_recursed = 0\<rparr>]\<rparr>"

definition demo_mailing :: mailing where
  "demo_mailing = \<lparr>ma_db = demo_session\<lparr>cur := demo_event_tables\<rparr>, ma_mail = (demo_mail [])\<lparr>ml_enabled := False\<rparr>\<rparr>"

theorem mail_with_a_cofactor_is_undefined_witness:
  "\<exists>b s'. NotifyUserAboutFactor id (\<lambda>t. []) ''C'' ''91'' 1 ''b@x'' False demo_mailing = Inr (b, s') \<and> \<not> b"
proof -
  have two: "mailed_factors id ''C'' 1 (cur (ma_db demo_mailing)) =
      [\<lparr>mf_value = ''7'', mf_length = 1, mf_method = ''ECM'', mf_prp = 2\<rparr>,
       \<lparr>mf_value = ''13'', mf_length = 2, mf_method = ''ECM'', mf_prp = 2\<rparr>]"
    by (simp add: mailed_factors_def demo_mailing_def demo_event_tables_def demo_defs event_key_def BindSelectedColumn_def
        buffer_sizes)
  have o: "odbc (ma_db demo_mailing) = []" by (simp add: demo_mailing_def demo_defs)
  obtain s' where r: "NotifyUserAboutFactor id (\<lambda>t. []) ''C'' ''91'' 1 ''b@x'' False demo_mailing = Inr (False, s')"
    using two by (simp add: NotifyUserAboutFactor_def in_db_def in_mail_def NewMessage_def demo_mailing_def demo_defs demo_mail_def
        run_base buffer_sizes cong: lazy)
  with mail_with_a_cofactor_is_undefined [OF two o r] show ?thesis by (intro exI conjI)
qed

end
