(* ===== verification/JobsProps.thy ===== *)
theory JobsProps
  imports ServerJobs RequestProps ReceiverEnds MailProps
begin

text \<open>
  The properties of what the server does on its own: how composite factors become composites, what is
  dropped from the pending work, and that the books stay right.
\<close>

section \<open>The search for a free name\<close>

lemma recurse_name_text: "recurse_name m i = m @ ''_R'' @ show_int i"
  by (simp add: recurse_name_def sprintf_def prefixed_def)

lemma show_int_inject: "show_int i = show_int j \<Longrightarrow> i = j"
  using scan_int_put [of "[]" i] scan_int_put [of "[]" j] by simp

lemma recurse_name_inject: "recurse_name m i = recurse_name m j \<Longrightarrow> i = j"
  by (auto simp: recurse_name_text dest: show_int_inject)

definition reads_db :: "session \<Rightarrow> session \<Rightarrow> bool" where
  "reads_db s s' \<longleftrightarrow> cur s' = cur s \<and> saved s' = saved s \<and> endtran s' = endtran s \<and> now s' = now s"

interpretation rdb: effect reads_db
  by unfold_locales (auto simp: reads_db_def)

lemma reads_db_Composite: "stays reads_db (Composite n v)"
  unfolding Composite_def
  by (intro rdb.stays_intros) (rule staysI, auto simp: reads_db_def dest!: FetchRow_Inr)

lemma reads_db_name_step: "stays reads_db (name_step m k)"
  unfolding name_step_def by (intro rdb.stays_intros reads_db_Composite)

lemma name_step_Inl:
  assumes "name_step m k s = Inr (Inl k', s')"
  shows "k' = k + 1 \<and> recurse_name m (k + 1) \<in> cp_name ` set (comps (cur s)) \<and> cur s' = cur s"
  using assms staysD [OF reads_db_name_step assms]
  by (auto simp: name_step_def bind_eq_Inr reads_db_def lift_def strcpy_def image_iff split: if_splits sum.splits
      dest!: Composite_Inr) metis

lemma Composite_new: "Composite n v s = Inr (c, s') \<Longrightarrow> \<not> co_found c \<Longrightarrow> co_events c = 0"
  by (auto simp: Composite_def bind_eq_Inr split: option.splits)

lemma name_step_Inr:
  assumes "name_step m k s = Inr (Inr (i, c), s')"
  shows "i = k + 1 \<and> \<not> co_found c \<and> co_name c = recurse_name m i \<and> \<not> co_verified c \<and> co_events c = 0
    \<and> reads_db s s'"
  using assms staysD [OF reads_db_name_step assms]
  by (auto simp: name_step_def bind_eq_Inr lift_def strcpy_def split: if_splits sum.splits dest: Composite_Inr Composite_new)

text \<open>The names passed over are those of composites, one after the other.\<close>

lemma free_name_loop:
  "iterate n (name_step m) k s = Inr ((i, c), s') \<Longrightarrow> k < i \<and> (\<forall>j. k < j \<and> j < i \<longrightarrow> recurse_name m j \<in> cp_name ` set (comps (cur s)))
     \<and> \<not> co_found c \<and> co_name c = recurse_name m i \<and> \<not> co_verified c \<and> co_events c = 0 \<and> reads_db s s'"
proof (induction n arbitrary: k s)
  case (Suc n)
  from Suc.prems obtain r s1 where r: "name_step m k s = Inr (r, s1)"
    and rest: "(case r of Inl k' \<Rightarrow> iterate n (name_step m) k' | Inr y \<Rightarrow> ret y) s1 = Inr ((i, c), s')"
    by (auto elim: bind_InrE)
  show ?case
  proof (cases r)
    case (Inl k')
    with rest have it: "iterate n (name_step m) k' s1 = Inr ((i, c), s')" by simp
    from name_step_Inl [OF r [unfolded Inl]] have k': "k' = k + 1" "recurse_name m (k + 1) \<in> cp_name ` set (comps (cur s))" "cur s1 = cur s"
      by blast+
    have "recurse_name m j \<in> cp_name ` set (comps (cur s))" if "k < j" "j < i" for j
      using Suc.IH [OF it] k' that by (cases "j = k + 1") auto
    with Suc.IH [OF it] k' show ?thesis
      using rdb.trans staysD [OF reads_db_name_step r] by auto
  next
    case (Inr y)
    with rest name_step_Inr [of m k s i c s'] r show ?thesis by auto
  qed
qed simp

lemma ends_name_step [end_intros]: "ends (name_step m k)"
  unfolding name_step_def by (intro end_intros) simp_all

lemma free_name_stuck: "iterate n (name_step m) k s = Inl Fuel \<Longrightarrow>
    \<forall>j. k < j \<and> j \<le> k + int n \<longrightarrow> recurse_name m j \<in> cp_name ` set (comps (cur s))"
proof (induction n arbitrary: k s)
  case (Suc n)
  have ends: "name_step m k s \<noteq> Inl Fuel"
    using ends_name_step by (simp add: ends_def)
  from Suc.prems ends obtain k' s1 where r: "name_step m k s = Inr (Inl k', s1)"
    and it: "iterate n (name_step m) k' s1 = Inl Fuel"
    by (auto simp: bind_def and_then_def ret_def split: sum.splits)
  have k': "k' = k + 1" "recurse_name m (k + 1) \<in> cp_name ` set (comps (cur s))" "cur s1 = cur s"
    using name_step_Inl [OF r] by blast+
  have "recurse_name m j \<in> cp_name ` set (comps (cur s))" if "k < j" "j \<le> k + int (Suc n)" for j
    using Suc.IH [OF it] k' that by (cases "j = k + 1") auto
  then show ?case by blast
qed auto

lemma free_name_ends [end_intros]: "ends (free_name m k)"
proof -
  have "iterate (Suc (length (comps (cur s)))) (name_step m) k s \<noteq> Inl Fuel" for s
  proof
    let ?n = "length (comps (cur s))" and ?names = "cp_name ` set (comps (cur s))"
    let ?taken = "recurse_name m ` {k<..k + int (Suc ?n)}"
    assume "iterate (Suc ?n) (name_step m) k s = Inl Fuel"
    then have "?taken \<subseteq> ?names" using free_name_stuck by fastforce
    then have "card ?taken \<le> card ?names" by (intro card_mono) simp_all
    also have "\<dots> \<le> ?n" using card_image_le [of "set (comps (cur s))" cp_name] card_length [of "comps (cur s)"] by simp
    finally have "card ?taken \<le> ?n" .
    moreover have "card ?taken = Suc ?n"
      by (subst card_image) (auto simp: inj_on_def dest: recurse_name_inject)
    ultimately show False by simp
  qed
  then show ?thesis by (simp add: ends_def free_name_def bind_def and_then_def asks_def del: iterate.simps)
qed

section \<open>A composite factor becomes a composite\<close>

text \<open>What the statements for one factor do to the tables, seen at once.\<close>

definition recursed_tables :: "recurse_row \<Rightarrow> int \<Rightarrow> comp_row \<Rightarrow> tables \<Rightarrow> tables" where
  "recursed_tables r i c t = t\<lparr>
     masters := update_by mc_name (rr_master r) (\<lambda>m. m\<lparr>mc_recurse := i\<rparr>) (masters t),
     details := update_by detail_key (rr_comp r, rr_event r, rr_seq r) (\<lambda>d. d\<lparr>dt_recursed := 1\<rparr>) (details t),
     comps := comps t @ [c]\<rparr>"

lemma recurse_factor_cases:
  assumes "recurse_factor pp r s = Inr (u, s')"
  obtains i c s1 where "free_name (rr_master r) (rr_index r) s = Inr ((i, c), s1)"
    "\<exists>x. s' = Rollback x \<and> saved x = saved s \<and> endtran x = endtran s" |
    i c s1 s2 s3 b c1 c2 s4 ps1 ps2 where "free_name (rr_master r) (rr_index r) s = Inr ((i, c), s1)"
    "Execute ps1 (set_recurse_index (rr_master r) i) s1 = Inr (True, s2)"
    "Execute ps2 (set_recursed (rr_comp r, rr_event r, rr_seq r)) s2 = Inr (True, s3)"
    "SetValue pp (rr_value r) (snd (SetMasterCompositeName (rr_master r) c)) = Inr (b, c1)"
    "comp_FinalizeChanges c1 s3 = Inr ((True, c2), s4)" "s' = Commit s4"
proof -
  let ?fin = "\<lambda>c. bind (lift (SetValue pp (rr_value r) (snd (SetMasterCompositeName (rr_master r) c)))) (\<lambda>(_, c).
             bind (comp_FinalizeChanges c) (\<lambda>(ok, _). ret ok))"
  from assms obtain i c s1 ok1 s2 ok2 s3 ok3 s4 where f: "free_name (rr_master r) (rr_index r) s = Inr ((i, c), s1)"
    and e1: "Execute [PInt i, PStr (rr_master r) NAME_LENGTH] (set_recurse_index (rr_master r) i) s1 = Inr (ok1, s2)"
    and e2: "(if ok1 then Execute [PStr (rr_comp r) NAME_LENGTH, PInt (rr_event r), PInt (rr_seq r)]
           (set_recursed (rr_comp r, rr_event r, rr_seq r)) else ret False) s2 = Inr (ok2, s3)"
    and e3: "(if ok2 then ?fin c else ret False) s3 = Inr (ok3, s4)"
    and s': "s' = (if ok3 then Commit s4 else Rollback s4)"
    by (auto simp: recurse_factor_def end_transaction_def elim!: bind_InrE)
  have r1: "saved s1 = saved s" "endtran s1 = endtran s"
    using f free_name_loop [of _ "rr_master r" "rr_index r" s i c s1] by (auto simp: free_name_def reads_db_def simp del: iterate.simps)
  show thesis
  proof (cases ok3)
    case True
    with e3 obtain b c1 c2 where ok2: ok2 and v: "SetValue pp (rr_value r) (snd (SetMasterCompositeName (rr_master r) c)) = Inr (b, c1)"
      and w: "comp_FinalizeChanges c1 s3 = Inr ((True, c2), s4)"
      by (auto simp: bind_eq_Inr lift_def split: if_splits sum.splits)
    moreover have ok1 using ok2 e2 by (cases ok1) auto
    ultimately show thesis using that(2) [OF f _ _ v w] e1 e2 s' True by simp
  next
    case False
    have "stays tx_step (?fin c)" by (intro tx_intros)
    then have "tx_step s3 s4" using e3 by (cases ok2) (auto dest: staysD simp: tx.refl)
    moreover have "saved s3 = saved s" "endtran s3 = endtran s"
      using e1 e2 r1 by (cases ok1; cases ok2; auto dest!: Execute_True Execute_False)+
    ultimately have "saved s4 = saved s \<and> endtran s4 = endtran s" by (simp add: tx_step_def)
    with that(1) [OF f] s' False show thesis by auto
  qed
qed

text \<open>C5: For a composite factor that was not recursed yet the server commits, all or nothing: the factor is marked as
  recursed, its value becomes a composite of the same master composite, under the first free name
  \<open><master>_R<n>\<close> after the last one given, and the number is kept in the master composite.\<close>

theorem composite_factors_become_composites:
  assumes "recurse_factor pp r s = Inr (u, s')" and "endtran s = []"
  shows "(saved s' = saved s \<and> cur s' = saved s) \<or>
     (\<exists>i c. saved s' = recursed_tables r i c (cur s) \<and> cur s' = saved s'
        \<and> rr_index r < i \<and> cp_name c = recurse_name (rr_master r) i \<and> cp_name c \<notin> cp_name ` set (comps (cur s))
        \<and> (\<forall>j. rr_index r < j \<and> j < i \<longrightarrow> recurse_name (rr_master r) j \<in> cp_name ` set (comps (cur s)))
        \<and> cp_value c = rr_value r \<and> cp_master c = rr_master r \<and> cp_events c = 0)"
proof -
  from assms(1) show ?thesis
  proof (cases rule: recurse_factor_cases)
    case (1 i c s1)
    with assms(2) show ?thesis by (auto simp: Rollback_ok)
  next
    case (2 i c s1 s2 s3 b c1 c2 s4 ps1 ps2)
    have n: "rr_index r < i" "\<forall>j. rr_index r < j \<and> j < i \<longrightarrow> recurse_name (rr_master r) j \<in> cp_name ` set (comps (cur s))"
      "\<not> co_found c" "co_name c = recurse_name (rr_master r) i" "\<not> co_verified c" "co_events c = 0" "cur s1 = cur s" "endtran s1 = endtran s"
      using 2(1) free_name_loop [of _ "rr_master r" "rr_index r" s i c s1]
      by (auto simp: free_name_def reads_db_def simp del: iterate.simps)
    have c1: "\<not> co_found c1" "co_name c1 = co_name c" "co_value c1 = rr_value r" "co_master c1 = rr_master r" "co_events c1 = co_events c"
      using 2(4) n(3) by (auto simp: SetMasterCompositeName_def SetValue_def ComputeDecimalLengthAndPRPTest_def and_then_eq_Inr
          Let_def split: if_splits)
    from comp_FinalizeChanges_new [OF 2(5) c1(1)] obtain row where row: "insert_comp row (cur s3) = Some (cur s4)"
      "cp_name row = recurse_name (rr_master r) i" "cp_value row = rr_value r" "cp_master row = rr_master r" "cp_events row = 0"
      using c1 n by auto
    have e: "endtran s4 = []"
      using staysD [OF tx_comp(4) 2(5)] Execute_True [OF 2(2)] Execute_True [OF 2(3)] n(8) assms(2) by (simp add: tx_step_def)
    have "cur s2 = (cur s)\<lparr>masters := update_by mc_name (rr_master r) (\<lambda>m. m\<lparr>mc_recurse := i\<rparr>) (masters (cur s))\<rparr>"
      using Execute_True [OF 2(2)] n(7) by (simp add: set_recurse_index_def change_def)
    then have "cur s3 = (cur s)\<lparr>masters := update_by mc_name (rr_master r) (\<lambda>m. m\<lparr>mc_recurse := i\<rparr>) (masters (cur s)),
        details := update_by detail_key (rr_comp r, rr_event r, rr_seq r) (\<lambda>d. d\<lparr>dt_recursed := 1\<rparr>) (details (cur s))\<rparr>"
      using Execute_True [OF 2(3)] by (simp add: set_recursed_def change_def)
    then have "cur s4 = recursed_tables r i row (cur s)" "cp_name row \<notin> cp_name ` set (comps (cur s))"
      using row(1) by (auto simp: insert_comp_def pk_insert_def recursed_tables_def split: if_splits)
    then show ?thesis using 2(6) e n(1,2) row by (intro disjI2 exI [of _ i] exI [of _ row]) (simp add: Commit_ok)
  qed
qed

definition demo_row :: recurse_row where
  "demo_row = \<lparr>rr_master = ''C'', rr_comp = ''C'', rr_event = 1, rr_seq = 1, rr_index = 0, rr_value = ''91''\<rparr>"

definition demo_at :: "int \<Rightarrow> int \<Rightarrow> comp_row list \<Rightarrow> session" where
  "demo_at i flagged cs = \<lparr>cur = \<lparr>pendings = [], users = [], syncs = [],
       masters = [\<lparr>mc_name = ''C'', mc_value = ''91'', mc_active = 1, mc_fully = 0, mc_factors = 0, mc_recurse = i,
                    mc_len = 2, mc_work = 0, mc_updated = 0, mc_to_master = 0\<rparr>], works = [],
       comps = \<lparr>cp_name = ''C'', cp_value = ''91'', cp_master = ''C'', cp_events = 1, cp_len = 2, cp_difficulty = 0,
                  cp_sent = 0\<rparr> # cs, events = [],
       details = [\<lparr>dt_comp = ''C'', dt_event = 1, dt_seq = 1, dt_value = ''91'', dt_len = 2, dt_prp = 0, dt_recursed = flagged\<rparr>]\<rparr>,
     saved = demo_tables, odbc = [], endtran = [], now = 0\<rparr>"

definition demo_jobs :: session where
  "demo_jobs = demo_at 0 0 []"

lemmas run_jobs = recurse_factor_def free_name_def name_step_def recurse_name_text end_transaction_def set_recurse_index_def
  set_recursed_def SetMasterCompositeName_def ComputeDecimalLengthAndPRPTest_def comp_Insert_def insert_comp_def
  pk_insert_def detail_key_def demo_row_def demo_jobs_def demo_at_def

definition demo_new :: "string \<Rightarrow> string \<Rightarrow> int \<Rightarrow> bool \<Rightarrow> int option \<Rightarrow> composite" where
  "demo_new v m len verified prp = \<lparr>co_name = ''C_R1'', co_value = v, co_master = m, co_length = len, co_sent = 0,
     co_found = False, co_verified = verified, co_prp = prp, co_events = 0, co_difficulty = 0\<rparr>"

lemma demo_free_name: "free_name ''C'' 0 demo_jobs = Inr ((1, demo_new [] [] 0 False None), demo_jobs)"
  by (simp add: demo_new_def Let_def run_base run_text run_objects run_jobs cong: lazy)

lemma demo_set_value: "SetValue no_prp ''91'' (snd (SetMasterCompositeName ''C'' (demo_new [] [] 0 False None)))
    = Inr (True, demo_new ''91'' ''C'' 2 True (Some 0))"
  by (simp add: demo_new_def SetValue_def SetMasterCompositeName_def ComputeDecimalLengthAndPRPTest_def Let_def eval_91)

lemma demo_steps:
  "Execute [PInt 1, PStr ''C'' NAME_LENGTH] (set_recurse_index ''C'' 1) demo_jobs = Inr (True, demo_at 1 0 [])"
  "Execute [PStr ''C'' NAME_LENGTH, PInt 1, PInt 1] (set_recursed (''C'', 1, 1)) (demo_at 1 0 []) = Inr (True, demo_at 1 1 [])"
  "\<exists>c2 row. comp_FinalizeChanges (demo_new ''91'' ''C'' 2 True (Some 0)) (demo_at 1 1 []) = Inr ((True, c2), demo_at 1 1 [row])
     \<and> cp_name row = ''C_R1''"
  by (simp_all add: demo_new_def Let_def run_base run_text run_objects run_jobs cong: lazy)

lemma demo_fields: "rr_master demo_row = ''C''" "rr_comp demo_row = ''C''" "rr_event demo_row = 1" "rr_seq demo_row = 1"
  "rr_index demo_row = 0" "rr_value demo_row = ''91''"
  by (simp_all add: demo_row_def)

lemma demo_recursed: "\<exists>s'. recurse_factor no_prp demo_row demo_jobs = Inr ((), s')
    \<and> map cp_name (comps (saved s')) = [''C'', ''C_R1'']"
proof -
  obtain c2 row where f: "comp_FinalizeChanges (demo_new ''91'' ''C'' 2 True (Some 0)) (demo_at 1 1 []) = Inr ((True, c2), demo_at 1 1 [row])"
    and n: "cp_name row = ''C_R1''" using demo_steps(3) by blast
  have "recurse_factor no_prp demo_row demo_jobs = Inr ((), Commit (demo_at 1 1 [row]))"
    by (simp add: recurse_factor_def demo_fields bind_def demo_free_name demo_steps(1,2) demo_set_value f end_transaction_def)
  then show ?thesis by (simp add: Commit_def) (simp add: demo_at_def n)
qed

theorem composite_factors_become_composites_witness:
  "\<exists>s' i c. recurse_factor no_prp demo_row demo_jobs = Inr ((), s') \<and> saved s' = recursed_tables demo_row i c (cur demo_jobs)
     \<and> cp_name c = recurse_name ''C'' i \<and> cp_value c = ''91'' \<and> cp_master c = ''C''"
proof -
  obtain s' where r: "recurse_factor no_prp demo_row demo_jobs = Inr ((), s')" "map cp_name (comps (saved s')) = [''C'', ''C_R1'']"
    using demo_recursed by (elim exE conjE) (rule that)
  have e: "endtran demo_jobs = []" and c: "map cp_name (comps (saved demo_jobs)) = [''C'']"
    by (simp_all add: demo_jobs_def demo_at_def demo_tables_def)
  have n: "saved s' \<noteq> saved demo_jobs" using r(2) c by (metis list.inject not_Cons_self2)
  from composite_factors_become_composites [OF r(1) e] obtain i c where "saved s' = recursed_tables demo_row i c (cur demo_jobs)"
    "cp_name c = recurse_name (rr_master demo_row) i" "cp_value c = rr_value demo_row" "cp_master c = rr_master demo_row"
    using n by (elim disjE exE conjE) (erule notE, assumption, rule that)
  with r(1) show ?thesis unfolding demo_fields by (intro exI conjI)
qed

section \<open>The books\<close>

definition tidy_db :: "session \<Rightarrow> session \<Rightarrow> bool" where
  "tidy_db s s' \<longleftrightarrow> (clean s \<longrightarrow> clean s')"

interpretation tdb: effect tidy_db
  by unfold_locales (auto simp: tidy_db_def)

lemma tidy_db_same: "stays tx_step m \<Longrightarrow> stays same_work m \<Longrightarrow> stays tidy_db m"
  unfolding stays_def tidy_db_def clean_def by (fastforce simp: tx_step_def same_totals)

lemma tidy_db_queries: "stays tidy_db (Open ps q)" "stays tidy_db (fetch rows)"
  by (rule tidy_db_same; intro tx_intros same_intros)+

lemma tidy_db_end: "stays tidy_db (end_transaction b)"
  by (auto simp: stays_def tidy_db_def end_transaction_def clean_def Commit_ok Rollback_ok)

lemma tidy_db_statement: "wf_stmt f \<Longrightarrow> stmt_same f \<Longrightarrow> stays tidy_db (bind (Execute ps f) end_transaction)"
  by (intro tdb.stays_bind tidy_db_same tx_intros same_intros tidy_db_end)

lemma job_stmts: "wf_stmt (set_emailed k)" "stmt_same (set_emailed k)" "wf_stmt (set_recurse_index n i)"
  "wf_stmt (set_recursed d)" "stmt_same (set_recursed d)"
  by (auto simp: wf_stmt_def stmt_same_def set_emailed_def set_recurse_index_def set_recursed_def change_def db_wf_defs
      map_update_by image_update_by event_key_def detail_key_def)

lemma recurse_index_totals: "set_recurse_index n i t = Some t' \<Longrightarrow> totals_ok t' = totals_ok t"
  by (rule ecm_total_masters) (auto simp: set_recurse_index_def change_def map_update_by)

lemma tidy_recurse_factor: "stays tidy_db (recurse_factor pp r)"
proof (rule staysI)
  fix s u s' assume "recurse_factor pp r s = Inr (u, s')"
  then show "tidy_db s s'"
  proof (cases rule: recurse_factor_cases)
    case (1 i c s1)
    then show ?thesis by (auto simp: tidy_db_def clean_def Rollback_ok)
  next
    case (2 i c s1 s2 s3 b c1 c2 s4 ps1 ps2)
    have r: "reads_db s s1"
      using 2(1) free_name_loop [of _ "rr_master r" "rr_index r" s i c s1] by (auto simp: free_name_def simp del: iterate.simps)
    have tx: "tx_step s1 s2" "tx_step s2 s3" "tx_step s3 s4"
      using staysD [OF tx_Execute [OF job_stmts(3)] 2(2)] staysD [OF tx_Execute [OF job_stmts(4)] 2(3)] staysD [OF tx_comp(4) 2(5)]
      by blast+
    have "totals_ok (cur s2) = totals_ok (cur s1)" using Execute_True [OF 2(2)] recurse_index_totals by blast
    moreover have "totals_ok (cur s3) = totals_ok (cur s2)" "totals_ok (cur s4) = totals_ok (cur s3)"
      using staysD [OF same_Execute [OF job_stmts(5)] 2(3)] staysD [OF same_ops(4) 2(5)] by (simp_all add: same_totals)
    ultimately have "totals_ok (cur s4) = totals_ok (cur s)" using r by (simp add: reads_db_def)
    with r tx 2(6) show ?thesis by (auto simp: tidy_db_def clean_def Commit_ok tx_step_def reads_db_def)
  qed
qed

lemma tidy_RecurseFactors: "stays tidy_db (RecurseFactors pp)"
proof -
  have "stays tidy_db (recurse_rows pp rows)" for rows
    by (induction rows) (simp_all only: recurse_rows.simps, (intro tdb.stays_intros tidy_db_queries tidy_recurse_factor | assumption)+)
  then show ?thesis unfolding RecurseFactors_def by (intro tdb.stays_intros tidy_db_queries)
qed

lemma tidy_ExpirePendingWork: "stays tidy_db (ExpirePendingWork g)"
  unfolding ExpirePendingWork_def Let_def
  by (intro tdb.stays_bind tdb.stays_asks tidy_db_statement wf_delete_pending stmt_same_intros)

definition tidy_mailing :: "mailing \<Rightarrow> mailing \<Rightarrow> bool" where
  "tidy_mailing s s' \<longleftrightarrow> tidy_db (ma_db s) (ma_db s')"

interpretation tml: effect tidy_mailing
  by unfold_locales (auto simp: tidy_mailing_def tidy_db_def)

lemma tidy_mailing_parts: "stays tidy_db m1 \<Longrightarrow> stays tidy_mailing (in_db m1)" "stays tidy_mailing (in_mail m2)"
  by (auto simp: stays_def tidy_mailing_def in_db_def in_mail_def part_eq_Inr tdb.refl)

lemma tidy_SendEmail: "stays tidy_mailing (SendEmail order strft)"
proof -
  have n: "stays tidy_mailing (notify_rows a b c d e rows f)" for a b c d e rows f
    by (induction rows arbitrary: f)
      (simp_all only: notify_rows.simps, (intro tml.stays_intros tidy_mailing_parts tidy_db_queries | assumption)+)
  have s: "stays tidy_mailing (send_emails order strft rows)" for rows
    by (induction rows)
      (simp_all only: send_emails.simps, unfold NotifyUserAboutFactor_def,
       (intro tml.stays_intros tidy_mailing_parts tidy_db_queries tidy_db_statement job_stmts n | assumption)+)
  show ?thesis unfolding SendEmail_def by (intro tml.stays_intros tidy_mailing_parts tidy_db_queries s)
qed

end
