(* ===== verification/ServerProps.thy ===== *)
theory ServerProps
  imports ServerMain JobsProps SlaveSync
begin

text \<open>
  The properties of the server as a process: what holds in every state it reaches from its start,
  whatever its clients, its master, its database and the clock do.
\<close>

section \<open>Keys and references\<close>





section \<open>The invariant of the process\<close>

















section \<open>A run\<close>








section \<open>Quitting\<close>













end
