(* ===== verification/UpgradeV2.thy ===== *)
theory UpgradeV2
  imports ServerConfig MasterObj CompositeObj FactorEvent Handler
begin

text \<open>
  \<open>src/source/UpgradeFromV2.cpp\<close>: the composites of a 2.x server, with the work done on them and their
  factors, are read from its save file and inserted, each in a transaction of its own. The last thing
  \<open>Start\<close> does is to end the process; here it returns, so that what it leaves can be looked at.
\<close>

text \<open>Members without a value are \<open>None\<close>, as are the pointers before the first composite.\<close>

record upgrade =
  up_sess :: session
  up_comp :: "composite option"
  up_master :: "master option"
  up_event :: "factor_event option"
  up_name :: string
  up_server :: string
  up_success :: "bool option"
  up_successful :: int
  up_failed :: int

definition UpgradeFromV2 :: "session \<Rightarrow> string \<Rightarrow> halt + upgrade" where
  "UpgradeFromV2 x serverID =
     and_then (strcpy serverID (ID_LENGTH + 1)) (\<lambda>server.
     Inr \<lparr>up_sess = x, up_comp = None, up_master = None, up_event = None, up_name = [], up_server = server,
       up_success = None, up_successful = 0, up_failed = 0\<rparr>)"

definition in_up :: "'a db \<Rightarrow> (upgrade, 'a) run" where
  "in_up = part up_sess (\<lambda>x s. s\<lparr>up_sess := x\<rparr>)"

definition set_success :: "bool \<Rightarrow> (upgrade, unit) run" where
  "set_success b = modify (\<lambda>s. s\<lparr>up_success := Some b\<rparr>)"

text \<open>\<open>if (ib_Success) ib_Success = ...\<close>\<close>

definition if_success :: "(upgrade, bool) run \<Rightarrow> (upgrade, unit) run" where
  "if_success m = bind (deref up_success) (\<lambda>ok. if ok then bind m set_success else ret ())"

section \<open>A composite\<close>

definition finalize_master :: "(upgrade, bool) run" where
  "finalize_master =
     bind (deref up_master) (\<lambda>m. bind (in_up (master_FinalizeChanges m)) (\<lambda>(ok, m').
     bind (modify (\<lambda>s. s\<lparr>up_master := Some m'\<rparr>)) (\<lambda>_. ret ok)))"

definition finalize_comp :: "(upgrade, bool) run" where
  "finalize_comp =
     bind (deref up_comp) (\<lambda>c. bind (in_up (comp_FinalizeChanges c)) (\<lambda>(ok, c').
     bind (modify (\<lambda>s. s\<lparr>up_comp := Some c'\<rparr>)) (\<lambda>_. ret ok)))"

definition finalize_event :: "(upgrade, bool) run" where
  "finalize_event =
     bind (asks up_event) (\<lambda>e. case e of None \<Rightarrow> ret True | Some ev \<Rightarrow> in_up (event_FinalizeChanges ev))"

definition end_composite :: "bool \<Rightarrow> upgrade \<Rightarrow> upgrade" where
  "end_composite ok s =
     (if ok then s\<lparr>up_sess := Commit (up_sess s), up_successful := up_successful s + 1\<rparr>
      else s\<lparr>up_sess := Rollback (up_sess s), up_failed := up_failed s + 1\<rparr>)"

definition CommitPreviousComposite :: "(upgrade, unit) run" where
  "CommitPreviousComposite =
     bind (asks up_name) (\<lambda>name.
     bind (if name = [] then ret ()
           else
           bind (if_success finalize_master) (\<lambda>_.
           bind (if_success finalize_comp) (\<lambda>_.
           bind (if_success finalize_event) (\<lambda>_.
           bind (deref up_success) (\<lambda>ok. modify (end_composite ok)))))) (\<lambda>_.
     modify (\<lambda>s. s\<lparr>up_comp := None, up_master := None, up_event := None\<rparr>)))"

definition set_values :: "(int \<Rightarrow> int) \<Rightarrow> string \<Rightarrow> (upgrade, unit) run" where
  "set_values pp v =
     bind (if_success (bind (deref up_master) (\<lambda>m. bind (lift (master_SetValue pp v m)) (\<lambda>(ok, m').
             bind (modify (\<lambda>s. s\<lparr>up_master := Some m'\<rparr>)) (\<lambda>_. ret ok))))) (\<lambda>_.
     bind (if_success (bind (deref up_comp) (\<lambda>c. bind (lift (SetValue pp v c)) (\<lambda>(ok, c').
             bind (modify (\<lambda>s. s\<lparr>up_comp := Some c'\<rparr>)) (\<lambda>_. ret ok))))) (\<lambda>_.
     if_success (bind (deref up_master) (\<lambda>m. bind (deref up_comp) (\<lambda>c.
        case SetMasterCompositeName (ms_name m) c of (ok, c') \<Rightarrow>
          bind (modify (\<lambda>s. s\<lparr>up_comp := Some c'\<rparr>)) (\<lambda>_. ret ok))))))"

definition NewComposite :: "(int \<Rightarrow> int) \<Rightarrow> string \<Rightarrow> string \<Rightarrow> (upgrade, unit) run" where
  "NewComposite pp name v =
     bind (lift (strcpy name (NAME_LENGTH + 1))) (\<lambda>_.
     bind (modify (\<lambda>s. s\<lparr>up_name := name, up_success := Some (CHR '' '' \<notin> set v)\<rparr>)) (\<lambda>_.
     bind (in_up (MasterComposite name)) (\<lambda>m.
     bind (in_up (Composite name True)) (\<lambda>c.
     bind (modify (\<lambda>s. s\<lparr>up_master := Some m, up_comp := Some c\<rparr>)) (\<lambda>_.
     bind (if ms_found m \<or> co_found c then set_success False else ret ()) (\<lambda>_.
     bind (set_values pp v) (\<lambda>_.
     bind (if_success finalize_master) (\<lambda>_.
     if_success finalize_comp))))))))"

section \<open>Its work and factors\<close>

definition add_work :: "string \<Rightarrow> double \<Rightarrow> int \<Rightarrow> int \<Rightarrow> (upgrade, unit) run" where
  "add_work factorMethod b1 toMaster curves =
     if_success (bind (deref up_master) (\<lambda>m. in_up (AddWorkDoneFromUpgrade factorMethod b1 toMaster curves m)))"

definition InsertWorkDone :: "string \<Rightarrow> (upgrade, bool) run" where
  "InsertWorkDone b1Info =
     bind (lift (sscanf b1Info ''%lf %d:%d %d:%d %d:%d'' [])) (\<lambda>vs. case vs of
         [VD b1, VI curvesECM, VI toMasterECM, VI curvesPP1, VI toMasterPP1, VI curvesPM1, VI toMasterPM1] \<Rightarrow>
           bind (add_work FM_ECM b1 toMasterECM curvesECM) (\<lambda>_.
           bind (add_work FM_PM1 b1 toMasterPM1 curvesPM1) (\<lambda>_.
           bind (add_work FM_PP1 b1 toMasterPP1 curvesPP1) (\<lambda>_. ret True)))
       | _ \<Rightarrow> ret False)"

definition InsertFactor :: "(int \<Rightarrow> int) \<Rightarrow> string \<Rightarrow> (upgrade, bool) run" where
  "InsertFactor pp factorInfo =
     bind (lift (sscanf factorInfo ''%s %s %s %s %s %lf %ld %d %d'' [20, VALUE_LENGTH + 1, 20, 200, 200])) (\<lambda>vs. case vs of
         [VS factorMethod, VS factorValue, VS factorType, VS emailID, VS instanceID, VD b1, VI sigma, VI suff, VI upstream] \<Rightarrow>
           let userID = takeWhile (\<lambda>c. c \<noteq> CHR ''@'') emailID in
           bind (deref up_master) (\<lambda>m.
           bind (modify (\<lambda>s. s\<lparr>up_master := Some (master_IncrementFactorCount m)\<rparr>)) (\<lambda>_.
           bind (deref up_event) (\<lambda>e.
           bind (asks up_server) (\<lambda>server.
           bind (in_up (AddEventDetail pp factorValue
                   (SetCurveDetail factorMethod 0 b1 0 0 0 sigma 0
                     (SetIDs emailID userID instanceID instanceID server (SetSentToMaster (upstream \<noteq> 0) e))))) (\<lambda>e'.
           bind (modify (\<lambda>s. s\<lparr>up_event := Some e'\<rparr>)) (\<lambda>_. ret True))))))
       | _ \<Rightarrow> ret False)"

definition ExtractParameters :: "string \<Rightarrow> (upgrade, bool) run" where
  "ExtractParameters paramInfo =
     bind (lift (sscanf (map (\<lambda>c. if c = CHR '','' then CHR '' '' else c) paramInfo) ''%ld %d %d %s %s %s'' [30, 100, 100])) (\<lambda>vs. case vs of
         [VI theTime, VI ignore1, VI ignore2, VS active, VS ignore3, VS ignore4] \<Rightarrow>
           if active = ''inactive'' then
             bind (deref up_master) (\<lambda>m. bind (modify (\<lambda>s. s\<lparr>up_master := Some (SetActive False m)\<rparr>)) (\<lambda>_. ret True))
           else ret True
       | _ \<Rightarrow> bind (deref up_master) (\<lambda>_. ret False))"

section \<open>The file\<close>

text \<open>
  What follows the character that tells the kind of the line and the one after it; a line that ends
  before is read past its end.
\<close>

definition after_kind :: "string \<Rightarrow> (upgrade, string) run" where
  "after_kind rest = (case rest of k # u # info \<Rightarrow> ret info | _ \<Rightarrow> stop Undefined)"

definition upgraded_event :: "(upgrade, unit) run" where
  "upgraded_event =
     bind (asks up_event) (\<lambda>e. case e of
         Some _ \<Rightarrow> ret ()
       | None \<Rightarrow>
           bind (deref up_comp) (\<lambda>c.
           bind (asks (\<lambda>s. now (up_sess s))) (\<lambda>time.
           case NextFactorEvent c of (n, c') \<Rightarrow>
             modify (\<lambda>s. s\<lparr>up_comp := Some c', up_event := Some (CompositeFactorEvent (co_name c) n time)\<rparr>))))"

text \<open>A line; the result is the local \<open>success\<close>, which no composite sets back.\<close>

definition upgrade_line :: "(int \<Rightarrow> int) \<Rightarrow> string \<Rightarrow> bool \<Rightarrow> (upgrade, bool) run" where
  "upgrade_line pp raw success =
     (case split_at (CHR '' '') (StripCRLF raw) of
         None \<Rightarrow> ret success
       | Some (name, rest) \<Rightarrow>
           bind (asks up_name) (\<lambda>previous.
           if \<not> prefixed ''N'' rest \<and> previous \<noteq> name then stop Exit
           else if prefixed ''N'' rest then
             bind CommitPreviousComposite (\<lambda>_.
             bind (after_kind rest) (\<lambda>v. bind (NewComposite pp name v) (\<lambda>_. ret success)))
           else if prefixed ''B'' rest then (if success then bind (after_kind rest) InsertWorkDone else ret False)
           else if prefixed ''P'' rest then (if success then bind (after_kind rest) ExtractParameters else ret False)
           else if prefixed ''F'' rest then
             bind upgraded_event (\<lambda>_. if success then bind (after_kind rest) (InsertFactor pp) else ret False)
           else ret success))"

primrec upgrade_lines :: "(int \<Rightarrow> int) \<Rightarrow> string list \<Rightarrow> bool \<Rightarrow> (upgrade, unit) run" where
  "upgrade_lines pp [] success = ret ()"
| "upgrade_lines pp (l # ls) success = bind (upgrade_line pp l success) (upgrade_lines pp ls)"

definition Start :: "(int \<Rightarrow> int) \<Rightarrow> string option \<Rightarrow> (upgrade, unit) run" where
  "Start pp saveFile =
     (case saveFile of
         None \<Rightarrow> stop Exit
       | Some text \<Rightarrow>
           bind (upgrade_lines pp (file_lines (BUFFER_SIZE - 2) text) True) (\<lambda>_. CommitPreviousComposite))"

end
