(* ===== verification/UpgradeProps.thy ===== *)
theory UpgradeProps
  imports UpgradeV2 AdminProps
begin

text \<open>
  What an upgrade leaves: nothing. The object of a master composite that was just inserted has no value
  for the flag its second write needs (\<open>MasterComposite::ib_SendUpdatesToMaster\<close>), so that a composite
  without errors is undefined behaviour when it is to be committed, and the others are rolled back.
\<close>

section \<open>What the operations keep\<close>


definition up_step :: "upgrade \<Rightarrow> upgrade \<Rightarrow> bool" where
  "up_step u u' \<longleftrightarrow> saved (up_sess u') = saved (up_sess u) \<and> endtran (up_sess u') = endtran (up_sess u)
     \<and> up_successful u' = up_successful u"

interpretation up: effect up_step
  by unfold_locales (auto simp: up_step_def)

named_theorems up_intros \<open>operations of the upgrade that commit nothing\<close>
lemmas [up_intros] = up.stays_intros

lemma up_in_up [up_intros]: "stays tx_step m \<Longrightarrow> stays up_step (in_up m)"
  by (auto simp: stays_def up_step_def tx_step_def in_up_def part_eq_Inr)

lemma up_modify [up_intros]:
  "(\<And>u. up_sess (f u) = up_sess u \<and> up_successful (f u) = up_successful u) \<Longrightarrow> stays up_step (modify f)"
  by (simp add: stays_def up_step_def)






section \<open>The flag without a value\<close>

text \<open>
  Between the start of a composite and its end the object of the master composite stays the one that
  was inserted, and success is never set back to true.
\<close>

definition same_flag :: "upgrade \<Rightarrow> upgrade \<Rightarrow> bool" where
  "same_flag u u' \<longleftrightarrow> up_name u' = up_name u \<and> (up_success u' = Some True \<longrightarrow> up_success u = Some True)
     \<and> (\<forall>m. up_master u = Some m \<longrightarrow> (\<exists>m'. up_master u' = Some m' \<and> ms_found m' = ms_found m \<and> ms_send m' = ms_send m))"

interpretation fl: effect same_flag
  by unfold_locales (fastforce simp: same_flag_def)+

named_theorems fl_intros \<open>operations on a composite whose master composite was inserted\<close>
lemmas [fl_intros] = fl.stays_intros


lemma fl_in_up [fl_intros]: "stays same_flag (in_up m)"
  by (auto simp: stays_def same_flag_def in_up_def part_eq_Inr)

lemma fl_modify [fl_intros]:
  "(\<And>u. up_name (f u) = up_name u \<and> up_success (f u) = up_success u \<and> up_master (f u) = up_master u) \<Longrightarrow> stays same_flag (modify f)"
  by (simp add: stays_def same_flag_def)










section \<open>The first write and the second\<close>






section \<open>The end of a composite, a line and the file\<close>









text \<open>A composite the server already has, and a new one.\<close>

definition demo_upgrade :: upgrade where
  "demo_upgrade = \<lparr>up_sess = demo_session, up_comp = None, up_master = None, up_event = None, up_name = [],
     up_server = ''srv'', up_success = None, up_successful = 0, up_failed = 0\<rparr>"

definition known_file :: string where
  "known_file = ''C N 91'' @ [LF] @ ''C B 100 3:0 0:0 0:0'' @ [LF]"

definition new_file :: string where "new_file = ''D N 35'' @ [LF]"

lemmas run_upgrade = UpgradeFromV2_def in_up_def set_success_def if_success_def finalize_master_def finalize_comp_def
  finalize_event_def end_composite_def CommitPreviousComposite_def set_values_def NewComposite_def add_work_def
  InsertWorkDone_def after_kind_def upgrade_line_def deref_def demo_upgrade_def demo_session_def demo_tables_def
  known_file_def new_file_def LF_def StripCRLF_def fgets_more master_SetValue_def ComputeDecimalLength_def
  master_Insert_def comp_Insert_def SetMasterCompositeName_def ComputeDecimalLengthAndPRPTest_def Start_def



lemma new_lines: "file_lines (BUFFER_SIZE - 2) new_file = [''D N 35'' @ [LF]]"
  by (simp add: new_file_def fgets_more LF_def BUFFER_SIZE_def)

lemma new_undefined: "Start no_prp (Some new_file) demo_upgrade = Inl Undefined"
  unfolding Start_def new_lines option.case
  by (simp add: run_base run_text run_objects run_upgrade Let_def eval_35 insert_defs pk_insert_def cong: lazy)


end
