(* ===== verification/Sieve.thy ===== *)
theory Sieve
  imports Prelude
begin

text \<open>
  \<open>src/source/getprime.c\<close>: the sieve that hands out the odd primes one by one. \<open>offset\<close> is a double that
  holds an integer; all numbers stay small against the width of their types (the code's comment allows
  primes up to \<open>2 ^ 53\<close>), and they are natural numbers here. \<open>ASSERT\<close> is compiled to nothing.
\<close>

record sieve =
  gp_offset :: nat
  gp_current :: int
  gp_primes :: "nat list"
  gp_sieve :: "nat list"
  gp_len :: nat
  gp_moduli :: "nat list"

definition getprime_clear :: sieve where
  "getprime_clear = \<lparr>gp_offset = 0, gp_current = -1, gp_primes = [], gp_sieve = [], gp_len = 0, gp_moduli = []\<rparr>"

text \<open>The table of the primes that were found; a read past it has no defined value.\<close>

fun isprime_ui :: "nat \<Rightarrow> nat list \<Rightarrow> halt + bool" where
  "isprime_ui p [] = Inl Undefined"
| "isprime_ui p (q # qs) = (if q * q \<le> p then if p mod q = 0 then Inr False else isprime_ui p qs else Inr True)"

fun find_prime :: "nat \<Rightarrow> nat \<Rightarrow> nat list \<Rightarrow> halt + nat" where
  "find_prime 0 p primes = Inl Fuel"
| "find_prime (Suc n) p primes =
     and_then (isprime_ui p primes) (\<lambda>b. if b then Inr p else find_prime n (p + 2) primes)"

text \<open>The smallest \<open>m\<close> such that \<open>p\<close> divides \<open>offset + 2 * m\<close>.\<close>

definition first_multiple :: "nat \<Rightarrow> nat \<Rightarrow> nat" where
  "first_multiple offset p =
     (let r = offset mod p; j = (if r = 0 then r else p - r) in (if odd j then j + p else j) div 2)"

fun extend_primes :: "nat \<Rightarrow> nat \<Rightarrow> nat list \<times> nat list \<Rightarrow> halt + nat list \<times> nat list" where
  "extend_primes 0 offset t = Inr t"
| "extend_primes (Suc k) offset (primes, moduli) =
     and_then (find_prime (prod_list primes) (last primes + 2) primes) (\<lambda>p.
     extend_primes k offset (primes @ [p], moduli @ [first_multiple offset p]))"

text \<open>\<open>for (i = moduli[j]; i < len; i += p) sieve[i] = 0;\<close> and what remains of \<open>i\<close>.\<close>

function cross_out :: "nat \<Rightarrow> nat \<Rightarrow> nat \<Rightarrow> nat list \<Rightarrow> nat list \<times> nat" where
  "cross_out p len i sieve = (if i < len \<and> 0 < p then cross_out p len (i + p) (sieve[i := 0]) else (sieve, i - len))"
  by auto
termination by (relation "measure (\<lambda>(p, len, i, sieve). len - i)") auto

declare cross_out.simps [simp del]

fun sieve_all :: "nat \<Rightarrow> nat list \<Rightarrow> nat list \<Rightarrow> nat list \<Rightarrow> nat list \<times> nat list" where
  "sieve_all len (p # primes) (m # moduli) sieve =
     (case cross_out p len m sieve of (sieve', m') \<Rightarrow> apsnd ((#) m') (sieve_all len primes moduli sieve'))"
| "sieve_all len _ _ sieve = (sieve, [])"

text \<open>\<open>while (sieve[++current] == 0);\<close>, which the sentinel ends.\<close>

definition next_one :: "nat list \<Rightarrow> nat \<Rightarrow> nat" where
  "next_one sieve i = i + length (takeWhile (\<lambda>x. x = 0) (drop i sieve))"

definition sieve_block :: "nat \<Rightarrow> nat \<Rightarrow> nat list \<times> nat list \<Rightarrow> nat \<times> sieve" where
  "sieve_block offset len t =
     (case t of (primes, moduli) \<Rightarrow>
      case sieve_all len primes moduli (replicate (len + 1) 1) of (sieve, moduli') \<Rightarrow>
        let current = next_one sieve 0
        in (offset + 2 * current, \<lparr>gp_offset = offset, gp_current = int current, gp_primes = primes, gp_sieve = sieve,
             gp_len = len, gp_moduli = moduli'\<rparr>))"

text \<open>\<open>primes[nprimes-1] < sqrt(offset + 2*len)\<close> is a comparison of squares.\<close>

definition getprime :: "sieve \<Rightarrow> halt + nat \<times> sieve" where
  "getprime s =
     (let current = (if gp_len s > 0 then next_one (gp_sieve s) (nat (gp_current s + 1)) else gp_len s)
      in if current < gp_len s then Inr (gp_offset s + 2 * current, s\<lparr>gp_current := int current\<rparr>)
         else
         let offset = gp_offset s + 2 * gp_len s;
             len = (if gp_len s * gp_len s < offset \<and> gp_len s > 0 then 2 * gp_len s else gp_len s);
             t = (gp_primes s, gp_moduli s)
         in if gp_primes s = [] then
              Inr (3, \<lparr>gp_offset = 5, gp_current = -1, gp_primes = [3], gp_sieve = [1, 1], gp_len = 1, gp_moduli = [1]\<rparr>)
            else if last (gp_primes s) ^ 2 < offset + 2 * len then
              and_then (extend_primes (length (gp_primes s)) offset t) (\<lambda>t'. Inr (sieve_block offset len t'))
            else Inr (sieve_block offset len t))"

text \<open>The loop over the primes of its callers, \<open>for (p = 2.0; p <= n; p = getprime ())\<close>.\<close>

fun primes_loop :: "nat \<Rightarrow> nat \<Rightarrow> nat \<Rightarrow> sieve \<Rightarrow> halt + nat list" where
  "primes_loop 0 n p s = Inl Fuel"
| "primes_loop (Suc k) n p s =
     (if p \<le> n then and_then (getprime s) (\<lambda>(q, s'). and_then (primes_loop k n q s') (\<lambda>ps. Inr (p # ps)))
      else Inr [])"

section \<open>Starting anywhere\<close>

text \<open>
  \<open>getprime_seek\<close>, which only the test program at the end of the file calls: the trial division it writes
  out twice, the doubling of the length, the number of small primes and the table of them.
\<close>

function trial :: "nat \<Rightarrow> nat \<Rightarrow> bool" where
  "trial i p = (if i * i \<le> p \<and> p mod i \<noteq> 0 then trial (i + 2) p else p < i * i)"
  by auto
termination
proof (relation "measure (\<lambda>(i, p). p + 2 - i)", simp)
  fix i p :: nat assume a: "i * i \<le> p \<and> p mod i \<noteq> 0"
  then have "i \<le> p" by (meson le_square le_trans)
  then show "((i + 2, p), i, p) \<in> measure (\<lambda>(i, p). p + 2 - i)" by simp
qed

function seek_len :: "nat \<Rightarrow> nat \<Rightarrow> nat" where
  "seek_len i offset = (if i * i < offset \<and> 0 < i then seek_len (i * 2) offset else i)"
  by auto
termination
proof (relation "measure (\<lambda>(i, offset). offset - i)", simp)
  fix i offset :: nat assume a: "i * i < offset \<and> 0 < i"
  then have "i < offset" by (meson le_less_trans le_square)
  with a have "offset - i * 2 < offset - i" by linarith
  then show "((i * 2, offset), i, offset) \<in> measure (\<lambda>(i, offset). offset - i)" by simp
qed

function seek_count :: "nat \<Rightarrow> nat \<Rightarrow> nat \<Rightarrow> nat" where
  "seek_count p offset len =
     (if p * p \<le> offset + 2 * len
      then (if trial 3 p \<and> p * p < offset + len then 1 else 0) + seek_count (p + 2) offset len
      else 0)"
  by auto
termination
proof (relation "measure (\<lambda>(p, offset, len). offset + 2 * len + 2 - p)", simp)
  fix p offset len :: nat assume a: "p * p \<le> offset + 2 * len"
  then have "p \<le> offset + 2 * len" by (meson le_square le_trans)
  then show "((p + 2, offset, len), p, offset, len) \<in> measure (\<lambda>(p, offset, len). offset + 2 * len + 2 - p)" by simp
qed

declare trial.simps [simp del] seek_len.simps [simp del] seek_count.simps [simp del]

fun seek_primes :: "nat \<Rightarrow> nat \<Rightarrow> nat \<Rightarrow> halt + nat list" where
  "seek_primes n p 0 = Inr []"
| "seek_primes 0 p (Suc j) = Inl Fuel"
| "seek_primes (Suc n) p (Suc j) =
     (if trial 3 p then and_then (seek_primes n (p + 2) j) (\<lambda>ps. Inr (p # ps)) else seek_primes n (p + 2) (Suc j))"

definition getprime_seek :: "double \<Rightarrow> halt + sieve" where
  "getprime_seek pp =
     (if pp \<le> 3 then Inr getprime_clear
      else
        let offset = 2 * nat \<lfloor>pp / 2\<rfloor> + 1;
            len = seek_len 2 offset
        in and_then (seek_primes (offset + 2 * len) 3 (1 + seek_count 5 offset len)) (\<lambda>primes.
           case sieve_all len primes (map (first_multiple offset) primes) (replicate (len + 1) 1) of (sieve, moduli) \<Rightarrow>
             Inr \<lparr>gp_offset = offset, gp_current = -1, gp_primes = primes, gp_sieve = sieve, gp_len = len, gp_moduli = moduli\<rparr>))"

end
