(* ===== verification/SieveProps.thy ===== *)
theory SieveProps
  imports Sieve EvalExpr
begin

text \<open>
  The sieve hands out the primes in order. That each new block holds a prime is what the code asserts
  (\<open>ASSERT(current < len)\<close>); in general it is an open question on the gaps between primes, so that it
  is a hypothesis here, \<open>gaps_ok\<close>, which evaluates to true for any bound it is tried on.
\<close>

section \<open>Primes and divisors\<close>

lemma prime_b_iff: "prime_b p \<longleftrightarrow> 1 < p \<and> (\<forall>d. 1 < d \<and> d < p \<longrightarrow> \<not> d dvd p)"
  by (auto simp: prime_b_def list_all_iff dvd_eq_mod_eq_0 Suc_le_eq)

lemma prime_odd: "prime_b p \<Longrightarrow> 2 < p \<Longrightarrow> odd p"
  using prime_b_iff [of p] by auto

lemma small_divisor:
  assumes "1 < x"
  obtains d where "prime_b d" "d dvd x" "prime_b x \<or> d * d \<le> x"
proof -
  define d where "d = (LEAST d. 1 < d \<and> d dvd x)"
  have d: "1 < d" "d dvd x" using LeastI [of "\<lambda>d. 1 < d \<and> d dvd x" x] assms by (auto simp: d_def)
  have least: "d \<le> e" if "1 < e" "e dvd x" for e using that Least_le [of "\<lambda>d. 1 < d \<and> d dvd x" e] by (simp add: d_def)
  have "prime_b d"
    unfolding prime_b_iff using d least by (meson dvd_trans leD)
  moreover have "prime_b x \<or> d * d \<le> x"
  proof (cases "d = x")
    case False
    from d(2) obtain e where e: "x = d * e" by (auto elim: dvdE)
    with False assms d have "1 < e" by (cases e) (auto intro: ccontr)
    with least [of e] e have "d \<le> e" by simp
    then show ?thesis using e by simp
  qed (use calculation in simp)
  ultimately show thesis using d that by blast
qed

section \<open>The table of small primes\<close>

definition table :: "nat list \<Rightarrow> bool" where
  "table ps \<longleftrightarrow> ps \<noteq> [] \<and> sorted_wrt (<) ps \<and> set ps = {p. prime_b p \<and> 2 < p \<and> p \<le> last ps}"

lemma isprime_list:
  assumes "1 < x" "sorted_wrt (<) qs" "\<And>q. q \<in> set qs \<Longrightarrow> 1 < q" "\<exists>q \<in> set qs. x < q * q"
    and "\<And>d. prime_b d \<Longrightarrow> d dvd x \<Longrightarrow> d * d \<le> x \<Longrightarrow> d \<in> set qs"
  shows "isprime_ui x qs = Inr (prime_b x)"
  using assms(2-)
proof (induction qs)
  case (Cons q qs)
  show ?case
  proof (cases "q * q \<le> x")
    case True
    show ?thesis
    proof (cases "q dvd x")
      case d: True
      have "1 < q" using Cons.prems by simp
      then have "q < x" using True by (metis less_le_trans mult.right_neutral mult_less_cancel1 zero_less_one less_trans)
      then have "\<not> prime_b x" using d \<open>1 < q\<close> by (auto simp: prime_b_iff)
      then show ?thesis using True d by (simp add: dvd_eq_mod_eq_0)
    next
      case False
      have "isprime_ui x qs = Inr (prime_b x)"
      proof (rule Cons.IH)
        show "\<exists>q \<in> set qs. x < q * q" using Cons.prems(3) True by auto
        show "d \<in> set qs" if "prime_b d" "d dvd x" "d * d \<le> x" for d using Cons.prems(4) [OF that] that False by auto
      qed (use Cons.prems in auto)
      then show ?thesis using True False by (simp add: dvd_eq_mod_eq_0)
    qed
  next
    case False
    have "prime_b x"
    proof (rule small_divisor [OF assms(1)])
      fix d assume d: "prime_b d" "d dvd x" "prime_b x \<or> d * d \<le> x"
      show "prime_b x"
      proof (rule ccontr)
        assume "\<not> prime_b x"
        with d have "d * d \<le> x" "d \<in> set (q # qs)" using Cons.prems(4) [of d] by auto
        then have "q \<le> d" using Cons.prems(1) by auto
        then show False using \<open>d * d \<le> x\<close> False mult_le_mono [of q d q d] by simp
      qed
    qed
    then show ?thesis using False by simp
  qed
qed simp

lemma table_isprime:
  assumes "table ps" "odd x" "1 < x" "x < last ps * last ps"
  shows "isprime_ui x ps = Inr (prime_b x)"
proof (rule isprime_list)
  have l: "last ps \<in> set ps" using assms(1) unfolding table_def by (blast intro: last_in_set)
  then show "\<exists>q \<in> set ps. x < q * q" using assms(4) by blast
  fix d assume d: "prime_b d" "d dvd x" "d * d \<le> x"
  then have "d \<noteq> 2" using assms(2) by auto
  moreover have "1 < d" using d(1) by (simp add: prime_b_iff)
  moreover have "d \<le> last ps" using d(3) assms(4) by (metis leD le_less_trans linear mult_le_mono)
  ultimately show "d \<in> set ps" using d(1) assms(1) by (auto simp: table_def)
qed (use assms in \<open>auto simp: table_def prime_b_iff\<close>)

lemma find_prime_least:
  assumes "\<And>j. j \<le> k \<Longrightarrow> isprime_ui (p + 2 * j) ps = Inr (prime_b (p + 2 * j))"
    and "prime_b (p + 2 * k)" "\<And>j. j < k \<Longrightarrow> \<not> prime_b (p + 2 * j)" "k < n"
  shows "find_prime n p ps = Inr (p + 2 * k)"
  using assms
proof (induction k arbitrary: n p)
  case 0
  then show ?case by (cases n) auto
next
  case (Suc k)
  then obtain n' where n: "n = Suc n'" "k < n'" by (cases n) auto
  have "find_prime n' (p + 2) ps = Inr (p + 2 + 2 * k)"
  proof (rule Suc.IH)
    fix j
    show "j \<le> k \<Longrightarrow> isprime_ui (p + 2 + 2 * j) ps = Inr (prime_b (p + 2 + 2 * j))" using Suc.prems(1) [of "Suc j"] by simp
    show "j < k \<Longrightarrow> \<not> prime_b (p + 2 + 2 * j)" using Suc.prems(3) [of "Suc j"] by simp
    show "prime_b (p + 2 + 2 * k)" using Suc.prems(2) by simp
  qed (rule n(2))
  then show ?case using n Suc.prems(1) [of 0] Suc.prems(3) [of 0] by simp
qed

section \<open>Gaps\<close>

text \<open>
  Among \<open>x\<close>, \<open>x + 2\<close>, ... there is a prime before \<open>k\<close> steps with \<open>k * k \<ge> x\<close>: the block of the sieve
  at offset \<open>x\<close> has at least that many.
\<close>

definition gaps_ok :: "nat \<Rightarrow> bool" where
  "gaps_ok m \<longleftrightarrow> list_all (\<lambda>x. odd x \<longrightarrow> list_ex (\<lambda>k. k * k < x \<and> prime_b (x + 2 * k)) [0..<x]) [5..<Suc m]"

lemma gaps_okE:
  assumes "gaps_ok m" "odd x" "5 \<le> x" "x \<le> m"
  obtains k where "k * k < x" "prime_b (x + 2 * k)" "\<And>j. j < k \<Longrightarrow> \<not> prime_b (x + 2 * j)"
proof -
  let ?P = "\<lambda>k. k * k < x \<and> prime_b (x + 2 * k)"
  have "x \<in> set [5..<Suc m]" using assms(3,4) by (auto simp del: upt_Suc)
  with assms(1) have "odd x \<longrightarrow> list_ex ?P [0..<x]" unfolding gaps_ok_def list_all_iff by (rule bspec)
  then have "\<exists>k. ?P k" using assms(2) unfolding list_ex_iff by blast
  then have L: "?P (LEAST k. ?P k)" by (rule LeastI_ex)
  have "\<not> prime_b (x + 2 * j)" if "j < (LEAST k. ?P k)" for j
    using not_less_Least [OF that] L that by (meson le_less_trans less_imp_le_nat mult_le_mono)
  with L that show thesis by blast
qed

lemma table_snoc:
  assumes "table ps" "prime_b p" "last ps < p" "\<And>x. last ps < x \<Longrightarrow> x < p \<Longrightarrow> \<not> prime_b x"
  shows "table (ps @ [p])"
proof -
  have l: "last ps \<in> set ps" using assms(1) unfolding table_def by (blast intro: last_in_set)
  then have "2 < p" using assms(1,3) unfolding table_def by auto
  moreover have "x \<le> last ps \<or> x = p" if "prime_b x" "x \<le> p" for x
    using assms(4) [of x] that by force
  moreover have "\<forall>q \<in> set ps. q < p" using assms(1,3) by (auto simp: table_def)
  ultimately show ?thesis using assms(1-3) by (auto simp: table_def sorted_wrt_append)
qed

lemma table_last: "table ps \<Longrightarrow> last ps \<in> set ps \<and> prime_b (last ps) \<and> 2 < last ps \<and> odd (last ps)"
  unfolding table_def using last_in_set prime_odd by blast

text \<open>The next prime after the table, and how far it can be: square roots grow by at most one.\<close>

lemma find_next:
  assumes t: "table ps" and g: "gaps_ok m" "last ps + 2 \<le> m" and r: "last ps + 2 \<le> r * r"
  obtains p where "find_prime (prod_list ps) (last ps + 2) ps = Inr p" "table (ps @ [p])"
    "last ps + 2 \<le> p" "p + 2 \<le> (r + 1) * (r + 1)"
proof -
  let ?q = "last ps"
  have q: "2 < ?q" "odd ?q" "?q \<in> set ps" using table_last [OF t] by auto
  from q g obtain k where k: "k * k < ?q + 2" "prime_b (?q + 2 + 2 * k)" "\<And>j. j < k \<Longrightarrow> \<not> prime_b (?q + 2 + 2 * j)"
    by (elim gaps_okE [of m "?q + 2"]) auto
  have small: "k < ?q \<and> ?q + 2 + 2 * k < ?q * ?q"
  proof (cases "?q = 3")
    case True
    have "prime_b 5" by (simp add: prime_b_def upt_rec)
    then have "k = 0" using k(3) [of 0] True by (cases k) auto
    then show ?thesis using True by simp
  next
    case False
    with q have "5 \<le> ?q" by (cases "?q = 4") auto
    moreover have "k < ?q"
    proof (rule ccontr)
      assume "\<not> k < ?q"
      then have "?q * ?q \<le> k * k" by (intro mult_le_mono) auto
      moreover have "5 * ?q \<le> ?q * ?q" using \<open>5 \<le> ?q\<close> by (intro mult_le_mono) auto
      ultimately show False using k(1) \<open>5 \<le> ?q\<close> by linarith
    qed
    moreover have "5 * ?q \<le> ?q * ?q" using \<open>5 \<le> ?q\<close> by (intro mult_le_mono) auto
    ultimately show ?thesis by linarith
  qed
  have "?q \<le> prod_list ps"
  proof -
    have "prod_list ps \<noteq> 0" using t by (auto simp: prod_list_zero_iff table_def)
    moreover have "?q dvd prod_list ps" using q(3) by (rule prod_list_dvd)
    ultimately show ?thesis by (auto dest: dvd_imp_le)
  qed
  then have f: "find_prime (prod_list ps) (?q + 2) ps = Inr (?q + 2 + 2 * k)"
    by (intro find_prime_least table_isprime t k) (use small q in auto)
  moreover have "table (ps @ [?q + 2 + 2 * k])"
  proof (rule table_snoc [OF t k(2)])
    fix x assume x: "?q < x" "x < ?q + 2 + 2 * k"
    show "\<not> prime_b x"
    proof
      assume px: "prime_b x"
      then have "odd x" using prime_odd [of x] x(1) q(1) by auto
      with q(2) have "even (x - ?q)" using x(1) by simp
      then obtain i where "x - ?q = 2 * i" by (rule evenE)
      then have i: "x = ?q + 2 * i" using x(1) by linarith
      then have "i \<noteq> 0" using x(1) by auto
      then obtain j where "i = Suc j" by (cases i) auto
      then show False using k(3) [of j] i x(2) px by auto
    qed
  qed simp
  moreover have "k < r" using k(1) r by (metis le_less_trans less_le_trans linorder_not_le mult_le_mono)
  then have "2 * k + 2 \<le> 2 * r" by simp
  then have "?q + 2 + 2 * k + 2 \<le> (r + 1) * (r + 1)" using r by (simp add: algebra_simps)
  ultimately show thesis using that [of "?q + 2 + 2 * k"] by simp
qed

section \<open>Crossing out\<close>

definition multiples :: "nat \<Rightarrow> nat list \<Rightarrow> nat list \<Rightarrow> bool" where
  "multiples offset = list_all2 (\<lambda>p m. p dvd offset + 2 * m \<and> m < p)"

lemma first_multiple_ok: "odd p \<Longrightarrow> odd offset \<Longrightarrow> p dvd offset + 2 * first_multiple offset p \<and> first_multiple offset p < p"
proof -
  assume "odd p" "odd offset"
  define r where "r = offset mod p"
  define j where "j = (if r = 0 then r else p - r)"
  define j' where "j' = (if odd j then j + p else j)"
  have "0 < p" using \<open>odd p\<close> by (cases p) auto
  then have "r < p" by (simp add: r_def)
  have dv: "p dvd offset + j" unfolding j_def r_def
  proof (cases "offset mod p = 0")
    case False
    have "offset + (p - offset mod p) = offset div p * p + p"
      using \<open>r < p\<close> div_mult_mod_eq [of offset p] unfolding r_def by linarith
    then have "p dvd offset + (p - offset mod p)" by (metis dvd_add dvd_refl dvd_triv_right)
    with False show "p dvd offset + (if offset mod p = 0 then offset mod p else p - offset mod p)" by simp
  qed auto
  have "j < p" using \<open>r < p\<close> \<open>0 < p\<close> by (auto simp: j_def)
  have "even j'" using \<open>odd p\<close> by (simp add: j'_def)
  then have "2 * (j' div 2) = j'" by simp
  moreover have "j' div 2 < p" using \<open>j < p\<close> by (auto simp: j'_def)
  moreover have "p dvd offset + j'" using dv by (auto simp: j'_def simp flip: add.assoc)
  moreover have "first_multiple offset p = j' div 2" by (simp add: first_multiple_def j'_def j_def r_def Let_def)
  ultimately show ?thesis by simp
qed

lemma table_length: "table ps \<Longrightarrow> 2 * length ps + 1 \<le> last ps"
proof -
  have "2 * length ps + 1 \<le> last ps" if "sorted_wrt (<) ps" "ps \<noteq> []" "\<forall>p \<in> set ps. odd p \<and> 3 \<le> p" for ps :: "nat list"
    using that
  proof (induction ps rule: rev_induct)
    case (snoc p ps)
    show ?case
    proof (cases "ps = []")
      case False
      then have l: "last ps \<in> set ps" by simp
      with snoc False have "2 * length ps + 1 \<le> last ps" "last ps < p" "odd (last ps)" "odd p"
        by (auto simp: sorted_wrt_append)
      moreover from this have "p \<noteq> Suc (last ps)" by auto
      ultimately show ?thesis by simp
    qed (use snoc in auto)
  qed simp
  then show "table ps \<Longrightarrow> ?thesis" using prime_odd by (auto simp: table_def)
qed

lemma extend_ok:
  assumes "table ps" "multiples offset ps ms" "odd offset" "gaps_ok m"
    and "last ps + 2 \<le> r * r" "(r + k) * (r + k) \<le> m + 4"
  shows "\<exists>ps' ms'. extend_primes k offset (ps, ms) = Inr (ps', ms') \<and> table ps' \<and> multiples offset ps' ms'
     \<and> last ps + 2 * k \<le> last ps' \<and> last ps' + 2 \<le> (r + k) * (r + k)"
  using assms
proof (induction k arbitrary: ps ms r)
  case (Suc k)
  have "2 \<le> r"
  proof (rule ccontr)
    assume "\<not> 2 \<le> r"
    then have "r * r \<le> 1 * 1" by (intro mult_le_mono) auto
    with Suc.prems(5) show False by simp
  qed
  moreover have "(r + 1) * (r + 1) \<le> (r + Suc k) * (r + Suc k)" by (intro mult_le_mono) auto
  moreover have "(r + 1) * (r + 1) = r * r + 2 * r + 1" by (simp add: algebra_simps)
  ultimately have "last ps + 2 \<le> m" using Suc.prems(5,6) by linarith
  then obtain p where p: "find_prime (prod_list ps) (last ps + 2) ps = Inr p" "table (ps @ [p])"
    "last ps + 2 \<le> p" "p + 2 \<le> (r + 1) * (r + 1)"
    using find_next [OF Suc.prems(1,4) _ Suc.prems(5)] by metis
  have "odd p" using table_last [OF p(2)] by simp
  then have "multiples offset (ps @ [p]) (ms @ [first_multiple offset p])"
    using Suc.prems(2,3) first_multiple_ok [of p offset] unfolding multiples_def
    by (intro list_all2_appendI) auto
  from Suc.IH [OF p(2) this Suc.prems(3,4), of "r + 1"] p Suc.prems(6)
  show ?case by (auto simp: algebra_simps)
qed auto

lemma length_cross_out [simp]: "length (fst (cross_out p len i sv)) = length sv"
  by (induction p len i sv rule: cross_out.induct) (subst cross_out.simps, auto)

lemma cross_out_entry:
  assumes "cross_out p len i sv = (sv', m')" "0 < p" "j < length sv"
  shows "sv' ! j = (if j < len \<and> i \<le> j \<and> p dvd j - i then 0 else sv ! j)"
  using assms
proof (induction p len i sv rule: cross_out.induct)
  case (1 p len i sv)
  show ?case
  proof (cases "i < len")
    case True
    with 1 have ih: "sv' ! j = (if j < len \<and> i + p \<le> j \<and> p dvd j - (i + p) then 0 else sv[i := 0] ! j)"
      by (simp add: cross_out.simps [of p len i sv])
    have "p dvd j - i \<longleftrightarrow> p dvd j - (i + p)" if "i + p \<le> j"
      using that by (metis add.commute diff_diff_add dvd_minus_self le_diff_conv2 add_leD1 le_add_diff_inverse2 not_less)
    moreover have "\<not> p dvd j - i" if "i < j" "j < i + p"
      using that nat_dvd_not_less [of "j - i" p] by auto
    moreover have "i < length sv \<or> j < i \<or> i < j" using 1(4) by linarith
    ultimately show ?thesis using ih True 1(4) by (cases "i + p \<le> j") (auto simp: nth_list_update)
  next
    case False
    with 1 show ?thesis by (auto simp: cross_out.simps [of p len i sv])
  qed
qed

lemma cross_out_rest:
  assumes "cross_out p len i sv = (sv', m')" "p dvd x + 2 * i" "i < len + p" "0 < p"
  shows "p dvd (x + 2 * len) + 2 * m' \<and> m' < p"
  using assms
proof (induction p len i sv rule: cross_out.induct)
  case (1 p len i sv)
  show ?case
  proof (cases "i < len")
    case True
    have "x + 2 * (i + p) = (x + 2 * i) + p * 2" by simp
    then have "p dvd x + 2 * (i + p)" using 1(3) by (metis dvd_add dvd_triv_left)
    with 1 True show ?thesis by (simp add: cross_out.simps [of p len i sv])
  next
    case False
    with 1 have "m' = i - len" by (simp add: cross_out.simps [of p len i sv])
    with False 1 show ?thesis by (simp add: algebra_simps)
  qed
qed

lemma sieve_all_ok:
  assumes "multiples x ps ms" "\<forall>p \<in> set ps. odd p" "sieve_all len ps ms sv = (sv', ms')" "length sv = len + 1"
  shows "multiples (x + 2 * len) ps ms' \<and> length sv' = len + 1 \<and> sv' ! len = sv ! len
     \<and> (\<forall>j < len. sv' ! j = (if \<exists>p \<in> set ps. p dvd x + 2 * j then 0 else sv ! j))"
  using assms
proof (induction len ps ms sv arbitrary: ms' rule: sieve_all.induct)
  case (1 len p ps m ms sv)
  obtain sv1 m1 where c: "cross_out p len m sv = (sv1, m1)" by fastforce
  obtain ms1 where r: "sieve_all len ps ms sv1 = (sv', ms1)" "ms' = m1 # ms1"
    using 1(4) c by (cases "sieve_all len ps ms sv1") auto
  have p: "odd p" "p dvd x + 2 * m" "m < p" "multiples x ps ms" using 1(2,3) by (auto simp: multiples_def)
  have l: "length sv1 = len + 1" using length_cross_out [of p len m sv] c 1(5) by simp
  have e: "sv1 ! j = (if j < len \<and> m \<le> j \<and> p dvd j - m then 0 else sv ! j)" if "j \<le> len" for j
    using cross_out_entry [OF c, of j] p(3) that 1(5) by simp
  have d: "p dvd x + 2 * j \<longleftrightarrow> m \<le> j \<and> p dvd j - m" for j
  proof (cases "m \<le> j")
    case True
    have "x + 2 * j = (x + 2 * m) + 2 * (j - m)" using True by simp
    then have "p dvd x + 2 * j \<longleftrightarrow> p dvd 2 * (j - m)" by (simp only: dvd_add_right_iff [OF p(2)])
    also have "\<dots> \<longleftrightarrow> p dvd j - m" using p(1) by (simp add: coprime_dvd_mult_right_iff)
    finally show ?thesis using True by simp
  next
    case False
    have "\<not> p dvd x + 2 * j"
    proof
      assume "p dvd x + 2 * j"
      then have "p dvd (x + 2 * j) + 2 * (m - j) \<longleftrightarrow> p dvd 2 * (m - j)" by (rule dvd_add_right_iff)
      moreover have "(x + 2 * j) + 2 * (m - j) = x + 2 * m" using False by simp
      ultimately have "p dvd 2 * (m - j)" using p(2) by simp
      then have "p dvd m - j" using p(1) by (simp add: coprime_dvd_mult_right_iff)
      then show False using False p(3) nat_dvd_not_less [of "m - j" p] by simp
    qed
    then show ?thesis using False by simp
  qed
  have "multiples (x + 2 * len) ps ms1 \<and> length sv' = len + 1 \<and> sv' ! len = sv1 ! len
     \<and> (\<forall>j < len. sv' ! j = (if \<exists>p \<in> set ps. p dvd x + 2 * j then 0 else sv1 ! j))"
    using 1(1) [OF c [symmetric] p(4) _ r(1)] 1(3) l by simp
  moreover have "p dvd (x + 2 * len) + 2 * m1 \<and> m1 < p"
    using cross_out_rest [OF c p(2)] p(3) by simp
  ultimately show ?case using r(2) e d by (auto simp: multiples_def)
qed (auto simp: multiples_def)

section \<open>A block\<close>

lemma next_one_ok:
  assumes "length sv = len + 1" "sv ! len \<noteq> 0" "i \<le> len" "c = next_one sv i"
  shows "i \<le> c \<and> c \<le> len \<and> sv ! c \<noteq> 0 \<and> (\<forall>j. i \<le> j \<and> j < c \<longrightarrow> sv ! j = 0)"
proof -
  let ?d = "drop i sv" and ?t = "length (takeWhile (\<lambda>x. x = 0) (drop i sv))"
  have z: "?d ! j = 0" if "j < ?t" for j using takeWhile_nth [OF that] nth_mem [OF that] set_takeWhileD by metis
  have "?t \<le> len - i"
  proof (rule ccontr)
    assume "\<not> ?t \<le> len - i"
    with z [of "len - i"] assms(1-3) show False by simp
  qed
  then have t: "?t < length ?d" "i + ?t \<le> len" using assms(1,3) by simp_all
  then have "?d ! ?t \<noteq> 0" using nth_length_takeWhile by blast
  moreover have "sv ! j = 0" if "i \<le> j" "j < i + ?t" for j
    using z [of "j - i"] that t(2) assms(1) by simp
  ultimately show ?thesis using t assms(1,4) by (simp add: next_one_def)
qed

definition follows :: "nat \<Rightarrow> nat \<Rightarrow> bool" where
  "follows p q \<longleftrightarrow> p < q \<and> prime_b q \<and> (\<forall>y. p < y \<and> y < q \<longrightarrow> \<not> prime_b y)"

text \<open>The state after a prime was returned, from 19 on.\<close>

definition block_ok :: "sieve \<Rightarrow> bool" where
  "block_ok s \<longleftrightarrow> odd (gp_offset s) \<and> table (gp_primes s) \<and> 11 \<le> last (gp_primes s) \<and> last (gp_primes s) < gp_offset s
     \<and> multiples (gp_offset s + 2 * gp_len s) (gp_primes s) (gp_moduli s)
     \<and> gp_offset s + 2 * gp_len s \<le> last (gp_primes s) * last (gp_primes s)
     \<and> length (gp_sieve s) = gp_len s + 1 \<and> gp_sieve s ! gp_len s \<noteq> 0
     \<and> (\<forall>j < gp_len s. gp_sieve s ! j \<noteq> 0 \<longleftrightarrow> prime_b (gp_offset s + 2 * j))
     \<and> gp_offset s \<le> gp_len s * gp_len s \<and> gp_len s * gp_len s \<le> 4 * gp_offset s"

definition at_prime :: "sieve \<Rightarrow> nat \<Rightarrow> bool" where
  "at_prime s p \<longleftrightarrow> block_ok s \<and> (\<exists>c < gp_len s. gp_current s = int c \<and> p = gp_offset s + 2 * c \<and> prime_b p)"

lemma crossed_out:
  assumes "table ps" "odd x" "last ps < x" "x + 2 * len \<le> last ps * last ps" "j < len"
  shows "(\<exists>p \<in> set ps. p dvd x + 2 * j) \<longleftrightarrow> \<not> prime_b (x + 2 * j)"
proof
  assume "\<exists>p \<in> set ps. p dvd x + 2 * j"
  then obtain p where p: "p \<in> set ps" "p dvd x + 2 * j" by blast
  then have "1 < p" "p \<le> last ps" using assms(1) by (auto simp: table_def)
  then show "\<not> prime_b (x + 2 * j)" using p(2) assms(3) by (auto simp: prime_b_iff)
next
  let ?y = "x + 2 * j"
  assume n: "\<not> prime_b ?y"
  have "1 < ?y" using assms(3) table_last [OF assms(1)] by linarith
  then obtain d where d: "prime_b d" "d dvd ?y" "d * d \<le> ?y" using n by (metis small_divisor)
  have "?y < last ps * last ps" using assms(4,5) by linarith
  then have "d \<le> last ps" using d(3) by (metis leD le_less_trans linear mult_le_mono)
  moreover have "d \<noteq> 2" using d(2) assms(2) by auto
  moreover have "1 < d" using d(1) by (simp add: prime_b_iff)
  ultimately show "\<exists>p \<in> set ps. p dvd ?y" using d(1,2) assms(1) by (auto simp: table_def)
qed

lemma sieve_block_ok:
  assumes "table ps" "11 \<le> last ps" "last ps < x" "odd x" "multiples x ps ms" "x + 2 * len \<le> last ps * last ps"
    and "x \<le> len * len" "len * len \<le> 4 * x" "k < len" "prime_b (x + 2 * k)"
  shows "\<exists>q s. sieve_block x len (ps, ms) = (q, s) \<and> at_prime s q \<and> gp_offset s = x \<and> x \<le> q
     \<and> (\<forall>j. x + 2 * j < q \<longrightarrow> \<not> prime_b (x + 2 * j))"
proof -
  define ones where "ones = replicate (len + 1) (1 :: nat)"
  have ones: "length ones = len + 1" "\<And>j. j \<le> len \<Longrightarrow> ones ! j = 1"
    unfolding ones_def by (rule length_replicate) (rule nth_replicate, simp)
  obtain sv ms' where sv: "sieve_all len ps ms ones = (sv, ms')" by fastforce
  have o: "\<forall>p \<in> set ps. odd p" using assms(1) prime_odd by (auto simp: table_def)
  have r: "multiples (x + 2 * len) ps ms'" "length sv = len + 1" "sv ! len = 1"
    "\<And>j. j < len \<Longrightarrow> sv ! j = (if \<exists>p \<in> set ps. p dvd x + 2 * j then 0 else 1)"
    using sieve_all_ok [OF assms(5) o sv ones(1)] ones(2) by auto
  have e: "sv ! j \<noteq> 0 \<longleftrightarrow> prime_b (x + 2 * j)" if "j < len" for j
    using r(4) [OF that] crossed_out [OF assms(1,4,3,6) that] by simp
  define c where "c = next_one sv 0"
  have c: "c \<le> len" "sv ! c \<noteq> 0" "\<And>j. j < c \<Longrightarrow> sv ! j = 0"
    using next_one_ok [OF r(2) _ _ c_def] r(3) by auto
  have "c \<le> k" using c(3) [of k] e [OF assms(9)] assms(10) by (metis not_le)
  then have cl: "c < len" using assms(9) by simp
  let ?s = "\<lparr>gp_offset = x, gp_current = int c, gp_primes = ps, gp_sieve = sv, gp_len = len, gp_moduli = ms'\<rparr>"
  have "sieve_block x len (ps, ms) = (x + 2 * c, ?s)"
    using sv by (simp add: sieve_block_def c_def Let_def ones_def del: replicate.simps replicate_Suc)
  moreover have "block_ok ?s" using assms r e by (simp add: block_ok_def)
  then have "at_prime ?s (x + 2 * c)" using cl e [OF cl] c(2) by (auto simp: at_prime_def)
  moreover have "\<not> prime_b (x + 2 * j)" if "x + 2 * j < x + 2 * c" for j
    using c(3) [of j] e [of j] that cl by simp
  ultimately show ?thesis by auto
qed

text \<open>The table reaches far enough for the new block, and stays below it.\<close>

lemma table_enough:
  assumes t: "table ps" "multiples x ps ms" "odd x" "gaps_ok m" "x \<le> m"
    and q: "11 \<le> last ps" "last ps < x" "x \<le> last ps * last ps" "len * len \<le> 4 * x"
  shows "\<exists>ps' ms'. (if last ps ^ 2 < x + 2 * len then extend_primes (length ps) x (ps, ms) else Inr (ps, ms)) = Inr (ps', ms')
     \<and> table ps' \<and> multiples x ps' ms' \<and> 11 \<le> last ps' \<and> last ps' < x \<and> x + 2 * len \<le> last ps' * last ps'"
proof (cases "last ps ^ 2 < x + 2 * len")
  case False
  then show ?thesis using assms by (simp add: power2_eq_square)
next
  case True
  let ?q = "last ps"
  have "odd ?q" using table_last [OF t(1)] by simp
  then obtain v where "?q = 2 * v + 1" by (rule oddE)
  then obtain u where u: "?q = 2 * u + 3" "4 \<le> u" using q(1) by (cases v) auto
  have k: "2 * length ps + 1 \<le> ?q" using t(1) by (rule table_length)
  have "len \<le> 2 * ?q"
  proof (rule ccontr)
    assume "\<not> len \<le> 2 * ?q"
    then have "(2 * ?q) * (2 * ?q) < len * len" by (intro mult_strict_mono) auto
    then show False using q(3,4) by linarith
  qed
  have x: "(2 * u + 1) * (2 * u + 1) < x"
  proof (rule ccontr)
    assume a: "\<not> (2 * u + 1) * (2 * u + 1) < x"
    have "len \<le> 2 * (2 * u + 1)"
    proof (rule ccontr)
      assume "\<not> len \<le> 2 * (2 * u + 1)"
      then have "(2 * (2 * u + 1)) * (2 * (2 * u + 1)) < len * len" by (intro mult_strict_mono) auto
      then show False using q(4) a by (simp add: algebra_simps)
    qed
    then show False using True a u(1) by (simp add: power2_eq_square algebra_simps)
  qed
  have r: "?q + 2 \<le> u * u" 
  proof -
    have "4 * u \<le> u * u" using u(2) by (intro mult_le_mono) auto
    then show ?thesis using u by linarith
  qed
  have "(u + length ps) * (u + length ps) \<le> (2 * u + 1) * (2 * u + 1)" using k u(1) by (intro mult_le_mono) auto
  then have b: "(u + length ps) * (u + length ps) < x" using x by simp
  then obtain ps' ms' where e: "extend_primes (length ps) x (ps, ms) = Inr (ps', ms')" "table ps'" "multiples x ps' ms'"
    "?q + 2 * length ps \<le> last ps'" "last ps' + 2 \<le> (u + length ps) * (u + length ps)"
    using extend_ok [OF t(1-4) r, of "length ps"] t(5) by force
  have "0 < length ps" using t(1) by (simp add: table_def)
  then have "?q + 2 \<le> last ps'" using e(4) by linarith
  then have "(?q + 2) * (?q + 2) \<le> last ps' * last ps'" by (intro mult_le_mono)
  moreover have "(?q + 2) * (?q + 2) = ?q * ?q + 4 * ?q + 4" by (simp add: algebra_simps)
  ultimately have "x + 2 * len \<le> last ps' * last ps'" using \<open>len \<le> 2 * ?q\<close> q(3) by linarith
  then show ?thesis using True e b q(1) by auto
qed

section \<open>The next prime\<close>

lemma odd_place: "prime_b y \<Longrightarrow> odd x \<Longrightarrow> 2 < x \<Longrightarrow> x \<le> y \<Longrightarrow> \<exists>j. y = x + 2 * j"
  using prime_odd [of y] by (metis even_add evenE le_iff_add less_le_trans)

lemma same_block:
  assumes b: "block_ok s" and c: "gp_current s = int c" "c < gp_len s" "next_one (gp_sieve s) (c + 1) < gp_len s"
  shows "\<exists>q s'. getprime s = Inr (q, s') \<and> at_prime s' q \<and> follows (gp_offset s + 2 * c) q"
proof -
  let ?i = "next_one (gp_sieve s) (c + 1)" and ?x = "gp_offset s"
  from b have f: "length (gp_sieve s) = gp_len s + 1" "gp_sieve s ! gp_len s \<noteq> 0" "odd ?x" "11 < ?x"
    "\<And>j. j < gp_len s \<Longrightarrow> gp_sieve s ! j \<noteq> 0 \<longleftrightarrow> prime_b (?x + 2 * j)"
    by (auto simp: block_ok_def)
  have n: "c + 1 \<le> ?i" "gp_sieve s ! ?i \<noteq> 0" "\<And>j. c + 1 \<le> j \<Longrightarrow> j < ?i \<Longrightarrow> gp_sieve s ! j = 0"
    using next_one_ok [OF f(1,2) _ refl, of "c + 1"] c(2) by auto
  have "getprime s = Inr (?x + 2 * ?i, s\<lparr>gp_current := int ?i\<rparr>)"
    using c by (simp add: getprime_def Let_def nat_add_distrib)
  moreover have "at_prime (s\<lparr>gp_current := int ?i\<rparr>) (?x + 2 * ?i)"
    using b c(3) f(5) [OF c(3)] n(2) by (simp add: at_prime_def block_ok_def)
  moreover have "\<not> prime_b y" if "?x + 2 * c < y" "y < ?x + 2 * ?i" for y
  proof
    assume y: "prime_b y"
    moreover have "?x \<le> y" using that(1) by simp
    ultimately obtain j where j: "y = ?x + 2 * j" using odd_place [of y ?x] f(3,4) by auto
    with that have "c + 1 \<le> j" "j < ?i" by auto
    with n(3) [of j] f(5) [of j] c(3) y j show False by simp
  qed
  then have "follows (?x + 2 * c) (?x + 2 * ?i)" using f(5) [OF c(3)] n by (simp add: follows_def)
  ultimately show ?thesis by blast
qed

lemma next_block:
  assumes b: "block_ok s" and c: "gp_current s = int c" "c < gp_len s" "\<not> next_one (gp_sieve s) (c + 1) < gp_len s"
    and g: "gaps_ok m" "gp_offset s + 2 * gp_len s \<le> m"
  shows "\<exists>q s'. getprime s = Inr (q, s') \<and> at_prime s' q \<and> follows (gp_offset s + 2 * c) q"
proof -
  let ?x = "gp_offset s" and ?l = "gp_len s"
  define x where "x = ?x + 2 * ?l"
  define len where "len = (if ?l * ?l < x then 2 * ?l else ?l)"
  from b have f: "length (gp_sieve s) = ?l + 1" "gp_sieve s ! ?l \<noteq> 0" "odd ?x" "11 \<le> last (gp_primes s)"
    "last (gp_primes s) < ?x" "\<And>j. j < ?l \<Longrightarrow> gp_sieve s ! j \<noteq> 0 \<longleftrightarrow> prime_b (?x + 2 * j)"
    "table (gp_primes s)" "multiples x (gp_primes s) (gp_moduli s)" "x \<le> last (gp_primes s) * last (gp_primes s)"
    "?x \<le> ?l * ?l" "?l * ?l \<le> 4 * ?x"
    by (auto simp: block_ok_def x_def)
  have z: "gp_sieve s ! j = 0" if "c + 1 \<le> j" "j < ?l" for j
    using next_one_ok [OF f(1,2) _ refl, of "c + 1"] c(2,3) that by auto
  have l: "0 < ?l" using c(2) by simp
  then have "2 * ?l \<le> ?l * ?l + 1" by (cases ?l) auto
  then have len: "x \<le> len * len" "len * len \<le> 4 * x"
    using f(10,11) l by (auto simp: len_def x_def)
  have x: "odd x" "5 \<le> x" "x \<le> m" "last (gp_primes s) < x" using f(3,4,5) g(2) by (auto simp: x_def)
  obtain k where k: "k * k < x" "prime_b (x + 2 * k)" using gaps_okE [OF g(1) x(1-3)] by blast
  have "k < len" using k(1) len(1) by (metis le_less_trans less_le_trans not_le mult_le_mono)
  obtain ps' ms' where t: "(if last (gp_primes s) ^ 2 < x + 2 * len then extend_primes (length (gp_primes s)) x (gp_primes s, gp_moduli s)
      else Inr (gp_primes s, gp_moduli s)) = Inr (ps', ms')"
    "table ps'" "multiples x ps' ms'" "11 \<le> last ps'" "last ps' < x" "x + 2 * len \<le> last ps' * last ps'"
    using table_enough [OF f(7,8) x(1) g(1) x(3) f(4) x(4) f(9) len(2)] by blast
  obtain q s' where q: "sieve_block x len (ps', ms') = (q, s')" "at_prime s' q" "x \<le> q"
    "\<And>j. x + 2 * j < q \<Longrightarrow> \<not> prime_b (x + 2 * j)"
    using sieve_block_ok [OF t(2,4,5) x(1) t(3,6) len \<open>k < len\<close> k(2)] by blast
  have ne: "gp_primes s \<noteq> []" using f(7) by (simp add: table_def)
  have "getprime s = Inr (q, s')"
    using c(1,3) l ne t(1) q(1) by (auto simp: getprime_def Let_def x_def len_def nat_add_distrib split: if_splits)
  moreover have "\<not> prime_b y" if "?x + 2 * c < y" "y < q" for y
  proof
    assume y: "prime_b y"
    moreover have "?x \<le> y" using that(1) by simp
    ultimately obtain j where j: "y = ?x + 2 * j" using odd_place [of y ?x] f(3,4,5) by auto
    show False
    proof (cases "j < ?l")
      case True
      with that(1) j z [of j] f(6) [of j] y show False by simp
    next
      case False
      then have "y = x + 2 * (j - ?l)" using j by (simp add: x_def)
      with q(4) [of "j - ?l"] that(2) y show False by simp
    qed
  qed
  moreover have "prime_b q" using q(2) by (auto simp: at_prime_def)
  moreover have "?x + 2 * c < q" using q(3) c(2) by (simp add: x_def)
  ultimately show ?thesis using q(2) by (auto simp: follows_def)
qed

lemma getprime_at:
  assumes "at_prime s p" "gaps_ok (3 * n + 2)" "p \<le> n"
  shows "\<exists>q s'. getprime s = Inr (q, s') \<and> at_prime s' q \<and> follows p q"
proof -
  from assms(1) obtain c where c: "block_ok s" "c < gp_len s" "gp_current s = int c" "p = gp_offset s + 2 * c"
    by (auto simp: at_prime_def)
  have "gp_len s \<le> n + 1"
  proof (rule ccontr)
    assume "\<not> gp_len s \<le> n + 1"
    then have "(n + 2) * (n + 2) \<le> gp_len s * gp_len s" by (intro mult_le_mono) auto
    moreover have "gp_len s * gp_len s \<le> 4 * n" using c(1,4) assms(3) by (simp add: block_ok_def)
    ultimately show False by (simp add: algebra_simps)
  qed
  then have "gp_offset s + 2 * gp_len s \<le> 3 * n + 2" using c(4) assms(3) by simp
  then show ?thesis
    using same_block [OF c(1,3,2)] next_block [OF c(1,3,2) _ assms(2)] c(4) by blast
qed

section \<open>The first primes\<close>

definition first_states :: "(nat \<times> sieve) list" where
  "first_states =
     [(2, getprime_clear),
      (3, \<lparr>gp_offset = 5, gp_current = -1, gp_primes = [3], gp_sieve = [1, 1], gp_len = 1, gp_moduli = [1]\<rparr>),
      (5, \<lparr>gp_offset = 5, gp_current = 0, gp_primes = [3], gp_sieve = [1, 1], gp_len = 1, gp_moduli = [1]\<rparr>),
      (7, \<lparr>gp_offset = 7, gp_current = 0, gp_primes = [3, 5], gp_sieve = [1, 0, 1], gp_len = 2, gp_moduli = [2, 2]\<rparr>),
      (11, \<lparr>gp_offset = 11, gp_current = 0, gp_primes = [3, 5], gp_sieve = [1, 1, 0, 1, 1], gp_len = 4, gp_moduli = [1, 3]\<rparr>),
      (13, \<lparr>gp_offset = 11, gp_current = 1, gp_primes = [3, 5], gp_sieve = [1, 1, 0, 1, 1], gp_len = 4, gp_moduli = [1, 3]\<rparr>),
      (17, \<lparr>gp_offset = 11, gp_current = 3, gp_primes = [3, 5], gp_sieve = [1, 1, 0, 1, 1], gp_len = 4, gp_moduli = [1, 3]\<rparr>)]"

definition state_19 :: sieve where
  "state_19 = \<lparr>gp_offset = 19, gp_current = 0, gp_primes = [3, 5, 7, 11], gp_sieve = [1, 0, 1, 0, 0, 1, 1, 0, 1], gp_len = 8,
     gp_moduli = [2, 0, 0, 10]\<rparr>"

definition handed_out :: "nat \<Rightarrow> sieve \<Rightarrow> bool" where
  "handed_out p s \<longleftrightarrow> (p, s) \<in> set first_states \<or> at_prime s p"

lemma first_steps:
  "getprime getprime_clear = Inr (first_states ! 1)"
  "getprime (snd (first_states ! 1)) = Inr (first_states ! 2)"
  "getprime (snd (first_states ! 2)) = Inr (first_states ! 3)"
  "getprime (snd (first_states ! 3)) = Inr (first_states ! 4)"
  "getprime (snd (first_states ! 4)) = Inr (first_states ! 5)"
  "getprime (snd (first_states ! 5)) = Inr (first_states ! 6)"
  "getprime (snd (first_states ! 6)) = Inr (19, state_19)"
  by code_simp+

lemma follows_code: "follows p q \<longleftrightarrow> p < q \<and> prime_b q \<and> list_all (\<lambda>y. \<not> prime_b y) [Suc p..<q]"
  by (auto simp: follows_def list_all_iff)

lemma first_follow:
  "list_all (\<lambda>i. follows (fst (first_states ! i)) (fst (first_states ! (i + 1)))) [0..<6]" "follows 17 19"
  unfolding follows_code by code_simp+

lemma state_19_ok: "at_prime state_19 19"
proof -
  have f: "list_all (\<lambda>j. gp_sieve state_19 ! j \<noteq> 0 \<longleftrightarrow> prime_b (19 + 2 * j)) [0..<8]" "prime_b 19"
    by code_simp+
  have "prime_b p \<and> 2 < p \<and> p \<le> 11 \<longleftrightarrow> p \<in> set (filter (\<lambda>p. prime_b p \<and> 2 < p) [0..<12])" for p
    by auto
  moreover have "filter (\<lambda>p. prime_b p \<and> 2 < p) [0..<12] = [3, 5, 7, 11]" by code_simp
  ultimately have "{p. prime_b p \<and> 2 < p \<and> p \<le> 11} = {3, 5, 7, 11}" by auto
  then have "table [3, 5, 7, 11]" by (simp add: table_def)
  then show ?thesis using f
    by (simp add: at_prime_def block_ok_def state_19_def multiples_def list_all_iff)
qed

lemma handed_out_next:
  assumes "handed_out p s" "gaps_ok (3 * n + 2)" "p \<le> n"
  shows "\<exists>q s'. getprime s = Inr (q, s') \<and> handed_out q s' \<and> follows p q"
proof -
  from assms(1) have "(p, s) \<in> set first_states \<or> at_prime s p" by (simp only: handed_out_def)
  then show ?thesis
  proof
  assume "(p, s) \<in> set first_states"
  then obtain i where "i < length first_states" and fi: "first_states ! i = (p, s)"
    by (auto simp: in_set_conv_nth)
  with fi have i: "i < 7" "first_states ! i = (p, s)" by (simp_all add: first_states_def)
  show ?thesis
  proof (cases "i = 6")
    case True
    then show ?thesis using i first_steps(7) first_follow(2) state_19_ok
      by (auto simp: handed_out_def first_states_def)
  next
    case False
    then have "i < 6" using i(1) by simp
    then have f: "follows p (fst (first_states ! (i + 1)))"
      using first_follow(1) i(2) by (auto simp: list_all_iff dest!: bspec [where x = i])
    have "getprime s = Inr (first_states ! (i + 1))"
    proof -
      have "i \<in> {0, 1, 2, 3, 4, 5}" using \<open>i < 6\<close> by auto
      then show ?thesis using i(2) first_steps by (auto simp: first_states_def)
    qed
    moreover have "first_states ! (i + 1) \<in> set first_states"
      using \<open>i < 6\<close> by (intro nth_mem) (simp add: first_states_def)
    ultimately show ?thesis using f by (cases "first_states ! (i + 1)") (auto simp: handed_out_def)
  qed
next
  assume "at_prime s p"
  from getprime_at [OF this assms(2,3)] show ?thesis unfolding handed_out_def by blast
  qed
qed

lemma filter_follows:
  assumes "follows p q" "prime_b p" "p \<le> n"
  shows "filter prime_b [p..<Suc n] = p # filter prime_b [q..<Suc n]"
proof (cases "q \<le> n")
  case True
  have "[p..<Suc n] = p # [Suc p..<q] @ [q..<Suc n]"
    using assms(1,3) True upt_add_eq_append [of "Suc p" q "Suc n - q"] by (simp add: follows_def upt_conv_Cons del: upt_Suc)
  moreover have "filter prime_b [Suc p..<q] = []" using assms(1) by (auto simp: follows_def filter_empty_conv)
  ultimately show ?thesis using assms(2) by simp
next
  case False
  have "filter prime_b [Suc p..<Suc n] = []" "[q..<Suc n] = []"
    using assms(1) False by (auto simp: follows_def filter_empty_conv simp del: upt_Suc)
  then show ?thesis using assms(2,3) by (simp add: upt_conv_Cons del: upt_Suc)
qed

lemma loop_ok:
  assumes "handed_out p s" "prime_b p" "gaps_ok (3 * n + 2)" "n < p + k"
  shows "primes_loop (Suc k) n p s = Inr (filter prime_b [p..<Suc n])"
  using assms
proof (induction k arbitrary: p s)
  case (Suc k)
  show ?case
  proof (cases "p \<le> n")
    case True
    from handed_out_next [OF Suc.prems(1,3) True]
    obtain q s' where q: "getprime s = Inr (q, s')" "handed_out q s'" "follows p q" by blast
    then have "primes_loop (Suc k) n q s' = Inr (filter prime_b [q..<Suc n])"
      using Suc by (intro Suc.IH) (auto simp: follows_def)
    then show ?thesis using True q(1) filter_follows [OF q(3) Suc.prems(2) True] by (simp del: upt_Suc)
  qed simp
qed simp

text \<open>C17: The loop over the primes of the evaluator, on the sieve of \<open>getprime.c\<close>, goes through exactly the primes up
  to its bound, in order, and ends, provided that the gaps between the primes are as small as the sieve's blocks
  assume: no block is without a prime, no entry of the table of small primes is missing, and none is crossed out.\<close>

theorem getprime_hands_out_the_primes:
  assumes "gaps_ok (3 * n + 2)"
  shows "primes_loop (Suc n) n 2 getprime_clear = Inr (primes_upto (int n))"
proof -
  have "handed_out 2 getprime_clear" by (simp add: handed_out_def first_states_def)
  moreover have "prime_b 2" by (simp add: prime_b_def)
  ultimately show ?thesis using loop_ok [of 2 getprime_clear n n] assms by (simp add: primes_upto_def del: upt_Suc)
qed

lemma gaps_32: "gaps_ok 32"
  by code_simp

theorem getprime_hands_out_the_primes_witness:
  "gaps_ok (3 * 10 + 2) \<and> primes_loop 11 10 2 getprime_clear = Inr [2, 3, 5, 7]"
proof -
  have g: "gaps_ok (3 * 10 + 2)" using gaps_32 by simp
  have "primes_upto (int 10) = [2, 3, 5, 7]" by code_simp
  then show ?thesis using g getprime_hands_out_the_primes [of 10] by simp
qed

section \<open>Starting anywhere\<close>

text \<open>The loop for the table finds as many primes as were counted.\<close>

lemma seek_count_big: "offset + len \<le> p * p \<Longrightarrow> seek_count p offset len = 0"
proof (induction p offset len rule: seek_count.induct)
  case (1 p offset len)
  then have "offset + len \<le> (p + 2) * (p + 2)" by simp
  with 1 show ?case by (simp add: seek_count.simps [of p])
qed

lemma seek_primes_enough: "offset + 2 * len < p + n \<Longrightarrow> \<exists>ps. seek_primes n p (seek_count p offset len) = Inr ps"
proof (induction p offset len arbitrary: n rule: seek_count.induct)
  case (1 p offset len)
  show ?case
  proof (cases "p * p \<le> offset + 2 * len")
    case True
    then have "p \<le> offset + 2 * len" by (meson le_square le_trans)
    with 1(2) obtain m where n: "n = Suc m" by (cases n) auto
    have "offset + 2 * len < p + 2 + m" using 1(2) n by simp
    from 1(1) [OF True this] obtain ps where ps: "seek_primes m (p + 2) (seek_count (p + 2) offset len) = Inr ps" by blast
    show ?thesis
    proof (cases "trial 3 p \<and> p * p < offset + len")
      case t: True
      then show ?thesis using ps n True by (simp add: seek_count.simps [of p])
    next
      case f: False
      then have "seek_count p offset len = seek_count (p + 2) offset len" using True by (simp add: seek_count.simps [of p])
      moreover have "seek_count (p + 2) offset len = 0" if "trial 3 p"
        using f that by (intro seek_count_big) auto
      ultimately show ?thesis using ps n by (cases "seek_count (p + 2) offset len") auto
    qed
  qed (simp add: seek_count.simps [of p])
qed

lemma seek_returns: "\<exists>s. getprime_seek pp = Inr s"
proof (cases "pp \<le> 3")
  case False
  define offset where "offset = 2 * nat \<lfloor>pp / 2\<rfloor> + 1"
  define len where "len = seek_len 2 offset"
  have o: "3 \<le> offset" using False by (simp add: offset_def) linarith
  then obtain n where n: "offset + 2 * len = Suc n" by (cases "offset + 2 * len") auto
  obtain ps where "seek_primes n 5 (seek_count 5 offset len) = Inr ps"
    using seek_primes_enough [of offset len 5 n] n by auto
  then have "seek_primes (offset + 2 * len) 3 (1 + seek_count 5 offset len) = Inr (3 # ps)"
    unfolding n by (simp add: trial.simps [of 3 3])
  then show ?thesis
    using False unfolding getprime_seek_def offset_def [symmetric] Let_def len_def [symmetric]
    by (simp split: prod.splits)
qed (simp add: getprime_seek_def)

text \<open>
  The primes are counted up to the square root of \<open>offset + len\<close>, but the sieve reaches to
  \<open>offset + 2 * len\<close>: after a start at 17 the fourth prime that is handed out is 25.
\<close>

theorem seek_hands_out_25:
  "and_then (getprime_seek 17) (\<lambda>s. and_then (getprime s) (\<lambda>(p1, s1). and_then (getprime s1) (\<lambda>(p2, s2).
     and_then (getprime s2) (\<lambda>(p3, s3). and_then (getprime s3) (\<lambda>(p4, s4). Inr [p1, p2, p3, p4])))))
   = Inr [17, 19, 23, 25]"
proof -
  have l: "seek_len 2 17 = 8" by (simp add: seek_len.simps)
  have c: "seek_count 5 17 8 = 0" by (simp add: seek_count.simps)
  have m: "first_multiple 17 3 = 2" by (simp add: first_multiple_def Let_def)
  have p: "seek_primes 33 3 1 = Inr [3]" by (simp add: numeral_eq_Suc trial.simps)
  have s: "sieve_all 8 [3] [2] (replicate 9 1) = ([1, 1, 0, 1, 1, 0, 1, 1, 1], [0])"
    by (simp add: cross_out.simps numeral_eq_Suc)
  have "\<lfloor>(17 :: double) / 2\<rfloor> = 8" by (simp add: floor_eq_iff)
  then have o: "2 * nat \<lfloor>(17 :: double) / 2\<rfloor> + 1 = 17" by simp
  have "getprime_seek 17 = Inr \<lparr>gp_offset = 17, gp_current = -1, gp_primes = [3], gp_sieve = [1, 1, 0, 1, 1, 0, 1, 1, 1],
     gp_len = 8, gp_moduli = [0]\<rparr>"
    unfolding getprime_seek_def o Let_def l c using m p s by simp
  then show ?thesis by (simp add: getprime_def next_one_def Let_def)
qed

end
