(* ===== verification/AdminClient.thy ===== *)
theory AdminClient
  imports ClientUnit ServerConfig
begin

text \<open>
  The administrator's program (\<open>src/source/ecmadmin.cpp\<close>): a menu on the console, and one connection to
  the server for each command. \<open>ad_input\<close> is what is typed, \<open>ad_dials\<close> what the next attempts to connect
  meet, \<open>ad_sent\<close> what was sent on the connections that were closed. What the program prints and logs
  is not part of the model.
\<close>

record admin =
  ad_email :: string
  ad_server :: string
  ad_port :: int
  ad_password :: string
  ad_conn :: "client option"
  ad_input :: string
  ad_files :: "string \<Rightarrow> string option"
  ad_dials :: "input list option list"
  ad_sent :: "string list list"

section \<open>The connection\<close>

definition on_admin :: "(client, 'a) run \<Rightarrow> (admin, 'a) run" where
  "on_admin m s = (case ad_conn s of
       None \<Rightarrow> Inl Undefined
     | Some c \<Rightarrow> and_then (m c) (\<lambda>(a, c'). Inr (a, s\<lparr>ad_conn := Some c', ad_dials := cs_dials c'\<rparr>)))"

definition admin_socket :: "string \<Rightarrow> admin \<Rightarrow> client" where
  "admin_socket server s =
     \<lparr>so_open = False, so_newline = True, incoming = [], read_buf = [], outgoing = [], cs_server = server,
      cs_port = ad_port s, cs_email = [], cs_user = [], cs_machine = [], cs_instance = [], cs_version = [],
      cs_dials = ad_dials s\<rparr>"

definition OpenAdminSocket :: "(admin, bool) run" where
  "OpenAdminSocket =
     bind (asks (\<lambda>s. s)) (\<lambda>s.
     bind (lift (strcpy (ad_server s) 200)) (\<lambda>server.
     bind (modify (\<lambda>s. s\<lparr>ad_conn := Some (admin_socket server s)\<rparr>)) (\<lambda>_.
     bind (on_admin (client_Open (ad_email s) ''admin_user'' ''admin_machine'' ''admin_instance'')) (\<lambda>opened.
     if opened then ret True
     else bind (modify (\<lambda>s. s\<lparr>ad_conn := None\<rparr>)) (\<lambda>_. ret False)))))"

definition CloseAdminSocket :: "(admin, unit) run" where
  "CloseAdminSocket =
     bind (asks ad_conn) (\<lambda>conn. case conn of
         None \<Rightarrow> ret ()
       | Some c \<Rightarrow> bind (on_admin Close) (\<lambda>_.
           modify (\<lambda>s. s\<lparr>ad_conn := None, ad_sent := ad_sent s @ [outgoing c]\<rparr>)))"

definition VerifyCommand :: "string \<Rightarrow> (admin, bool) run" where
  "VerifyCommand theCommand =
     bind (asks ad_password) (\<lambda>password.
     bind (on_admin (Sendf ''%s %s'' [VS theCommand, VS password])) (\<lambda>_.
     bind (on_admin Receive) (\<lambda>theMessage. case theMessage of
         None \<Rightarrow> ret False
       | Some m \<Rightarrow> ret (prefixed ''OK:'' m))))"

section \<open>Files\<close>

text \<open>A line is given to \<open>Send\<close> as its format: a conversion in it has no argument.\<close>

fun plain_format :: "string \<Rightarrow> halt + string" where
  "plain_format [] = Inr []"
| "plain_format (c # cs) =
     (if c \<noteq> CHR ''%'' then and_then (plain_format cs) (\<lambda>t. Inr (c # t))
      else case cs of
          [] \<Rightarrow> Inl Undefined
        | d # ds \<Rightarrow> if d = CHR ''%'' then and_then (plain_format ds) (\<lambda>t. Inr (CHR ''%'' # t)) else Inl Undefined)"

primrec send_file :: "string list \<Rightarrow> (admin, unit) run" where
  "send_file [] = ret ()"
| "send_file (l # ls) =
     bind (lift (plain_format (StripCRLF l))) (\<lambda>t. bind (on_admin (Send t)) (\<lambda>_. send_file ls))"

definition finished_step :: "unit \<Rightarrow> (admin, unit + bool) run" where
  "finished_step u =
     bind (on_admin Receive) (\<lambda>theMessage. case theMessage of
         None \<Rightarrow> ret (Inr False)
       | Some m \<Rightarrow> ret (if m = ''Done'' then Inr True else Inl ()))"

definition admin_lines :: "admin \<Rightarrow> nat" where
  "admin_lines s = (case ad_conn s of None \<Rightarrow> 0 | Some c \<Rightarrow> pending_lines c)"

definition wait_finished :: "(admin, unit) run" where
  "wait_finished = bind (asks admin_lines) (\<lambda>n. bind (iterate (Suc n) finished_step ()) (\<lambda>_. ret ()))"

text \<open>
  The two functions are the same but for the command and the last line; \<open>fgets\<close> on a file that could
  not be opened is not defined.
\<close>

definition transfer :: "string \<Rightarrow> string \<Rightarrow> string \<Rightarrow> (admin, unit) run" where
  "transfer theCommand lastLine fileName =
     bind (VerifyCommand theCommand) (\<lambda>verified.
     if \<not> verified then ret ()
     else
     bind (asks (\<lambda>s. ad_files s fileName)) (\<lambda>file. case file of
         None \<Rightarrow> stop Undefined
       | Some text \<Rightarrow>
           bind (send_file (file_lines (BUFFER_SIZE - 2) text)) (\<lambda>_.
           bind (on_admin (Send lastLine)) (\<lambda>_. wait_finished))))"

definition SendCompositeFile :: "string \<Rightarrow> (admin, unit) run" where
  "SendCompositeFile = transfer ''ADMIN_COMPOSITE'' ''No more composites''"

definition SendCurvesFile :: "string \<Rightarrow> (admin, unit) run" where
  "SendCurvesFile = transfer ''ADMIN_CURVES'' ''No more curves''"

section \<open>The menu\<close>

text \<open>
  To verify a file its first line is read into the buffer that holds its name: the first line, with its
  line end, is what is returned.
\<close>

definition PromptForValue :: "bool \<Rightarrow> (admin, string) run" where
  "PromptForValue verifyFile =
     bind (asks ad_input) (\<lambda>inp.
     if inp = [] then ret []
     else
     case fgets 198 inp of (l, rest) \<Rightarrow>
     bind (modify (\<lambda>s. s\<lparr>ad_input := rest\<rparr>)) (\<lambda>_.
     let response = StripCRLF l in
     if \<not> verifyFile then ret response
     else bind (asks (\<lambda>s. ad_files s response)) (\<lambda>file. case file of
         None \<Rightarrow> ret []
       | Some text \<Rightarrow> ret (fst (fgets 198 text)))))"

definition SetCompositeStatus :: "bool \<Rightarrow> (admin, unit) run" where
  "SetCompositeStatus active =
     bind (PromptForValue False) (\<lambda>response.
     bind (lift (strcpy response (NAME_LENGTH + 1))) (\<lambda>compositeName.
     if compositeName = [] then ret ()
     else
     bind OpenAdminSocket (\<lambda>opened.
     if \<not> opened then ret ()
     else
     bind (asks ad_password) (\<lambda>password.
     bind (on_admin (Sendf (if active then ''ADMIN_ACTIVE %s %s'' else ''ADMIN_INACTIVE %s %s'') [VS password, VS compositeName])) (\<lambda>_.
     bind (on_admin Receive) (\<lambda>_. CloseAdminSocket))))))"

definition import_file :: "(string \<Rightarrow> (admin, unit) run) \<Rightarrow> (admin, unit) run" where
  "import_file sender =
     bind (PromptForValue True) (\<lambda>response.
     if response = [] then ret ()
     else bind OpenAdminSocket (\<lambda>opened. if opened then bind (sender response) (\<lambda>_. CloseAdminSocket) else ret ()))"

definition menu_choice :: "int \<Rightarrow> (admin, unit) run" where
  "menu_choice menuitem =
     (if menuitem = 1 then
        bind (PromptForValue False) (\<lambda>r. modify (\<lambda>s. s\<lparr>ad_server := r, ad_password := []\<rparr>))
      else if menuitem = 2 then
        bind (PromptForValue False) (\<lambda>r. modify (\<lambda>s. s\<lparr>ad_port := atol r mod 2 ^ 32, ad_password := []\<rparr>))
      else if menuitem = 3 then
        bind (PromptForValue False) (\<lambda>r. bind (lift (strcpy r 100)) (\<lambda>p. modify (\<lambda>s. s\<lparr>ad_password := p\<rparr>)))
      else if menuitem = 4 then import_file SendCompositeFile
      else if menuitem = 5 then SetCompositeStatus True
      else if menuitem = 6 then SetCompositeStatus False
      else if menuitem = 7 then import_file SendCurvesFile
      else ret ())"

text \<open>At the end of what is typed the menu is shown again without end.\<close>

definition menu_step :: "unit \<Rightarrow> (admin, unit + unit) run" where
  "menu_step u =
     bind (asks (\<lambda>s. s)) (\<lambda>s.
     if ad_input s = [] then stop Hang
     else
     case fgets 498 (ad_input s) of (response, rest) \<Rightarrow>
     bind (modify (\<lambda>s. s\<lparr>ad_input := rest\<rparr>)) (\<lambda>_.
     let item = wrap32 (atol response);
         menuitem = (if ad_password s = [] \<and> item > 3 \<and> item \<noteq> 99 then 999 else item)
     in if menuitem = 99 then bind CloseAdminSocket (\<lambda>_. ret (Inr ()))
        else bind (menu_choice menuitem) (\<lambda>_. ret (Inl ()))))"

definition AdminMenu :: "(admin, unit) run" where
  "AdminMenu = bind (asks (\<lambda>s. length (ad_input s))) (\<lambda>n. iterate (Suc n) menu_step ())"

section \<open>The program\<close>

text \<open>An option at the end has no value: \<open>argv[argc]\<close> is a null pointer.\<close>

fun admin_command_line :: "string list \<Rightarrow> admin \<Rightarrow> halt + admin" where
  "admin_command_line [] s = Inr s"
| "admin_command_line (a # as) s =
     (if a = ''-p'' then (case as of [] \<Rightarrow> Inl Undefined | v # vs \<Rightarrow> admin_command_line vs (s\<lparr>ad_port := atol v mod 2 ^ 32\<rparr>))
      else if a = ''-s'' then (case as of [] \<Rightarrow> Inl Undefined
        | v # vs \<Rightarrow> and_then (strcpy v 200) (\<lambda>w. admin_command_line vs (s\<lparr>ad_server := w\<rparr>)))
      else if a = ''-a'' then (case as of [] \<Rightarrow> Inl Undefined
        | v # vs \<Rightarrow> and_then (strcpy v 100) (\<lambda>w. admin_command_line vs (s\<lparr>ad_password := w\<rparr>)))
      else if a = ''-debug'' then admin_command_line as s
      else Inl Exit)"

definition admin_defaults :: "string \<Rightarrow> (string \<Rightarrow> string option) \<Rightarrow> input list option list \<Rightarrow> admin" where
  "admin_defaults inp files dials =
     \<lparr>ad_email = ''ECMNet_Admin_user@'', ad_server = ''localhost'', ad_port = 7100, ad_password = [], ad_conn = None,
      ad_input = inp, ad_files = files, ad_dials = dials, ad_sent = []\<rparr>"

definition admin_main :: "string list \<Rightarrow> string \<Rightarrow> (string \<Rightarrow> string option) \<Rightarrow> input list option list \<Rightarrow> halt + admin" where
  "admin_main args inp files dials =
     and_then (admin_command_line args (admin_defaults inp files dials)) (\<lambda>s.
     and_then (bind AdminMenu (\<lambda>_. CloseAdminSocket) s) (\<lambda>(u, s'). Inr s'))"

end
