(* ===== verification/AdminClientProps.thy ===== *)
theory AdminClientProps
  imports AdminClient ClientLimits
begin

text \<open>
  What the administrator's program sends: the password and the lines of a file, and the file it really
  opens.
\<close>

section \<open>Connections\<close>

lemma on_admin_Inr: "on_admin m s = Inr (a, s') \<longleftrightarrow>
    (\<exists>c c'. ad_conn s = Some c \<and> m c = Inr (a, c') \<and> s' = s\<lparr>ad_conn := Some c', ad_dials := cs_dials c'\<rparr>)"
  by (auto simp: on_admin_def split: option.splits)

text \<open>Operations that leave the files and the password alone.\<close>

definition admin_same :: "admin \<Rightarrow> admin \<Rightarrow> bool" where
  "admin_same s s' \<longleftrightarrow> ad_files s' = ad_files s \<and> ad_password s' = ad_password s"

interpretation ads: effect admin_same
  by unfold_locales (auto simp: admin_same_def)

lemma admin_same_conn: "stays admin_same (on_admin m)"
  by (auto simp: stays_def admin_same_def on_admin_Inr)

lemma admin_same_open: "stays admin_same OpenAdminSocket"
  unfolding OpenAdminSocket_def
  by (intro ads.stays_intros admin_same_conn) (auto simp: stays_def admin_same_def)

lemma admin_same_verify: "stays admin_same (VerifyCommand c)"
  unfolding VerifyCommand_def by (intro ads.stays_intros admin_same_conn)

section \<open>The menu ends with what is typed\<close>

lemma ends_on_admin [end_intros]: "ends m \<Longrightarrow> ends (on_admin m)"
  by (auto simp: ends_def on_admin_def and_then_Fuel split: option.splits)

lemma finished_step_decreases: "finished_step u s = Inr (Inl u', s') \<Longrightarrow> admin_lines s' < admin_lines s"
  by (auto simp: finished_step_def bind_eq_Inr on_admin_Inr admin_lines_def dest!: Receive_Some split: option.splits if_splits)

lemma plain_format_ends [simp]: "plain_format t \<noteq> Inl Fuel"
  by (induction t rule: plain_format.induct) (auto simp: and_then_Fuel split: list.splits)

lemma ends_send_file [end_intros]: "ends (send_file ls)"
proof (induction ls)
  case Nil
  show ?case unfolding send_file.simps by (intro end_intros)
next
  case (Cons l ls)
  show ?case unfolding send_file.simps by (intro end_intros plain_format_ends Cons.IH)
qed

lemma ends_transfer [end_intros]: "ends (transfer c l f)"
proof -
  have "ends (VerifyCommand c)" unfolding VerifyCommand_def by (intro end_intros)
  moreover have "ends (finished_step u)" for u unfolding finished_step_def by (intro end_intros)
  then have "ends (bind (asks admin_lines) (\<lambda>n. iterate (Suc n) finished_step ()))"
    using finished_step_decreases by (rule ends_iterate)
  then have "ends wait_finished"
    unfolding wait_finished_def bind_assoc [symmetric] by (rule ends_bind) (rule ends_basic)
  ultimately show ?thesis
    unfolding transfer_def by (intro end_intros) simp_all
qed

lemma ends_menu_choice: "ends (menu_choice i)"
proof -
  have [end_intros]: "ends OpenAdminSocket" unfolding OpenAdminSocket_def by (intro end_intros strcpy_ends)
  have [end_intros]: "ends CloseAdminSocket" unfolding CloseAdminSocket_def by (intro end_intros)
  have [end_intros]: "ends (PromptForValue v)" for v unfolding PromptForValue_def Let_def by (intro end_intros)
  have "ends (SetCompositeStatus b)" for b unfolding SetCompositeStatus_def by (intro end_intros strcpy_ends)
  moreover have "ends (import_file (transfer c l))" for c l unfolding import_file_def by (intro end_intros)
  ultimately show ?thesis
    unfolding menu_choice_def SendCompositeFile_def SendCurvesFile_def by (intro end_intros strcpy_ends)
qed

text \<open>What is typed is only ever read.\<close>

definition typed_less :: "admin \<Rightarrow> admin \<Rightarrow> bool" where
  "typed_less s s' \<longleftrightarrow> length (ad_input s') \<le> length (ad_input s)"

interpretation tyl: effect typed_less
  by unfold_locales (auto simp: typed_less_def)

lemma tyl_modify: "(\<And>s. ad_input (f s) = ad_input s) \<Longrightarrow> stays typed_less (modify f)"
  by (simp add: stays_def typed_less_def)

lemma tyl_on_admin: "stays typed_less (on_admin m)"
  by (auto simp: stays_def typed_less_def on_admin_Inr)

lemmas tyl_intros = tyl.stays_intros tyl_on_admin

lemma tyl_prompt: "stays typed_less (PromptForValue v)"
proof (rule staysI)
  fix s a s' assume p: "PromptForValue v s = Inr (a, s')"
  show "typed_less s s'"
  proof (cases "fgets 198 (ad_input s)")
    case (Pair l r)
    have "ad_input s' = ad_input s \<or> ad_input s' = r"
      using p Pair by (auto simp: PromptForValue_def Let_def split: if_splits option.splits)
    moreover have "length r \<le> length (ad_input s)" using fgets_append [OF Pair] by simp
    ultimately show ?thesis by (auto simp: typed_less_def)
  qed
qed

lemma tyl_menu_choice: "stays typed_less (menu_choice i)"
proof -
  have o: "stays typed_less OpenAdminSocket" unfolding OpenAdminSocket_def by (intro tyl_intros; simp add: tyl_modify)
  have c: "stays typed_less CloseAdminSocket" unfolding CloseAdminSocket_def by (intro tyl_intros; simp add: tyl_modify)
  have "stays typed_less (send_file ls)" for ls
  proof (induction ls)
    case Nil
    show ?case unfolding send_file.simps by (intro tyl_intros)
  next
    case (Cons l ls)
    show ?case unfolding send_file.simps by (intro tyl_intros Cons.IH)
  qed
  then have t: "stays typed_less (transfer x l f)" for x l f
    unfolding transfer_def VerifyCommand_def finished_step_def wait_finished_def by (intro tyl_intros)
  have "stays typed_less (SetCompositeStatus b)" for b
    unfolding SetCompositeStatus_def by (intro tyl_intros tyl_prompt o c)
  moreover have "stays typed_less (import_file (transfer x l))" for x l
    unfolding import_file_def by (intro tyl_intros tyl_prompt o c t)
  ultimately show ?thesis
    unfolding menu_choice_def SendCompositeFile_def SendCurvesFile_def by (intro tyl_intros tyl_prompt; simp add: tyl_modify)
qed

lemma menu_step_decreases:
  assumes "menu_step u s = Inr (Inl u', s')"
  shows "length (ad_input s') < length (ad_input s)"
proof -
  obtain c cs where i: "ad_input s = c # cs" using assms by (cases "ad_input s") (auto simp: menu_step_def)
  obtain l r where f: "fgets 498 (c # cs) = (l, r)" by (cases "fgets 498 (c # cs)")
  then have r: "length r < length (ad_input s)" using fgets_less [of 497 c cs l r] i by simp
  from assms obtain j x where "menu_choice j (s\<lparr>ad_input := r\<rparr>) = Inr (x, s')"
    by (auto simp: menu_step_def i f Let_def bind_eq_Inr split: if_splits)
  from staysD [OF tyl_menu_choice this] r show ?thesis by (simp add: typed_less_def)
qed

lemma ends_AdminMenu: "ends AdminMenu"
proof -
  have "ends CloseAdminSocket" unfolding CloseAdminSocket_def by (intro end_intros)
  then have "ends (menu_step u)" for u
    unfolding menu_step_def Let_def by (intro end_intros ends_menu_choice) simp_all
  then show ?thesis unfolding AdminMenu_def using menu_step_decreases by (rule ends_iterate)
qed

section \<open>Importing a file\<close>

lemma StripCRLF_line: "CHR 0x0A \<notin> set w \<Longrightarrow> CHR 0x0D \<notin> set w \<Longrightarrow> StripCRLF (w @ [CHR 0x0A]) = w"
  by (cases w rule: rev_cases) (auto simp: StripCRLF_def)

lemma PromptForValue_file:
  assumes "ad_input s = name @ CHR 0x0A # rest" "CHR 0x0A \<notin> set name" "CHR 0x0D \<notin> set name" "length name < 198"
    and "ad_files s name = Some text"
  shows "PromptForValue True s = Inr (fst (fgets 198 text), s\<lparr>ad_input := rest\<rparr>)"
  using assms fgets_line [of name 197 rest] by (simp add: PromptForValue_def StripCRLF_line Let_def del: fgets.simps)

text \<open>C40: An import does not open the file that was named: verifying the file overwrites its name with its first line,
  and unless there is a file of that name, with a line end in it, the program reads from a null pointer, once the
  server has accepted the password.\<close>

theorem import_opens_the_first_line:
  assumes "ad_input s = name @ CHR 0x0A # rest" "CHR 0x0A \<notin> set name" "CHR 0x0D \<notin> set name" "length name < 198"
    and "ad_files s name = Some text" "text \<noteq> []"
    and "OpenAdminSocket (s\<lparr>ad_input := rest\<rparr>) = Inr (True, s1)" "VerifyCommand theCommand s1 = Inr (True, s2)"
    and "ad_files s (fst (fgets 198 text)) = None"
  shows "import_file (transfer theCommand lastLine) s = Inl Undefined"
proof -
  have p: "PromptForValue True s = Inr (fst (fgets 198 text), s\<lparr>ad_input := rest\<rparr>)"
    using assms(1-5) by (rule PromptForValue_file)
  have "admin_same (s\<lparr>ad_input := rest\<rparr>) s2"
    using staysD [OF admin_same_open assms(7)] staysD [OF admin_same_verify assms(8)] by (rule ads.trans)
  then have f: "ad_files s2 = ad_files s" by (simp add: admin_same_def)
  have "fst (fgets 198 text) \<noteq> []"
    using assms(6) by (cases "text") (auto simp: fgets_more split: prod.splits)
  then show ?thesis
    using assms(9) f by (simp add: import_file_def transfer_def bind_def p assms(7,8))
qed

section \<open>Sending a file\<close>

definition sent :: "admin \<Rightarrow> string list option" where
  "sent s = map_option outgoing (ad_conn s)"

definition nothing_sent :: "admin \<Rightarrow> admin \<Rightarrow> bool" where
  "nothing_sent s s' \<longleftrightarrow> sent s' = sent s"

interpretation qt: effect nothing_sent
  by unfold_locales (auto simp: nothing_sent_def)

lemma quiet_receive: "stays nothing_sent (on_admin Receive)"
  by (auto simp: stays_def nothing_sent_def sent_def on_admin_Inr dest!: Receive_more)

lemma quiet_finished: "stays nothing_sent (finished_step u)"
  unfolding finished_step_def by (intro qt.stays_intros quiet_receive)

lemma admin_Send: "on_admin (Send t) s = Inr (b, s') \<Longrightarrow> ad_conn s = Some c \<Longrightarrow> so_open c \<Longrightarrow>
    \<exists>c'. ad_conn s' = Some c' \<and> so_open c' \<and> incoming c' = incoming c \<and> outgoing c' = outgoing c @ [t] \<and> admin_same s s'"
  by (auto simp: on_admin_Inr Send_def admin_same_def split: if_splits)

lemma send_file_sends:
  "send_file ls s = Inr (u, s') \<Longrightarrow> ad_conn s = Some c \<Longrightarrow> so_open c \<Longrightarrow>
    \<exists>c' ts. ad_conn s' = Some c' \<and> so_open c' \<and> outgoing c' = outgoing c @ ts
      \<and> list_all2 (\<lambda>l t. plain_format (StripCRLF l) = Inr t) ls ts"
proof (induction ls arbitrary: s c)
  case (Cons l ls)
  then obtain t b s1 where t: "plain_format (StripCRLF l) = Inr t" "on_admin (Send t) s = Inr (b, s1)" "send_file ls s1 = Inr (u, s')"
    by (auto simp: bind_eq_Inr)
  from admin_Send [OF t(2) Cons.prems(2,3)] obtain c1 where
    c1: "ad_conn s1 = Some c1" "so_open c1" "outgoing c1 = outgoing c @ [t]" by blast
  from Cons.IH [OF t(3) c1(1,2)] obtain c' ts where "ad_conn s' = Some c'" "so_open c'" "outgoing c' = outgoing c1 @ ts"
    "list_all2 (\<lambda>l t. plain_format (StripCRLF l) = Inr t) ls ts" by blast
  then show ?case using c1(3) t(1) by (intro exI [of _ c'] exI [of _ "t # ts"]) simp
qed auto

text \<open>C28: A file of composites that was sent has gone to the server line by line and in order, after the command with
  the password the server verifies and before the line that ends it.\<close>

theorem file_goes_to_the_server:
  assumes "SendCompositeFile fileName s = Inr (u, s')" and "ad_conn s = Some c" "so_open c"
    and "incoming c = Line (''OK:'' @ r) # inp" "ad_files s fileName = Some text"
  shows "\<exists>c' m ts. ad_conn s' = Some c' \<and> outgoing c' = outgoing c @ m # ts @ [''No more composites'']
     \<and> prefixed ''ADMIN_COMPOSITE '' m \<and> drop 16 m = ad_password s
     \<and> list_all2 (\<lambda>l t. plain_format (StripCRLF l) = Inr t) (file_lines (BUFFER_SIZE - 2) text) ts"
proof -
  let ?m = "sprintf ''%s %s'' [VS ''ADMIN_COMPOSITE'', VS (ad_password s)]"
  have m: "?m = ''ADMIN_COMPOSITE '' @ ad_password s" by (simp add: sprintf_def prefixed_def)
  from assms(1) obtain ok s1 where v: "VerifyCommand ''ADMIN_COMPOSITE'' s = Inr (ok, s1)"
    and rest: "(if \<not> ok then ret () else bind (asks (\<lambda>s. ad_files s fileName)) (\<lambda>file. case file of
         None \<Rightarrow> stop Undefined
       | Some text \<Rightarrow>
           bind (send_file (file_lines (BUFFER_SIZE - 2) text)) (\<lambda>_.
           bind (on_admin (Send ''No more composites'')) (\<lambda>_. wait_finished)))) s1 = Inr (u, s')"
    by (auto simp: SendCompositeFile_def transfer_def bind_eq_Inr)
  from v obtain b s0 x where s0: "on_admin (Send ?m) s = Inr (b, s0)" and x: "on_admin Receive s0 = Inr (x, s1)"
    and ok: "ok = (case x of None \<Rightarrow> False | Some a \<Rightarrow> prefixed ''OK:'' a)"
    unfolding VerifyCommand_def Sendf_def by (auto simp: bind_eq_Inr split: option.splits)
  from admin_Send [OF s0 assms(2,3)] obtain c0 where c0: "ad_conn s0 = Some c0" "so_open c0" "incoming c0 = incoming c"
    "outgoing c0 = outgoing c @ [?m]" by blast
  then have "x = Some (''OK:'' @ r)" using x assms(4) by (auto simp: on_admin_Inr Receive_def split: if_splits)
  then have "ok" using ok by (simp add: prefixed_def)
  obtain c1 where c1: "ad_conn s1 = Some c1" "so_open c1" "outgoing c1 = outgoing c @ [?m]"
    using x c0 assms(4) by (auto simp: on_admin_Inr Receive_def split: if_splits)
  have f: "ad_files s1 fileName = Some text" using staysD [OF admin_same_verify v] assms(5) by (simp add: admin_same_def)
  from rest \<open>ok\<close> f obtain v1 s2 b2 s3 n fin s4 where
    s2: "send_file (file_lines (BUFFER_SIZE - 2) text) s1 = Inr (v1, s2)" and
    s3: "on_admin (Send ''No more composites'') s2 = Inr (b2, s3)" and
    s4: "iterate (Suc n) finished_step () s3 = Inr (fin, s')"
    by (auto simp: bind_eq_Inr wait_finished_def simp del: iterate.simps)
  obtain c2 ts where c2: "ad_conn s2 = Some c2" "so_open c2" "outgoing c2 = outgoing c1 @ ts"
    "list_all2 (\<lambda>l t. plain_format (StripCRLF l) = Inr t) (file_lines (BUFFER_SIZE - 2) text) ts"
    using send_file_sends [OF s2 c1(1,2)] by blast
  obtain c3 where c3: "ad_conn s3 = Some c3" "outgoing c3 = outgoing c2 @ [''No more composites'']"
    using admin_Send [OF s3 c2(1,2)] by blast
  have "nothing_sent s3 s'" using s4 by (rule staysD [OF qt.stays_iterate [OF quiet_finished]])
  then obtain c' where "ad_conn s' = Some c'" "outgoing c' = outgoing c3"
    using c3(1) by (auto simp: nothing_sent_def sent_def)
  then show ?thesis using c3 c2 c1 m by (intro exI [of _ c'] exI [of _ ?m] exI [of _ ts]) (simp add: prefixed_def)
qed

section \<open>A session\<close>

definition demo_console :: "string \<Rightarrow> admin" where
  "demo_console text = (admin_defaults (''f'' @ [LF]) (\<lambda>n. if n = ''f'' then Some text else None)
     [Some (map Line [''Connected to server version 3.0.5'', ''OK: Password Verified'',
        ''1 composites were added to the server'', ''Done''])])\<lparr>ad_password := ''pw''\<rparr>"

definition demo_open :: "string \<Rightarrow> admin" where
  "demo_open text = (demo_console text)\<lparr>ad_input := [], ad_dials := [], ad_conn := Some
     \<lparr>so_open = True, so_newline = True, incoming = map Line [''OK: Password Verified'', ''1 composites were added to the server'', ''Done''],
      read_buf = ''Connected to server version 3.0.5'', outgoing = [''FROM ECMNet_Admin_user@ admin_instance admin_user 3.0.5''],
      cs_server = ''localhost'', cs_port = 7100, cs_email = ''ECMNet_Admin_user@'', cs_user = ''admin_user'', cs_machine = ''admin_machine'',
      cs_instance = ''admin_instance'', cs_version = ''3.0.5'', cs_dials = []\<rparr>\<rparr>"

lemmas run_console = on_admin_def admin_socket_def OpenAdminSocket_def client_Open_def dial_def client_FROM_def
  set_server_version_def VerifyCommand_def demo_console_def demo_open_def admin_defaults_def ECMNET_VERSION_def

lemma demo_opened: "OpenAdminSocket ((demo_console text)\<lparr>ad_input := []\<rparr>) = Inr (True, demo_open text)"
  by (simp add: run_base run_text run_console cong: lazy)

lemma demo_verified: "\<exists>s2. VerifyCommand ''ADMIN_COMPOSITE'' (demo_open text) = Inr (True, s2)"
  by (simp add: run_base run_text run_console cong: lazy)

theorem import_opens_the_first_line_witness:
  "import_file SendCompositeFile (demo_console (''D 35'' @ [LF])) = Inl Undefined"
proof -
  let ?s = "demo_console (''D 35'' @ [LF])"
  obtain s2 where v: "VerifyCommand ''ADMIN_COMPOSITE'' (demo_open (''D 35'' @ [LF])) = Inr (True, s2)"
    using demo_verified by blast
  have i: "ad_input ?s = ''f'' @ CHR 0x0A # []" "ad_files ?s ''f'' = Some (''D 35'' @ [LF])"
    "ad_files ?s (fst (fgets 198 (''D 35'' @ [LF]))) = None"
    by (simp_all add: demo_console_def admin_defaults_def LF_def fgets_more)
  show ?thesis unfolding SendCompositeFile_def
    by (rule import_opens_the_first_line [OF i(1) _ _ _ i(2) _ demo_opened v i(3)]) simp_all
qed

lemma demo_sent: "\<exists>s'. SendCompositeFile ''f'' (demo_open (''D 35'' @ [LF])) = Inr ((), s')"
proof -
  show ?thesis unfolding SendCompositeFile_def transfer_def
    by (simp add: run_base run_text run_console fgets_more StripCRLF_def LF_def finished_step_def wait_finished_def admin_lines_def cong: lazy)
qed

theorem file_goes_to_the_server_witness:
  "\<exists>s' c'. SendCompositeFile ''f'' (demo_open (''D 35'' @ [LF])) = Inr ((), s') \<and> ad_conn s' = Some c'
     \<and> last (outgoing c') = ''No more composites''"
proof -
  obtain s' where r: "SendCompositeFile ''f'' (demo_open (''D 35'' @ [LF])) = Inr ((), s')" using demo_sent by blast
  obtain c where c: "ad_conn (demo_open (''D 35'' @ [LF])) = Some c" "so_open c"
    "incoming c = Line (''OK:'' @ '' Password Verified'') # map Line [''1 composites were added to the server'', ''Done'']"
    by (simp add: demo_open_def)
  have f: "ad_files (demo_open (''D 35'' @ [LF])) ''f'' = Some (''D 35'' @ [LF])"
    by (simp add: demo_open_def demo_console_def admin_defaults_def)
  obtain c' m ts where "ad_conn s' = Some c'" "outgoing c' = outgoing c @ m # ts @ [''No more composites'']"
    using file_goes_to_the_server [OF r c f] by (elim exE conjE) (rule that)
  with r show ?thesis by (intro exI [of _ s'] exI [of _ c'] conjI) simp_all
qed

end
