(* ===== verification/KeepAlive.thy ===== *)
theory KeepAlive
  imports Prelude
begin

text \<open>
  \<open>src/source/SharedMemoryItem.cpp\<close>, a value with a mutex, and the one conversation between two threads
  that the program builds on it: \<open>WorkSender::SendUsingStrategy\<close> starts a thread
  (\<open>src/source/KeepAliveThread.cpp\<close>) that keeps its client waiting, and stops it before it returns. The
  two run side by side: their steps are interleaved in every order the mutex allows. \<open>sm_waiting\<close> are the
  threads that wait for the condition variable of the class, which the program uses nowhere.
\<close>

section \<open>A value with a lock\<close>

record shared_item =
  sm_value :: int
  sm_double :: double
  sm_holder :: "nat option"
  sm_waiting :: "nat list"

definition SharedMemoryItem :: shared_item where
  "SharedMemoryItem = \<lparr>sm_value = 0, sm_double = 0, sm_holder = None, sm_waiting = []\<rparr>"

text \<open>
  The mutex is of the type that checks for errors: a thread that locks it twice ends the program.
  \<open>None\<close>: another thread holds it, and this one waits. Only the holder can release it.
\<close>

definition sm_Lock :: "nat \<Rightarrow> shared_item \<Rightarrow> halt + shared_item option" where
  "sm_Lock t i = (case sm_holder i of
       None \<Rightarrow> Inr (Some (i\<lparr>sm_holder := Some t\<rparr>))
     | Some u \<Rightarrow> if u = t then Inl Exit else Inr None)"

definition sm_TryLock :: "nat \<Rightarrow> shared_item \<Rightarrow> bool \<times> shared_item" where
  "sm_TryLock t i = (case sm_holder i of None \<Rightarrow> (True, i\<lparr>sm_holder := Some t\<rparr>) | Some _ \<Rightarrow> (False, i))"

definition sm_Release :: "nat \<Rightarrow> shared_item \<Rightarrow> shared_item" where
  "sm_Release t i = (if sm_holder i = Some t then i\<lparr>sm_holder := None\<rparr> else i)"

definition locked :: "nat \<Rightarrow> (shared_item \<Rightarrow> shared_item) \<Rightarrow> shared_item \<Rightarrow> halt + shared_item option" where
  "locked t f i = and_then (sm_Lock t i) (\<lambda>r. Inr (map_option (\<lambda>j. sm_Release t (f j)) r))"

definition SetValueHaveLock :: "int \<Rightarrow> shared_item \<Rightarrow> shared_item" where
  "SetValueHaveLock v i = i\<lparr>sm_value := v\<rparr>"

definition IncrementDoubleHaveLock :: "double \<Rightarrow> shared_item \<Rightarrow> shared_item" where
  "IncrementDoubleHaveLock x i = i\<lparr>sm_double := sm_double i + x\<rparr>"

definition GetValueNoLock :: "nat \<Rightarrow> shared_item \<Rightarrow> halt + (int \<times> shared_item) option" where
  "GetValueNoLock t i = and_then (locked t id i) (\<lambda>r. Inr (map_option (\<lambda>j. (sm_value j, j)) r))"

definition GetDoubleNoLock :: "nat \<Rightarrow> shared_item \<Rightarrow> halt + (double \<times> shared_item) option" where
  "GetDoubleNoLock t i = and_then (locked t id i) (\<lambda>r. Inr (map_option (\<lambda>j. (sm_double j, j)) r))"

definition SetValueNoLock :: "nat \<Rightarrow> int \<Rightarrow> shared_item \<Rightarrow> halt + shared_item option" where
  "SetValueNoLock t v = locked t (\<lambda>i. i\<lparr>sm_value := v\<rparr>)"

definition IncrementValue :: "nat \<Rightarrow> int \<Rightarrow> shared_item \<Rightarrow> halt + shared_item option" where
  "IncrementValue t k = locked t (\<lambda>i. i\<lparr>sm_value := wrap64 (sm_value i + k)\<rparr>)"

definition DecrementValue :: "nat \<Rightarrow> int \<Rightarrow> shared_item \<Rightarrow> halt + shared_item option" where
  "DecrementValue t k = locked t (\<lambda>i. i\<lparr>sm_value := wrap64 (sm_value i - k)\<rparr>)"

text \<open>
  A wait for the condition releases the mutex; \<open>ClearCondition\<close> wakes every thread, and each of them locks
  the mutex again before it goes on.
\<close>

definition SetCondition :: "nat \<Rightarrow> shared_item \<Rightarrow> shared_item" where
  "SetCondition t i = (sm_Release t i)\<lparr>sm_waiting := t # sm_waiting i\<rparr>"

definition ClearCondition :: "shared_item \<Rightarrow> shared_item" where
  "ClearCondition i = i\<lparr>sm_waiting := []\<rparr>"

section \<open>The sender and the thread beside it\<close>

definition KAT_WAITING :: int where "KAT_WAITING = 1"
definition KAT_TERMINATE :: int where "KAT_TERMINATE = 5"
definition KAT_TERMINATED :: int where "KAT_TERMINATED = 9"

lemmas kat_values = KAT_WAITING_def KAT_TERMINATE_def KAT_TERMINATED_def

definition SENDER :: nat where "SENDER = 0"
definition KEEPER :: nat where "KEEPER = 1"

text \<open>Where the sender is in \<open>SendUsingStrategy\<close>, and the thread in \<open>KeepAliveThreadEntryPoint\<close>.\<close>

datatype sender_at = S_Begin | S_Start | S_Search | S_Check | S_Held | S_Sleep | S_Return
datatype keeper_at = K_None | K_Sleep | K_Lock | K_Held | K_Left | K_Ended

record talk =
  ka_item :: shared_item
  ka_sender :: sender_at
  ka_keeper :: keeper_at
  ka_counter :: int
  ka_lines :: "string list"

definition talk_start :: "shared_item \<Rightarrow> string list \<Rightarrow> talk" where
  "talk_start i ls = \<lparr>ka_item = i, ka_sender = S_Begin, ka_keeper = K_None, ka_counter = 0, ka_lines = ls\<rparr>"

text \<open>The body of each critical section, with the lock held.\<close>

definition check_keeper :: "talk \<Rightarrow> talk" where
  "check_keeper s =
     (if sm_value (ka_item s) = KAT_TERMINATED
      then s\<lparr>ka_item := sm_Release SENDER (ka_item s), ka_sender := S_Return\<rparr>
      else s\<lparr>ka_item := sm_Release SENDER (SetValueHaveLock KAT_TERMINATE (ka_item s)), ka_sender := S_Sleep\<rparr>)"

definition keep_waiting :: "talk \<Rightarrow> talk" where
  "keep_waiting s =
     (if sm_value (ka_item s) = KAT_WAITING
      then s\<lparr>ka_lines := (if ka_counter s mod 4 = 0 then ka_lines s @ [''keepalive''] else ka_lines s),
             ka_item := sm_Release KEEPER (ka_item s), ka_keeper := K_Sleep\<rparr>
      else s\<lparr>ka_item := sm_Release KEEPER (ka_item s), ka_keeper := K_Left\<rparr>)"

text \<open>
  What the sender sends by itself (in its search, which here sends any lines, and after it) is another
  line. A sleep may take any time.
\<close>

inductive kat_step :: "talk \<Rightarrow> talk \<Rightarrow> bool" where
  waiting: "ka_sender s = S_Begin \<Longrightarrow> SetValueNoLock SENDER KAT_WAITING (ka_item s) = Inr (Some i) \<Longrightarrow>
     kat_step s (s\<lparr>ka_item := i, ka_sender := S_Start\<rparr>)"
| started: "ka_sender s = S_Start \<Longrightarrow> kat_step s (s\<lparr>ka_sender := S_Search, ka_keeper := K_Sleep, ka_counter := 0\<rparr>)"
| sent: "ka_sender s \<in> {S_Search, S_Return} \<Longrightarrow> m \<noteq> ''keepalive'' \<Longrightarrow> kat_step s (s\<lparr>ka_lines := ka_lines s @ [m]\<rparr>)"
| searched: "ka_sender s = S_Search \<Longrightarrow> kat_step s (s\<lparr>ka_sender := S_Check\<rparr>)"
| sender_locks: "ka_sender s = S_Check \<Longrightarrow> sm_Lock SENDER (ka_item s) = Inr (Some i) \<Longrightarrow>
     kat_step s (s\<lparr>ka_item := i, ka_sender := S_Held\<rparr>)"
| sender_checks: "ka_sender s = S_Held \<Longrightarrow> kat_step s (check_keeper s)"
| sender_wakes: "ka_sender s = S_Sleep \<Longrightarrow> kat_step s (s\<lparr>ka_sender := S_Check\<rparr>)"
| keeper_wakes: "ka_keeper s = K_Sleep \<Longrightarrow> kat_step s (s\<lparr>ka_keeper := K_Lock\<rparr>)"
| keeper_locks: "ka_keeper s = K_Lock \<Longrightarrow> sm_Lock KEEPER (ka_item s) = Inr (Some i) \<Longrightarrow>
     kat_step s (s\<lparr>ka_item := i, ka_keeper := K_Held, ka_counter := ka_counter s + 1\<rparr>)"
| keeper_checks: "ka_keeper s = K_Held \<Longrightarrow> kat_step s (keep_waiting s)"
| terminated: "ka_keeper s = K_Left \<Longrightarrow> SetValueNoLock KEEPER KAT_TERMINATED (ka_item s) = Inr (Some i) \<Longrightarrow>
     kat_step s (s\<lparr>ka_item := i, ka_keeper := K_Ended\<rparr>)"

inductive kat_reaches :: "talk \<Rightarrow> talk \<Rightarrow> bool" where
  here: "kat_reaches s s"
| further: "kat_reaches s s1 \<Longrightarrow> kat_step s1 s2 \<Longrightarrow> kat_reaches s s2"

inductive_simps kat_step_iff: "kat_step s s'"
inductive_cases kat_stepE: "kat_step s s'"

end
