(* ===== verification/KeepAliveProps.thy ===== *)
theory KeepAliveProps
  imports KeepAlive ClientProps
begin

text \<open>
  The conversation between the sender and the thread that keeps its client waiting: when the sender goes
  on, the thread has ended; it never gets stuck; and what the client makes of the lines of the thread.
\<close>

section \<open>The invariant\<close>

definition talk_ok :: "talk \<Rightarrow> bool" where
  "talk_ok s \<longleftrightarrow>
     (sm_holder (ka_item s) = None \<longleftrightarrow> ka_sender s \<noteq> S_Held \<and> ka_keeper s \<noteq> K_Held)
     \<and> (ka_sender s = S_Held \<longrightarrow> sm_holder (ka_item s) = Some SENDER)
     \<and> (ka_keeper s = K_Held \<longrightarrow> sm_holder (ka_item s) = Some KEEPER)
     \<and> (ka_keeper s = K_None \<longleftrightarrow> ka_sender s \<in> {S_Begin, S_Start})
     \<and> (ka_sender s \<in> {S_Start, S_Search} \<longrightarrow> sm_value (ka_item s) = KAT_WAITING)
     \<and> (ka_sender s \<noteq> S_Begin \<longrightarrow> (sm_value (ka_item s) = KAT_TERMINATED \<longleftrightarrow> ka_keeper s = K_Ended))
     \<and> (ka_keeper s \<in> {K_Left, K_Ended} \<longrightarrow> sm_value (ka_item s) \<noteq> KAT_WAITING)
     \<and> (ka_sender s = S_Sleep \<longrightarrow> sm_value (ka_item s) \<noteq> KAT_WAITING)
     \<and> (ka_sender s = S_Return \<longrightarrow> ka_keeper s = K_Ended)"

lemmas kat_ops = check_keeper_def keep_waiting_def sm_Lock_def sm_Release_def SetValueNoLock_def locked_def
  SetValueHaveLock_def kat_values SENDER_def KEEPER_def

lemma talk_start_ok: "sm_holder i = None \<Longrightarrow> talk_ok (talk_start i ls)"
  by (simp add: talk_ok_def talk_start_def)

lemma talk_ok_step: "kat_step s s' \<Longrightarrow> talk_ok s \<Longrightarrow> talk_ok s'"
  by (erule kat_stepE; cases "ka_sender s"; cases "ka_keeper s")
    (clarsimp simp: talk_ok_def kat_ops split: option.splits if_splits)+

lemma talk_ok_reaches: "kat_reaches s s' \<Longrightarrow> talk_ok s \<Longrightarrow> talk_ok s'"
  by (induction rule: kat_reaches.induct) (auto intro: talk_ok_step)

section \<open>No line of the thread after the search\<close>

definition asked_to_end :: "talk \<Rightarrow> bool" where
  "asked_to_end s \<longleftrightarrow> ka_sender s \<in> {S_Check, S_Held, S_Sleep, S_Return} \<and> sm_value (ka_item s) \<noteq> KAT_WAITING"

definition quiet_since :: "talk \<Rightarrow> talk \<Rightarrow> bool" where
  "quiet_since s s' \<longleftrightarrow> (\<exists>ms. ka_lines s' = ka_lines s @ ms \<and> ''keepalive'' \<notin> set ms)"

lemma quiet_since_refl: "quiet_since s s"
  by (simp add: quiet_since_def)

lemma quiet_since_trans: "quiet_since s s1 \<Longrightarrow> quiet_since s1 s2 \<Longrightarrow> quiet_since s s2"
  by (auto simp: quiet_since_def)

lemma asked_step: "kat_step s s' \<Longrightarrow> talk_ok s \<Longrightarrow> asked_to_end s \<Longrightarrow> asked_to_end s' \<and> quiet_since s s'"
  by (erule kat_stepE; cases "ka_sender s"; cases "ka_keeper s")
    (clarsimp simp: talk_ok_def asked_to_end_def quiet_since_def kat_ops split: option.splits if_splits)+

lemma asked_reaches: "kat_reaches s s' \<Longrightarrow> talk_ok s \<Longrightarrow> asked_to_end s \<Longrightarrow> asked_to_end s' \<and> quiet_since s s'"
proof (induction rule: kat_reaches.induct)
  case (further s s1 s2)
  then show ?case
    using asked_step [of s1 s2] talk_ok_reaches [of s s1] quiet_since_trans by blast
qed (simp add: quiet_since_refl)

section \<open>The sender always gets to its end\<close>

definition sender_rank :: "sender_at \<Rightarrow> nat" where
  "sender_rank a = (case a of S_Begin \<Rightarrow> 5 | S_Start \<Rightarrow> 4 | S_Search \<Rightarrow> 3 | S_Check \<Rightarrow> 2 | S_Held \<Rightarrow> 1 | S_Sleep \<Rightarrow> 3 | S_Return \<Rightarrow> 0)"

definition keeper_rank :: "keeper_at \<Rightarrow> nat" where
  "keeper_rank a = (case a of K_None \<Rightarrow> 5 | K_Sleep \<Rightarrow> 4 | K_Lock \<Rightarrow> 3 | K_Held \<Rightarrow> 2 | K_Left \<Rightarrow> 1 | K_Ended \<Rightarrow> 0)"

definition talk_rank :: "talk \<Rightarrow> nat" where
  "talk_rank s =
     (if ka_sender s = S_Return then 0
      else if ka_sender s = S_Begin \<or> sm_value (ka_item s) = KAT_WAITING
      then 30 + 2 * sender_rank (ka_sender s) + (if ka_keeper s = K_Held then 1 else 0)
      else if ka_keeper s \<noteq> K_Ended then 10 + 2 * keeper_rank (ka_keeper s) + (if ka_sender s = S_Held then 1 else 0)
      else sender_rank (ka_sender s))"

lemmas rank_defs = talk_rank_def sender_rank_def keeper_rank_def

text \<open>The steps of one thread, as far as the lock is free for it.\<close>

lemma sender_moves:
  assumes "talk_ok s" "ka_sender s \<in> {S_Begin, S_Start, S_Search, S_Check, S_Sleep}" "ka_keeper s \<noteq> K_Held"
  shows "\<exists>s'. kat_step s s' \<and> ka_keeper s' = (if ka_sender s = S_Start then K_Sleep else ka_keeper s)
     \<and> sm_value (ka_item s') = (if ka_sender s = S_Begin then KAT_WAITING else sm_value (ka_item s))
     \<and> ka_sender s' = (case ka_sender s of S_Begin \<Rightarrow> S_Start | S_Start \<Rightarrow> S_Search | S_Search \<Rightarrow> S_Check | S_Check \<Rightarrow> S_Held
         | S_Sleep \<Rightarrow> S_Check | a \<Rightarrow> a)"
proof -
  have free: "sm_holder (ka_item s) = None" using assms by (auto simp: talk_ok_def)
  then have l: "sm_Lock SENDER (ka_item s) = Inr (Some (ka_item s\<lparr>sm_holder := Some SENDER\<rparr>))"
    "SetValueNoLock SENDER KAT_WAITING (ka_item s) = Inr (Some (ka_item s\<lparr>sm_value := KAT_WAITING, sm_holder := None\<rparr>))"
    by (simp_all add: kat_ops)
  from assms(2) consider "ka_sender s = S_Begin" | "ka_sender s = S_Start" | "ka_sender s = S_Search" | "ka_sender s = S_Check"
    | "ka_sender s = S_Sleep" by auto
  then show ?thesis
  proof cases
    case 1 then show ?thesis by - (rule exI, rule conjI, rule kat_step.waiting [OF 1 l(2)], simp add: kat_values assms)
  next
    case 2 then show ?thesis by - (rule exI, rule conjI, rule kat_step.started [OF 2], simp add: kat_values assms)
  next
    case 3 then show ?thesis by - (rule exI, rule conjI, rule kat_step.searched [OF 3], simp add: kat_values assms)
  next
    case 4 then show ?thesis by - (rule exI, rule conjI, rule kat_step.sender_locks [OF 4 l(1)], simp add: kat_values assms)
  next
    case 5 then show ?thesis by - (rule exI, rule conjI, rule kat_step.sender_wakes [OF 5], simp add: kat_values assms)
  qed
qed

lemma keeper_moves:
  assumes "talk_ok s" "ka_keeper s \<in> {K_Sleep, K_Lock, K_Held, K_Left}" "ka_sender s \<notin> {S_Begin, S_Held}"
    and "sm_value (ka_item s) \<noteq> KAT_WAITING"
  shows "\<exists>s'. kat_step s s' \<and> ka_sender s' = ka_sender s \<and> sm_value (ka_item s') \<noteq> KAT_WAITING
     \<and> ka_keeper s' = (case ka_keeper s of K_Sleep \<Rightarrow> K_Lock | K_Lock \<Rightarrow> K_Held | K_Held \<Rightarrow> K_Left | K_Left \<Rightarrow> K_Ended | a \<Rightarrow> a)"
proof -
  have free: "sm_holder (ka_item s) = None" if "ka_keeper s \<noteq> K_Held" using that assms by (auto simp: talk_ok_def)
  have l: "sm_Lock KEEPER (ka_item s) = Inr (Some (ka_item s\<lparr>sm_holder := Some KEEPER\<rparr>))"
    "SetValueNoLock KEEPER KAT_TERMINATED (ka_item s) = Inr (Some (ka_item s\<lparr>sm_value := KAT_TERMINATED, sm_holder := None\<rparr>))"
    if "ka_keeper s \<noteq> K_Held" using free [OF that] by (simp_all add: kat_ops)
  have k: "keep_waiting s = s\<lparr>ka_item := sm_Release KEEPER (ka_item s), ka_keeper := K_Left\<rparr>"
    using assms(4) by (simp add: keep_waiting_def)
  from assms(2) consider "ka_keeper s = K_Sleep" | "ka_keeper s = K_Lock" | "ka_keeper s = K_Held" | "ka_keeper s = K_Left"
    by auto
  then show ?thesis
  proof cases
    case 1 then show ?thesis by - (rule exI, rule conjI, rule kat_step.keeper_wakes [OF 1], simp add: assms)
  next
    case 2 then show ?thesis by - (rule exI, rule conjI, rule kat_step.keeper_locks [OF 2 l(1)], simp_all add: assms)
  next
    case 3 then show ?thesis by - (rule exI, rule conjI, rule kat_step.keeper_checks [OF 3], simp add: k assms sm_Release_def)
  next
    case 4 then show ?thesis by - (rule exI, rule conjI, rule kat_step.terminated [OF 4 l(2)], simp_all add: kat_values assms)
  qed
qed

lemma talk_progress:
  assumes "talk_ok s" "ka_sender s \<noteq> S_Return"
  shows "\<exists>s'. kat_step s s' \<and> talk_rank s' < talk_rank s"
proof (cases "ka_sender s = S_Held")
  case True
  then have "kat_step s (check_keeper s)" by (rule kat_step.sender_checks)
  moreover have "talk_rank (check_keeper s) < talk_rank s"
    using assms True by (cases "ka_keeper s") (auto simp: talk_ok_def rank_defs kat_ops)
  ultimately show ?thesis by blast
next
  case False
  show ?thesis
  proof (cases "ka_sender s = S_Begin \<or> sm_value (ka_item s) = KAT_WAITING \<or> ka_keeper s = K_Ended")
    case True
    show ?thesis
    proof (cases "ka_keeper s = K_Held")
      case held: True
      then have "kat_step s (keep_waiting s)" by (rule kat_step.keeper_checks)
      moreover have "talk_rank (keep_waiting s) < talk_rank s"
        using assms True held by (auto simp: talk_ok_def rank_defs kat_ops)
      ultimately show ?thesis by blast
    next
      case free: False
      obtain s' where "kat_step s s'" "ka_keeper s' = (if ka_sender s = S_Start then K_Sleep else ka_keeper s)"
        "sm_value (ka_item s') = (if ka_sender s = S_Begin then KAT_WAITING else sm_value (ka_item s))"
        "ka_sender s' = (case ka_sender s of S_Begin \<Rightarrow> S_Start | S_Start \<Rightarrow> S_Search | S_Search \<Rightarrow> S_Check | S_Check \<Rightarrow> S_Held
           | S_Sleep \<Rightarrow> S_Check | a \<Rightarrow> a)"
        using sender_moves [OF assms(1) _ free] assms(2) False by (cases "ka_sender s") auto
      then show ?thesis using assms True False free
        by (intro exI [of _ s']) (cases "ka_sender s"; auto simp: talk_ok_def rank_defs)
    qed
  next
    case B: False
    with assms False have "ka_keeper s \<in> {K_Sleep, K_Lock, K_Held, K_Left}"
      by (cases "ka_keeper s") (auto simp: talk_ok_def)
    with assms(1) B False obtain s' where "kat_step s s'" "ka_sender s' = ka_sender s" "sm_value (ka_item s') \<noteq> KAT_WAITING"
        "ka_keeper s' = (case ka_keeper s of K_Sleep \<Rightarrow> K_Lock | K_Lock \<Rightarrow> K_Held | K_Held \<Rightarrow> K_Left | K_Left \<Rightarrow> K_Ended | a \<Rightarrow> a)"
      using keeper_moves [of s] by auto
    then show ?thesis using assms B False \<open>ka_keeper s \<in> _\<close>
      by (intro exI [of _ s']) (cases "ka_sender s"; auto simp: talk_ok_def rank_defs)
  qed
qed

lemma kat_reaches_step: "kat_step s s1 \<Longrightarrow> kat_reaches s1 s2 \<Longrightarrow> kat_reaches s s2"
proof -
  have "kat_reaches s1 s2 \<Longrightarrow> kat_step s s1 \<Longrightarrow> kat_reaches s s2"
    by (induction rule: kat_reaches.induct) (auto intro: kat_reaches.intros)
  then show "kat_step s s1 \<Longrightarrow> kat_reaches s1 s2 \<Longrightarrow> kat_reaches s s2" .
qed

lemma sender_can_return: "talk_ok s \<Longrightarrow> \<exists>s'. kat_reaches s s' \<and> ka_sender s' = S_Return"
proof (induction "talk_rank s" arbitrary: s rule: less_induct)
  case less
  show ?case
  proof (cases "ka_sender s = S_Return")
    case False
    then obtain s1 where "kat_step s s1" "talk_rank s1 < talk_rank s" using talk_progress [OF less.prems] by blast
    then show ?thesis using less talk_ok_step kat_reaches_step by metis
  qed (auto intro: kat_reaches.intros)
qed

text \<open>C8: From the moment the sender has asked the thread to end, however the two go on, no line of the thread is sent
  any more; when the sender returns the thread has ended; and there is always a way for it to return.\<close>

theorem keepalive_stops_with_the_search:
  assumes "sm_holder i = None" and "kat_reaches (talk_start i ls) s"
  shows "(ka_sender s \<in> {S_Sleep, S_Return} \<longrightarrow> (\<forall>s'. kat_reaches s s' \<longrightarrow> quiet_since s s'))
     \<and> (ka_sender s = S_Return \<longrightarrow> ka_keeper s = K_Ended)
     \<and> (\<exists>s'. kat_reaches s s' \<and> ka_sender s' = S_Return)"
proof -
  have ok: "talk_ok s" by (rule talk_ok_reaches [OF assms(2) talk_start_ok [OF assms(1)]])
  then have "asked_to_end s" if "ka_sender s \<in> {S_Sleep, S_Return}"
    using that by (auto simp: talk_ok_def asked_to_end_def)
  then show ?thesis
    using asked_reaches [of s] sender_can_return [OF ok] ok by (auto simp: talk_ok_def)
qed

text \<open>A second in which the thread finds the sender at work; a line of the thread among those of the sender.\<close>

lemma keeper_round:
  assumes "ka_keeper s = K_Sleep" "sm_holder (ka_item s) = None" "sm_value (ka_item s) = KAT_WAITING"
  shows "kat_reaches s (s\<lparr>ka_counter := ka_counter s + 1, ka_lines := ka_lines s @
     (if (ka_counter s + 1) mod 4 = 0 then [''keepalive''] else [])\<rparr>)" (is "kat_reaches s ?t")
proof -
  let ?i = "ka_item s\<lparr>sm_holder := Some KEEPER\<rparr>"
  let ?s1 = "s\<lparr>ka_keeper := K_Lock\<rparr>"
  let ?s2 = "?s1\<lparr>ka_item := ?i, ka_keeper := K_Held, ka_counter := ka_counter s + 1\<rparr>"
  have 1: "kat_step s ?s1" by (rule kat_step.keeper_wakes [OF assms(1)])
  have 2: "kat_step ?s1 ?s2" using kat_step.keeper_locks [of ?s1 ?i] assms(2) by (simp add: sm_Lock_def)
  have 3: "kat_step ?s2 (keep_waiting ?s2)" by (rule kat_step.keeper_checks) simp
  have i: "sm_Release KEEPER ?i = ka_item s" using assms(2) by (simp add: sm_Release_def)
  have t: "keep_waiting ?s2 = ?t" using assms(1,3) i by (simp add: keep_waiting_def)
  show ?thesis using kat_reaches.intros 1 2 3 unfolding t by blast
qed

definition demo_search :: "int \<Rightarrow> string list \<Rightarrow> talk" where
  "demo_search c ls = \<lparr>ka_item = SharedMemoryItem\<lparr>sm_value := KAT_WAITING\<rparr>, ka_sender = S_Search, ka_keeper = K_Sleep,
     ka_counter = c, ka_lines = ls\<rparr>"

definition demo_asked :: "string list \<Rightarrow> talk" where
  "demo_asked ls = (demo_search 4 ls)\<lparr>ka_item := SharedMemoryItem\<lparr>sm_value := KAT_TERMINATE\<rparr>, ka_sender := S_Sleep\<rparr>"

lemma demo_round: "(c + 1) mod 4 \<noteq> 0 \<Longrightarrow> kat_reaches (demo_search c ls) (demo_search (c + 1) ls)"
  "(c + 1) mod 4 = 0 \<Longrightarrow> kat_reaches (demo_search c ls) (demo_search (c + 1) (ls @ [''keepalive'']))"
  using keeper_round [of "demo_search c ls"] by (simp_all add: demo_search_def SharedMemoryItem_def)

lemma demo_line_sent: "m \<noteq> ''keepalive'' \<Longrightarrow> kat_step (demo_search c ls) (demo_search c (ls @ [m]))"
  using kat_step.sent [of "demo_search c ls" m] by (simp add: demo_search_def)

lemma kat_reaches_trans: "kat_reaches s1 s2 \<Longrightarrow> kat_reaches s s1 \<Longrightarrow> kat_reaches s s2"
  by (induction rule: kat_reaches.induct) (auto intro: kat_reaches.intros)

lemma keepalive_between_lines:
  "kat_reaches (talk_start SharedMemoryItem []) (demo_search 4 [''A'', ''keepalive'', ''B''])"
proof -
  let ?s = "talk_start SharedMemoryItem []"
  have "kat_step ?s (?s\<lparr>ka_item := SharedMemoryItem\<lparr>sm_value := KAT_WAITING\<rparr>, ka_sender := S_Start\<rparr>)"
    by (rule kat_step.waiting) (simp_all add: talk_start_def SharedMemoryItem_def kat_ops)
  moreover have "kat_step (?s\<lparr>ka_item := SharedMemoryItem\<lparr>sm_value := KAT_WAITING\<rparr>, ka_sender := S_Start\<rparr>) (demo_search 0 [])"
    using kat_step.started [of "?s\<lparr>ka_item := SharedMemoryItem\<lparr>sm_value := KAT_WAITING\<rparr>, ka_sender := S_Start\<rparr>"]
    by (simp add: talk_start_def demo_search_def)
  moreover have "kat_step (demo_search 0 []) (demo_search 0 [''A''])"
    using demo_line_sent [of "''A''" 0 "[]"] by simp
  ultimately have a: "kat_reaches ?s (demo_search 0 [''A''])" by (blast intro: kat_reaches.intros)
  have "kat_reaches (demo_search 0 [''A'']) (demo_search 3 [''A''])"
    using demo_round(1) [of 0 "[''A'']"] demo_round(1) [of 1 "[''A'']"] demo_round(1) [of 2 "[''A'']"]
    by (auto intro: kat_reaches_trans)
  moreover have "kat_reaches (demo_search 3 [''A'']) (demo_search 4 [''A'', ''keepalive''])"
    using demo_round(2) [of 3 "[''A'']"] by simp
  moreover have "kat_step (demo_search 4 [''A'', ''keepalive'']) (demo_search 4 [''A'', ''keepalive'', ''B''])"
    using demo_line_sent [of "''B''" 4 "[''A'', ''keepalive'']"] by simp
  ultimately show ?thesis using a by (meson kat_reaches_trans kat_reaches.intros)
qed

lemma demo_asks: "kat_reaches (demo_search 4 ls) (demo_asked ls)"
proof -
  let ?s1 = "(demo_search 4 ls)\<lparr>ka_sender := S_Check\<rparr>"
  let ?i = "SharedMemoryItem\<lparr>sm_value := KAT_WAITING, sm_holder := Some SENDER\<rparr>"
  let ?s2 = "?s1\<lparr>ka_item := ?i, ka_sender := S_Held\<rparr>"
  have "kat_step (demo_search 4 ls) ?s1" by (rule kat_step.searched) (simp add: demo_search_def)
  moreover have "kat_step ?s1 ?s2"
    by (rule kat_step.sender_locks) (simp_all add: demo_search_def sm_Lock_def SharedMemoryItem_def)
  moreover have "kat_step ?s2 (check_keeper ?s2)" by (rule kat_step.sender_checks) simp
  moreover have "check_keeper ?s2 = demo_asked ls"
    by (simp add: demo_asked_def demo_search_def SharedMemoryItem_def kat_ops)
  ultimately show ?thesis by (metis kat_reaches.intros)
qed

theorem keepalive_stops_with_the_search_witness:
  "kat_reaches (talk_start SharedMemoryItem []) (demo_asked [''A'', ''keepalive'', ''B''])
     \<and> (\<exists>s'. kat_reaches (demo_asked [''A'', ''keepalive'', ''B'']) s' \<and> ka_sender s' = S_Return \<and> ka_keeper s' = K_Ended
           \<and> count_list (ka_lines s') ''keepalive'' = 1)"
proof -
  let ?a = "demo_asked [''A'', ''keepalive'', ''B'']"
  have r: "kat_reaches (talk_start SharedMemoryItem []) ?a"
    by (rule kat_reaches_trans [OF demo_asks keepalive_between_lines])
  have i: "sm_holder SharedMemoryItem = None" by (simp add: SharedMemoryItem_def)
  have a: "ka_sender ?a = S_Sleep" "ka_lines ?a = [''A'', ''keepalive'', ''B'']"
    by (simp_all add: demo_asked_def demo_search_def)
  obtain s' where s': "kat_reaches ?a s'" "ka_sender s' = S_Return"
    using keepalive_stops_with_the_search [OF i r] by blast
  then have "quiet_since ?a s'" using keepalive_stops_with_the_search [OF i r] a(1) by simp
  then have "count_list (ka_lines s') ''keepalive'' = 1" using a(2) by (auto simp: quiet_since_def)
  moreover have "ka_keeper s' = K_Ended"
    using keepalive_stops_with_the_search [OF i kat_reaches_trans [OF s'(1) r]] s'(2) by simp
  ultimately show ?thesis using r s' by blast
qed

section \<open>What the client makes of it\<close>

lemma keepalive_is_no_unit: "unit_from_line ''keepalive'' w = Inr (False, assign unit_fields [] w)"
  by (simp add: unit_from_line_def FACTORING_WORK_def run_text cong: lazy)

lemma keepalive_refused:
  assumes "so_open c" "version_3 c" "incoming c = Line ''keepalive'' # rest"
  shows "\<exists>w' c'. GetWorkUnitFromServer w c = Inr ((False, w'), c') \<and> incoming c' = rest"
proof -
  let ?c = "c\<lparr>incoming := rest, read_buf := ''keepalive''\<rparr>"
  have v: "version_3 ?c" using assms(2) by (simp add: version_3_def)
  have p: "\<not> prefixed ''INACTIVE'' ''keepalive''" "\<not> prefixed ''INFO'' ''keepalive''" "\<not> prefixed ''End of Message'' ''keepalive''"
    by (simp_all add: prefixed_def)
  have r: "Receive c = Inr (Some ''keepalive'', ?c)" using assms(1,3) by (simp add: Receive_def)
  have "unit_step w1 c = Inr (Inr (Inr (False, assign unit_fields [] w1)), ?c)" for w1
    by (simp add: unit_step_def bind_def r p v keepalive_is_no_unit)
  then show ?thesis
    by (simp add: GetWorkUnitFromServer_def bind_def)
qed

text \<open>C38: A client of a 3.x server that waits for a unit takes the line of the thread for a unit it cannot read: it stops
  getting work, without the units that follow.\<close>

theorem keepalive_ends_getting_work:
  assumes "so_open (wk_conn s)" "version_3 (wk_conn s)" "incoming (wk_conn s) = Line ''keepalive'' # rest"
    and "new_unit junk s = Inr (w0, s)"
  shows "\<exists>s'. iterate (Suc n) (get_step junk) () s = Inr ((), s') \<and> wk_units s' = wk_units s \<and> incoming (wk_conn s') = rest"
proof -
  obtain w c where c: "GetWorkUnitFromServer w0 (wk_conn s) = Inr ((False, w), c)" "incoming c = rest"
    using keepalive_refused [OF assms(1-3)] by blast
  then have "on_conn (GetWorkUnitFromServer w0) s = Inr ((False, w), s\<lparr>wk_conn := c\<rparr>)"
    by (simp add: on_conn_def part_def)
  then have "get_step junk () s = Inr (Inr (), s\<lparr>wk_conn := c\<rparr>)"
    by (simp add: get_step_def bind_def assms(4))
  then show ?thesis using c(2) by (simp add: bind_def)
qed

theorem keepalive_ends_getting_work_witness:
  "\<exists>s'. iterate (Suc 3) (get_step (demo_unit [] 0 True)) () (demo_job [] (map Line [''keepalive'', ''Factoring Work for C 91 2 ECM 100 3 2'']))
     = Inr ((), s') \<and> wk_units s' = []"
proof -
  let ?s = "demo_job [] (map Line [''keepalive'', ''Factoring Work for C 91 2 ECM 100 3 2''])"
  obtain w0 where "WorkUnit (demo_unit [] 0 True) ''pc'' ''i1'' ''A'' ''ecm'' 0 0 = Inr w0" using demo_WorkUnit by blast
  then have n: "new_unit (demo_unit [] 0 True) ?s = Inr (w0, ?s)"
    by (simp add: new_unit_def demo_job_def)
  have "so_open (wk_conn ?s)" "version_3 (wk_conn ?s)"
    "incoming (wk_conn ?s) = Line ''keepalive'' # [Line ''Factoring Work for C 91 2 ECM 100 3 2'']"
    by (simp_all add: client_defs version_3_def code_def)
  from keepalive_ends_getting_work [OF this n, of 3] obtain s' where
    "iterate (Suc 3) (get_step (demo_unit [] 0 True)) () ?s = Inr ((), s')" "wk_units s' = wk_units ?s"
    by (elim exE conjE) (rule that)
  moreover have "wk_units ?s = []" by (simp add: demo_job_def)
  ultimately show ?thesis by (intro exI [of _ s'] conjI) simp_all
qed

end
