(* ===== verification/LogFile.thy ===== *)
theory LogFile
  imports Handler
begin

text \<open>
  \<open>src/source/Log.cpp\<close>: dated lines in a file and on the console, and the old file that takes the place of
  one that has grown too big. A message is what its format gives. \<open>lg_denied\<close> are the files that cannot be
  opened for writing; \<open>unlink\<close> and \<open>rename\<close> within the directory of a file that can be written succeed. The
  lock of the file only orders the messages of several threads.
\<close>

definition DEBUG_NONE :: int where "DEBUG_NONE = 0"
definition DEBUG_ALL :: int where "DEBUG_ALL = 1"

definition STRING_END :: char where "STRING_END = CHR 0x00"

record logger =
  lg_name :: string
  lg_limit :: int
  lg_debug :: int
  lg_echo :: bool
  lg_echo_test :: bool
  lg_cr :: bool
  lg_need_lf :: bool
  lg_local :: bool
  lg_zone :: "bool option"
  lg_files :: "string \<Rightarrow> string option"
  lg_denied :: "string \<Rightarrow> bool"
  lg_console :: string

text \<open>The constructor gives \<open>ib_AppendTimeZone\<close> no value.\<close>

definition Log :: "int \<Rightarrow> string \<Rightarrow> int \<Rightarrow> bool \<Rightarrow> (string \<Rightarrow> string option) \<Rightarrow> (string \<Rightarrow> bool) \<Rightarrow> logger" where
  "Log logLimit logFileName debugLevel echoToConsole files denied =
     \<lparr>lg_name = logFileName, lg_limit = logLimit, lg_debug = debugLevel, lg_echo = echoToConsole, lg_echo_test = True,
      lg_cr = False, lg_need_lf = False, lg_local = True, lg_zone = None, lg_files = files, lg_denied = denied, lg_console = []\<rparr>"

definition SetDebugLevel :: "int \<Rightarrow> logger \<Rightarrow> logger" where
  "SetDebugLevel debugLevel s = s\<lparr>lg_debug := debugLevel\<rparr>"

definition SetEchoTest :: "bool \<Rightarrow> logger \<Rightarrow> logger" where
  "SetEchoTest echoTest s = s\<lparr>lg_echo_test := echoTest\<rparr>"

definition SetLogLimit :: "int \<Rightarrow> logger \<Rightarrow> logger" where
  "SetLogLimit logLimit s = s\<lparr>lg_limit := logLimit\<rparr>"

definition SetUseLocalTime :: "bool \<Rightarrow> logger \<Rightarrow> logger" where
  "SetUseLocalTime useLocalTime s = s\<lparr>lg_local := useLocalTime\<rparr>"

definition UseCRInsteadOfLF :: "bool \<Rightarrow> logger \<Rightarrow> logger" where
  "UseCRInsteadOfLF crOverLF s = s\<lparr>lg_cr := crOverLF, lg_need_lf := lg_need_lf s \<or> crOverLF\<rparr>"

definition AppendTimeZone :: "bool \<Rightarrow> logger \<Rightarrow> logger" where
  "AppendTimeZone appendTimeZone s = s\<lparr>lg_zone := Some appendTimeZone\<rparr>"

section \<open>The time\<close>

text \<open>What \<open>strftime\<close> makes of the clock: the local time, the time in Greenwich and the name of the local zone.\<close>

record clock =
  ck_local :: string
  ck_gmt :: string
  ck_zone :: string

definition iscntrl :: "char \<Rightarrow> bool" where
  "iscntrl c \<longleftrightarrow> code c < 32 \<or> code c = 127"

text \<open>
  The buffer with the name of the zone, its end included, and the two pointers into it: the first is where
  the next initial goes, the second where the search for the next word begins.
\<close>

definition next_blank :: "string \<Rightarrow> nat \<Rightarrow> nat" where
  "next_blank b i = i + length (takeWhile (\<lambda>c. c \<noteq> STRING_END \<and> c \<noteq> CHR '' '') (drop i b))"

function initials :: "string \<Rightarrow> nat \<Rightarrow> nat \<Rightarrow> halt + string" where
  "initials b p1 p2 =
     (let e = next_blank b p2; w = Suc e
      in if length b \<le> e then Inl Undefined
         else if b ! e = STRING_END \<or> iscntrl (b ! e) then Inr b
         else if length b \<le> w then Inl Undefined
         else if b ! w = STRING_END \<or> iscntrl (b ! w) then Inr b
         else initials (b[p1 := b ! w, Suc p1 := STRING_END]) (Suc p1) w)"
  by auto
termination
  by (relation "measure (\<lambda>(b, p1, p2). length b - p2)") (auto simp: next_blank_def)

declare initials.simps [simp del]

definition abbreviate :: "string \<Rightarrow> halt + string" where
  "abbreviate zone = and_then (initials (zone @ [STRING_END]) 1 1) (\<lambda>b. Inr (takeWhile (\<lambda>c. c \<noteq> STRING_END) b))"

definition log_Time :: "clock \<Rightarrow> logger \<Rightarrow> halt + string" where
  "log_Time c s =
     and_then (if lg_local s then abbreviate (ck_zone c) else Inr ''GMT'') (\<lambda>timeZone.
     let timeString = (if lg_local s then ck_local c else ck_gmt c)
     in case lg_zone s of
          None \<Rightarrow> Inl Undefined
        | Some b \<Rightarrow> if b then strcpy (timeString @ '' '' @ timeZone) 64 else Inr timeString)"

section \<open>Writing\<close>

definition log_line :: "string \<Rightarrow> string \<Rightarrow> string" where
  "log_line t m =
     (if prefixed [CHR 0x0A] m then [CHR 0x0A] @ ''['' @ t @ ''] '' @ tl m @ [CHR 0x0A] else ''['' @ t @ ''] '' @ m @ [CHR 0x0A])"

definition log_echo :: "string \<Rightarrow> string \<Rightarrow> logger \<Rightarrow> logger" where
  "log_echo t m s =
     (if lg_cr s then s\<lparr>lg_console := lg_console s @ ''['' @ t @ ''] '' @ m @ [CHR 0x0D]\<rparr>
      else s\<lparr>lg_console := lg_console s @ (if lg_need_lf s then [CHR 0x0A] else []) @ log_line t m, lg_need_lf := False\<rparr>)"

definition file_text :: "string option \<Rightarrow> string" where
  "file_text f = (case f of None \<Rightarrow> [] | Some t \<Rightarrow> t)"

definition not_written :: "logger \<Rightarrow> logger" where
  "not_written s = s\<lparr>lg_console := lg_console s @
     (if lg_files s (lg_name s) = None then ''Couldn't create file ['' else ''Couldn't append to file ['') @ lg_name s @ ''].'' @ [CHR 0x0A]\<rparr>"

definition keep_old :: "logger \<Rightarrow> halt + logger" where
  "keep_old s =
     and_then (strcpy (lg_name s @ ''.old'') 400) (\<lambda>oldFileName.
     Inr (s\<lparr>lg_files := (lg_files s)(oldFileName := lg_files s (lg_name s), lg_name s := None)\<rparr>))"

text \<open>The clock is read once for the console and once for the file.\<close>

definition log_Write :: "clock \<Rightarrow> clock \<Rightarrow> string \<Rightarrow> bool \<Rightarrow> bool \<Rightarrow> logger \<Rightarrow> halt + logger" where
  "log_Write c1 c2 logMessage toConsole respectLimit s =
     (if lg_denied s (lg_name s) then Inr (not_written s)
      else
      and_then (if toConsole then and_then (log_Time c1 s) (\<lambda>t. Inr (log_echo t logMessage s)) else Inr s) (\<lambda>s1.
      and_then (log_Time c2 s1) (\<lambda>t.
      let written = file_text (lg_files s1 (lg_name s1)) @ log_line t logMessage;
          s2 = s1\<lparr>lg_files := (lg_files s1)(lg_name s1 := Some written)\<rparr>
      in if respectLimit \<and> 0 < lg_limit s2 \<and> lg_limit s2 < int (length written) then keep_old s2 else Inr s2)))"

definition TEMP_BUFFER :: nat where "TEMP_BUFFER = 10000"

definition LogMessage :: "clock \<Rightarrow> clock \<Rightarrow> string \<Rightarrow> logger \<Rightarrow> halt + logger" where
  "LogMessage c1 c2 m s =
     and_then (strcpy m TEMP_BUFFER) (\<lambda>m. if lg_limit s \<noteq> -1 then log_Write c1 c2 m (lg_echo s) True s else Inr s)"

definition TestMessage :: "clock \<Rightarrow> clock \<Rightarrow> string \<Rightarrow> logger \<Rightarrow> halt + logger" where
  "TestMessage c1 c2 m s =
     and_then (strcpy m TEMP_BUFFER) (\<lambda>m. if lg_limit s \<noteq> -1 then log_Write c1 c2 m (lg_echo_test s) True s else Inr s)"

definition Debug :: "clock \<Rightarrow> clock \<Rightarrow> int \<Rightarrow> string \<Rightarrow> logger \<Rightarrow> halt + logger" where
  "Debug c1 c2 debugLevel m s =
     (if lg_debug s = 0 then Inr s
      else if lg_debug s = DEBUG_ALL \<or> lg_debug s = debugLevel then
        and_then (strcpy m TEMP_BUFFER) (\<lambda>m. log_Write c1 c2 m True True s)
      else Inr s)"

text \<open>Messages one after another, each with the two readings of the clock.\<close>

primrec log_messages :: "(clock \<times> clock \<times> string) list \<Rightarrow> logger \<Rightarrow> halt + logger" where
  "log_messages [] s = Inr s"
| "log_messages (x # xs) s = (case x of (c1, c2, m) \<Rightarrow> and_then (LogMessage c1 c2 m s) (log_messages xs))"

end
