(* ===== verification/LogProps.thy ===== *)
theory LogProps
  imports LogFile
begin

text \<open>
  The size of the log file, the abbreviation of the name of the time zone, and the log of a program that
  never says whether the zone is to be shown.
\<close>

section \<open>Initials\<close>

text \<open>The rest of the words of a name, each after a blank.\<close>

definition tail_words :: "string list \<Rightarrow> string" where
  "tail_words ws = concat (map (\<lambda>w. CHR '' '' # w) ws)"

definition zone_word :: "string \<Rightarrow> bool" where
  "zone_word w \<longleftrightarrow> w \<noteq> [] \<and> (\<forall>c \<in> set w. \<not> iscntrl c \<and> c \<noteq> CHR '' '')"

lemma zone_wordD: "zone_word w \<Longrightarrow> c \<in> set w \<Longrightarrow> c \<noteq> STRING_END \<and> c \<noteq> CHR '' '' \<and> \<not> iscntrl c"
proof -
  have "iscntrl STRING_END" by (simp add: iscntrl_def STRING_END_def code_def)
  then show "zone_word w \<Longrightarrow> c \<in> set w \<Longrightarrow> c \<noteq> STRING_END \<and> c \<noteq> CHR '' '' \<and> \<not> iscntrl c"
    unfolding zone_word_def by blast
qed

lemma next_blank_word:
  assumes "drop i b = v @ c # r" "\<And>d. d \<in> set v \<Longrightarrow> d \<noteq> STRING_END \<and> d \<noteq> CHR '' ''" "c = STRING_END \<or> c = CHR '' ''" "i \<le> length b"
  shows "next_blank b i = i + length v" "i + length v < length b" "b ! (i + length v) = c" "drop (Suc (i + length v)) b = r"
proof -
  have "takeWhile (\<lambda>c. c \<noteq> STRING_END \<and> c \<noteq> CHR '' '') (drop i b) = v" using assms(1-3) by auto
  then show "next_blank b i = i + length v" by (simp add: next_blank_def)
  have d: "drop (i + length v) b = c # r" using assms(1) by (metis append_eq_conv_conj drop_drop add.commute)
  then show l: "i + length v < length b" by (metis drop_eq_Nil list.distinct(1) not_less)
  show "b ! (i + length v) = c" using d l by (metis Cons_nth_drop_Suc list.inject)
  show "drop (Suc (i + length v)) b = r" using d by (metis drop_Suc tl_drop list.sel(3))
qed

lemma initials_words:
  assumes "drop p2 b = v @ tail_words ws @ [STRING_END]" "\<And>d. d \<in> set v \<Longrightarrow> d \<noteq> STRING_END \<and> d \<noteq> CHR '' ''" "\<forall>w \<in> set ws. zone_word w"
    and "p1 \<le> p2 + length v - 1" "Suc 0 \<le> p2 + length v" "p2 \<le> length b" "STRING_END \<notin> set (take p1 b)" "ws \<noteq> [] \<or> b ! p1 = STRING_END"
  shows "\<exists>b'. initials b p1 p2 = Inr b' \<and> takeWhile (\<lambda>c. c \<noteq> STRING_END) b' = take p1 b @ map hd ws"
  using assms
proof (induction ws arbitrary: b v p1 p2)
  case Nil
  then have "initials b p1 p2 = Inr b"
    using next_blank_word [of p2 b v STRING_END "[]"] by (simp add: initials.simps Let_def tail_words_def)
  moreover have "takeWhile (\<lambda>c. c \<noteq> STRING_END) b = take p1 b"
  proof -
    have "p1 < length b" using Nil.prems next_blank_word(2) [of p2 b v STRING_END "[]"] by (simp add: tail_words_def)
    then have "b = take p1 b @ STRING_END # drop (Suc p1) b" using Nil.prems(8) id_take_nth_drop [of p1 b] by simp
    then show ?thesis using Nil.prems(7) by (metis (mono_tags, lifting) takeWhile_append2 takeWhile.simps(2) append_Nil2)
  qed
  ultimately show ?case by simp
next
  case (Cons w ws)
  let ?e = "p2 + length v"
  have w: "zone_word w" using Cons.prems by simp
  then obtain c u where cu: "w = c # u" by (cases w) (auto simp: zone_word_def)
  have d: "drop p2 b = v @ CHR '' '' # (c # u @ tail_words ws @ [STRING_END])"
    using Cons.prems(1) cu by (simp add: tail_words_def)
  note e = next_blank_word [OF d Cons.prems(2) _ Cons.prems(6), simplified]
  have c: "c \<noteq> STRING_END" "\<not> iscntrl c" using zone_wordD [OF w] cu by auto
  have len: "Suc ?e < length b" using e(4) by (metis drop_eq_Nil list.distinct(1) not_less)
  have bc: "b ! Suc ?e = c" using e(4) len by (metis Cons_nth_drop_Suc list.inject)
  let ?b = "b[p1 := c, Suc p1 := STRING_END]"
  have step: "initials b p1 p2 = initials ?b (Suc p1) (Suc ?e)"
    using e(1-3) len bc c by (subst initials.simps) (simp add: Let_def STRING_END_def iscntrl_def code_def)
  have "\<exists>b'. initials ?b (Suc p1) (Suc ?e) = Inr b' \<and> takeWhile (\<lambda>c. c \<noteq> STRING_END) b' = take (Suc p1) ?b @ map hd ws"
  proof (rule Cons.IH [of "Suc ?e" ?b "c # u"])
    have "Suc p1 < Suc ?e" using Cons.prems(4,5) by linarith
    then show "drop (Suc ?e) ?b = (c # u) @ tail_words ws @ [STRING_END]" using e(4) by (simp add: drop_update_cancel)
    show "\<And>d. d \<in> set (c # u) \<Longrightarrow> d \<noteq> STRING_END \<and> d \<noteq> CHR '' ''" using zone_wordD [OF w] cu by auto
    show "\<forall>w \<in> set ws. zone_word w" using Cons.prems(3) by simp
    show "Suc p1 \<le> Suc ?e + length (c # u) - 1" using Cons.prems(4,5) by simp
    show "STRING_END \<notin> set (take (Suc p1) ?b)"
      using Cons.prems(4-7) len c by (simp add: take_Suc_conv_app_nth)
    show "ws \<noteq> [] \<or> ?b ! Suc p1 = STRING_END" using Cons.prems(4) len by simp
  qed (use len in simp_all)
  moreover have "take (Suc p1) ?b = take p1 b @ [c]"
    using Cons.prems(4) len by (simp add: take_Suc_conv_app_nth)
  ultimately show ?case using step cu by simp
qed

text \<open>The name of a zone of several words, the first of which has two letters or more, becomes their initials.\<close>

lemma abbreviate_words:
  assumes "zone_word (c # d # v)" "\<forall>w \<in> set ws. zone_word w" "ws \<noteq> []"
  shows "abbreviate ((c # d # v) @ tail_words ws) = Inr (c # map hd ws)"
proof -
  let ?b = "((c # d # v) @ tail_words ws) @ [STRING_END]"
  have "\<exists>b'. initials ?b 1 1 = Inr b' \<and> takeWhile (\<lambda>c. c \<noteq> STRING_END) b' = take 1 ?b @ map hd ws"
    using assms zone_wordD [OF assms(1)] by (intro initials_words [of 1 ?b "d # v"]) auto
  then show ?thesis by (auto simp: abbreviate_def)
qed

lemma abbreviate_word: "zone_word w \<Longrightarrow> abbreviate w = Inr w"
proof -
  assume w: "zone_word w"
  then obtain c v where v: "w = c # v" by (cases w) (auto simp: zone_word_def)
  have "next_blank (w @ [STRING_END]) 1 = 1 + length v" "(w @ [STRING_END]) ! (1 + length v) = STRING_END"
    using next_blank_word [of 1 "w @ [STRING_END]" v STRING_END "[]"] zone_wordD [OF w] v by auto
  then have "initials (w @ [STRING_END]) 1 1 = Inr (w @ [STRING_END])" using v by (simp add: initials.simps Let_def)
  moreover have "takeWhile (\<lambda>c. c \<noteq> STRING_END) (w @ [STRING_END]) = w" using zone_wordD [OF w] by (simp add: takeWhile_append2)
  ultimately show "abbreviate w = Inr w" by (simp add: abbreviate_def)
qed

lemma abbreviate_examples:
  "abbreviate ''Central Standard Time'' = Inr ''CST''" "abbreviate ''UTC'' = Inr ''UTC''"
  using abbreviate_words [of "CHR ''C''" "CHR ''e''" "''ntral''" "[''Standard'', ''Time'']"] abbreviate_word [of "''UTC''"]
  by (simp_all add: zone_word_def tail_words_def iscntrl_def code_def)

section \<open>The size of the file\<close>

definition old_name :: "logger \<Rightarrow> string" where
  "old_name s = lg_name s @ ''.old''"

text \<open>The line is the end of the log, or of the old file that just took its place.\<close>

definition ends_with_line :: "string \<Rightarrow> logger \<Rightarrow> bool" where
  "ends_with_line m s \<longleftrightarrow> (\<exists>u t. lg_files s (lg_name s) = Some (u @ log_line t m)
     \<or> lg_files s (lg_name s) = None \<and> lg_files s (old_name s) = Some (u @ log_line t m))"

definition within_limit :: "logger \<Rightarrow> bool" where
  "within_limit s \<longleftrightarrow> int (length (file_text (lg_files s (lg_name s)))) \<le> lg_limit s"

lemma log_echo_same: "lg_files (log_echo t m s) = lg_files s \<and> lg_name (log_echo t m s) = lg_name s
    \<and> lg_limit (log_echo t m s) = lg_limit s \<and> lg_denied (log_echo t m s) = lg_denied s \<and> lg_local (log_echo t m s) = lg_local s
    \<and> lg_zone (log_echo t m s) = lg_zone s \<and> lg_echo (log_echo t m s) = lg_echo s"
  by (simp add: log_echo_def)

lemma log_Write_cases:
  assumes "log_Write c1 c2 m toConsole True s = Inr s'" "\<not> lg_denied s (lg_name s)" "0 < lg_limit s"
  obtains t s1 where "lg_files s1 = lg_files s" "lg_name s1 = lg_name s" "lg_limit s1 = lg_limit s" "lg_denied s1 = lg_denied s"
    "log_Time c2 s = Inr t"
    "s' = (let written = file_text (lg_files s (lg_name s)) @ log_line t m;
               s2 = s1\<lparr>lg_files := (lg_files s)(lg_name s := Some written)\<rparr>
           in if lg_limit s < int (length written)
              then s2\<lparr>lg_files := (lg_files s2)(old_name s := Some written, lg_name s := None)\<rparr> else s2)"
proof -
  obtain s1 t where s1: "s1 = s \<or> (\<exists>t. s1 = log_echo t m s)" and t: "log_Time c2 s1 = Inr t"
    and w: "(let written = file_text (lg_files s1 (lg_name s1)) @ log_line t m;
          s2 = s1\<lparr>lg_files := (lg_files s1)(lg_name s1 := Some written)\<rparr>
      in if True \<and> 0 < lg_limit s2 \<and> lg_limit s2 < int (length written) then keep_old s2 else Inr s2) = Inr s'"
    using assms(1,2) by (auto simp: log_Write_def split: if_splits)
  from s1 have same: "lg_files s1 = lg_files s" "lg_name s1 = lg_name s" "lg_limit s1 = lg_limit s" "lg_denied s1 = lg_denied s"
    "log_Time c2 s1 = log_Time c2 s"
    using log_echo_same by (auto simp: log_Time_def)
  show thesis
    by (rule that [OF same(1-4)])
      (use w t same assms(3) in \<open>auto simp: Let_def keep_old_def old_name_def strcpy_Inr split: if_splits\<close>)
qed

lemma LogMessage_within:
  assumes "LogMessage c1 c2 m s = Inr s'" "\<not> lg_denied s (lg_name s)" "0 < lg_limit s"
  shows "within_limit s' \<and> ends_with_line m s' \<and> lg_name s' = lg_name s \<and> lg_limit s' = lg_limit s \<and> lg_denied s' = lg_denied s"
proof -
  from assms have "log_Write c1 c2 m (lg_echo s) True s = Inr s'" by (auto simp: LogMessage_def strcpy_Inr split: if_splits)
  from this assms(2,3) show ?thesis
    by (cases rule: log_Write_cases) (use assms(3) in \<open>auto simp: within_limit_def ends_with_line_def old_name_def file_text_def Let_def\<close>)
qed

text \<open>C25: However many messages are logged, a log with a limit never ends up longer than its limit, and the last message
  is the last line of the log or of the old file that took its place.\<close>

theorem log_stays_within_its_limit:
  assumes "log_messages ms s = Inr s'" "\<not> lg_denied s (lg_name s)" "0 < lg_limit s" "within_limit s"
  shows "within_limit s' \<and> (ms \<noteq> [] \<longrightarrow> ends_with_line (snd (snd (last ms))) s')"
  using assms
proof (induction ms arbitrary: s)
  case (Cons x ms)
  then obtain c1 c2 m s1 where x: "x = (c1, c2, m)" "LogMessage c1 c2 m s = Inr s1" "log_messages ms s1 = Inr s'"
    by (cases x) auto
  note w = LogMessage_within [OF x(2) Cons.prems(2,3)]
  with Cons.IH [OF x(3)] Cons.prems have i: "within_limit s' \<and> (ms \<noteq> [] \<longrightarrow> ends_with_line (snd (snd (last ms))) s')" by simp
  show ?case
  proof (cases "ms = []")
    case True
    with x w show ?thesis by simp
  qed (use i in simp)
qed simp

section \<open>Logs as the programs open them\<close>

lemma initials_halts: "initials b p1 p2 = Inl h \<Longrightarrow> h = Undefined"
proof (induction b p1 p2 rule: initials.induct)
  case (1 b p1 p2)
  from 1(2) show ?case
    by (subst (asm) initials.simps) (use 1(1) in \<open>auto simp: Let_def split: if_splits\<close>)
qed

text \<open>
  Only the server calls \<open>AppendTimeZone\<close>, on a branch that an earlier test of the same line shadows
  (\<open>ecmserver.cpp\<close>, \<open>localtimelog=2\<close>): the first message of every program reads a member without a value.
\<close>

theorem first_message_is_undefined:
  assumes "logLimit \<noteq> -1" "\<not> denied logFileName"
  shows "LogMessage c1 c2 m (Log logLimit logFileName debugLevel echo files denied) = Inl Undefined"
proof -
  let ?s = "Log logLimit logFileName debugLevel echo files denied"
  have t: "log_Time c s = Inl Undefined" if "lg_zone s = None" for c s
  proof (cases "if lg_local s then abbreviate (ck_zone c) else Inr ''GMT''")
    case (Inl h)
    then have "h = Undefined" using initials_halts by (auto simp: abbreviate_def and_then_def split: if_splits sum.splits)
    with Inl show ?thesis by (simp add: log_Time_def)
  next
    case (Inr z)
    with that show ?thesis by (simp add: log_Time_def Let_def)
  qed
  have z: "lg_zone ?s = None" "lg_name ?s = logFileName" "lg_denied ?s = denied" "lg_limit ?s = logLimit" by (simp_all add: Log_def)
  have "log_Write c1 c2 m e True ?s = Inl Undefined" for e
    using assms(2) by (simp add: log_Write_def t z)
  then show ?thesis using assms(1) by (simp add: LogMessage_def strcpy_def z)
qed

text \<open>The log of the administrator's program has a limit of 10 bytes: every message becomes the old file, and all before it are lost.\<close>

theorem small_log_keeps_one_message:
  assumes "LogMessage c1 c2 m s = Inr s'" "\<not> lg_denied s (lg_name s)" "lg_limit s = 10" "lg_files s (lg_name s) = None"
    and "log_Time c2 s = Inr t" "7 \<le> length t"
  shows "lg_files s' (lg_name s') = None \<and> lg_files s' (old_name s') = Some (log_line t m)"
proof -
  from assms have "log_Write c1 c2 m (lg_echo s) True s = Inr s'" by (auto simp: LogMessage_def strcpy_Inr split: if_splits)
  moreover have "10 < length (log_line t m)" using assms(6) by (auto simp: log_line_def prefixed_iff)
  ultimately show ?thesis
    using assms(2-5) by (elim log_Write_cases) (auto simp: old_name_def file_text_def Let_def)
qed

section \<open>A log\<close>

definition demo_clock :: clock where
  "demo_clock = \<lparr>ck_local = ''2011-05-01 12:00:00'', ck_gmt = ''2011-05-01 17:00:00'', ck_zone = ''Central Standard Time''\<rparr>"

definition demo_log :: logger where
  "demo_log = AppendTimeZone True (Log 60 ''ecm.log'' 0 False (\<lambda>f. None) (\<lambda>f. False))"

lemma demo_log_time: "lg_local s \<Longrightarrow> lg_zone s = Some True \<Longrightarrow> log_Time demo_clock s = Inr ''2011-05-01 12:00:00 CST''"
  by (simp add: log_Time_def demo_clock_def abbreviate_examples Let_def)

theorem log_stays_within_its_limit_witness:
  "\<exists>s'. log_messages [(demo_clock, demo_clock, ''one''), (demo_clock, demo_clock, ''two and more'')] demo_log = Inr s'
     \<and> within_limit s' \<and> ends_with_line ''two and more'' s'"
proof -
  let ?ms = "[(demo_clock, demo_clock, ''one''), (demo_clock, demo_clock, ''two and more'')]"
  have "\<exists>s'. log_messages ?ms demo_log = Inr s'"
    by (simp add: demo_log_def AppendTimeZone_def Log_def LogMessage_def log_Write_def demo_log_time TEMP_BUFFER_def
      log_line_def file_text_def keep_old_def Let_def prefixed_def)
  then obtain s' where s': "log_messages ?ms demo_log = Inr s'" by blast
  have "\<not> lg_denied demo_log (lg_name demo_log)" "0 < lg_limit demo_log" "within_limit demo_log"
    by (simp_all add: demo_log_def AppendTimeZone_def Log_def within_limit_def file_text_def)
  from log_stays_within_its_limit [OF s' this] s' show ?thesis by auto
qed

end
