(* ===== verification/DBConnect.thy ===== *)
theory DBConnect
  imports Handler TextFiles
begin

text \<open>
  \<open>src/source/DBInterface.cpp\<close> from \<open>database.ini\<close> to a connection. The driver is its answers: \<open>db_codes\<close> are the return codes of
  the next calls, an empty list meaning success; \<open>db_asked\<close> is what it was asked to connect to.
\<close>

definition DB_UNKNOWN :: int where "DB_UNKNOWN = 0"
definition DB_MYSQL :: int where "DB_MYSQL = 1"
definition DB_POSTGRESQL :: int where "DB_POSTGRESQL = 2"

lemmas vendors = DB_UNKNOWN_def DB_MYSQL_def DB_POSTGRESQL_def

datatype target = DSN string string string | Driver string

record dbinterface =
  db_driver :: string
  db_dsn :: string
  db_server :: string
  db_port :: int
  db_name :: string
  db_user :: string
  db_password :: string
  db_initialized :: bool
  db_connected :: bool
  db_client :: int
  db_vendor :: "int option"
  db_codes :: "sqlret list"
  db_asked :: "target list"

section \<open>The configuration file\<close>

definition db_line :: "dbinterface \<Rightarrow> string \<Rightarrow> dbinterface" where
  "db_line s raw =
     (let line = StripCRLF raw
      in if prefixed ''driver='' line then s\<lparr>db_driver := drop 7 line\<rparr>
         else if prefixed ''dsn='' line then s\<lparr>db_dsn := drop 4 line\<rparr>
         else if prefixed ''server='' line then s\<lparr>db_server := drop 7 line\<rparr>
         else if prefixed ''port='' line then s\<lparr>db_port := wrap32 (atol (drop 5 line))\<rparr>
         else if prefixed ''database='' line then s\<lparr>db_name := drop 9 line\<rparr>
         else if prefixed ''user='' line then s\<lparr>db_user := drop 5 line\<rparr>
         else if prefixed ''password='' line then s\<lparr>db_password := drop 9 line\<rparr>
         else s)"

definition ProcessDBFile :: "string option \<Rightarrow> dbinterface \<Rightarrow> dbinterface" where
  "ProcessDBFile iniFile s = (case iniFile of None \<Rightarrow> s | Some content \<Rightarrow> foldl db_line s (file_lines 198 content))"

text \<open>The vendor has no value before a connection.\<close>

definition DBInterface :: "string option \<Rightarrow> sqlret list \<Rightarrow> dbinterface" where
  "DBInterface iniFile codes =
     (ProcessDBFile iniFile
        \<lparr>db_driver = [], db_dsn = [], db_server = [], db_port = 0, db_name = [], db_user = [], db_password = [],
         db_initialized = False, db_connected = False, db_client = 0, db_vendor = None, db_codes = codes, db_asked = []\<rparr>)
     \<lparr>db_initialized := False, db_connected := False, db_client := 0\<rparr>"

section \<open>Connecting\<close>

definition driver_call :: "(dbinterface, sqlret) run" where
  "driver_call s = (case answer (db_codes s) of (rc, rest) \<Rightarrow> Inr (rc, s\<lparr>db_codes := rest\<rparr>))"

definition Initialize :: "(dbinterface, bool) run" where
  "Initialize =
     bind (asks db_initialized) (\<lambda>done_already.
     if done_already then ret True
     else
     bind driver_call (\<lambda>rCode. if rCode \<noteq> SQL_SUCCESS then ret False else
     bind driver_call (\<lambda>rCode. if rCode \<noteq> SQL_SUCCESS then ret False else
     bind driver_call (\<lambda>rCode. if rCode \<noteq> SQL_SUCCESS then ret False else
     bind (modify (\<lambda>s. s\<lparr>db_initialized := True\<rparr>)) (\<lambda>_. ret True)))))"

definition Disconnect :: "dbinterface \<Rightarrow> dbinterface" where
  "Disconnect s =
     (let s1 = (if db_connected s then s\<lparr>db_connected := False\<rparr> else s)
      in if db_initialized s1 then s1\<lparr>db_initialized := False\<rparr> else s1)"

definition connect_string :: "dbinterface \<Rightarrow> string" where
  "connect_string s =
     ''Driver={'' @ db_driver s @ ''};'' @ ''Server='' @ db_server s @ '';'' @ ''Port='' @ show_int (db_port s) @ '';''
     @ ''Database='' @ db_name s @ '';'' @ ''User='' @ db_user s @ '';'' @ ''UID='' @ db_user s @ '';''
     @ (if db_password s \<noteq> [] then ''Password='' @ db_password s @ '';'' @ ''PWD='' @ db_password s @ '';'' else [])
     @ ''Option=3;''"

definition connect_target :: "dbinterface \<Rightarrow> target" where
  "connect_target s = (if db_dsn s \<noteq> [] then DSN (db_dsn s) (db_user s) (db_password s) else Driver (connect_string s))"

definition vendor_of :: "sqlret \<Rightarrow> string \<Rightarrow> int" where
  "vendor_of rCode dbmsName =
     (if rCode = SQL_SUCCESS then
        if dbmsName = ''PostgreSQL'' then DB_POSTGRESQL else if dbmsName = ''MySQL'' then DB_MYSQL else DB_UNKNOWN
      else DB_UNKNOWN)"

text \<open>
  \<open>dbmsName\<close> is what the driver calls its database. The three attributes of the connection are asked for,
  and it is used whether they are granted or not.
\<close>

definition open_connection :: "string \<Rightarrow> int \<Rightarrow> (dbinterface, bool) run" where
  "open_connection dbmsName instanceID =
     bind (modify (\<lambda>s. s\<lparr>db_client := instanceID, db_asked := db_asked s @ [connect_target s]\<rparr>)) (\<lambda>_.
     bind driver_call (\<lambda>rCode.
     if rCode = SQL_SUCCESS \<or> rCode = SQL_SUCCESS_WITH_INFO then
       bind driver_call (\<lambda>_. bind driver_call (\<lambda>_. bind driver_call (\<lambda>_. bind driver_call (\<lambda>_.
       bind driver_call (\<lambda>rCode.
       bind (modify (\<lambda>s. s\<lparr>db_connected := True, db_vendor := Some (vendor_of rCode dbmsName)\<rparr>)) (\<lambda>_.
       if vendor_of rCode dbmsName = DB_UNKNOWN then stop Exit else ret True))))))
     else ret False))"

definition Connect :: "string \<Rightarrow> int \<Rightarrow> (dbinterface, bool) run" where
  "Connect dbmsName instanceID =
     bind (asks db_initialized) (\<lambda>initialized.
     bind (if initialized then ret True else Initialize) (\<lambda>_.
     bind (asks db_connected) (\<lambda>connected_already.
     if connected_already then ret True else open_connection dbmsName instanceID)))"

section \<open>What a connection is\<close>

definition dbi_ok :: "dbinterface \<Rightarrow> bool" where
  "dbi_ok s \<longleftrightarrow> (db_connected s \<longrightarrow> db_vendor s \<in> {Some DB_MYSQL, Some DB_POSTGRESQL})"

lemma driver_call_Inr: "driver_call s = Inr (rc, s') \<longleftrightarrow> (\<exists>rest. answer (db_codes s) = (rc, rest) \<and> s' = s\<lparr>db_codes := rest\<rparr>)"
  by (auto simp: driver_call_def split: prod.splits)

lemma foldl_db_line: "db_connected (foldl db_line s ls) = db_connected s"
  by (induction ls arbitrary: s) (simp_all add: db_line_def Let_def)

lemma DBInterface_ok: "dbi_ok (DBInterface iniFile codes)" and Disconnect_ok: "dbi_ok (Disconnect s)"
  by (simp_all add: dbi_ok_def DBInterface_def Disconnect_def Let_def)

lemma connect_target_same [simp]:
  "connect_target (s\<lparr>db_codes := c\<rparr>) = connect_target s" "connect_target (s\<lparr>db_initialized := d\<rparr>) = connect_target s"
  by (simp_all add: connect_target_def connect_string_def)

definition same_dbi :: "dbinterface \<Rightarrow> dbinterface \<Rightarrow> bool" where
  "same_dbi s s' \<longleftrightarrow> db_connected s' = db_connected s \<and> db_vendor s' = db_vendor s \<and> db_asked s' = db_asked s
     \<and> connect_target s' = connect_target s"

interpretation sdb: effect same_dbi
  by unfold_locales (auto simp: same_dbi_def)

lemma same_driver_call: "stays same_dbi driver_call"
  by (auto simp: stays_def same_dbi_def driver_call_Inr)

lemma same_Initialize: "stays same_dbi Initialize"
  unfolding Initialize_def by (intro sdb.stays_intros same_driver_call) (simp add: stays_def same_dbi_def)

text \<open>
  A connection that is reported is one to a database that is known, and the driver was asked once, with what
  the file says; one that is there already is used again.
\<close>

theorem connection_is_known:
  assumes "Connect dbmsName i s = Inr (b, s')" "dbi_ok s"
  shows "dbi_ok s' \<and> (b \<longleftrightarrow> db_connected s')
     \<and> db_asked s' = db_asked s @ (if db_connected s then [] else [connect_target s])"
proof -
  have "stays same_dbi (if db_initialized s then ret True else Initialize)"
    by (simp add: sdb.stays_ret same_Initialize)
  with assms(1) obtain s1 where s1: "same_dbi s s1"
    and rest: "(if db_connected s1 then ret True else open_connection dbmsName i) s1 = Inr (b, s')"
    by (auto simp: Connect_def bind_eq_Inr dest: staysD simp del: run_simps)
  show ?thesis
  proof (cases "db_connected s")
    case True
    with rest s1 assms(2) show ?thesis by (simp add: dbi_ok_def same_dbi_def)
  next
    case False
    have known: "vendor_of rc dbmsName \<noteq> DB_UNKNOWN \<Longrightarrow> vendor_of rc dbmsName \<noteq> DB_POSTGRESQL \<Longrightarrow> vendor_of rc dbmsName = DB_MYSQL" for rc
      by (simp add: vendor_of_def split: if_splits)
    with rest s1 False show ?thesis
      by (auto simp: dbi_ok_def same_dbi_def open_connection_def bind_eq_Inr driver_call_Inr intro: known split: if_splits)
  qed
qed

theorem unknown_database_ends_the_program:
  "\<lbrakk>\<not> db_connected s; db_codes s = []; dbmsName \<notin> {''MySQL'', ''PostgreSQL''}\<rbrakk> \<Longrightarrow> Connect dbmsName i s = Inl Exit"
  by (cases "db_initialized s")
    (simp_all add: Connect_def open_connection_def Initialize_def driver_call_def vendor_of_def bind_def)

end
