(* ===== verification/ListenSocket.thy ===== *)
theory ListenSocket
  imports Handler
begin

text \<open>
  \<open>src/source/ServerSocket.cpp\<close>: the socket on which the server waits for its clients, and the start of the
  loop of the thread that accepts them (\<open>ServerThread.cpp\<close>). \<open>ls_calls\<close> are the answers of the operating
  system to the calls that open the socket, \<open>ls_accepts\<close> what the next calls of \<open>accept\<close> return: \<open>None\<close> for a
  failure. \<open>ls_descriptor\<close> tells whether the process holds an open descriptor.
\<close>

record listener =
  ls_port :: int
  ls_descriptor :: bool
  ls_open :: bool
  ls_reading :: bool
  ls_sending :: bool
  ls_calls :: "bool list"
  ls_accepts :: "(int \<times> string) option list"

definition ServerSocket :: "int \<Rightarrow> bool list \<Rightarrow> (int \<times> string) option list \<Rightarrow> listener" where
  "ServerSocket portID calls accepts =
     \<lparr>ls_port = portID, ls_descriptor = False, ls_open = False, ls_reading = False, ls_sending = False, ls_calls = calls,
      ls_accepts = accepts\<rparr>"

text \<open>An answer that is not given is success.\<close>

definition os_call :: "(listener, bool) run" where
  "os_call s = (case ls_calls s of [] \<Rightarrow> Inr (True, s) | ok # rest \<Rightarrow> Inr (ok, s\<lparr>ls_calls := rest\<rparr>))"

definition listener_Close :: "(listener, unit) run" where
  "listener_Close = modify (\<lambda>s. s\<lparr>ls_descriptor := False, ls_reading := False, ls_sending := False, ls_open := False\<rparr>)"

definition listener_Open :: "(listener, bool) run" where
  "listener_Open =
     bind os_call (\<lambda>created. if \<not> created then ret False
     else bind (modify (\<lambda>s. s\<lparr>ls_descriptor := True\<rparr>)) (\<lambda>_.
     bind os_call (\<lambda>reusable. if \<not> reusable then bind listener_Close (\<lambda>_. ret False)
     else bind os_call (\<lambda>bound. if \<not> bound then ret False
     else bind os_call (\<lambda>listening. if \<not> listening then bind listener_Close (\<lambda>_. ret False)
     else bind (modify (\<lambda>s. s\<lparr>ls_open := True\<rparr>)) (\<lambda>_. ret True))))))"

text \<open>The address of the client goes into a buffer of the caller of 200 bytes.\<close>

definition AcceptMessage :: "(listener, (int \<times> string) option) run" where
  "AcceptMessage s =
     (case ls_accepts s of
        [] \<Rightarrow> Inl Hang
      | None # rest \<Rightarrow> Inr (None, s\<lparr>ls_accepts := rest\<rparr>)
      | Some (socketID, address) # rest \<Rightarrow>
          and_then (strcpy address 200) (\<lambda>clientAddress.
          Inr (Some (socketID, clientAddress), s\<lparr>ls_accepts := rest, ls_open := True, ls_reading := False, ls_sending := False\<rparr>)))"

definition accept_step :: "unit \<Rightarrow> (listener, unit + int \<times> string) run" where
  "accept_step u = bind AcceptMessage (\<lambda>r. ret (case r of None \<Rightarrow> Inl () | Some client \<Rightarrow> Inr client))"

text \<open>Up to the next client; that the socket could not be opened is not looked at.\<close>

definition next_client :: "(listener, int \<times> string) run" where
  "next_client = bind (asks (\<lambda>s. length (ls_accepts s))) (\<lambda>n. iterate (Suc n) accept_step ())"

definition serve_first :: "(listener, int \<times> string) run" where
  "serve_first = bind listener_Open (\<lambda>_. next_client)"

section \<open>Opening\<close>

text \<open>A socket that is open is the only one left with a descriptor, unless it could not be bound to its port.\<close>

lemma listener_Open_ends:
  assumes "listener_Open s = Inr (b, s')" "\<not> ls_open s" "\<not> ls_descriptor s"
  shows "(b \<longleftrightarrow> ls_open s') \<and> (b \<longrightarrow> ls_descriptor s')
     \<and> (ls_descriptor s' \<and> \<not> b \<longrightarrow> 3 \<le> length (ls_calls s) \<and> take 3 (ls_calls s) = [True, True, False])"
  using assms by (auto simp: listener_Open_def listener_Close_def os_call_def bind_def split: list.splits if_splits)

section \<open>Accepting\<close>

lemma accept_step_Fuel: "accept_step u s \<noteq> Inl Fuel"
  by (auto simp: accept_step_def AcceptMessage_def bind_def strcpy_def split: list.splits option.splits)

lemma accept_step_decreases: "accept_step u s = Inr (Inl u', s') \<Longrightarrow> length (ls_accepts s') < length (ls_accepts s)"
  by (auto simp: accept_step_def AcceptMessage_def bind_eq_Inr strcpy_def split: list.splits option.splits if_splits)

lemma ends_next_client: "ends next_client"
proof -
  have "iterate (Suc (length (ls_accepts s))) accept_step () s \<noteq> Inl Fuel" for s
    by (rule iterate_enough [where \<mu> = "\<lambda>s. length (ls_accepts s)"]) (auto dest: accept_step_decreases simp: accept_step_Fuel)
  then show ?thesis by (simp add: ends_def next_client_def del: iterate.simps)
qed

text \<open>
  A server whose port is taken does not stop: when no call of \<open>accept\<close> succeeds on the socket it could not
  bind, its thread calls it for ever.
\<close>

lemma never_accepted: "set (ls_accepts s) \<subseteq> {None} \<Longrightarrow> length (ls_accepts s) < n \<Longrightarrow> iterate n accept_step () s = Inl Hang"
proof (induction n arbitrary: s)
  case (Suc n)
  show ?case
  proof (cases "ls_accepts s")
    case Nil
    then show ?thesis by (simp add: accept_step_def AcceptMessage_def bind_def)
  next
    case (Cons r rest)
    with Suc.prems(1) have "accept_step () s = Inr (Inl (), s\<lparr>ls_accepts := rest\<rparr>)"
      by (simp add: accept_step_def AcceptMessage_def bind_def)
    moreover have "iterate n accept_step () (s\<lparr>ls_accepts := rest\<rparr>) = Inl Hang"
      using Suc.IH [of "s\<lparr>ls_accepts := rest\<rparr>"] Suc.prems Cons by simp
    ultimately show ?thesis by (simp add: bind_def)
  qed
qed simp

theorem taken_port_keeps_the_server_busy:
  assumes "set accepts \<subseteq> {None}"
  shows "serve_first (ServerSocket portID [True, True, False] accepts) = Inl Hang"
proof -
  let ?s = "ServerSocket portID [True, True, False] accepts"
  have "listener_Open ?s = Inr (False, ?s\<lparr>ls_descriptor := True, ls_calls := []\<rparr>)"
    by (simp add: listener_Open_def os_call_def ServerSocket_def bind_def)
  then show ?thesis
    using never_accepted [of "?s\<lparr>ls_descriptor := True, ls_calls := []\<rparr>" "Suc (length accepts)"] assms
    by (simp add: serve_first_def bind_def next_client_def ServerSocket_def del: iterate.simps)
qed

end
