(* ===== verification/Spec2Isabelle.thy ===== *)
theory Spec2Isabelle
  imports ReceiverProps SenderProps AdminProps SocketBytes ClientMainProps SlaveProps HtmlProps ServerProps UpgradeProps SieveProps AdminClientProps KeepAliveProps LogProps DBConnect ListenSocket
begin

text \<open>
  The verification development of ECMNet, a client and server that share out the factoring of large
  numbers (\<open>src/source\<close>). A server keeps its composites in a database, hands out curves to clients, takes
  back what they did, shows pages, sends mail about factors, and synchronises with a master server; a
  client runs GMP-ECM on what it was given. An administrator adds composites and curves with a third
  program.

  \<^bold>\<open>How the code is modelled.\<close> An operation of the program is a function from a state to either a way it
  stops (\<open>halt\<close>: \<open>Exit\<close> for \<open>exit\<close>, \<open>Undefined\<close> for undefined behaviour, \<open>Hang\<close> for a loop of the code that
  never ends, \<open>Fuel\<close> for a bound of the model) or a result and the new state (\<open>('s, 'a) run\<close>), put together
  with \<open>bind\<close>. A class is a record with its members, a subclass extends the record. Members and variables
  that C++ leaves without a value are options, or a parameter \<open>junk\<close> where a whole object starts out that
  way. Buffers are checked where the code writes into them: an overrun is \<open>Undefined\<close>. Integers are
  integers, wrapped with \<open>wrap32\<close> and \<open>wrap64\<close> where the code lets them wrap. A \<open>double\<close> is an exact rational:
  all numbers of the program are integers and hours far below \<open>2 ^ 53\<close>.

  \<^bold>\<open>Theories.\<close>
  \<^item> \<open>Prelude\<close>: runs, their composition, loops (\<open>iterate\<close>), the locale \<open>effect\<close> for relations between the state
    before and after that all ways of putting operations together keep, and the collections
    (\<open>wf_intros\<close>, \<open>tx_intros\<close>, \<open>end_intros\<close>) the component theories fill. \<open>Cstdio\<close>: \<open>printf\<close>, \<open>sscanf\<close>, \<open>atol\<close>,
    \<open>atof\<close> with the formats of the source, and the locale \<open>field_codec\<close> under which what is printed is
    scanned again. \<open>TextFiles\<close>: \<open>fgets\<close> and files by lines.
  \<^item> Database: \<open>SqlStatement\<close> (\<open>SQLStatement.cpp\<close>), \<open>Database\<close> (the PostgreSQL script, \<open>Commit\<close> and \<open>Rollback\<close>
    of \<open>DBInterface.cpp\<close>; the locale \<open>keyed_table\<close> is interpreted on each table), \<open>DBConnect\<close> (the rest of
    \<open>DBInterface.cpp\<close>). Objects for rows: \<open>CompositeObj\<close>, \<open>MasterObj\<close>, \<open>FactorEvent\<close>, \<open>UserStatsObj\<close>.
  \<^item> Connections: \<open>SocketIO\<close> (lines), \<open>SocketBytes\<close> (the buffers of \<open>Socket.cpp\<close>, which refine the lines),
    \<open>Handler\<close> (a session and a connection), \<open>ListenSocket\<close> (\<open>ServerSocket.cpp\<close>), \<open>LogFile\<close> (\<open>Log.cpp\<close>),
    \<open>KeepAlive\<close> (\<open>SharedMemoryItem.cpp\<close>, \<open>KeepAliveThread.cpp\<close> and its partner in \<open>WorkSender.cpp\<close>, as
    interleaved steps).
  \<^item> Server: \<open>WorkReceiver\<close>, \<open>WorkSender\<close>, \<open>AdminThread\<close> and \<open>RequestThread\<close> (\<open>HelperThread.cpp\<close>), \<open>HtmlPages\<close>
    (\<open>HTMLGenerator.cpp\<close>), \<open>Mail\<close>, \<open>ServerConfig\<close>, \<open>ServerJobs\<close> and \<open>ServerMain\<close> (\<open>ecmserver.cpp\<close>, \<open>ServerThread.cpp\<close>),
    \<open>SyncPeer\<close>, \<open>IAmAMaster\<close>, \<open>IAmASlave\<close> (with \<open>SlaveSocket.cpp\<close>), \<open>UpgradeV2\<close> (\<open>UpgradeFromV2.cpp\<close>).
  \<^item> Client: \<open>ClientUnit\<close> and \<open>UnitExchange\<close> (\<open>ClientSocket.cpp\<close>, \<open>WorkUnit.cpp\<close>), \<open>ClientWork\<close> (\<open>Work.cpp\<close>), \<open>ClientMain\<close>
    (\<open>ecmclient.cpp\<close>). Administrator: \<open>AdminClient\<close> (\<open>ecmadmin.cpp\<close>). Arithmetic: \<open>EvalExpr\<close> (\<open>eval.c\<close>), \<open>Sieve\<close>
    (\<open>getprime.c\<close>).
  \<^item> The theories \<open>...Props\<close>, \<open>...Ends\<close>, \<open>...Sync\<close>, \<open>...Limits\<close>, \<open>WorkTotals\<close>, \<open>ReceivedWork\<close>, \<open>Protocol\<close>, \<open>EvalGrammar\<close>
    and \<open>PeerLemmas\<close> hold the lemmas and properties; \<open>Demo\<close> and \<open>MasterDemo\<close> the small servers on which the
    witnesses run.

  \<^bold>\<open>What is shown.\<close>
  \<^item> The books: primary and foreign keys, and \<open>TotalWorkDone\<close> as the sum of the ECM curves times B1, hold in
    the committed tables after every conversation with a client (\<open>ReceiverProps\<close>), a slave (\<open>MasterProps\<close>), an
    administrator (\<open>AdminProps\<close>), and in every state the server process reaches (\<open>ServerProps\<close>); nothing is
    committed that was not acknowledged, and what is acknowledged is recorded exactly.
  \<^item> The protocol: what one program prints the other scans back (\<open>Protocol\<close>, \<open>ClientProps\<close>, \<open>SlaveProps\<close>); what the
    client saves it loads; the buffers of a connection refine its lines; the files of an administrator
    reach the server line by line.
  \<^item> Choices: the work handed out is the first in the order the code intends (\<open>SenderProps\<close>), no unit gets more
    curves than it was given (\<open>ClientLimits\<close>), the table of B1 levels is ascending and cumulative (\<open>ServerConfig\<close>).
  \<^item> Arithmetic: the evaluator computes the value of the syntax tree it reads (\<open>EvalGrammar\<close>), the sieve hands
    out the primes in order (\<open>SieveProps\<close>), base 64 is decoded to what was encoded (\<open>MailProps\<close>).
  \<^item> Threads: in every interleaving the thread that keeps a client waiting sends nothing once it was asked to
    end, and the sender can always return (\<open>KeepAliveProps\<close>); a server told to quit accepts nobody.
  \<^item> Behaviour that is not what the code means, each proved on the model: handing out work stops the server,
    a status is not changed, an import opens the wrong file, an upgrade commits nothing, a line of the
    thread that keeps a client waiting ends its getting of work, and others.

  \<^bold>\<open>Bounds.\<close> A loop that reads from a connection goes round at most once for each line still to come, one that
  reads a file or what is typed once for each line or character of it; \<open>ends\<close> states that the bound is
  enough and is proved for the conversations of the server, the client, the peers and the administrator (\<open>ReceiverEnds\<close>, \<open>MasterEnds\<close>, \<open>SlaveSync\<close>, \<open>ClientLimits\<close>, \<open>ClientMainProps\<close>,
  \<open>AdminClientProps\<close>). The evaluator has fuel for each character and level (\<open>EvalProps\<close>), the search for a free name a
  round for each composite (\<open>JobsProps\<close>). The search for the next small prime of the sieve has the product of
  the primes found as its fuel, and is enough when the gaps between primes are as the code asserts
  (\<open>gaps_ok\<close>, which is evaluated for the witness). The search for work takes its number of rounds as an
  argument: it need not end, which is a property of its own.

  \<^bold>\<open>What is outside.\<close> The ODBC driver (its return codes are lists), the database's sorting, \<open>strftime\<close>, TCP and
  SMTP (what arrives and whether a connection is made), GMP-ECM (a function from its input to its output)
  and GMP's test for primes are parameters. The calls of the log are left out of the other components:
  nothing reads it back, and \<open>LogFile\<close> models what it does. A request of the server is one step
  of the process, taken when its thread ends, so that the interleaving of two requests within the
  database is not modelled; nor are signals other than the one the client raises itself.

  \<^bold>\<open>Not modelled.\<close> The headers of MPIR (\<open>wingmp\<close>) are vendored. Code for Windows (control handlers apart), the
  memory leak checks of Visual C++, \<open>Usage\<close>, the destruction of objects at the end of a program, the name lookup
  of \<open>Socket::GetAddress\<close>, \<open>SetEncoding\<close> (called by nothing) and the test program at the end of \<open>getprime.c\<close> have no
  state of the program to keep.
\<close>

end
